(* ===== verification/Zela_Prelude.thy ===== *)
theory Zela_Prelude
  imports Main "HOL-Library.Word"
begin

text \<open>
  Shared ground of the development: the machine integers of the wasm32 target, the
  outcome of a Rust call (a value, a panic, or no answer within the fuel given), programs
  that pass a world along, the \<open>?\<close> operator, and the one loop combinator every retry and
  polling loop of the client is an instance of.
\<close>

section \<open>Machine integers\<close>

type_synonym u8 = "8 word"
type_synonym u16 = "16 word"
type_synonym u32 = "32 word"
type_synonym u64 = "64 word"
type_synonym i32 = "32 word"
type_synonym i64 = "64 word"

text \<open>The crate is built for wasm32, where \<open>usize\<close> has 32 bits.\<close>

type_synonym usize = "32 word"

text \<open>Unsigned addition that reports whether the sum left the range of the type.\<close>

definition add_overflows :: "'a::len word \<Rightarrow> 'a word \<Rightarrow> bool" where
  "add_overflows a b \<longleftrightarrow> 2 ^ LENGTH('a) \<le> unat a + unat b"

lemma unat_add_no_overflow:
  "\<not> add_overflows a b \<Longrightarrow> unat (a + b) = unat a + unat b"
  by (simp add: add_overflows_def unat_word_ariths not_le)

section \<open>Decimal rendering of integers\<close>

fun nat_str :: "nat \<Rightarrow> string" where
  "nat_str n = (if n < 10 then [char_of (48 + n)]
                else nat_str (n div 10) @ [char_of (48 + n mod 10)])"

declare nat_str.simps [simp del]

definition int_str :: "int \<Rightarrow> string" where
  "int_str i = (if i < 0 then ''-'' @ nat_str (nat (- i)) else nat_str (nat i))"

lemma nat_str_not_Nil [simp]: "nat_str n \<noteq> []"
  by (subst nat_str.simps) simp

section \<open>Outcomes and programs\<close>

text \<open>
  \<open>NoFuel\<close> is not a value of the code: it marks a run that has not returned within the
  number of loop iterations it was given.
\<close>

datatype panic =
    IndexOutOfBounds
  | AssertFailed
  | ArithOverflow
  | UnwrapFailed
  | OncePoisoned

datatype 'a outcome = Done 'a | Panicked panic | NoFuel

type_synonym ('w, 'a) prog = "'w \<Rightarrow> 'a outcome \<times> 'w"

named_theorems prog_simps \<open>evaluation of programs on a given world\<close>

definition ret :: "'a \<Rightarrow> ('w, 'a) prog" where
  "ret x = (\<lambda>w. (Done x, w))"

definition panic :: "panic \<Rightarrow> ('w, 'a) prog" where
  "panic p = (\<lambda>w. (Panicked p, w))"

definition bindp :: "('w, 'a) prog \<Rightarrow> ('a \<Rightarrow> ('w, 'b) prog) \<Rightarrow> ('w, 'b) prog" where
  "bindp m f = (\<lambda>w. case m w of
       (Done x, w') \<Rightarrow> f x w'
     | (Panicked p, w') \<Rightarrow> (Panicked p, w')
     | (NoFuel, w') \<Rightarrow> (NoFuel, w'))"

definition mapp :: "('a \<Rightarrow> 'b) \<Rightarrow> ('w, 'a) prog \<Rightarrow> ('w, 'b) prog" where
  "mapp f m = bindp m (\<lambda>x. ret (f x))"

text \<open>
  A Rust \<open>Result<T, E>\<close> is a value of \<open>'e + 'a\<close>, the error on the left; \<open>tryp m f\<close> is
  \<open>f(m?)\<close>: an error ends the function with that error.
\<close>

definition tryp :: "('w, 'e + 'a) prog \<Rightarrow> ('a \<Rightarrow> ('w, 'e + 'b) prog) \<Rightarrow> ('w, 'e + 'b) prog" where
  "tryp m f = bindp m (\<lambda>r. case r of Inl e \<Rightarrow> ret (Inl e) | Inr v \<Rightarrow> f v)"

text \<open>\<open>Result::map\<close>, \<open>Result::map_err\<close> and \<open>Result::and_then\<close> on pure results.\<close>

definition map_ok :: "('a \<Rightarrow> 'b) \<Rightarrow> 'e + 'a \<Rightarrow> 'e + 'b" where
  "map_ok f r = (case r of Inl e \<Rightarrow> Inl e | Inr v \<Rightarrow> Inr (f v))"

definition map_err :: "('e \<Rightarrow> 'f) \<Rightarrow> 'e + 'a \<Rightarrow> 'f + 'a" where
  "map_err f r = (case r of Inl e \<Rightarrow> Inl (f e) | Inr v \<Rightarrow> Inr v)"

definition and_then :: "('a \<Rightarrow> 'e + 'b) \<Rightarrow> 'e + 'a \<Rightarrow> 'e + 'b" where
  "and_then f r = (case r of Inl e \<Rightarrow> Inl e | Inr v \<Rightarrow> f v)"

definition ok_or :: "'e \<Rightarrow> 'a option \<Rightarrow> 'e + 'a" where
  "ok_or e x = (case x of None \<Rightarrow> Inl e | Some v \<Rightarrow> Inr v)"

lemma map_ok_simps [simp]: "map_ok f (Inl e) = Inl e" "map_ok f (Inr v) = Inr (f v)"
  by (simp_all add: map_ok_def)

lemma map_err_simps [simp]: "map_err f (Inl e) = Inl (f e)" "map_err f (Inr v) = Inr v"
  by (simp_all add: map_err_def)

lemma and_then_simps [simp]: "and_then f (Inl e) = Inl e" "and_then f (Inr v) = f v"
  by (simp_all add: and_then_def)

lemma ok_or_simps [simp]: "ok_or e None = Inl e" "ok_or e (Some v) = Inr v"
  by (simp_all add: ok_or_def)

lemma map_ok_eq_Inr: "map_ok f r = Inr y \<longleftrightarrow> (\<exists>x. r = Inr x \<and> y = f x)"
  by (cases r) auto

lemma map_err_eq_Inr [simp]: "map_err f r = Inr y \<longleftrightarrow> r = Inr y"
  by (cases r) auto

lemma ret_apply [prog_simps]: "ret x w = (Done x, w)"
  by (simp add: ret_def)

lemma panic_apply [prog_simps]: "panic p w = (Panicked p, w)"
  by (simp add: panic_def)

lemma bindp_ret [simp]: "bindp (ret x) f = f x"
  by (simp add: bindp_def ret_def)

lemma bindp_ret_right [simp]: "bindp m ret = m"
  by (auto simp: bindp_def ret_def fun_eq_iff split: prod.splits outcome.splits)

lemma bindp_panic [simp]: "bindp (panic p) f = panic p"
  by (simp add: bindp_def panic_def)

lemma bindp_assoc: "bindp (bindp m f) g = bindp m (\<lambda>x. bindp (f x) g)"
  by (auto simp: bindp_def fun_eq_iff split: prod.splits outcome.splits)

lemma tryp_ret [simp]: "tryp (ret (Inl e)) f = ret (Inl e)" "tryp (ret (Inr v)) f = f v"
  by (simp_all add: tryp_def)

lemma bindp_Done [prog_simps]: "m w = (Done x, w') \<Longrightarrow> bindp m f w = f x w'"
  by (simp add: bindp_def)

lemma bindp_eq_Done:
  "bindp m f w = (Done y, w'') \<longleftrightarrow> (\<exists>x w'. m w = (Done x, w') \<and> f x w' = (Done y, w''))"
  by (auto simp: bindp_def split: prod.splits outcome.splits)

lemma mapp_eq_Done:
  "mapp f m w = (Done y, w') \<longleftrightarrow> (\<exists>x. m w = (Done x, w') \<and> y = f x)"
  by (auto simp: mapp_def bindp_eq_Done ret_def)

lemma tryp_eq_Ok:
  "tryp m f w = (Done (Inr y), w'') \<longleftrightarrow>
     (\<exists>x w'. m w = (Done (Inr x), w') \<and> f x w' = (Done (Inr y), w''))"
  by (auto simp: tryp_def bindp_def ret_def split: prod.splits outcome.splits sum.splits)

lemma tryp_eq_Err:
  "tryp m f w = (Done (Inl e), w'') \<longleftrightarrow>
     m w = (Done (Inl e), w'') \<or>
     (\<exists>x w'. m w = (Done (Inr x), w') \<and> f x w' = (Done (Inl e), w''))"
  by (auto simp: tryp_def bindp_def ret_def split: prod.splits outcome.splits sum.splits)

text \<open>A \<open>match\<close> on a pure result that returns its error.\<close>

lemma match_eq_Ok:
  "(case r of Inl e \<Rightarrow> ret (Inl (g e)) | Inr v \<Rightarrow> f v) w = (Done (Inr y), w') \<longleftrightarrow>
     (\<exists>v. r = Inr v \<and> f v w = (Done (Inr y), w'))"
  by (cases r) (simp_all add: ret_def)

lemma fst_mapp: "fst (mapp f m w) = map_outcome f (fst (m w))"
  by (auto simp: mapp_def bindp_def ret_def split: prod.splits outcome.splits)

lemma snd_mapp [simp]: "snd (mapp f m w) = snd (m w)"
  by (auto simp: mapp_def bindp_def ret_def split: prod.splits outcome.splits)

section \<open>Loops\<close>

text \<open>
  One iteration of a loop, as a program over the loop's variables \<open>'s\<close>, either goes on
  with new values (\<open>Inl\<close>) or leaves the loop with a result (\<open>Inr\<close>).
\<close>

fun loop :: "('s \<Rightarrow> ('w, 's + 'r) prog) \<Rightarrow> nat \<Rightarrow> 's \<Rightarrow> ('w, 'r) prog" where
  "loop body 0 s = (\<lambda>w. (NoFuel, w))"
| "loop body (Suc n) s =
     bindp (body s) (\<lambda>x. case x of Inl s' \<Rightarrow> loop body n s' | Inr r \<Rightarrow> ret r)"

lemma loop_fuel_mono:
  "loop body n s w = (out, w') \<Longrightarrow> out \<noteq> NoFuel \<Longrightarrow> loop body (n + k) s w = (out, w')"
proof (induction n arbitrary: s w)
  case 0
  then show ?case by simp
next
  case (Suc n)
  then show ?case
    by (auto simp: bindp_def split: prod.splits outcome.splits sum.splits)
qed

lemma loop_result_unique:
  assumes "loop body n s w = (out, w')" "out \<noteq> NoFuel"
    and "loop body m s w = (out', w'')" "out' \<noteq> NoFuel"
  shows "out' = out \<and> w'' = w'"
proof -
  have "loop body (n + m) s w = (out, w')" using assms(1,2) by (rule loop_fuel_mono)
  moreover have "loop body (m + n) s w = (out', w'')" using assms(3,4) by (rule loop_fuel_mono)
  ultimately show ?thesis by (simp add: add.commute)
qed

text \<open>
  The contract of a loop that ends: the body keeps an invariant of variables and world, a
  measure falls with every further iteration, and the body itself always answers.
\<close>

locale bounded_loop =
  fixes body :: "'s \<Rightarrow> ('w, 's + 'r) prog"
    and linv :: "'s \<Rightarrow> 'w \<Rightarrow> bool"
    and mu :: "'s \<Rightarrow> 'w \<Rightarrow> nat"
  assumes linv_step: "linv s w \<Longrightarrow> body s w = (Done (Inl s'), w') \<Longrightarrow> linv s' w'"
    and mu_step: "linv s w \<Longrightarrow> body s w = (Done (Inl s'), w') \<Longrightarrow> mu s' w' < mu s w"
    and body_answers: "linv s w \<Longrightarrow> fst (body s w) \<noteq> NoFuel"
begin

lemma loop_returns: "linv s w \<Longrightarrow> mu s w < n \<Longrightarrow> fst (loop body n s w) \<noteq> NoFuel"
proof (induction n arbitrary: s w)
  case 0
  then show ?case by simp
next
  case (Suc n)
  obtain out w' where b: "body s w = (out, w')" by (cases "body s w")
  from Suc.prems body_answers b have "out \<noteq> NoFuel" by fastforce
  show ?case
  proof (cases "\<exists>s'. out = Done (Inl s')")
    case True
    then obtain s' where s': "out = Done (Inl s')" by blast
    from Suc.prems b s' have "linv s' w'" "mu s' w' < mu s w"
      using linv_step mu_step by auto
    with Suc.IH Suc.prems have "fst (loop body n s' w') \<noteq> NoFuel" by simp
    with b s' show ?thesis by (simp add: bindp_def)
  next
    case False
    with b \<open>out \<noteq> NoFuel\<close> show ?thesis
      by (auto simp: bindp_def ret_def split: outcome.splits sum.splits)
  qed
qed

lemma loop_answer: "linv s w \<Longrightarrow> \<exists>out w'. out \<noteq> NoFuel \<and> (\<forall>n. mu s w < n \<longrightarrow> loop body n s w = (out, w'))"
proof -
  assume i: "linv s w"
  let ?n = "Suc (mu s w)"
  obtain out w' where l: "loop body ?n s w = (out, w')" by (cases "loop body ?n s w")
  with loop_returns [OF i, of ?n] have "out \<noteq> NoFuel" by simp
  moreover have "loop body n s w = (out, w')" if "mu s w < n" for n
  proof -
    from that have "n = ?n + (n - ?n)" by simp
    with loop_fuel_mono [OF l \<open>out \<noteq> NoFuel\<close>] show ?thesis by metis
  qed
  ultimately show ?thesis by blast
qed

end

text \<open>
  A property of every result of a loop: an invariant that the body keeps and that gives the
  property where the body leaves the loop. It says nothing about a loop that never ends.
\<close>

lemma loop_result_rule:
  assumes "loop body n s w = (Done r, w')" and "I s w"
    and "\<And>s w s' w'. I s w \<Longrightarrow> body s w = (Done (Inl s'), w') \<Longrightarrow> I s' w'"
    and "\<And>s w r w'. I s w \<Longrightarrow> body s w = (Done (Inr r), w') \<Longrightarrow> Q r w'"
  shows "Q r w'"
  using assms(1,2)
proof (induction n arbitrary: s w)
  case 0
  then show ?case by simp
next
  case (Suc n)
  then obtain x w1 where b: "body s w = (Done x, w1)"
    and x: "(case x of Inl s' \<Rightarrow> loop body n s' | Inr r \<Rightarrow> ret r) w1 = (Done r, w')"
    by (auto simp: bindp_eq_Done)
  show ?case
  proof (cases x)
    case (Inl s')
    with b x Suc.IH assms(3) [OF Suc.prems(2)] show ?thesis by simp
  next
    case (Inr r')
    with b x assms(4) [OF Suc.prems(2)] show ?thesis by (simp add: ret_def)
  qed
qed

text \<open>
  The rounds of one run of a loop: after \<open>k\<close> rounds that go on, the loop that started with
  \<open>s\<close> in the world \<open>w\<close> starts its next round with \<open>s'\<close> in \<open>w'\<close>.
\<close>

inductive loop_rounds ::
  "('s \<Rightarrow> ('w, 's + 'r) prog) \<Rightarrow> nat \<Rightarrow> 's \<Rightarrow> 'w \<Rightarrow> 's \<Rightarrow> 'w \<Rightarrow> bool"
  for body :: "'s \<Rightarrow> ('w, 's + 'r) prog" where
  loop_rounds_0: "loop_rounds body 0 s w s w"
| loop_rounds_Suc: "body s w = (Done (Inl s1), w1) \<Longrightarrow> loop_rounds body k s1 w1 s' w' \<Longrightarrow>
     loop_rounds body (Suc k) s w s' w'"

inductive_cases loop_rounds_SucE: "loop_rounds body (Suc k) s w s' w'"
inductive_simps loop_rounds_0_iff [simp]: "loop_rounds body 0 s w s' w'"

lemma loop_rounds_cases:
  assumes "loop_rounds body k s w s' w'"
  obtains "k = 0" "s' = s" "w' = w"
  | j s1 w1 where "k = Suc j" "body s w = (Done (Inl s1), w1)" "loop_rounds body j s1 w1 s' w'"
  using assms by cases auto

text \<open>A loop returns exactly what the last of its rounds leaves it with.\<close>

lemma loop_eq_Done:
  "loop body n s w = (Done r, w') \<longleftrightarrow>
     (\<exists>k s1 w1. k < n \<and> loop_rounds body k s w s1 w1 \<and> body s1 w1 = (Done (Inr r), w'))"
proof (induction n arbitrary: s w)
  case (Suc n)
  show ?case
  proof
    assume "loop body (Suc n) s w = (Done r, w')"
    then obtain x w1 where b: "body s w = (Done x, w1)"
      and x: "(case x of Inl s' \<Rightarrow> loop body n s' | Inr r \<Rightarrow> ret r) w1 = (Done r, w')"
      by (auto simp: bindp_eq_Done)
    show "\<exists>k s1 w1. k < Suc n \<and> loop_rounds body k s w s1 w1 \<and> body s1 w1 = (Done (Inr r), w')"
    proof (cases x)
      case (Inl s')
      with x Suc.IH obtain k s1 w1' where "k < n" "loop_rounds body k s' w1 s1 w1'"
        "body s1 w1' = (Done (Inr r), w')" by auto
      with b Inl show ?thesis by (intro exI [of _ "Suc k"]) (auto intro: loop_rounds_Suc)
    next
      case (Inr r')
      with b x show ?thesis by (intro exI [of _ 0]) (simp add: ret_def)
    qed
  next
    assume "\<exists>k s1 w1. k < Suc n \<and> loop_rounds body k s w s1 w1 \<and> body s1 w1 = (Done (Inr r), w')"
    then obtain k s1 w1 where k: "k < Suc n" "loop_rounds body k s w s1 w1"
      "body s1 w1 = (Done (Inr r), w')" by blast
    from k(2) show "loop body (Suc n) s w = (Done r, w')"
    proof (cases rule: loop_rounds_cases)
      case 1
      with k(3) show ?thesis by (simp add: bindp_def ret_def)
    next
      case (2 j s2 w2)
      with k Suc.IH have "loop body n s2 w2 = (Done r, w')" by auto
      with 2(2) show ?thesis by (simp add: bindp_def)
    qed
  qed
qed simp

text \<open>How a program may panic: with which panic, and in which world.\<close>

definition panics :: "(panic \<Rightarrow> 'w \<Rightarrow> bool) \<Rightarrow> ('w, 'a) prog \<Rightarrow> bool" where
  "panics Q m \<longleftrightarrow> (\<forall>w p w'. m w = (Panicked p, w') \<longrightarrow> Q p w')"

named_theorems panics_intros \<open>how programs may panic\<close>

lemma panics_ret [panics_intros]: "panics Q (ret x)"
  by (simp add: panics_def ret_def)

lemma panics_bindp [panics_intros]:
  "panics Q m \<Longrightarrow> (\<And>x w w'. m w = (Done x, w') \<Longrightarrow> panics Q (f x)) \<Longrightarrow> panics Q (bindp m f)"
  unfolding panics_def bindp_def by (auto split: prod.splits outcome.splits)

lemma panics_mapp [panics_intros]: "panics Q m \<Longrightarrow> panics Q (mapp f m)"
  unfolding mapp_def by (intro panics_intros)

lemma panics_tryp [panics_intros]:
  "panics Q m \<Longrightarrow> (\<And>x w w'. m w = (Done (Inr x), w') \<Longrightarrow> panics Q (f x)) \<Longrightarrow> panics Q (tryp m f)"
  unfolding tryp_def by (rule panics_bindp) (auto intro: panics_ret split: sum.split)

lemma panics_loop [panics_intros]: "(\<And>s. panics Q (body s)) \<Longrightarrow> panics Q (loop body n s)"
proof (induction n arbitrary: s)
  case 0
  then show ?case by (simp add: panics_def)
next
  case (Suc n)
  then show ?case by (auto intro!: panics_intros split: sum.split)
qed

lemma panicsD: "panics Q m \<Longrightarrow> m w = (Panicked p, w') \<Longrightarrow> Q p w'"
  by (simp add: panics_def)

section \<open>Relations between the world before and after\<close>

text \<open>
  What a program does to the world is stated by a relation that holds between the worlds
  before and after it. Where the relation is a preorder, a composed program has it as soon
  as its parts have it.
\<close>

definition moves :: "('w \<Rightarrow> 'w \<Rightarrow> bool) \<Rightarrow> ('w, 'a) prog \<Rightarrow> bool" where
  "moves R m \<longleftrightarrow> (\<forall>w. R w (snd (m w)))"

lemma movesD: "moves R m \<Longrightarrow> m w = (out, w') \<Longrightarrow> R w w'"
  unfolding moves_def by (metis snd_conv)

locale world_preorder =
  fixes R :: "'w \<Rightarrow> 'w \<Rightarrow> bool"
  assumes R_refl: "R w w"
    and R_trans: "R u v \<Longrightarrow> R v w \<Longrightarrow> R u w"
begin

lemma moves_ret: "moves R (ret x)"
  by (simp add: moves_def ret_def R_refl)

lemma moves_panic: "moves R (panic p)"
  by (simp add: moves_def panic_def R_refl)

lemma moves_bindp: "moves R m \<Longrightarrow> (\<And>x. moves R (f x)) \<Longrightarrow> moves R (bindp m f)"
  unfolding moves_def bindp_def
  by (auto split: prod.splits outcome.splits intro: R_trans)
    (metis R_trans snd_conv)+

lemma moves_mapp: "moves R m \<Longrightarrow> moves R (mapp f m)"
  by (simp add: moves_def)

lemma moves_tryp: "moves R m \<Longrightarrow> (\<And>x. moves R (f x)) \<Longrightarrow> moves R (tryp m f)"
  unfolding tryp_def by (rule moves_bindp) (auto split: sum.split intro: moves_ret)

lemma moves_loop: "(\<And>s. moves R (body s)) \<Longrightarrow> moves R (loop body n s)"
proof (induction n arbitrary: s)
  case 0
  then show ?case by (simp add: moves_def R_refl)
next
  case (Suc n)
  then show ?case by (auto intro!: moves_bindp moves_ret split: sum.split)
qed

lemmas moves_intros = moves_ret moves_panic moves_bindp moves_mapp moves_tryp moves_loop

end

text \<open>Programs that always answer (with a value or a panic) without a loop's fuel.\<close>

definition answers :: "('w, 'a) prog \<Rightarrow> bool" where
  "answers m \<longleftrightarrow> (\<forall>w. fst (m w) \<noteq> NoFuel)"

named_theorems answers_intros \<open>programs that always answer\<close>

lemma answers_ret [answers_intros]: "answers (ret x)"
  by (simp add: answers_def ret_def)

lemma answers_panic [answers_intros]: "answers (panic p)"
  by (simp add: answers_def panic_def)

lemma answers_bindp [answers_intros]:
  "answers m \<Longrightarrow> (\<And>x. answers (f x)) \<Longrightarrow> answers (bindp m f)"
  unfolding answers_def bindp_def
  by (auto split: prod.splits outcome.splits) (metis fst_conv)+

lemma answers_mapp [answers_intros]: "answers m \<Longrightarrow> answers (mapp f m)"
  unfolding mapp_def by (intro answers_intros)

lemma answers_tryp [answers_intros]:
  "answers m \<Longrightarrow> (\<And>x. answers (f x)) \<Longrightarrow> answers (tryp m f)"
  unfolding tryp_def by (rule answers_bindp) (auto split: sum.split intro: answers_ret)

lemma answersD: "answers m \<Longrightarrow> fst (m w) \<noteq> NoFuel"
  by (simp add: answers_def)

section \<open>Time\<close>

text \<open>\<open>Duration\<close> and \<open>Instant\<close> are nanoseconds; \<open>elapsed\<close> saturates at zero.\<close>

type_synonym duration = nat
type_synonym instant = nat

definition from_millis :: "nat \<Rightarrow> duration" where
  "from_millis n = n * 1000000"

definition from_secs :: "nat \<Rightarrow> duration" where
  "from_secs n = n * 1000000000"

definition as_secs :: "duration \<Rightarrow> nat" where
  "as_secs d = d div 1000000000"

definition as_millis :: "duration \<Rightarrow> nat" where
  "as_millis d = d div 1000000"

end
