(* ===== verification/Zela_Json.thy ===== *)
theory Zela_Json
  imports Zela_Prelude
begin

text \<open>
  The JSON values the crate builds with \<open>json!\<close> and hands to \<open>serde_json\<close>. A
  \<open>Value::Object\<close> is the list of its members, in the order the serialised struct
  declares them; every object the crate builds has distinct member names, which the locale
  below asks of each struct, so the list stands for one map whatever order the
  serialiser writes it in.
\<close>

section \<open>Values\<close>

text \<open>A \<open>serde_json::Number\<close> is a \<open>u64\<close>, a negative \<open>i64\<close> or the bits of a finite \<open>f64\<close>.\<close>

datatype json_number = PosInt u64 | NegInt i64 | Float u64

datatype json =
    JNull
  | JBool bool
  | JNumber json_number
  | JString string
  | JArray "json list"
  | JObject "(string \<times> json) list"

fun is_object :: "json \<Rightarrow> bool" where
  "is_object (JObject _) = True"
| "is_object _ = False"

fun is_array :: "json \<Rightarrow> bool" where
  "is_array (JArray _) = True"
| "is_array _ = False"

fun is_null :: "json \<Rightarrow> bool" where
  "is_null JNull = True"
| "is_null _ = False"

fun member_of :: "json \<Rightarrow> string \<Rightarrow> json option" where
  "member_of (JObject ms) k = map_of ms k"
| "member_of _ k = None"

section \<open>Serialising the standard types\<close>

definition ser_u64 :: "u64 \<Rightarrow> json" where
  "ser_u64 n = JNumber (PosInt n)"

definition ser_usize :: "usize \<Rightarrow> json" where
  "ser_usize n = JNumber (PosInt (ucast n))"

definition ser_u8 :: "u8 \<Rightarrow> json" where
  "ser_u8 n = JNumber (PosInt (ucast n))"

definition ser_opt :: "('a \<Rightarrow> json) \<Rightarrow> 'a option \<Rightarrow> json" where
  "ser_opt f x = (case x of None \<Rightarrow> JNull | Some v \<Rightarrow> f v)"

definition ser_vec :: "('a \<Rightarrow> json) \<Rightarrow> 'a list \<Rightarrow> json" where
  "ser_vec f xs = JArray (map f xs)"

lemma ser_opt_simps [simp]: "ser_opt f None = JNull" "ser_opt f (Some v) = f v"
  by (simp_all add: ser_opt_def)

lemma ser_u64_inj [simp]: "ser_u64 a = ser_u64 b \<longleftrightarrow> a = b"
  by (simp add: ser_u64_def)

lemma ser_opt_u64_inj [simp]: "ser_opt ser_u64 a = ser_opt ser_u64 b \<longleftrightarrow> a = b"
  by (cases a; cases b) (simp_all add: ser_u64_def)

text \<open>\<open>#[serde(flatten)]\<close> on an \<open>Option\<close> of a struct: its members, or nothing.\<close>

definition flatten_opt :: "('a \<Rightarrow> (string \<times> json) list) \<Rightarrow> 'a option \<Rightarrow> (string \<times> json) list" where
  "flatten_opt f x = (case x of None \<Rightarrow> [] | Some v \<Rightarrow> f v)"

lemma flatten_opt_simps [simp]: "flatten_opt f None = []" "flatten_opt f (Some v) = f v"
  by (simp_all add: flatten_opt_def)

section \<open>Structs on the wire\<close>

text \<open>
  What a client of a serialised struct relies on: no member name occurs twice, flattened
  members included, so a reader finds each member's value under its name.
\<close>

locale wire_struct =
  fixes members :: "'c \<Rightarrow> (string \<times> json) list"
  assumes distinct_names: "distinct (map fst (members c))"
begin

lemma member_iff: "member_of (JObject (members c)) k = Some v \<longleftrightarrow> (k, v) \<in> set (members c)"
  using distinct_names [of c] by (simp add: map_of_eq_Some_iff)

lemma member_absent: "member_of (JObject (members c)) k = None \<longleftrightarrow> k \<notin> fst ` set (members c)"
  by (simp add: map_of_eq_None_iff)

lemma member_order:
  "set ms = set (members c) \<Longrightarrow> distinct (map fst ms) \<Longrightarrow>
     member_of (JObject ms) k = member_of (JObject (members c)) k"
proof -
  assume s: "set ms = set (members c)" and d: "distinct (map fst ms)"
  have "map_of ms = map_of (members c)"
    using map_of_inject_set [OF d distinct_names] s by blast
  then show ?thesis by simp
qed

end

end
