(* ===== verification/Zela_Host.thy ===== *)
theory Zela_Host
  imports Zela_Json
begin

text \<open>
  The boundary of the procedure: the types and functions of \<open>src/zela.wit\<close>, the clock and
  \<open>serde_json\<close>, gathered in the record \<open>host\<close> every definition that uses them takes as
  an argument, and the world the code runs in. Nothing is assumed about these functions
  here; a theorem that needs a law of one of them names it as a hypothesis.
\<close>

section \<open>Errors at the boundary\<close>

text \<open>A \<open>serde_json::Error\<close> is known by the text it displays.\<close>

datatype serde_error = SerdeError string

primrec serde_message :: "serde_error \<Rightarrow> string" where
  "serde_message (SerdeError s) = s"

text \<open>The record \<open>rpc-error\<close> of the interface: its data are bytes of JSON.\<close>

record wit_rpc_error =
  wit_code :: i32
  wit_message :: string
  wit_data :: "u8 list option"

text \<open>
  The two ways the crate makes a \<open>std::io::Error\<close>: from an operating system code, and
  \<open>IoError::new(ErrorKind::InvalidInput, err)\<close>.
\<close>

datatype io_error_kind = InvalidInput
datatype io_error = RawOsError i32 | IoCustom io_error_kind serde_error

datatype subscription_handle = SubscriptionHandle u32

section \<open>Logging types\<close>

datatype log_level = LevelError | LevelWarn | LevelInfo | LevelDebug | LevelTrace
datatype level_filter = FilterOff | FilterUpTo log_level

fun level_rank :: "log_level \<Rightarrow> nat" where
  "level_rank LevelError = 1"
| "level_rank LevelWarn = 2"
| "level_rank LevelInfo = 3"
| "level_rank LevelDebug = 4"
| "level_rank LevelTrace = 5"

fun filter_rank :: "level_filter \<Rightarrow> nat" where
  "filter_rank FilterOff = 0"
| "filter_rank (FilterUpTo l) = level_rank l"

text \<open>
  Levels and filters are compared by their numbers: a filter lets through what is no more
  verbose than itself.
\<close>

lemma filter_rank_inject: "filter_rank a = filter_rank b \<longleftrightarrow> a = b"
proof -
  have "level_rank l = level_rank m \<longleftrightarrow> l = m" for l m by (cases l; cases m; simp)
  moreover have "level_rank l \<noteq> 0" for l by (cases l) simp_all
  ultimately show ?thesis by (cases a; cases b) (simp_all add: eq_commute [of 0])
qed

instantiation level_filter :: linorder
begin

definition less_eq_level_filter :: "level_filter \<Rightarrow> level_filter \<Rightarrow> bool" where
  less_eq_level_filter_iff [simp]: "a \<le> b \<longleftrightarrow> filter_rank a \<le> filter_rank b"

definition less_level_filter :: "level_filter \<Rightarrow> level_filter \<Rightarrow> bool" where
  less_level_filter_iff [simp]: "a < b \<longleftrightarrow> filter_rank a < filter_rank b"

instance by standard (auto simp: filter_rank_inject)

end

fun level_str :: "log_level \<Rightarrow> string" where
  "level_str LevelError = ''ERROR''"
| "level_str LevelWarn = ''WARN''"
| "level_str LevelInfo = ''INFO''"
| "level_str LevelDebug = ''DEBUG''"
| "level_str LevelTrace = ''TRACE''"

record log_record =
  rec_level :: log_level
  rec_target :: string
  rec_args :: string

section \<open>The host and the world\<close>

text \<open>
  \<open>'h\<close> is the state of everything outside the procedure: the cluster behind the proxy, its
  sockets, the clock. A call moves it arbitrarily. \<open>Ok\<close> of a WIT result is \<open>Inr\<close>.
\<close>

record 'h host =
  h_call_rpc :: "string \<Rightarrow> u8 list \<Rightarrow> 'h \<Rightarrow> (u32 + wit_rpc_error + u8 list) \<times> 'h"
  h_subscribe :: "string \<Rightarrow> u8 list \<Rightarrow> 'h \<Rightarrow> (u32 + wit_rpc_error + subscription_handle) \<times> 'h"
  h_recv :: "subscription_handle \<Rightarrow> 'h \<Rightarrow> (u32 + u8 list) \<times> 'h"
  h_log :: "string \<Rightarrow> 'h \<Rightarrow> 'h"
  h_now :: "'h \<Rightarrow> instant \<times> 'h"
  h_sleep :: "duration \<Rightarrow> 'h \<Rightarrow> 'h"
  overflow_checks :: bool
  json_to_vec :: "json \<Rightarrow> serde_error + u8 list"
  json_from_slice :: "u8 list \<Rightarrow> serde_error + json"
  show_io_error :: "io_error \<Rightarrow> string"

text \<open>
  The observable requests the procedure makes of the host, in the order it makes them. The
  list is the history of a run; no function of the model reads it.
\<close>

datatype event =
    EvCallRpc string "u8 list"
  | EvSubscribe string "u8 list"
  | EvRecv subscription_handle
  | EvLog string
  | EvSleep duration

text \<open>
  The statics of the instance: the \<open>Once\<close> of \<open>lib.rs\<close>, and the logger and level of the
  \<open>log\<close> crate.
\<close>

datatype once_state = OnceIncomplete | OnceComplete | OncePoison

record 'h world =
  hstate :: 'h
  trace :: "event list"
  init_once :: once_state
  logger :: "(log_record \<Rightarrow> string) option"
  max_level :: level_filter

section \<open>Host calls\<close>

definition host_call_rpc ::
  "('h, 'z) host_scheme \<Rightarrow> string \<Rightarrow> u8 list \<Rightarrow> ('h world, u32 + wit_rpc_error + u8 list) prog"
  where
  "host_call_rpc E method params = (\<lambda>w.
     let (r, h) = h_call_rpc E method params (hstate w)
     in (Done r, w\<lparr>hstate := h, trace := trace w @ [EvCallRpc method params]\<rparr>))"

definition host_subscribe ::
  "('h, 'z) host_scheme \<Rightarrow> string \<Rightarrow> u8 list
     \<Rightarrow> ('h world, u32 + wit_rpc_error + subscription_handle) prog" where
  "host_subscribe E method params = (\<lambda>w.
     let (r, h) = h_subscribe E method params (hstate w)
     in (Done r, w\<lparr>hstate := h, trace := trace w @ [EvSubscribe method params]\<rparr>))"

definition host_recv ::
  "('h, 'z) host_scheme \<Rightarrow> subscription_handle \<Rightarrow> ('h world, u32 + u8 list) prog" where
  "host_recv E sub = (\<lambda>w.
     let (r, h) = h_recv E sub (hstate w)
     in (Done r, w\<lparr>hstate := h, trace := trace w @ [EvRecv sub]\<rparr>))"

definition host_log :: "('h, 'z) host_scheme \<Rightarrow> string \<Rightarrow> ('h world, unit) prog" where
  "host_log E msg = (\<lambda>w.
     (Done (), w\<lparr>hstate := h_log E msg (hstate w), trace := trace w @ [EvLog msg]\<rparr>))"

definition now :: "('h, 'z) host_scheme \<Rightarrow> ('h world, instant) prog" where
  "now E = (\<lambda>w. let (t, h) = h_now E (hstate w) in (Done t, w\<lparr>hstate := h\<rparr>))"

definition elapsed :: "('h, 'z) host_scheme \<Rightarrow> instant \<Rightarrow> ('h world, duration) prog" where
  "elapsed E start = mapp (\<lambda>t. t - start) (now E)"

definition thread_sleep :: "('h, 'z) host_scheme \<Rightarrow> duration \<Rightarrow> ('h world, unit) prog" where
  "thread_sleep E d = (\<lambda>w.
     (Done (), w\<lparr>hstate := h_sleep E d (hstate w), trace := trace w @ [EvSleep d]\<rparr>))"

text \<open>
  The logging macros of the \<open>log\<close> crate: a record above the maximum level is dropped, and
  without a logger nothing happens. The logger a procedure installs is the one of
  \<open>lib.rs\<close>, which formats the record and hands the text to the host.
\<close>

definition log_at ::
  "('h, 'z) host_scheme \<Rightarrow> log_level \<Rightarrow> string \<Rightarrow> string \<Rightarrow> ('h world, unit) prog" where
  "log_at E lvl target args = (\<lambda>w.
     if FilterUpTo lvl \<le> max_level w then
       (case logger w of
          None \<Rightarrow> (Done (), w)
        | Some fmt \<Rightarrow>
            host_log E (fmt \<lparr>rec_level = lvl, rec_target = target, rec_args = args\<rparr>) w)
     else (Done (), w))"

text \<open>Addition of machine integers: a panic where the build checks overflow, else wrapping.\<close>

definition add_checked ::
  "('h, 'z) host_scheme \<Rightarrow> 'a::len word \<Rightarrow> 'a word \<Rightarrow> ('w, 'a word) prog" where
  "add_checked E a b =
     (if overflow_checks E \<and> add_overflows a b then panic ArithOverflow else ret (a + b))"

text \<open>Indexing a \<open>Vec\<close> panics out of range.\<close>

definition index_vec :: "'a list \<Rightarrow> nat \<Rightarrow> ('w, 'a) prog" where
  "index_vec xs i = (if i < length xs then ret (xs ! i) else panic IndexOutOfBounds)"

lemma index_vec_Nil [simp]: "index_vec [] i = panic IndexOutOfBounds"
  by (simp add: index_vec_def)

lemma index_vec_Cons_0 [simp]: "index_vec (x # xs) 0 = ret x"
  by (simp add: index_vec_def)

section \<open>What the host calls do to the world\<close>

lemma answers_host [answers_intros]:
  "answers (host_call_rpc E m p)" "answers (host_subscribe E m p)" "answers (host_recv E s)"
  "answers (host_log E msg)" "answers (now E)" "answers (elapsed E t)"
  "answers (thread_sleep E d)" "answers (log_at E lvl tgt args)"
  "answers (add_checked E a b)" "answers (index_vec xs i)"
  by (auto simp: answers_def host_call_rpc_def host_subscribe_def host_recv_def host_log_def
      now_def elapsed_def thread_sleep_def log_at_def add_checked_def index_vec_def mapp_def
      bindp_def ret_def panic_def split: prod.splits option.splits)

text \<open>The history grows by requests that satisfy \<open>P\<close>, and only by those.\<close>

definition emits :: "(event \<Rightarrow> bool) \<Rightarrow> 'h world \<Rightarrow> 'h world \<Rightarrow> bool" where
  "emits P w w' \<longleftrightarrow> (\<exists>evs. trace w' = trace w @ evs \<and> list_all P evs)"

interpretation emits: world_preorder "emits P" for P
proof unfold_locales
  show "emits P w w" for w :: "'b world"
    by (simp add: emits_def)
  show "emits P u w" if "emits P u v" "emits P v w" for u v w :: "'b world"
    using that by (auto simp: emits_def)
qed

lemma emits_mono: "emits P w w' \<Longrightarrow> (\<And>e. P e \<Longrightarrow> Q e) \<Longrightarrow> emits Q w w'"
  by (auto simp: emits_def list_all_iff)

text \<open>The statics of the instance are only written when the instance is initialised.\<close>

definition same_statics :: "'h world \<Rightarrow> 'h world \<Rightarrow> bool" where
  "same_statics w w' \<longleftrightarrow>
     init_once w' = init_once w \<and> logger w' = logger w \<and> max_level w' = max_level w"

interpretation statics: world_preorder same_statics
  by unfold_locales (auto simp: same_statics_def)

text \<open>
  A clock: a reading \<open>\<tau>\<close> of the host's state that \<open>Instant::now\<close> reports, that no call moves
  backwards, and that a sleep moves forward by at least its duration.
\<close>

definition clock_ok :: "('h, 'z) host_scheme \<Rightarrow> ('h \<Rightarrow> nat) \<Rightarrow> bool" where
  "clock_ok E \<tau> \<longleftrightarrow>
     (\<forall>h. fst (h_now E h) = \<tau> h \<and> \<tau> h \<le> \<tau> (snd (h_now E h))) \<and>
     (\<forall>d h. \<tau> h + d \<le> \<tau> (h_sleep E d h)) \<and>
     (\<forall>m p h. \<tau> h \<le> \<tau> (snd (h_call_rpc E m p h))) \<and>
     (\<forall>m p h. \<tau> h \<le> \<tau> (snd (h_subscribe E m p h))) \<and>
     (\<forall>s h. \<tau> h \<le> \<tau> (snd (h_recv E s h))) \<and>
     (\<forall>msg h. \<tau> h \<le> \<tau> (h_log E msg h))"

definition later :: "('h \<Rightarrow> nat) \<Rightarrow> 'h world \<Rightarrow> 'h world \<Rightarrow> bool" where
  "later \<tau> w w' \<longleftrightarrow> \<tau> (hstate w) \<le> \<tau> (hstate w')"

interpretation later: world_preorder "later \<tau>" for \<tau>
  by unfold_locales (auto simp: later_def)

lemmas host_defs = host_call_rpc_def host_subscribe_def host_recv_def host_log_def
  now_def thread_sleep_def log_at_def

lemma emits_host:
  "P (EvCallRpc m p) \<Longrightarrow> moves (emits P) (host_call_rpc E m p)"
  "P (EvSubscribe m p) \<Longrightarrow> moves (emits P) (host_subscribe E m p)"
  "P (EvRecv s) \<Longrightarrow> moves (emits P) (host_recv E s)"
  "P (EvLog msg) \<Longrightarrow> moves (emits P) (host_log E msg)"
  "P (EvSleep d) \<Longrightarrow> moves (emits P) (thread_sleep E d)"
  "moves (emits P) (now E)"
  "moves (emits P) (elapsed E t)"
  by (auto simp: moves_def emits_def host_defs elapsed_def split: prod.splits)

lemma emits_log_at: "(\<And>msg. P (EvLog msg)) \<Longrightarrow> moves (emits P) (log_at E lvl tgt args)"
  by (auto simp: moves_def emits_def log_at_def host_log_def split: option.splits)

lemma emits_pure:
  "moves (emits P) (add_checked E a b)" "moves (emits P) (index_vec xs i)"
  by (auto simp: add_checked_def index_vec_def intro: emits.moves_intros)

lemma statics_host:
  "moves same_statics (host_call_rpc E m p)" "moves same_statics (host_subscribe E m p)"
  "moves same_statics (host_recv E s)" "moves same_statics (host_log E msg)"
  "moves same_statics (thread_sleep E d)" "moves same_statics (now E)"
  "moves same_statics (log_at E lvl tgt args)"
  by (auto simp: moves_def same_statics_def host_defs split: prod.splits option.splits)

lemma later_host:
  assumes "clock_ok E \<tau>"
  shows "moves (later \<tau>) (host_call_rpc E m p)" "moves (later \<tau>) (host_subscribe E m p)"
    "moves (later \<tau>) (host_recv E s)" "moves (later \<tau>) (host_log E msg)"
    "moves (later \<tau>) (now E)" "moves (later \<tau>) (elapsed E t)"
    "moves (later \<tau>) (log_at E lvl tgt args)" "moves (later \<tau>) (thread_sleep E d)"
proof -
  have s: "\<tau> h \<le> \<tau> (h_sleep E d h)" for h d
    using assms unfolding clock_ok_def by (meson add_leE)
  show "moves (later \<tau>) (host_call_rpc E m p)" "moves (later \<tau>) (host_subscribe E m p)"
    "moves (later \<tau>) (host_recv E s)" "moves (later \<tau>) (host_log E msg)"
    "moves (later \<tau>) (now E)" "moves (later \<tau>) (elapsed E t)"
    "moves (later \<tau>) (log_at E lvl tgt args)" "moves (later \<tau>) (thread_sleep E d)"
    using assms s
    by (auto simp: moves_def later_def host_defs elapsed_def clock_ok_def
        split: prod.splits option.splits) (metis snd_conv)+
qed

lemma later_pure:
  "moves (later \<tau>) (add_checked E a b)" "moves (later \<tau>) (index_vec xs i)"
  by (auto simp: add_checked_def index_vec_def intro: later.moves_intros)

lemma now_clock:
  assumes "clock_ok E \<tau>" "now E w = (Done t, w')"
  shows "t = \<tau> (hstate w)" "t \<le> \<tau> (hstate w')"
  using assms by (auto simp: now_def clock_ok_def split: prod.splits) (metis fst_conv snd_conv)+

lemma elapsed_clock:
  assumes "clock_ok E \<tau>" "elapsed E start w = (Done d, w')"
  shows "d = \<tau> (hstate w) - start" "\<tau> (hstate w) \<le> \<tau> (hstate w')"
  using assms now_clock [OF assms(1)] by (auto simp: elapsed_def mapp_eq_Done)

lemma thread_sleep_clock:
  assumes "clock_ok E \<tau>" "thread_sleep E d w = (out, w')"
  shows "out = Done ()" "\<tau> (hstate w) + d \<le> \<tau> (hstate w')"
  using assms by (auto simp: thread_sleep_def clock_ok_def)

section \<open>Counting requests\<close>

text \<open>At most \<open>k\<close> of the requests a program makes satisfy \<open>Q\<close>.\<close>

definition at_most :: "(event \<Rightarrow> bool) \<Rightarrow> nat \<Rightarrow> ('h world, 'a) prog \<Rightarrow> bool" where
  "at_most Q k m \<longleftrightarrow>
     (\<forall>w. \<exists>evs. trace (snd (m w)) = trace w @ evs \<and> length (filter Q evs) \<le> k)"

lemma at_most_emits: "moves (emits (\<lambda>e. \<not> Q e)) m \<Longrightarrow> at_most Q k m"
  unfolding at_most_def moves_def emits_def
  by (metis (no_types, lifting) filter_False list.size(3) list_all_iff zero_le)

lemma at_most_trace:
  "(\<And>w. \<exists>evs. trace (snd (m w)) = trace w @ evs \<and> length evs \<le> k) \<Longrightarrow> at_most Q k m"
  unfolding at_most_def by (meson le_trans length_filter_le)

lemma at_most_weaken: "at_most Q k m \<Longrightarrow> k \<le> k' \<Longrightarrow> at_most Q k' m"
  unfolding at_most_def by (meson le_trans)

lemma at_most_bindp:
  assumes "at_most Q a m" "\<And>x. at_most Q b (f x)"
  shows "at_most Q (a + b) (bindp m f)"
  unfolding at_most_def
proof
  fix w
  obtain out w1 where m: "m w = (out, w1)" by (cases "m w")
  with assms(1) obtain evs where e: "trace w1 = trace w @ evs" "length (filter Q evs) \<le> a"
    unfolding at_most_def by (metis snd_conv)
  show "\<exists>evs. trace (snd (bindp m f w)) = trace w @ evs \<and> length (filter Q evs) \<le> a + b"
  proof (cases out)
    case (Done x)
    obtain evs' where "trace (snd (f x w1)) = trace w1 @ evs'" "length (filter Q evs') \<le> b"
      using assms(2) [of x] unfolding at_most_def by blast
    with e m Done show ?thesis
      by (intro exI [of _ "evs @ evs'"]) (simp add: bindp_def)
  qed (use e m in \<open>auto simp: bindp_def intro!: exI [of _ evs]\<close>)
qed

lemma at_most_ret: "at_most Q k (ret x)"
  by (simp add: at_most_def ret_def)

lemma at_most_tryp:
  assumes "at_most Q a m" "\<And>x. at_most Q b (f x)"
  shows "at_most Q (a + b) (tryp m f)"
  unfolding tryp_def using assms(1)
  by (rule at_most_bindp) (use assms(2) in \<open>auto intro: at_most_ret split: sum.split\<close>)

lemma at_most_mapp: "at_most Q k m \<Longrightarrow> at_most Q k (mapp f m)"
  by (simp add: at_most_def)

lemma at_most_loop:
  assumes "\<And>s. at_most Q k (body s)"
  shows "at_most Q (n * k) (loop body n s)"
proof (induction n arbitrary: s)
  case 0
  then show ?case by (simp add: at_most_def)
next
  case (Suc n)
  have "at_most Q (k + n * k) (loop body (Suc n) s)"
    unfolding loop.simps using assms
    by (rule at_most_bindp) (auto intro: Suc.IH at_most_ret split: sum.split)
  then show ?case by (simp add: algebra_simps)
qed

text \<open>Evaluating an argument of a logging macro only where its level is enabled.\<close>

definition log_with ::
  "('h, 'z) host_scheme \<Rightarrow> log_level \<Rightarrow> string \<Rightarrow> ('h world, string) prog \<Rightarrow> ('h world, unit) prog"
  where
  "log_with E lvl target args = (\<lambda>w.
     if FilterUpTo lvl \<le> max_level w then bindp args (log_at E lvl target) w
     else (Done (), w))"

text \<open>A signed counter: a panic where the build checks overflow, else wrapping.\<close>

definition add_signed_checked ::
  "('h, 'z) host_scheme \<Rightarrow> 'a::len word \<Rightarrow> 'a word \<Rightarrow> ('w, 'a word) prog" where
  "add_signed_checked E a b =
     (if overflow_checks E \<and> sint (a + b) \<noteq> sint a + sint b then panic ArithOverflow
      else ret (a + b))"

lemma answers_log_with [answers_intros]: "answers args \<Longrightarrow> answers (log_with E lvl tgt args)"
proof -
  assume "answers args"
  then have "answers (bindp args (log_at E lvl tgt))"
    by (intro answers_intros)
  then show ?thesis by (auto simp: log_with_def answers_def)
qed

lemma answers_add_signed [answers_intros]: "answers (add_signed_checked E a b)"
  by (auto simp: add_signed_checked_def intro: answers_intros)

lemma log_with_moves:
  assumes "world_preorder R" "moves R args" "\<And>s. moves R (log_at E lvl tgt s)"
  shows "moves R (log_with E lvl tgt args)"
  using world_preorder.moves_bindp [OF assms] world_preorder.R_refl [OF assms(1)]
  by (auto simp: log_with_def moves_def)

lemma emits_log_with:
  assumes "\<And>msg. P (EvLog msg)" "moves (emits P) args"
  shows "moves (emits P) (log_with E lvl tgt args)"
  using emits.world_preorder_axioms assms(2)
  by (rule log_with_moves) (rule emits_log_at, rule assms(1))

lemma later_log_with:
  assumes "clock_ok E \<tau>" "moves (later \<tau>) args"
  shows "moves (later \<tau>) (log_with E lvl tgt args)"
  using later.world_preorder_axioms assms(2) later_host(7) [OF assms(1)] by (rule log_with_moves)

lemma add_signed_moves:
  "world_preorder R \<Longrightarrow> moves R (add_signed_checked E a b)"
  by (auto simp: add_signed_checked_def intro: world_preorder.moves_intros)

end
