(* ===== verification/Zela_Lib.thy ===== *)
theory Zela_Lib
  imports Zela_Host
begin

text \<open>
  \<open>src/lib.rs\<close>: the executor \<open>poll_await\<close>, the logger, the exported \<open>run\<close> of a custom
  procedure with its one-time initialisation, \<open>call_rpc\<close> and \<open>Subscription\<close>. Generic type
  parameters with \<open>Serialize\<close> or \<open>DeserializeOwned\<close> bounds are arguments: the function that
  writes the type to bytes or JSON, and the one that reads it.
\<close>

section \<open>Futures\<close>

datatype 'a poll = Pending | Ready 'a

text \<open>
  A future is its state \<open>'f\<close> and a \<open>poll\<close> that moves it. \<open>poll_await\<close> polls until the
  future is ready, \<open>fuel\<close> polls at most.
\<close>

definition poll_await :: "('f \<Rightarrow> ('w, 'f \<times> 'a poll) prog) \<Rightarrow> nat \<Rightarrow> 'f \<Rightarrow> ('w, 'a) prog" where
  "poll_await poll = loop (\<lambda>fut. bindp (poll fut) (\<lambda>(fut', p).
     ret (case p of Pending \<Rightarrow> Inl fut' | Ready r \<Rightarrow> Inr r)))"

text \<open>The specification: \<open>k\<close> polls that are pending lead from one state to another.\<close>

inductive pending_for ::
  "('f \<Rightarrow> ('w, 'f \<times> 'a poll) prog) \<Rightarrow> nat \<Rightarrow> 'f \<Rightarrow> 'w \<Rightarrow> 'f \<Rightarrow> 'w \<Rightarrow> bool" for poll where
  none: "pending_for poll 0 f w f w"
| more: "poll f w = (Done (f1, Pending), w1) \<Longrightarrow> pending_for poll k f1 w1 f' w' \<Longrightarrow>
    pending_for poll (Suc k) f w f' w'"

inductive_cases pending_for_SucE: "pending_for poll (Suc k) f w f' w'"
inductive_simps pending_for_0 [simp]: "pending_for poll 0 f w f' w'"

lemma poll_await_Suc:
  "poll_await poll (Suc n) f w =
     (case poll f w of
        (Done (f', Pending), w') \<Rightarrow> poll_await poll n f' w'
      | (Done (f', Ready r), w') \<Rightarrow> (Done r, w')
      | (Panicked p, w') \<Rightarrow> (Panicked p, w')
      | (NoFuel, w') \<Rightarrow> (NoFuel, w'))"
  by (simp add: poll_await_def bindp_def ret_def
      split: prod.splits outcome.splits poll.splits)

lemma poll_await_0 [simp]: "poll_await poll 0 f = (\<lambda>w. (NoFuel, w))"
  by (simp add: poll_await_def)

lemma pending_for_await:
  "pending_for poll k f w f' w' \<Longrightarrow> poll_await poll (k + n) f w = poll_await poll n f' w'"
  by (induction rule: pending_for.induct) (simp_all add: poll_await_Suc)

lemma poll_await_Done_ex:
  "poll_await poll n f w = (Done r, w'') \<Longrightarrow>
     \<exists>k f' w' f''. k < n \<and> pending_for poll k f w f' w' \<and> poll f' w' = (Done (f'', Ready r), w'')"
proof (induction n arbitrary: f w)
  case 0
  then show ?case by simp
next
  case (Suc n)
  then consider (pend) f1 w1 where "poll f w = (Done (f1, Pending), w1)"
      "poll_await poll n f1 w1 = (Done r, w'')"
    | (ready) f1 where "poll f w = (Done (f1, Ready r), w'')"
    by (auto simp: poll_await_Suc split: prod.splits outcome.splits poll.splits)
  then show ?case
  proof cases
    case pend
    with Suc.IH obtain k f' w' f'' where "k < n" "pending_for poll k f1 w1 f' w'"
      "poll f' w' = (Done (f'', Ready r), w'')" by blast
    with pend(1) show ?thesis by (meson Suc_mono pending_for.more)
  next
    case ready
    then show ?thesis by (meson pending_for.none zero_less_Suc)
  qed
qed

text \<open>A future that is never ready keeps the procedure polling for ever.\<close>

lemma poll_await_NoFuel:
  "(\<And>f w. fst (poll f w) \<noteq> NoFuel) \<Longrightarrow>
   poll_await poll n f w = (NoFuel, w') \<Longrightarrow> \<exists>f'. pending_for poll n f w f' w'"
proof (induction n arbitrary: f w)
  case 0
  then show ?case by (auto simp: poll_await_def)
next
  case (Suc n)
  then obtain f1 w1 where "poll f w = (Done (f1, Pending), w1)"
    "poll_await poll n f1 w1 = (NoFuel, w')"
    by (auto simp: poll_await_Suc split: prod.splits outcome.splits poll.splits)
      (metis fst_conv)
  with Suc show ?case by (meson pending_for.more)
qed

section \<open>Errors of a remote procedure\<close>

text \<open>\<open>RpcError<E>\<close>.\<close>

record 'e rpc_error =
  re_code :: i32
  re_message :: string
  re_data :: "'e option"

section \<open>Custom procedures\<close>

text \<open>
  An implementation of the trait \<open>CustomProcedure\<close>: its future, its parameter, success and
  error types with their (de)serialisers, and the two items with a default.
\<close>

record ('w, 'f, 'p, 's, 'e) custom_procedure =
  cp_run :: "'p \<Rightarrow> 'f"
  cp_poll :: "'f \<Rightarrow> ('w, 'f \<times> ('e rpc_error + 's) poll) prog"
  cp_de_params :: "u8 list \<Rightarrow> serde_error + 'p"
  cp_ser_success :: "'s \<Rightarrow> serde_error + u8 list"
  cp_ser_error :: "'e \<Rightarrow> serde_error + u8 list"
  cp_log_max_level :: level_filter
  cp_log_fmt :: "log_record \<Rightarrow> string"

definition default_log_max_level :: level_filter where
  "default_log_max_level = FilterUpTo LevelInfo"

definition default_log_fmt :: "log_record \<Rightarrow> string" where
  "default_log_fmt r = level_str (rec_level r) @ '' '' @ rec_target r @ '': '' @ rec_args r"

definition set_logger :: "(log_record \<Rightarrow> string) \<Rightarrow> ('h world, unit + unit) prog" where
  "set_logger fmt = (\<lambda>w. case logger w of
       None \<Rightarrow> (Done (Inr ()), w\<lparr>logger := Some fmt\<rparr>)
     | Some _ \<Rightarrow> (Done (Inl ()), w))"

definition set_max_level :: "level_filter \<Rightarrow> ('h world, unit) prog" where
  "set_max_level l = (\<lambda>w. (Done (), w\<lparr>max_level := l\<rparr>))"

text \<open>\<open>CustomProcedureInternal::init\<close>: \<open>set_logger(..).unwrap()\<close>, then the level.\<close>

definition procedure_init ::
  "('h world, 'f, 'p, 's, 'e) custom_procedure \<Rightarrow> ('h world, unit) prog" where
  "procedure_init P = bindp (set_logger (cp_log_fmt P)) (\<lambda>r. case r of
       Inl _ \<Rightarrow> panic UnwrapFailed
     | Inr _ \<Rightarrow> set_max_level (cp_log_max_level P))"

text \<open>\<open>Once::call_once\<close>: a panic of the initialiser poisons the \<open>Once\<close>.\<close>

definition call_once :: "('h world, unit) prog \<Rightarrow> ('h world, unit) prog" where
  "call_once init = (\<lambda>w. case init_once w of
       OnceComplete \<Rightarrow> (Done (), w)
     | OncePoison \<Rightarrow> (Panicked OncePoisoned, w)
     | OnceIncomplete \<Rightarrow> (case init w of
           (Done _, w') \<Rightarrow> (Done (), w'\<lparr>init_once := OnceComplete\<rparr>)
         | (Panicked p, w') \<Rightarrow> (Panicked p, w'\<lparr>init_once := OncePoison\<rparr>)
         | (NoFuel, w') \<Rightarrow> (NoFuel, w')))"

definition plain_error :: "i32 \<Rightarrow> string \<Rightarrow> wit_rpc_error" where
  "plain_error c msg = \<lparr>wit_code = c, wit_message = msg, wit_data = None\<rparr>"

text \<open>How the result of the procedure becomes the response of the exported \<open>run\<close>.\<close>

definition respond ::
  "('w, 'f, 'p, 's, 'e) custom_procedure \<Rightarrow> 'e rpc_error + 's \<Rightarrow> wit_rpc_error + u8 list" where
  "respond P r = (case r of
       Inr v \<Rightarrow> (case cp_ser_success P v of
           Inr b \<Rightarrow> Inr b
         | Inl err \<Rightarrow> Inl (plain_error 500
             (''Failed to serialize success data: '' @ serde_message err)))
     | Inl e \<Rightarrow> (case re_data e of
           None \<Rightarrow> Inl \<lparr>wit_code = re_code e, wit_message = re_message e, wit_data = None\<rparr>
         | Some v \<Rightarrow> (case cp_ser_error P v of
             Inr b \<Rightarrow> Inl \<lparr>wit_code = re_code e, wit_message = re_message e, wit_data = Some b\<rparr>
           | Inl err \<Rightarrow> Inl (plain_error 500
               (''Failed to serialize error data: '' @ serde_message err)))))"

text \<open>The exported \<open>Guest::run\<close>.\<close>

definition guest_run ::
  "('h world, 'f, 'p, 's, 'e) custom_procedure \<Rightarrow> nat \<Rightarrow> u8 list
     \<Rightarrow> ('h world, wit_rpc_error + u8 list) prog" where
  "guest_run P fuel params = bindp (call_once (procedure_init P)) (\<lambda>_.
     case cp_de_params P params of
       Inl err \<Rightarrow> ret (Inl (plain_error 400
         (''Failed to deserialize params: '' @ serde_message err)))
     | Inr p \<Rightarrow> mapp (respond P) (poll_await (cp_poll P) fuel (cp_run P p)))"

text \<open>
  What a host does with an instance, no code of the crate: it calls \<open>run\<close> once per incoming
  request (\<open>src/zela.wit\<close>), and a panic ends the instance.
\<close>

fun serve ::
  "('h world, 'f, 'p, 's, 'e) custom_procedure \<Rightarrow> nat \<Rightarrow> u8 list list
     \<Rightarrow> ('h world, (wit_rpc_error + u8 list) list) prog" where
  "serve P fuel [] = ret []"
| "serve P fuel (r # rs) = bindp (guest_run P fuel r) (\<lambda>x. mapp ((#) x) (serve P fuel rs))"

subsection \<open>Initialisation\<close>

text \<open>
  The statics of an instance before its first request, and after any of them: the logger
  and the level are those of the procedure.
\<close>

definition fresh_instance :: "'h world \<Rightarrow> bool" where
  "fresh_instance w \<longleftrightarrow> init_once w = OnceIncomplete \<and> logger w = None"

definition initialised :: "('h world, 'f, 'p, 's, 'e) custom_procedure \<Rightarrow> 'h world \<Rightarrow> bool" where
  "initialised P w \<longleftrightarrow> init_once w = OnceComplete \<and> logger w = Some (cp_log_fmt P)
     \<and> max_level w = cp_log_max_level P"

lemma initialised_statics: "same_statics w w' \<Longrightarrow> initialised P w \<Longrightarrow> initialised P w'"
  by (simp add: same_statics_def initialised_def)

lemma call_once_init:
  "fresh_instance w \<or> initialised P w \<Longrightarrow>
     \<exists>w'. call_once (procedure_init P) w = (Done (), w') \<and> initialised P w'
       \<and> hstate w' = hstate w \<and> trace w' = trace w"
  by (auto simp: fresh_instance_def initialised_def call_once_def procedure_init_def
      bindp_def set_logger_def set_max_level_def)

lemma call_once_complete:
  "initialised P w \<Longrightarrow> call_once (procedure_init P) w = (Done (), w)"
  by (simp add: initialised_def call_once_def)

lemma statics_poll_await:
  "(\<And>f. moves same_statics (poll f)) \<Longrightarrow> moves same_statics (poll_await poll n f)"
  unfolding poll_await_def
  by (intro statics.moves_intros) (auto split: prod.splits intro: statics.moves_intros)

text \<open>A property of polls that their composition keeps: no poll panics.\<close>

lemma poll_await_no_panic:
  "(\<And>f w p. fst (poll f w) \<noteq> Panicked p) \<Longrightarrow> fst (poll_await poll n f w) \<noteq> Panicked q"
proof (induction n arbitrary: f w)
  case 0
  then show ?case by simp
next
  case (Suc n)
  then show ?case
    by (auto simp: poll_await_Suc split: prod.splits outcome.splits poll.splits)
      (metis fst_conv)
qed

lemma guest_run_initialised:
  assumes "fresh_instance w \<or> initialised P w" and "\<And>f. moves same_statics (cp_poll P f)"
    and "guest_run P fuel params w = (out, w')"
  shows "initialised P w'"
proof -
  obtain w1 where w1: "call_once (procedure_init P) w = (Done (), w1)" "initialised P w1"
    using call_once_init [OF assms(1)] by blast
  have "same_statics w1 w'"
    using assms(3) w1 movesD [OF statics_poll_await [OF assms(2)]]
    by (auto simp: guest_run_def bindp_def mapp_def ret_def same_statics_def
        split: sum.splits prod.splits outcome.splits)
  with w1 show ?thesis by (blast intro: initialised_statics)
qed

lemma guest_run_no_panic:
  assumes "fresh_instance w \<or> initialised P w" and "\<And>f w p. fst (cp_poll P f w) \<noteq> Panicked p"
  shows "fst (guest_run P fuel params w) \<noteq> Panicked q"
proof -
  obtain w1 where "call_once (procedure_init P) w = (Done (), w1)"
    using call_once_init [OF assms(1)] by blast
  moreover have "fst (poll_await (cp_poll P) fuel f w') \<noteq> Panicked q" for f w'
    using assms(2) by (rule poll_await_no_panic)
  ultimately show ?thesis
    by (auto simp: guest_run_def bindp_def mapp_def ret_def
        split: sum.splits prod.splits outcome.splits) (metis fst_conv)
qed

section \<open>Calling other procedures\<close>

text \<open>A remote error with its data read back.\<close>

definition read_rpc_error ::
  "(u8 list \<Rightarrow> serde_error + 're) \<Rightarrow> wit_rpc_error \<Rightarrow> io_error + 're rpc_error" where
  "read_rpc_error de e = (case wit_data e of
       None \<Rightarrow> Inr \<lparr>re_code = wit_code e, re_message = wit_message e, re_data = None\<rparr>
     | Some v \<Rightarrow> (case de v of
         Inl err \<Rightarrow> Inl (IoCustom InvalidInput err)
       | Inr d \<Rightarrow> Inr \<lparr>re_code = wit_code e, re_message = wit_message e, re_data = Some d\<rparr>))"

definition call_rpc ::
  "('h, 'z) host_scheme \<Rightarrow> ('p \<Rightarrow> serde_error + u8 list) \<Rightarrow> (u8 list \<Rightarrow> serde_error + 'rs)
     \<Rightarrow> (u8 list \<Rightarrow> serde_error + 're) \<Rightarrow> string \<Rightarrow> 'p
     \<Rightarrow> ('h world, io_error + 're rpc_error + 'rs) prog" where
  "call_rpc E ser de_ok de_err method params = (case ser params of
       Inl err \<Rightarrow> ret (Inl (IoCustom InvalidInput err))
     | Inr bytes \<Rightarrow> bindp (host_call_rpc E method bytes) (\<lambda>r. ret (case r of
           Inr (Inr v) \<Rightarrow> (case de_ok v of
               Inl err \<Rightarrow> Inl (IoCustom InvalidInput err)
             | Inr x \<Rightarrow> Inr (Inr x))
         | Inr (Inl e) \<Rightarrow> (case read_rpc_error de_err e of Inl io \<Rightarrow> Inl io | Inr e' \<Rightarrow> Inr (Inl e'))
         | Inl errno \<Rightarrow> Inl (RawOsError errno))))"

section \<open>Subscriptions\<close>

datatype subscription = Subscription subscription_handle

definition subscription_new ::
  "('h, 'z) host_scheme \<Rightarrow> ('p \<Rightarrow> serde_error + u8 list) \<Rightarrow> (u8 list \<Rightarrow> serde_error + 're)
     \<Rightarrow> string \<Rightarrow> 'p \<Rightarrow> ('h world, io_error + 're rpc_error + subscription) prog" where
  "subscription_new E ser de_err method params = (case ser params of
       Inl err \<Rightarrow> ret (Inl (IoCustom InvalidInput err))
     | Inr bytes \<Rightarrow> bindp (host_subscribe E method bytes) (\<lambda>r. ret (case r of
           Inr (Inr v) \<Rightarrow> Inr (Inr (Subscription v))
         | Inr (Inl e) \<Rightarrow> (case read_rpc_error de_err e of Inl io \<Rightarrow> Inl io | Inr e' \<Rightarrow> Inr (Inl e'))
         | Inl errno \<Rightarrow> Inl (RawOsError errno))))"

fun subscription_recv ::
  "('h, 'z) host_scheme \<Rightarrow> (u8 list \<Rightarrow> serde_error + 'n) \<Rightarrow> subscription
     \<Rightarrow> ('h world, io_error + 'n) prog" where
  "subscription_recv E de (Subscription s) = mapp (\<lambda>r. case r of
       Inr v \<Rightarrow> (case de v of Inl err \<Rightarrow> Inl (IoCustom InvalidInput err) | Inr n \<Rightarrow> Inr n)
     | Inl errno \<Rightarrow> Inl (RawOsError errno)) (host_recv E s)"

text \<open>
  Each is one request to the host, or none where the parameters cannot be serialised.
\<close>

lemma call_rpc_trace:
  "trace (snd (call_rpc E ser de_ok de_err method params w)) =
     trace w @ (case ser params of Inl _ \<Rightarrow> [] | Inr b \<Rightarrow> [EvCallRpc method b])"
  by (simp add: call_rpc_def host_call_rpc_def bindp_def ret_def split: sum.split prod.split)

lemma answers_call_rpc [answers_intros]: "answers (call_rpc E ser de_ok de_err method params)"
  unfolding call_rpc_def by (auto intro!: answers_intros split: sum.split)

lemma statics_call_rpc: "moves same_statics (call_rpc E ser de_ok de_err method params)"
  unfolding call_rpc_def by (auto intro!: statics.moves_intros statics_host split: sum.split)

lemma later_call_rpc:
  "clock_ok E \<tau> \<Longrightarrow> moves (later \<tau>) (call_rpc E ser de_ok de_err method params)"
  unfolding call_rpc_def by (auto intro!: later.moves_intros later_host split: sum.split)

lemma emits_call_rpc:
  "(\<And>b. ser params = Inr b \<Longrightarrow> P (EvCallRpc method b)) \<Longrightarrow>
     moves (emits P) (call_rpc E ser de_ok de_err method params)"
  unfolding call_rpc_def by (auto intro!: emits.moves_intros emits_host split: sum.split)

lemma call_rpc_no_panic: "fst (call_rpc E ser de_ok de_err method params w) \<noteq> Panicked p"
  by (auto simp: call_rpc_def host_call_rpc_def bindp_def ret_def split: sum.split prod.split)

text \<open>
  A result of a remote procedure read back by a caller whose decoders invert the
  procedure's encoders.
\<close>

lemma call_rpc_reads_response:
  assumes "ser params = Inr b"
    and "fst (h_call_rpc E method b (hstate w)) = Inr (respond P r)"
    and "\<And>v x. cp_ser_success P v = Inr x \<Longrightarrow> de_ok x = Inr v"
    and "\<And>v x. cp_ser_error P v = Inr x \<Longrightarrow> de_err x = Inr v"
    and "\<And>v. r = Inr v \<Longrightarrow> \<exists>x. cp_ser_success P v = Inr x"
    and "\<And>e v. r = Inl e \<Longrightarrow> re_data e = Some v \<Longrightarrow> \<exists>x. cp_ser_error P v = Inr x"
  shows "fst (call_rpc E ser de_ok de_err method params w) = Done (Inr r)"
proof (cases r)
  case (Inr v)
  with assms(5) obtain x where x: "cp_ser_success P v = Inr x" by blast
  with assms(3) have "de_ok x = Inr v" by blast
  with x Inr assms(1,2) show ?thesis
    by (auto simp: call_rpc_def host_call_rpc_def bindp_def ret_def respond_def
        split: prod.splits)
next
  case (Inl e)
  have "case wit_data we of None \<Rightarrow> re_data e = None | Some x \<Rightarrow> \<exists>v. re_data e = Some v \<and> de_err x = Inr v"
    if "respond P r = Inl we" "we = \<lparr>wit_code = re_code e, wit_message = re_message e, wit_data = d\<rparr>"
    for we d using that assms(4,6) Inl
    by (auto simp: respond_def plain_error_def split: option.splits sum.splits) fastforce+
  moreover have "\<exists>d. respond P r = Inl \<lparr>wit_code = re_code e, wit_message = re_message e, wit_data = d\<rparr>"
    using assms(6) Inl by (fastforce simp: respond_def split: option.split sum.split)
  ultimately obtain d where
    "respond P r = Inl \<lparr>wit_code = re_code e, wit_message = re_message e, wit_data = d\<rparr>"
    "case d of None \<Rightarrow> re_data e = None | Some x \<Rightarrow> \<exists>v. re_data e = Some v \<and> de_err x = Inr v"
    by fastforce
  with Inl assms(1,2) show ?thesis
    by (auto simp: call_rpc_def host_call_rpc_def bindp_def ret_def read_rpc_error_def
        split: prod.splits option.splits)
qed

section \<open>The echo procedure\<close>

text \<open>\<open>examples/echo.rs\<close>: ready at the first poll with the parameters it was given.\<close>

definition echo_procedure ::
  "('h, 'z) host_scheme \<Rightarrow> (unit \<Rightarrow> serde_error + u8 list)
     \<Rightarrow> ('w, json, json, json, unit) custom_procedure" where
  "echo_procedure E ser_unit = \<lparr>
     cp_run = (\<lambda>params. params),
     cp_poll = (\<lambda>params. ret (params, Ready (Inr params))),
     cp_de_params = json_from_slice E,
     cp_ser_success = json_to_vec E,
     cp_ser_error = ser_unit,
     cp_log_max_level = default_log_max_level,
     cp_log_fmt = default_log_fmt\<rparr>"

section \<open>Properties\<close>

text \<open>
  C11: \<open>poll_await\<close> returns exactly the first ready result: with \<open>n\<close> polls it
  returns \<open>r\<close> if and only if fewer than \<open>n\<close> pending polls lead to a poll that is ready with
  \<open>r\<close>, and the world it leaves is that poll's.
\<close>

theorem poll_await_result:
  "poll_await poll n f w = (Done r, w'') \<longleftrightarrow>
     (\<exists>k f' w' f''. k < n \<and> pending_for poll k f w f' w' \<and>
        poll f' w' = (Done (f'', Ready r), w''))"
proof
  assume "\<exists>k f' w' f''. k < n \<and> pending_for poll k f w f' w' \<and>
    poll f' w' = (Done (f'', Ready r), w'')"
  then obtain k f' w' f'' where k: "k < n" "pending_for poll k f w f' w'"
    "poll f' w' = (Done (f'', Ready r), w'')" by blast
  then obtain m where "n = k + Suc m" by (metis less_iff_Suc_add add_Suc_right)
  with k show "poll_await poll n f w = (Done r, w'')"
    by (simp only: pending_for_await) (simp add: poll_await_Suc)
qed (blast dest: poll_await_Done_ex)

text \<open>
  A future whose polls all answer keeps \<open>poll_await\<close> from returning for
  every number of polls exactly when it can be polled as pending for ever: no fuel hides a
  result, and nothing but a future that is never ready makes the executor hang.
\<close>

theorem poll_await_diverges:
  assumes "\<And>f w. fst (poll f w) \<noteq> NoFuel"
  shows "(\<forall>n. fst (poll_await poll n f w) = NoFuel) \<longleftrightarrow>
    (\<forall>k. \<exists>f' w'. pending_for poll k f w f' w')"
proof (intro iffI allI)
  fix k
  assume "\<forall>n. fst (poll_await poll n f w) = NoFuel"
  then have "poll_await poll k f w = (NoFuel, snd (poll_await poll k f w))"
    by (metis prod.collapse)
  then have "\<exists>f'. pending_for poll k f w f' (snd (poll_await poll k f w))"
    using assms by (intro poll_await_NoFuel)
  then show "\<exists>f' w'. pending_for poll k f w f' w'" by blast
next
  fix n
  assume "\<forall>k. \<exists>f' w'. pending_for poll k f w f' w'"
  then obtain f' w' where "pending_for poll n f w f' w'" by blast
  then have "poll_await poll (n + 0) f w = poll_await poll 0 f' w'" by (rule pending_for_await)
  then show "fst (poll_await poll n f w) = NoFuel" by simp
qed

lemma poll_await_diverges_witness:
  "(\<forall>n. fst (poll_await (\<lambda>f::nat. ret (Suc f, Pending :: nat poll)) n 0 ()) = NoFuel) \<longleftrightarrow>
   (\<forall>k. \<exists>f' w'. pending_for (\<lambda>f::nat. ret (Suc f, Pending :: nat poll)) k 0 () f' w')"
  by (rule poll_await_diverges) (simp add: ret_def)

text \<open>
  C9: over any non-empty sequence of requests to a fresh instance, the
  initialisation runs once and stays: the logger and the level are the procedure's, the
  \<open>Once\<close> is complete, and no request panics, provided the procedure's own polls neither
  panic nor touch the statics.
\<close>

theorem serve_initialises_once:
  assumes "fresh_instance w" and "rs \<noteq> []"
    and "\<And>f. moves same_statics (cp_poll P f)"
    and "\<And>f w p. fst (cp_poll P f w) \<noteq> Panicked p"
    and "serve P fuel rs w = (out, w')"
  shows "initialised P w' \<and> (\<forall>p. out \<noteq> Panicked p)"
proof -
  have "(rs \<noteq> [] \<or> initialised P w \<longrightarrow> initialised P w') \<and> (\<forall>p. out \<noteq> Panicked p)"
    if "fresh_instance w \<or> initialised P w" "serve P fuel rs w = (out, w')" for rs w out w'
    using that
  proof (induction rs arbitrary: w out w')
    case Nil
    then show ?case by (auto simp: ret_def)
  next
    case (Cons r rs)
    obtain x w1 where g: "guest_run P fuel r w = (x, w1)" by (cases "guest_run P fuel r w")
    have i: "initialised P w1" by (rule guest_run_initialised [OF Cons.prems(1) assms(3) g])
    have np: "x \<noteq> Panicked p" for p
      using guest_run_no_panic [OF Cons.prems(1) assms(4), of fuel r] g by (metis fst_conv)
    obtain y w2 where s: "serve P fuel rs w1 = (y, w2)" by (cases "serve P fuel rs w1")
    from Cons.IH [OF _ s] i have "initialised P w2" "\<forall>p. y \<noteq> Panicked p" by simp_all
    with g s np i Cons.prems(2) show ?case
      by (auto simp: bindp_def mapp_def ret_def split: outcome.splits)
  qed
  with assms(1,2,5) show ?thesis by blast
qed

lemma serve_initialises_once_witness:
  defines "P \<equiv> \<lparr>cp_run = (\<lambda>p. p), cp_poll = (\<lambda>p. ret (p, Ready (Inr p))), cp_de_params = Inr,
      cp_ser_success = Inr, cp_ser_error = Inr, cp_log_max_level = default_log_max_level,
      cp_log_fmt = default_log_fmt\<rparr> ::
        (nat world, u8 list, u8 list, u8 list, u8 list) custom_procedure"
    and "w \<equiv> \<lparr>hstate = 0, trace = [], init_once = OnceIncomplete, logger = None,
      max_level = FilterOff\<rparr> :: nat world"
  shows "initialised P (snd (serve P 1 [[1], [2]] w)) \<and>
    (\<forall>p. fst (serve P 1 [[1], [2]] w) \<noteq> Panicked p)"
proof (rule serve_initialises_once)
  show "serve P 1 [[1], [2]] w = (fst (serve P 1 [[1], [2]] w), snd (serve P 1 [[1], [2]] w))"
    by simp
qed (auto simp: P_def w_def fresh_instance_def ret_def moves_def same_statics_def)

lemma respond_cases:
  assumes "G r"
  shows "case respond P r of
      Inr b \<Rightarrow> \<exists>v. G (Inr v) \<and> cp_ser_success P v = Inr b
    | Inl e \<Rightarrow>
        (\<exists>v err. G (Inr v) \<and> cp_ser_success P v = Inl err \<and> e = plain_error 500
           (''Failed to serialize success data: '' @ serde_message err)) \<or>
        (\<exists>x. G (Inl x) \<and> re_data x = None \<and> e = plain_error (re_code x) (re_message x)) \<or>
        (\<exists>x d b. G (Inl x) \<and> re_data x = Some d \<and> cp_ser_error P d = Inr b \<and>
           e = \<lparr>wit_code = re_code x, wit_message = re_message x, wit_data = Some b\<rparr>) \<or>
        (\<exists>x d err. G (Inl x) \<and> re_data x = Some d \<and> cp_ser_error P d = Inl err \<and>
           e = plain_error 500 (''Failed to serialize error data: '' @ serde_message err))"
  using assms unfolding respond_def
  by (auto simp: plain_error_def split: sum.split option.split)

text \<open>
  C6: every response of the exported \<open>run\<close> is accounted for. The instance is
  initialised first, unless it was before. A success is the serialised value that the first
  ready poll of the procedure gave for the parameters read from the request. An error is one of
  five: code 400 with the reader's message for unreadable parameters, without a single poll;
  code 500 with the writer's message for a value that cannot be serialised, and for error data
  that cannot be; the procedure's own error, with its code and message, without data where it
  has none, and with its serialised data where it has some.
\<close>

theorem guest_run_outcomes:
  assumes "guest_run P fuel params w = (Done rsp, w')"
  shows "let w1 = (if init_once w = OnceComplete then w
        else w\<lparr>init_once := OnceComplete, logger := Some (cp_log_fmt P),
          max_level := cp_log_max_level P\<rparr>);
      gives = (\<lambda>p r. \<exists>k f1 w2 f2. k < fuel \<and> pending_for (cp_poll P) k (cp_run P p) w1 f1 w2 \<and>
        cp_poll P f1 w2 = (Done (f2, Ready r), w'))
    in case cp_de_params P params of
      Inl err \<Rightarrow> w' = w1 \<and> rsp = Inl \<lparr>wit_code = 400,
        wit_message = ''Failed to deserialize params: '' @ serde_message err, wit_data = None\<rparr>
    | Inr p \<Rightarrow> (case rsp of
        Inr b \<Rightarrow> \<exists>v. gives p (Inr v) \<and> cp_ser_success P v = Inr b
      | Inl e \<Rightarrow>
          (\<exists>v err. gives p (Inr v) \<and> cp_ser_success P v = Inl err \<and> e = \<lparr>wit_code = 500,
             wit_message = ''Failed to serialize success data: '' @ serde_message err,
             wit_data = None\<rparr>) \<or>
          (\<exists>x. gives p (Inl x) \<and> re_data x = None \<and>
             e = \<lparr>wit_code = re_code x, wit_message = re_message x, wit_data = None\<rparr>) \<or>
          (\<exists>x d b. gives p (Inl x) \<and> re_data x = Some d \<and> cp_ser_error P d = Inr b \<and>
             e = \<lparr>wit_code = re_code x, wit_message = re_message x, wit_data = Some b\<rparr>) \<or>
          (\<exists>x d err. gives p (Inl x) \<and> re_data x = Some d \<and> cp_ser_error P d = Inl err \<and>
             e = \<lparr>wit_code = 500,
               wit_message = ''Failed to serialize error data: '' @ serde_message err,
               wit_data = None\<rparr>))"
proof -
  let ?w1 = "if init_once w = OnceComplete then w
    else w\<lparr>init_once := OnceComplete, logger := Some (cp_log_fmt P), max_level := cp_log_max_level P\<rparr>"
  from assms obtain w1 where c: "call_once (procedure_init P) w = (Done (), w1)"
    and rest: "(case cp_de_params P params of
        Inl err \<Rightarrow> ret (Inl (plain_error 400 (''Failed to deserialize params: '' @ serde_message err)))
      | Inr p \<Rightarrow> mapp (respond P) (poll_await (cp_poll P) fuel (cp_run P p))) w1 = (Done rsp, w')"
    by (auto simp: guest_run_def bindp_eq_Done)
  from c have w1: "w1 = ?w1"
    by (auto simp: call_once_def procedure_init_def set_logger_def set_max_level_def bindp_def
        panic_def split: once_state.splits prod.splits outcome.splits option.splits)
  show ?thesis
  proof (cases "cp_de_params P params")
    case (Inl err)
    with rest show ?thesis by (simp add: w1 plain_error_def ret_def)
  next
    case (Inr p)
    with rest obtain r where a: "poll_await (cp_poll P) fuel (cp_run P p) ?w1 = (Done r, w')"
      and r: "rsp = respond P r" by (auto simp: mapp_eq_Done w1)
    define gives where "gives = (\<lambda>p r. \<exists>k f1 w2 f2. k < fuel \<and>
      pending_for (cp_poll P) k (cp_run P p) ?w1 f1 w2 \<and> cp_poll P f1 w2 = (Done (f2, Ready r), w'))"
    have "gives p r" using poll_await_Done_ex [OF a] by (simp add: gives_def)
    from respond_cases [where G = "gives p", OF this] show ?thesis
      unfolding r gives_def plain_error_def Let_def by (simp only: Inr sum.case)
  qed
qed

lemma guest_run_outcomes_witness:
  defines "P \<equiv> \<lparr>cp_run = (\<lambda>p. p),
      cp_poll = (\<lambda>p. ret (p, Ready (Inl \<lparr>re_code = 7, re_message = ''no'', re_data = Some [9]\<rparr>))),
      cp_de_params = Inr, cp_ser_success = Inr, cp_ser_error = Inr,
      cp_log_max_level = default_log_max_level, cp_log_fmt = default_log_fmt\<rparr> ::
        (nat world, u8 list, u8 list, u8 list, u8 list) custom_procedure"
    and "w \<equiv> \<lparr>hstate = 0, trace = [], init_once = OnceIncomplete, logger = None,
      max_level = FilterOff\<rparr> :: nat world"
    and "e \<equiv> \<lparr>wit_code = 7, wit_message = ''no'', wit_data = Some [9]\<rparr> :: wit_rpc_error"
  shows "\<exists>x :: u8 list rpc_error. \<exists>d b. re_data x = Some d \<and> cp_ser_error P d = Inr b \<and>
    e = \<lparr>wit_code = re_code x, wit_message = re_message x, wit_data = Some b\<rparr>"
proof -
  have "guest_run P 1 [3] w = (Done (Inl e), snd (guest_run P 1 [3] w))"
    by (simp add: P_def w_def e_def guest_run_def call_once_def procedure_init_def set_logger_def
        set_max_level_def bindp_def ret_def mapp_def poll_await_def respond_def)
  moreover have "cp_de_params P = Inr" "cp_ser_success P = Inr" "cp_ser_error P = Inr"
    by (simp_all add: P_def)
  ultimately show ?thesis
    using guest_run_outcomes [of P 1 "[3]" w "Inl e" "snd (guest_run P 1 [3] w)"]
    by (fastforce simp: Let_def e_def)
qed

end
