(* ===== verification/Zela_Read.thy ===== *)
theory Zela_Read
  imports Zela_Host "HOL-Library.AList" "HOL-Library.Monad_Syntax"
begin

text \<open>
  What \<open>#[derive(Deserialize)]\<close> makes of the standard types and of structs with named
  fields, on JSON values. A reader returns \<open>None\<close> where the derived code returns an error;
  the text of the error belongs to \<open>serde\<close> and is an argument of \<open>de_of\<close>. The locale
  \<open>wire_format\<close> is the contract of a writer and a reader of the same type, which every
  format of the crate is shown to meet; \<open>struct_format\<close> derives it for a struct from its fields.
\<close>

section \<open>Readers of the standard types\<close>

text \<open>The reader as a \<open>Deserialize\<close> with the error that \<open>serde\<close> reports.\<close>

definition de_of :: "(json \<Rightarrow> serde_error) \<Rightarrow> (json \<Rightarrow> 'a option) \<Rightarrow> json \<Rightarrow> serde_error + 'a" where
  "de_of msg r j = ok_or (msg j) (r j)"

text \<open>An unsigned integer of any width: a number that is not negative and in range.\<close>

fun read_unsigned :: "json \<Rightarrow> 'a::len word option" where
  "read_unsigned (JNumber (PosInt n)) = (if unat n < 2 ^ LENGTH('a) then Some (ucast n) else None)"
| "read_unsigned _ = None"

definition read_u64 :: "json \<Rightarrow> u64 option" where "read_u64 = read_unsigned"
definition read_u32 :: "json \<Rightarrow> u32 option" where "read_u32 = read_unsigned"
definition read_u16 :: "json \<Rightarrow> u16 option" where "read_u16 = read_unsigned"
definition read_u8 :: "json \<Rightarrow> u8 option" where "read_u8 = read_unsigned"
definition read_usize :: "json \<Rightarrow> usize option" where "read_usize = read_unsigned"

definition ser_u32 :: "u32 \<Rightarrow> json" where "ser_u32 n = JNumber (PosInt (ucast n))"
definition ser_u16 :: "u16 \<Rightarrow> json" where "ser_u16 n = JNumber (PosInt (ucast n))"

definition ser_i64 :: "i64 \<Rightarrow> json" where
  "ser_i64 n = JNumber (if sint n < 0 then NegInt n else PosInt n)"

fun read_i64 :: "json \<Rightarrow> i64 option" where
  "read_i64 (JNumber (PosInt n)) = (if unat n < 2 ^ 63 then Some n else None)"
| "read_i64 (JNumber (NegInt n)) = Some n"
| "read_i64 _ = None"

fun read_bool :: "json \<Rightarrow> bool option" where
  "read_bool (JBool b) = Some b"
| "read_bool _ = None"

fun read_string :: "json \<Rightarrow> string option" where
  "read_string (JString s) = Some s"
| "read_string _ = None"

section \<open>Floating point numbers\<close>

text \<open>
  An \<open>f64\<close> is its 64 bits. A value that is not finite is written as \<open>null\<close>; a number
  written as an integer is read with the cast \<open>as f64\<close>, which rounds to even.
\<close>

type_synonym f64 = u64

definition f64_finite :: "f64 \<Rightarrow> bool" where
  "f64_finite b \<longleftrightarrow> (unat b div 2 ^ 52) mod 2 ^ 11 \<noteq> 2047"

fun bit_len :: "nat \<Rightarrow> nat" where
  "bit_len n = (if n = 0 then 0 else Suc (bit_len (n div 2)))"

declare bit_len.simps [simp del]

definition round_half_even :: "nat \<Rightarrow> nat \<Rightarrow> nat" where
  "round_half_even n k = (let q = n div 2 ^ k; r = n mod 2 ^ k; half = 2 ^ k div 2 in
     if half < r \<or> r = half \<and> odd q then Suc q else q)"

text \<open>
  The mantissa of 53 bits loses its leading one when the exponent is added; where rounding
  carries it to 54 bits, the sum moves to the next exponent by itself.
\<close>

definition f64_of_nat :: "nat \<Rightarrow> f64" where
  "f64_of_nat n = (if n = 0 then 0 else
     let e = bit_len n - 1;
         m = (if e \<le> 52 then n * 2 ^ (52 - e) else round_half_even n (e - 52))
     in of_nat ((e + 1023) * 2 ^ 52 + m - 2 ^ 52))"

definition f64_of_i64 :: "i64 \<Rightarrow> f64" where
  "f64_of_i64 n = (if sint n < 0 then 2 ^ 63 + f64_of_nat (nat (- sint n)) else f64_of_nat (nat (sint n)))"

definition ser_f64 :: "f64 \<Rightarrow> json" where
  "ser_f64 b = (if f64_finite b then JNumber (Float b) else JNull)"

fun read_f64 :: "json \<Rightarrow> f64 option" where
  "read_f64 (JNumber (Float b)) = Some b"
| "read_f64 (JNumber (PosInt n)) = Some (f64_of_nat (unat n))"
| "read_f64 (JNumber (NegInt n)) = Some (f64_of_i64 n)"
| "read_f64 _ = None"

section \<open>Options, sequences, tuples and maps\<close>

definition read_opt :: "(json \<Rightarrow> 'a option) \<Rightarrow> json \<Rightarrow> 'a option option" where
  "read_opt r j = (if is_null j then Some None else map_option Some (r j))"

fun read_all :: "(json \<Rightarrow> 'a option) \<Rightarrow> json list \<Rightarrow> 'a list option" where
  "read_all r [] = Some []"
| "read_all r (j # js) = do { x \<leftarrow> r j; xs \<leftarrow> read_all r js; Some (x # xs) }"

fun read_vec :: "(json \<Rightarrow> 'a option) \<Rightarrow> json \<Rightarrow> 'a list option" where
  "read_vec r (JArray js) = read_all r js"
| "read_vec r _ = None"

definition ser_pair :: "('a \<Rightarrow> json) \<Rightarrow> ('b \<Rightarrow> json) \<Rightarrow> 'a \<times> 'b \<Rightarrow> json" where
  "ser_pair f g p = JArray [f (fst p), g (snd p)]"

fun read_pair :: "(json \<Rightarrow> 'a option) \<Rightarrow> (json \<Rightarrow> 'b option) \<Rightarrow> json \<Rightarrow> ('a \<times> 'b) option" where
  "read_pair r s (JArray [a, b]) = do { x \<leftarrow> r a; y \<leftarrow> s b; Some (x, y) }"
| "read_pair r s _ = None"

definition ser_triple ::
  "('a \<Rightarrow> json) \<Rightarrow> ('b \<Rightarrow> json) \<Rightarrow> ('c \<Rightarrow> json) \<Rightarrow> 'a \<times> 'b \<times> 'c \<Rightarrow> json" where
  "ser_triple f g h p = JArray [f (fst p), g (fst (snd p)), h (snd (snd p))]"

fun read_triple ::
  "(json \<Rightarrow> 'a option) \<Rightarrow> (json \<Rightarrow> 'b option) \<Rightarrow> (json \<Rightarrow> 'c option) \<Rightarrow> json
     \<Rightarrow> ('a \<times> 'b \<times> 'c) option" where
  "read_triple r s t (JArray [a, b, c]) =
     do { x \<leftarrow> r a; y \<leftarrow> s b; z \<leftarrow> t c; Some (x, y, z) }"
| "read_triple r s t _ = None"

text \<open>
  A \<open>HashMap<String, V>\<close> is the list of its entries in the order of its iteration, with
  distinct keys. Reading inserts one entry after the other: of two with one key the last wins.
\<close>

type_synonym 'v hash_map = "(string \<times> 'v) list"

definition ser_map :: "('v \<Rightarrow> json) \<Rightarrow> 'v hash_map \<Rightarrow> json" where
  "ser_map f m = JObject (map (\<lambda>(k, v). (k, f v)) m)"

fun read_entries :: "(json \<Rightarrow> 'v option) \<Rightarrow> 'v hash_map \<Rightarrow> (string \<times> json) list \<Rightarrow> 'v hash_map option" where
  "read_entries r acc [] = Some acc"
| "read_entries r acc ((k, j) # ms) = do { v \<leftarrow> r j; read_entries r (AList.update k v acc) ms }"

fun read_map :: "(json \<Rightarrow> 'v option) \<Rightarrow> json \<Rightarrow> 'v hash_map option" where
  "read_map r (JObject ms) = read_entries r [] ms"
| "read_map r _ = None"

section \<open>Structs\<close>

text \<open>
  Where the derived reader of a struct finds each field: in an object under the field's
  name, whatever the order and the other members, and an error where a field comes twice;
  in an array at the field's position, with no element to spare. A struct with a flattened
  field only reads objects.
\<close>

fun struct_fields :: "string list \<Rightarrow> json \<Rightarrow> (string \<Rightarrow> json option) option" where
  "struct_fields names (JObject ms) =
     (if distinct (filter (\<lambda>k. k \<in> set names) (map fst ms)) then Some (map_of ms |` set names) else None)"
| "struct_fields names (JArray js) =
     (if length js = length names then Some (map_of (zip names js)) else None)"
| "struct_fields names _ = None"

definition read_struct ::
  "string list \<Rightarrow> ((string \<Rightarrow> json option) \<Rightarrow> 'a option) \<Rightarrow> json \<Rightarrow> 'a option" where
  "read_struct names build j = Option.bind (struct_fields names j) build"

text \<open>A field of a type other than \<open>Option\<close> has to be there; an absent \<open>Option\<close> is \<open>None\<close>.\<close>

definition required :: "(json \<Rightarrow> 'a option) \<Rightarrow> json option \<Rightarrow> 'a option" where
  "required r x = Option.bind x r"

definition optional :: "(json \<Rightarrow> 'a option) \<Rightarrow> json option \<Rightarrow> 'a option option" where
  "optional r x = (case x of None \<Rightarrow> Some None | Some j \<Rightarrow> read_opt r j)"

text \<open>A variant without fields, by its name or as \<open>{name: null}\<close>.\<close>

fun variant_name :: "json \<Rightarrow> string option" where
  "variant_name (JString s) = Some s"
| "variant_name (JObject [(s, JNull)]) = Some s"
| "variant_name _ = None"

named_theorems wire_simps \<open>reading back what was written\<close>

lemma required_Some [wire_simps]: "required r (Some j) = r j"
  by (simp add: required_def)

lemma required_None [wire_simps]: "required r None = None"
  by (simp add: required_def)

lemma optional_simps [wire_simps]: "optional r (Some j) = read_opt r j" "optional r None = Some None"
  by (simp_all add: optional_def)

section \<open>The contract of a format\<close>

lemma update_new: "k \<notin> fst ` set al \<Longrightarrow> AList.update k v al = al @ [(k, v)]"
  by (induction al) auto

text \<open>
  A writer and a reader of one type. Values outside \<open>wf\<close> are not written back as they were:
  a number that is not finite, an iteration with a key twice, a foreign value its crate refuses.
\<close>

locale wire_format =
  fixes ser :: "'a \<Rightarrow> json" and de :: "json \<Rightarrow> 'a option" and wf :: "'a \<Rightarrow> bool"
  assumes read_write: "wf x \<Longrightarrow> de (ser x) = Some x"
begin

lemma write_inject: "wf x \<Longrightarrow> wf y \<Longrightarrow> ser x = ser y \<Longrightarrow> x = y"
  by (metis option.inject read_write)

lemma de_write: "wf x \<Longrightarrow> de_of msg de (ser x) = Inr x"
  by (simp add: de_of_def read_write)

lemma read_all_write: "list_all wf xs \<Longrightarrow> read_all de (map ser xs) = Some xs"
  by (induction xs) (simp_all add: read_write)

lemma read_vec_write: "list_all wf xs \<Longrightarrow> read_vec de (ser_vec ser xs) = Some xs"
  by (simp add: ser_vec_def read_all_write)

lemma read_entries_write:
  "list_all (\<lambda>(k, v). wf v) m \<Longrightarrow> distinct (map fst (acc @ m)) \<Longrightarrow>
     read_entries de acc (map (\<lambda>(k, v). (k, ser v)) m) = Some (acc @ m)"
proof (induction m arbitrary: acc)
  case (Cons e m)
  obtain k v where e: "e = (k, v)" by (cases e)
  with Cons.prems have "AList.update k v acc = acc @ [(k, v)]"
    by (intro update_new) simp
  with Cons e show ?case by (simp add: read_write)
qed simp

lemma read_map_write:
  "list_all (\<lambda>(k, v). wf v) m \<Longrightarrow> distinct (map fst m) \<Longrightarrow> read_map de (ser_map ser m) = Some m"
  using read_entries_write [of m "[]"] by (simp add: ser_map_def)

end

text \<open>
  A format whose values are never written as \<open>null\<close>: only such a type can be told from an
  absent one, so only its \<open>Option\<close> is read back.
\<close>

locale wire_value = wire_format +
  assumes not_null: "wf x \<Longrightarrow> ser x \<noteq> JNull"
begin

lemma read_opt_write: "pred_option wf x \<Longrightarrow> read_opt de (ser_opt ser x) = Some x"
proof (cases x)
  case (Some v)
  moreover assume "pred_option wf x"
  ultimately have "wf v" by simp
  moreover from this have "\<not> is_null (ser v)" using not_null [of v] by (cases "ser v") auto
  ultimately show ?thesis using Some by (simp add: read_opt_def read_write)
qed (simp add: read_opt_def)

lemma read_opt_null: "read_opt de JNull = Some None"
  by (simp add: read_opt_def)

end

section \<open>Formats of the standard types\<close>

lemma read_unsigned_ucast:
  "LENGTH('a) \<le> 64 \<Longrightarrow> read_unsigned (JNumber (PosInt (ucast (n :: 'a::len word)))) = Some n"
proof -
  assume l: "LENGTH('a) \<le> 64"
  have "unat n < 2 ^ 64"
    using unsigned_less [of n, where 'a = nat] power_increasing [OF l, of "2 :: nat"] by linarith
  then have "unat (ucast n :: u64) = unat n"
    by (simp add: unsigned_ucast_eq take_bit_nat_eq_self)
  moreover have "ucast (ucast n :: u64) = n" by (rule ucast_up_ucast_id) (simp add: is_up l)
  moreover have "unat n < 2 ^ LENGTH('a)" by (rule unsigned_less)
  ultimately show ?thesis by simp
qed

interpretation u64: wire_value ser_u64 read_u64 "\<lambda>_. True"
  using read_unsigned_ucast [where 'a = 64]
  by unfold_locales (simp_all add: ser_u64_def read_u64_def)

interpretation u32: wire_value ser_u32 read_u32 "\<lambda>_. True"
  using read_unsigned_ucast [where 'a = 32]
  by unfold_locales (simp_all add: ser_u32_def read_u32_def)

interpretation u16: wire_value ser_u16 read_u16 "\<lambda>_. True"
  using read_unsigned_ucast [where 'a = 16]
  by unfold_locales (simp_all add: ser_u16_def read_u16_def)

interpretation u8: wire_value ser_u8 read_u8 "\<lambda>_. True"
  using read_unsigned_ucast [where 'a = 8]
  by unfold_locales (simp_all add: ser_u8_def read_u8_def)

interpretation usize: wire_value ser_usize read_usize "\<lambda>_. True"
  using read_unsigned_ucast [where 'a = 32]
  by unfold_locales (simp_all add: ser_usize_def read_usize_def)

lemma unat_nonneg_sint: "0 \<le> sint (n :: i64) \<Longrightarrow> unat n < 2 ^ 63"
proof -
  assume "0 \<le> sint n"
  then have "\<not> bit n 63" using bit_last_iff [of n] by simp
  then have "drop_bit 63 n = 0" using drop_bit_eq_zero_iff_not_bit_last [of n] by simp
  then have "unat (drop_bit 63 n) = 0" by (simp only: unsigned_0)
  then have "drop_bit 63 (unat n) = 0"
    by (simp only: unsigned_drop_bit_eq) (simp add: take_bit_nat_eq_self unsigned_less [of n, simplified])
  then show ?thesis by (simp add: drop_bit_eq_div div_eq_0_iff)
qed

interpretation i64: wire_value ser_i64 read_i64 "\<lambda>_. True"
  by unfold_locales (auto simp: ser_i64_def not_less dest: unat_nonneg_sint)

interpretation wire_bool: wire_value JBool read_bool "\<lambda>_. True"
  by unfold_locales simp_all

interpretation wire_string: wire_value JString read_string "\<lambda>_. True"
  by unfold_locales simp_all

interpretation f64: wire_value ser_f64 read_f64 f64_finite
  by unfold_locales (simp_all add: ser_f64_def)

lemma read_triple_write:
  "wire_format f r P \<Longrightarrow> wire_format g s Q \<Longrightarrow> wire_format h t R \<Longrightarrow>
     wire_value (ser_triple f g h) (read_triple r s t) (\<lambda>(x, y, z). P x \<and> Q y \<and> R z)"
  by unfold_locales (auto simp: ser_triple_def wire_format.read_write)

lemma read_pair_write:
  "wire_format f r P \<Longrightarrow> wire_format g s Q \<Longrightarrow>
     wire_value (ser_pair f g) (read_pair r s) (\<lambda>(x, y). P x \<and> Q y)"
  by unfold_locales (auto simp: ser_pair_def wire_format.read_write)

lemma wire_vec:
  "wire_format f r P \<Longrightarrow> wire_value (ser_vec f) (read_vec r) (list_all P)"
  by unfold_locales (simp add: wire_format.read_vec_write, simp add: ser_vec_def)

lemma wire_opt:
  "wire_value f r P \<Longrightarrow> wire_format (ser_opt f) (read_opt r) (pred_option P)"
  by unfold_locales (rule wire_value.read_opt_write)

lemma wire_map:
  "wire_format f r P \<Longrightarrow>
     wire_value (ser_map f) (read_map r) (\<lambda>m. list_all (\<lambda>(k, v). P v) m \<and> distinct (map fst m))"
  by unfold_locales (simp add: wire_format.read_map_write, simp add: ser_map_def)

lemma wire_value_format: "wire_value f r P \<Longrightarrow> wire_format f r P"
  by (simp add: wire_value_def)

lemmas value_vec = wire_value_format [THEN wire_vec]
  and value_map = wire_value_format [THEN wire_map]
  and value_pair = read_pair_write [OF wire_value_format wire_value_format]
  and value_triple =
    read_triple_write [OF wire_value_format wire_value_format wire_value_format]
  and value_read = wire_value_format [THEN wire_format.read_write]
  and opt_read = wire_value.read_opt_write

section \<open>Formats of structs\<close>

text \<open>
  A struct is given by the names of its fields, the members it is written as, and how it is
  put together from what is found in each field. The members may leave out a name.
\<close>

locale struct_format = wire_struct members
  for members :: "'c \<Rightarrow> (string \<times> json) list" +
  fixes names :: "string list" and build :: "(string \<Rightarrow> json option) \<Rightarrow> 'c option"
    and wf :: "'c \<Rightarrow> bool"
  assumes names_distinct: "distinct names"
    and member_names: "fst ` set (members c) \<subseteq> set names"
    and build_members: "wf c \<Longrightarrow> build (map_of (members c)) = Some c"
begin

lemma read_object:
  assumes "wf c" "distinct (filter (\<lambda>k. k \<in> set names) (map fst ms))"
    and "map_of ms |` set names = map_of (members c)"
  shows "read_struct names build (JObject ms) = Some c"
  using assms by (simp add: read_struct_def build_members)

lemma members_restrict: "map_of (members c) |` set names = map_of (members c)"
proof
  fix k
  have "map_of (members c) k = None" if "k \<notin> set names"
    using that member_names [of c] by (auto simp: map_of_eq_None_iff)
  then show "(map_of (members c) |` set names) k = map_of (members c) k"
    by (auto simp: restrict_map_def)
qed

lemma read_members: "wf c \<Longrightarrow> read_struct names build (JObject (members c)) = Some c"
  using distinct_names by (intro read_object members_restrict) (auto intro: distinct_filter)

lemma read_ignores_unknown:
  assumes "wf c" "fst ` set extra \<inter> set names = {}"
  shows "read_struct names build (JObject (extra @ members c)) = Some c"
    and "read_struct names build (JObject (members c @ extra)) = Some c"
proof -
  have none: "filter (\<lambda>k. k \<in> set names) (map fst extra) = []"
    using assms(2) by (auto simp: filter_empty_conv)
  have d: "distinct (filter (\<lambda>k. k \<in> set names) (map fst (members c)))"
    using distinct_names by (rule distinct_filter)
  have out: "map_of extra k = None" if "k \<in> set names" for k
    using that assms(2) by (auto simp: map_of_eq_None_iff)
  have "(map_of (extra @ members c) |` set names) k = (map_of (members c) |` set names) k"
    "(map_of (members c @ extra) |` set names) k = (map_of (members c) |` set names) k" for k
    using out [of k] by (auto simp: restrict_map_def map_add_def split: option.split)
  then have r: "map_of (extra @ members c) |` set names = map_of (members c)"
    "map_of (members c @ extra) |` set names = map_of (members c)"
    unfolding members_restrict by blast+
  show "read_struct names build (JObject (extra @ members c)) = Some c"
    by (rule read_object [OF assms(1) _ r(1)]) (use none d in simp)
  show "read_struct names build (JObject (members c @ extra)) = Some c"
    by (rule read_object [OF assms(1) _ r(2)]) (use none d in simp)
qed

lemma read_any_order:
  assumes "wf c" "set ms = set (members c)" "distinct (map fst ms)"
  shows "read_struct names build (JObject ms) = Some c"
proof -
  have "map_of ms = map_of (members c)"
    using map_of_inject_set [OF assms(3) distinct_names] assms(2) by blast
  with assms(1,3) members_restrict show ?thesis
    by (intro read_object) (auto intro: distinct_filter)
qed

lemma read_positions:
  assumes "wf c" "map fst (members c) = names"
  shows "read_struct names build (JArray (map snd (members c))) = Some c"
proof -
  from assms(2) have "zip names (map snd (members c)) = members c"
    by (metis zip_map_fst_snd)
  moreover from assms(2) have "length (members c) = length names" by (metis length_map)
  ultimately show ?thesis using assms(1) by (simp add: read_struct_def build_members)
qed

lemma read_duplicate:
  assumes "k \<in> set names" "map_of ms k \<noteq> None"
  shows "read_struct names build (JObject ((k, v) # ms)) = None"
  using assms by (auto simp: read_struct_def map_of_eq_None_iff)

end

sublocale struct_format \<subseteq> wire_value "\<lambda>c. JObject (members c)" "read_struct names build" wf
  by unfold_locales (simp_all add: read_members)

end
