(* ===== verification/Zela_Response.thy ===== *)
theory Zela_Response
  imports Zela_Lib Zela_Read
begin

text \<open>
  The types of the Solana crates the client handles, as far as it looks into them, and the
  response types of \<open>src/rpc_client/response.rs\<close> with their methods. A type the code only
  carries along is a box around the JSON or text it came from.
\<close>

section \<open>Types of the Solana crates\<close>

datatype pubkey = Pubkey "u8 list"
datatype signature = Signature "u8 list"
datatype hash = Hash "u8 list"

type_synonym slot = u64
type_synonym epoch = u64
type_synonym unix_timestamp = i64

datatype transaction_error = TransactionError json
datatype signer_error = SignerError string

datatype commitment_level = Processed | Confirmed | Finalized
datatype commitment_config = CommitmentConfig (cc_level: commitment_level)

datatype ui_transaction_encoding =
  UiBinary | UiBase64 | UiBase58 | UiJson | UiJsonParsed

datatype ui_account_encoding =
  AccountBinary | AccountBase58 | AccountBase64 | AccountJsonParsed | AccountBase64Zstd

datatype transaction_details = DetailsFull | DetailsSignatures | DetailsNone | DetailsAccounts

record ui_data_slice_config =
  ds_offset :: usize
  ds_length :: usize

record parsed_account =
  pa_program :: string
  pa_parsed :: json
  pa_space :: u64

datatype ui_account_data =
    DataLegacyBinary string
  | DataJson parsed_account
  | DataBinary string ui_account_encoding

record ui_account =
  ua_lamports :: u64
  ua_data :: ui_account_data
  ua_owner :: string
  ua_executable :: bool
  ua_rent_epoch :: u64
  ua_space :: "u64 option"

record account =
  acc_lamports :: u64
  acc_data :: "u8 list"
  acc_owner :: pubkey
  acc_executable :: bool
  acc_rent_epoch :: u64

datatype ui_token_account = UiTokenAccount json
datatype token_account_type =
  TokenAccount ui_token_account | TokenMint json | TokenMultisig json

datatype transaction_confirmation_status = StatusProcessed | StatusConfirmed | StatusFinalized

text \<open>\<open>TransactionResult<()>\<close> is \<open>transaction_error + unit\<close>.\<close>

record transaction_status =
  ts_slot :: slot
  ts_confirmations :: "usize option"
  ts_status :: "transaction_error + unit"
  ts_err :: "transaction_error option"
  ts_confirmation_status :: "transaction_confirmation_status option"

datatype ui_inner_instructions = UiInnerInstructions json
datatype ui_return_data = UiReturnData json
datatype ui_confirmed_block = UiConfirmedBlock json
datatype ui_token_amount = UiTokenAmount "(string \<times> json) list"
datatype fee_calculator = FeeCalculator json
datatype fee_rate_governor = FeeRateGovernor json

text \<open>\<open>SocketAddr\<close> is the text it is displayed as.\<close>

datatype socket_addr = SocketAddr string

record inflation =
  infl_initial :: f64
  infl_terminal :: f64
  infl_taper :: f64
  infl_foundation :: f64
  infl_foundation_term :: f64

section \<open>Responses with and without a context\<close>

datatype rpc_api_version = RpcApiVersion string

text \<open>
  \<open>impl Deref for RpcApiVersion\<close>, and \<open>impl Default\<close>: the version of the crate
  \<open>solana_version\<close> as a semantic version.
\<close>

fun deref_api_version :: "rpc_api_version \<Rightarrow> string" where
  "deref_api_version (RpcApiVersion v) = v"

definition default_api_version :: "string \<Rightarrow> rpc_api_version" where
  "default_api_version solana_version = RpcApiVersion solana_version"

record rpc_response_context =
  ctx_slot :: slot
  ctx_api_version :: "rpc_api_version option"

text \<open>\<open>RpcResponseContext::new\<close>: the default version is that of the crate \<open>solana_version\<close>.\<close>

definition response_context_new :: "string \<Rightarrow> slot \<Rightarrow> rpc_response_context" where
  "response_context_new solana_version s =
     \<lparr>ctx_slot = s, ctx_api_version = Some (default_api_version solana_version)\<rparr>"

text \<open>\<open>RpcApiVersion\<close> reads a string and parses it as a semantic version.\<close>

definition de_rpc_api_version ::
  "(json \<Rightarrow> serde_error + string) \<Rightarrow> (string \<Rightarrow> serde_error + string) \<Rightarrow> json
     \<Rightarrow> serde_error + rpc_api_version" where
  "de_rpc_api_version de_string version_from_str j =
     and_then (\<lambda>s. map_ok RpcApiVersion (version_from_str s)) (de_string j)"

fun ser_rpc_api_version :: "rpc_api_version \<Rightarrow> json" where
  "ser_rpc_api_version (RpcApiVersion s) = JString s"

text \<open>\<open>skip_serializing_if = "Option::is_none"\<close> leaves the member out.\<close>

definition members_response_context :: "rpc_response_context \<Rightarrow> (string \<times> json) list" where
  "members_response_context c =
     (''slot'', ser_u64 (ctx_slot c)) #
     (case ctx_api_version c of None \<Rightarrow> [] | Some v \<Rightarrow> [(''apiVersion'', ser_rpc_api_version v)])"

record 't response =
  rsp_context :: rpc_response_context
  rsp_value :: 't

datatype 't optional_context = Context "'t response" | NoContext 't

text \<open>\<open>OptionalContext::parse_value\<close>.\<close>

fun parse_value :: "'t optional_context \<Rightarrow> 't" where
  "parse_value (Context response) = rsp_value response"
| "parse_value (NoContext value) = value"

text \<open>
  \<open>#[serde(untagged)]\<close>: the variants are tried in order, the first that reads the value wins,
  and an error of its own where none does.
\<close>

definition de_optional_context ::
  "(json \<Rightarrow> serde_error + 't response) \<Rightarrow> (json \<Rightarrow> serde_error + 't) \<Rightarrow> serde_error
     \<Rightarrow> json \<Rightarrow> serde_error + 't optional_context" where
  "de_optional_context de_response de_value no_variant j = (case de_response j of
       Inr r \<Rightarrow> Inr (Context r)
     | Inl _ \<Rightarrow> (case de_value j of
         Inr v \<Rightarrow> Inr (NoContext v)
       | Inl _ \<Rightarrow> Inl no_variant))"

section \<open>Response bodies the client looks into\<close>

record rpc_blockhash =
  bh_blockhash :: string
  bh_last_valid_block_height :: u64

record rpc_keyed_account =
  ka_pubkey :: string
  ka_account :: ui_account

record rpc_identity =
  id_identity :: string

record rpc_vote_account_info =
  va_vote_pubkey :: string
  va_node_pubkey :: string
  va_activated_stake :: u64
  va_commission :: u8
  va_epoch_vote_account :: bool
  va_epoch_credits :: "(epoch \<times> u64 \<times> u64) list"
  va_last_vote :: u64
  va_root_slot :: slot

record rpc_vote_account_status =
  vs_current :: "rpc_vote_account_info list"
  vs_delinquent :: "rpc_vote_account_info list"

record rpc_simulate_transaction_result =
  sim_err :: "transaction_error option"
  sim_logs :: "string list option"
  sim_accounts :: "ui_account option list option"
  sim_units_consumed :: "u64 option"
  sim_return_data :: "ui_return_data option"
  sim_inner_instructions :: "ui_inner_instructions list option"
  sim_replacement_blockhash :: "rpc_blockhash option"

record rpc_snapshot_slot_info =
  sn_full :: slot
  sn_incremental :: "slot option"

section \<open>Fees and inflation\<close>

record 't rpc_block_commitment =
  bc_commitment :: "'t option"
  bc_total_stake :: u64

record rpc_blockhash_fee_calculator =
  bfc_blockhash :: string
  bfc_fee_calculator :: fee_calculator

record rpc_fee_calculator =
  rfc_fee_calculator :: fee_calculator

record rpc_fee_rate_governor =
  rfg_fee_rate_governor :: fee_rate_governor

record rpc_inflation_governor =
  ig_initial :: f64
  ig_terminal :: f64
  ig_taper :: f64
  ig_foundation :: f64
  ig_foundation_term :: f64

text \<open>\<open>From<Inflation> for RpcInflationGovernor\<close>.\<close>

definition governor_from_inflation :: "inflation \<Rightarrow> rpc_inflation_governor" where
  "governor_from_inflation inflation = \<lparr>
     ig_initial = infl_initial inflation,
     ig_terminal = infl_terminal inflation,
     ig_taper = infl_taper inflation,
     ig_foundation = infl_foundation inflation,
     ig_foundation_term = infl_foundation_term inflation\<rparr>"

record rpc_inflation_rate =
  ir_total :: f64
  ir_validator :: f64
  ir_foundation :: f64
  ir_epoch :: epoch

record rpc_inflation_reward =
  rew_epoch :: epoch
  rew_effective_slot :: slot
  rew_amount :: u64
  rew_post_balance :: u64
  rew_commission :: "u8 option"

record rpc_prioritization_fee =
  pzf_slot :: slot
  pzf_prioritization_fee :: u64

section \<open>Cluster and blocks\<close>

record slot_info =
  si_slot :: slot
  si_parent :: slot
  si_root :: slot

record rpc_contact_info =
  ci_pubkey :: string
  ci_gossip :: "socket_addr option"
  ci_tvu :: "socket_addr option"
  ci_tpu :: "socket_addr option"
  ci_tpu_quic :: "socket_addr option"
  ci_tpu_forwards :: "socket_addr option"
  ci_tpu_forwards_quic :: "socket_addr option"
  ci_tpu_vote :: "socket_addr option"
  ci_serve_repair :: "socket_addr option"
  ci_rpc :: "socket_addr option"
  ci_pubsub :: "socket_addr option"
  ci_version :: "string option"
  ci_feature_set :: "u32 option"
  ci_shred_version :: "u16 option"

type_synonym rpc_leader_schedule = "usize list hash_map"

record rpc_block_production_range =
  bprg_first_slot :: slot
  bprg_last_slot :: slot

record rpc_block_production =
  bp_by_identity :: "(usize \<times> usize) hash_map"
  bp_range :: rpc_block_production_range

record rpc_vote =
  vt_vote_pubkey :: string
  vt_slots :: "slot list"
  vt_hash :: string
  vt_timestamp :: "unix_timestamp option"
  vt_signature :: string

record rpc_perf_sample =
  pf_slot :: slot
  pf_num_transactions :: u64
  pf_num_non_vote_transactions :: "u64 option"
  pf_num_slots :: u64
  pf_sample_period_secs :: u16

record rpc_storage_turn =
  stn_blockhash :: string
  stn_slot :: slot

datatype stake_activation_state = Activating | Active | Deactivating | Inactive

datatype rpc_block_update_error = BlockStoreError | UnsupportedTransactionVersion u8

fun show_block_update_error :: "rpc_block_update_error \<Rightarrow> string" where
  "show_block_update_error BlockStoreError = ''block store error''"
| "show_block_update_error (UnsupportedTransactionVersion v) =
     ''unsupported transaction version ('' @ nat_str (unat v) @ '')''"

record rpc_block_update =
  bu_slot :: slot
  bu_block :: "ui_confirmed_block option"
  bu_err :: "rpc_block_update_error option"

section \<open>Signatures and balances\<close>

record processed_signature_result =
  psr_err :: "transaction_error option"

datatype received_signature_result = SignatureReceived

datatype rpc_signature_result =
    ProcessedSignature processed_signature_result
  | ReceivedSignature received_signature_result

record rpc_logs_response =
  lr_signature :: string
  lr_err :: "transaction_error option"
  lr_logs :: "string list"

record rpc_signature_confirmation =
  scf_confirmations :: usize
  scf_status :: "transaction_error + unit"

record rpc_account_balance =
  ab_address :: string
  ab_lamports :: u64

record rpc_supply =
  sup_total :: u64
  sup_circulating :: u64
  sup_non_circulating :: u64
  sup_non_circulating_accounts :: "string list"

record rpc_token_account_balance =
  tab_address :: string
  tab_amount :: ui_token_amount

section \<open>Slot updates\<close>

record slot_transaction_stats =
  st_num_transaction_entries :: u64
  st_num_successful_transactions :: u64
  st_num_failed_transactions :: u64
  st_max_transactions_per_entry :: u64

text \<open>The arguments are in the order of the fields: slot, (parent,) timestamp, (the rest).\<close>

datatype slot_update =
    FirstShredReceived slot u64
  | Completed slot u64
  | CreatedBank slot slot u64
  | Frozen slot u64 slot_transaction_stats
  | Dead slot u64 string
  | OptimisticConfirmation slot u64
  | Root slot u64

fun slot_update_slot :: "slot_update \<Rightarrow> slot" where
  "slot_update_slot (FirstShredReceived slot _) = slot"
| "slot_update_slot (Completed slot _) = slot"
| "slot_update_slot (CreatedBank slot _ _) = slot"
| "slot_update_slot (Frozen slot _ _) = slot"
| "slot_update_slot (Dead slot _ _) = slot"
| "slot_update_slot (OptimisticConfirmation slot _) = slot"
| "slot_update_slot (Root slot _) = slot"

section \<open>Version and history entries\<close>

record rpc_version_info =
  vi_solana_core :: string
  vi_feature_set :: "u32 option"

text \<open>
  ASCII white space, on which \<open>str::split_whitespace\<close> splits: its first item is what is left
  of the string after leading white space and up to the next.
\<close>

definition is_ascii_space :: "char \<Rightarrow> bool" where
  "is_ascii_space c \<longleftrightarrow> of_char c = (32::nat) \<or> (9 \<le> (of_char c :: nat) \<and> of_char c \<le> (13::nat))"

definition first_word :: "string \<Rightarrow> string option" where
  "first_word s =
     (case takeWhile (\<lambda>c. \<not> is_ascii_space c) (dropWhile is_ascii_space s) of
        [] \<Rightarrow> None | w \<Rightarrow> Some w)"

text \<open>\<open>impl fmt::Debug for RpcVersionInfo\<close>: the whole text of the node.\<close>

definition debug_version_info :: "rpc_version_info \<Rightarrow> string" where
  "debug_version_info v = vi_solana_core v"

text \<open>\<open>impl fmt::Display for RpcVersionInfo\<close>.\<close>

definition show_version_info :: "rpc_version_info \<Rightarrow> string" where
  "show_version_info v = (case first_word (vi_solana_core v) of
       Some version \<Rightarrow> version
     | None \<Rightarrow> vi_solana_core v)"

record confirmed_transaction_status =
  ct_signature :: signature
  ct_slot :: slot
  ct_err :: "transaction_error option"
  ct_memo :: "string option"
  ct_block_time :: "unix_timestamp option"

record rpc_confirmed_transaction_status =
  rct_signature :: string
  rct_slot :: slot
  rct_err :: "transaction_error option"
  rct_memo :: "string option"
  rct_block_time :: "unix_timestamp option"
  rct_confirmation_status :: "transaction_confirmation_status option"

definition rpc_confirmed_from ::
  "(signature \<Rightarrow> string) \<Rightarrow> confirmed_transaction_status \<Rightarrow> rpc_confirmed_transaction_status" where
  "rpc_confirmed_from sig_str v = \<lparr>
     rct_signature = sig_str (ct_signature v),
     rct_slot = ct_slot v,
     rct_err = ct_err v,
     rct_memo = ct_memo v,
     rct_block_time = ct_block_time v,
     rct_confirmation_status = None\<rparr>"

section \<open>Facts\<close>

interpretation response_context: wire_struct members_response_context
  by unfold_locales (auto simp: members_response_context_def split: option.split)

lemma parse_value_of_optional:
  "de_optional_context de_r de_v e j = Inr oc \<Longrightarrow>
     (\<exists>r. de_r j = Inr r \<and> parse_value oc = rsp_value r) \<or>
     (\<exists>err. de_r j = Inl err) \<and> de_v j = Inr (parse_value oc)"
  by (auto simp: de_optional_context_def split: sum.splits)

lemma first_word_nonspace:
  "first_word s = Some w \<Longrightarrow> w \<noteq> [] \<and> (\<forall>c \<in> set w. \<not> is_ascii_space c)"
  by (auto simp: first_word_def split: list.splits)
    (metis list.set_intros set_takeWhileD)+

lemma first_word_None: "first_word s = None \<longleftrightarrow> (\<forall>c \<in> set s. is_ascii_space c)"
proof -
  have "first_word s = None \<longleftrightarrow> dropWhile is_ascii_space s = []"
  proof (cases "dropWhile is_ascii_space s")
    case Nil
    show ?thesis unfolding first_word_def Nil by simp
  next
    case (Cons c cs)
    then have "\<not> is_ascii_space c" by (simp add: dropWhile_eq_Cons_conv)
    with Cons show ?thesis by (simp add: first_word_def)
  qed
  then show ?thesis by (simp add: dropWhile_eq_Nil_conv)
qed

section \<open>Properties\<close>

text \<open>
  The displayed version of a node is the first word of its version
  string, without white space, and the whole string only where it is blank.
\<close>

theorem version_shows_first_word:
  "(if \<forall>c \<in> set (vi_solana_core v). is_ascii_space c
    then show_version_info v = vi_solana_core v
    else (\<exists>pre post. vi_solana_core v = pre @ show_version_info v @ post \<and>
        (\<forall>c \<in> set pre. is_ascii_space c) \<and> show_version_info v \<noteq> [] \<and>
        (\<forall>c \<in> set (show_version_info v). \<not> is_ascii_space c) \<and>
        (post = [] \<or> is_ascii_space (hd post))))"
proof (cases "\<forall>c \<in> set (vi_solana_core v). is_ascii_space c")
  case True
  then have "first_word (vi_solana_core v) = None" by (simp add: first_word_None)
  with True show ?thesis by (simp add: show_version_info_def)
next
  case False
  let ?s = "vi_solana_core v" and ?p = "\<lambda>c. \<not> is_ascii_space c"
  from False obtain word where s: "first_word ?s = Some word"
    by (cases "first_word ?s") (auto simp: first_word_None)
  then have word: "word = takeWhile ?p (dropWhile is_ascii_space ?s)"
    by (auto simp: first_word_def split: list.splits)
  let ?pre = "takeWhile is_ascii_space ?s" and ?post = "dropWhile ?p (dropWhile is_ascii_space ?s)"
  have "?s = ?pre @ word @ ?post" unfolding word by simp
  moreover have "\<forall>c \<in> set ?pre. is_ascii_space c" by (auto dest: set_takeWhileD)
  moreover have "?post = [] \<or> is_ascii_space (hd ?post)" using hd_dropWhile [of ?p] by blast
  ultimately have "\<exists>pre post. ?s = pre @ word @ post \<and> (\<forall>c \<in> set pre. is_ascii_space c) \<and>
      (post = [] \<or> is_ascii_space (hd post))" by blast
  with False s first_word_nonspace [OF s] show ?thesis by (auto simp: show_version_info_def)
qed

lemma version_shows_first_word_witness:
  "show_version_info \<lparr>vi_solana_core = ''2.2.1 (src)'', vi_feature_set = None\<rparr> \<noteq> []"
proof -
  have "\<not> (\<forall>c \<in> set ''2.2.1 (src)''. is_ascii_space c)"
    by (simp add: is_ascii_space_def)
  with version_shows_first_word [of "\<lparr>vi_solana_core = ''2.2.1 (src)'', vi_feature_set = None\<rparr>"]
  show ?thesis by auto
qed

end
