(* ===== verification/Zela_Request.thy ===== *)
theory Zela_Request
  imports Zela_Response
begin

text \<open>
  \<open>src/rpc_client/request.rs\<close>: the requests, the method names they are sent under, the
  JSON-RPC envelope, and the errors of the protocol with their texts.
\<close>

section \<open>Requests\<close>

datatype rpc_request =
    CustomRequest string
  | DeregisterNode
  | GetAccountInfo
  | GetBalance
  | GetBlock
  | GetBlockHeight
  | GetBlockProduction
  | GetBlocks
  | GetBlocksWithLimit
  | GetBlockTime
  | GetClusterNodes
  | GetEpochInfo
  | GetEpochSchedule
  | GetFeeForMessage
  | GetFirstAvailableBlock
  | GetGenesisHash
  | GetHealth
  | GetIdentity
  | GetInflationGovernor
  | GetInflationRate
  | GetInflationReward
  | GetLargestAccounts
  | GetLatestBlockhash
  | GetLeaderSchedule
  | GetMaxRetransmitSlot
  | GetMaxShredInsertSlot
  | GetMinimumBalanceForRentExemption
  | GetMultipleAccounts
  | GetProgramAccounts
  | GetRecentPerformanceSamples
  | GetRecentPrioritizationFees
  | GetHighestSnapshotSlot
  | GetSignaturesForAddress
  | GetSignatureStatuses
  | GetSlot
  | GetSlotLeader
  | GetSlotLeaders
  | GetStorageTurn
  | GetStorageTurnRate
  | GetSlotsPerSegment
  | GetStakeMinimumDelegation
  | GetStoragePubkeysForSlot
  | GetSupply
  | GetTokenAccountBalance
  | GetTokenAccountsByDelegate
  | GetTokenAccountsByOwner
  | GetTokenLargestAccounts
  | GetTokenSupply
  | GetTransaction
  | GetTransactionCount
  | GetVersion
  | GetVoteAccounts
  | IsBlockhashValid
  | MinimumLedgerSlot
  | RegisterNode
  | RequestAirdrop
  | SendTransaction
  | SimulateTransaction
  | SignVote

text \<open>\<open>impl fmt::Display for RpcRequest\<close>.\<close>

primrec method_name :: "rpc_request \<Rightarrow> string" where
  "method_name (CustomRequest method) = method"
| "method_name DeregisterNode = ''deregisterNode''"
| "method_name GetAccountInfo = ''getAccountInfo''"
| "method_name GetBalance = ''getBalance''"
| "method_name GetBlock = ''getBlock''"
| "method_name GetBlockHeight = ''getBlockHeight''"
| "method_name GetBlockProduction = ''getBlockProduction''"
| "method_name GetBlocks = ''getBlocks''"
| "method_name GetBlocksWithLimit = ''getBlocksWithLimit''"
| "method_name GetBlockTime = ''getBlockTime''"
| "method_name GetClusterNodes = ''getClusterNodes''"
| "method_name GetEpochInfo = ''getEpochInfo''"
| "method_name GetEpochSchedule = ''getEpochSchedule''"
| "method_name GetFeeForMessage = ''getFeeForMessage''"
| "method_name GetFirstAvailableBlock = ''getFirstAvailableBlock''"
| "method_name GetGenesisHash = ''getGenesisHash''"
| "method_name GetHealth = ''getHealth''"
| "method_name GetIdentity = ''getIdentity''"
| "method_name GetInflationGovernor = ''getInflationGovernor''"
| "method_name GetInflationRate = ''getInflationRate''"
| "method_name GetInflationReward = ''getInflationReward''"
| "method_name GetLargestAccounts = ''getLargestAccounts''"
| "method_name GetLatestBlockhash = ''getLatestBlockhash''"
| "method_name GetLeaderSchedule = ''getLeaderSchedule''"
| "method_name GetMaxRetransmitSlot = ''getMaxRetransmitSlot''"
| "method_name GetMaxShredInsertSlot = ''getMaxShredInsertSlot''"
| "method_name GetMinimumBalanceForRentExemption = ''getMinimumBalanceForRentExemption''"
| "method_name GetMultipleAccounts = ''getMultipleAccounts''"
| "method_name GetProgramAccounts = ''getProgramAccounts''"
| "method_name GetRecentPerformanceSamples = ''getRecentPerformanceSamples''"
| "method_name GetRecentPrioritizationFees = ''getRecentPrioritizationFees''"
| "method_name GetHighestSnapshotSlot = ''getHighestSnapshotSlot''"
| "method_name GetSignaturesForAddress = ''getSignaturesForAddress''"
| "method_name GetSignatureStatuses = ''getSignatureStatuses''"
| "method_name GetSlot = ''getSlot''"
| "method_name GetSlotLeader = ''getSlotLeader''"
| "method_name GetSlotLeaders = ''getSlotLeaders''"
| "method_name GetStakeMinimumDelegation = ''getStakeMinimumDelegation''"
| "method_name GetStorageTurn = ''getStorageTurn''"
| "method_name GetStorageTurnRate = ''getStorageTurnRate''"
| "method_name GetSlotsPerSegment = ''getSlotsPerSegment''"
| "method_name GetStoragePubkeysForSlot = ''getStoragePubkeysForSlot''"
| "method_name GetSupply = ''getSupply''"
| "method_name GetTokenAccountBalance = ''getTokenAccountBalance''"
| "method_name GetTokenAccountsByDelegate = ''getTokenAccountsByDelegate''"
| "method_name GetTokenAccountsByOwner = ''getTokenAccountsByOwner''"
| "method_name GetTokenSupply = ''getTokenSupply''"
| "method_name GetTokenLargestAccounts = ''getTokenLargestAccounts''"
| "method_name GetTransaction = ''getTransaction''"
| "method_name GetTransactionCount = ''getTransactionCount''"
| "method_name GetVersion = ''getVersion''"
| "method_name GetVoteAccounts = ''getVoteAccounts''"
| "method_name IsBlockhashValid = ''isBlockhashValid''"
| "method_name MinimumLedgerSlot = ''minimumLedgerSlot''"
| "method_name RegisterNode = ''registerNode''"
| "method_name RequestAirdrop = ''requestAirdrop''"
| "method_name SendTransaction = ''sendTransaction''"
| "method_name SimulateTransaction = ''simulateTransaction''"
| "method_name SignVote = ''signVote''"

text \<open>Every request but the custom ones, in the order of the enum.\<close>

definition builtin_requests :: "rpc_request list" where
  "builtin_requests = [
     DeregisterNode, GetAccountInfo, GetBalance, GetBlock, GetBlockHeight,
     GetBlockProduction, GetBlocks, GetBlocksWithLimit, GetBlockTime, GetClusterNodes,
     GetEpochInfo, GetEpochSchedule, GetFeeForMessage, GetFirstAvailableBlock,
     GetGenesisHash, GetHealth, GetIdentity, GetInflationGovernor, GetInflationRate,
     GetInflationReward, GetLargestAccounts, GetLatestBlockhash, GetLeaderSchedule,
     GetMaxRetransmitSlot, GetMaxShredInsertSlot, GetMinimumBalanceForRentExemption,
     GetMultipleAccounts, GetProgramAccounts, GetRecentPerformanceSamples,
     GetRecentPrioritizationFees, GetHighestSnapshotSlot, GetSignaturesForAddress,
     GetSignatureStatuses, GetSlot, GetSlotLeader, GetSlotLeaders, GetStorageTurn,
     GetStorageTurnRate, GetSlotsPerSegment, GetStakeMinimumDelegation,
     GetStoragePubkeysForSlot, GetSupply, GetTokenAccountBalance,
     GetTokenAccountsByDelegate, GetTokenAccountsByOwner, GetTokenLargestAccounts,
     GetTokenSupply, GetTransaction, GetTransactionCount, GetVersion, GetVoteAccounts,
     IsBlockhashValid, MinimumLedgerSlot, RegisterNode, RequestAirdrop, SendTransaction,
     SimulateTransaction, SignVote]"

definition is_custom :: "rpc_request \<Rightarrow> bool" where
  "is_custom r \<longleftrightarrow> (case r of CustomRequest _ \<Rightarrow> True | _ \<Rightarrow> False)"

text \<open>\<open>RpcRequest::build_request_json\<close>.\<close>

definition build_request_json :: "rpc_request \<Rightarrow> u64 \<Rightarrow> json \<Rightarrow> json" where
  "build_request_json self i params = JObject [
     (''jsonrpc'', JString ''2.0''),
     (''id'', ser_u64 i),
     (''method'', JString (method_name self)),
     (''params'', params)]"

section \<open>Errors of the protocol\<close>

datatype rpc_response_error_data =
    EmptyData
  | SendTransactionPreflightFailure rpc_simulate_transaction_result
  | NodeUnhealthy "slot option"

text \<open>The enum \<open>RpcError\<close> of this file, exported as \<open>ClientRpcError\<close>.\<close>

datatype client_rpc_error =
    RpcRequestError string
  | RpcResponseError i64 string rpc_response_error_data
  | ParseError string
  | ForUser string

definition newline :: string where
  "newline = [CHR 0x0A]"

text \<open>\<open>impl fmt::Display for RpcResponseErrorData\<close>: the logs of a failed preflight check.\<close>

definition show_error_data :: "rpc_response_error_data \<Rightarrow> string" where
  "show_error_data d = (case d of
       SendTransactionPreflightFailure r \<Rightarrow> (case sim_logs r of
           Some logs \<Rightarrow>
             (if logs \<noteq> [] then
                nat_str (length logs) @ '' log messages:'' @ newline @
                concat (map (\<lambda>log. ''  '' @ log @ newline) logs)
              else [])
         | None \<Rightarrow> [])
     | _ \<Rightarrow> [])"

fun show_client_rpc_error :: "client_rpc_error \<Rightarrow> string" where
  "show_client_rpc_error (RpcRequestError s) = ''RPC request error: '' @ s"
| "show_client_rpc_error (RpcResponseError code message data) =
     ''RPC response error '' @ int_str (sint code) @ '': '' @ message @ ''; '' @ show_error_data data"
| "show_client_rpc_error (ParseError s) = ''parse error: expected '' @ s"
| "show_client_rpc_error (ForUser s) = s"

datatype token_accounts_filter = MintFilter pubkey | ProgramIdFilter pubkey

section \<open>Facts\<close>

lemma builtin_requests_complete: "r \<in> set builtin_requests \<longleftrightarrow> \<not> is_custom r"
  by (cases r) (simp_all add: builtin_requests_def is_custom_def)

lemma distinct_builtin_names: "distinct (map method_name builtin_requests)"
  unfolding builtin_requests_def by code_simp

lemma method_name_inj: "inj_on method_name {r. \<not> is_custom r}"
proof -
  have "{r. \<not> is_custom r} = set builtin_requests"
    using builtin_requests_complete by blast
  with distinct_builtin_names show ?thesis by (simp add: distinct_map)
qed

section \<open>Properties\<close>

text \<open>
  No two requests but custom ones are sent under the same method name:
  the names tell the requests of the enum apart, and the enum is listed completely.
\<close>

theorem method_names_injective:
  "inj_on method_name {r. \<not> is_custom r} \<and> {r. \<not> is_custom r} = set builtin_requests"
  using method_name_inj builtin_requests_complete by blast

end
