(* ===== verification/Zela_Error.thy ===== *)
theory Zela_Error
  imports Zela_Request
begin

text \<open>
  \<open>src/rpc_client/error.rs\<close>: the error of every client method, its request tag, the
  conversions into and out of it, and the conversion to \<open>RpcError\<close> in \<open>src/lib.rs\<close>.
\<close>

section \<open>Error kinds and errors\<close>

datatype client_error_kind =
    IoKind io_error
  | RpcErrorKind client_rpc_error
  | SerdeJsonKind serde_error
  | SigningErrorKind signer_error
  | TransactionErrorKind transaction_error
  | CustomKind string

record client_error =
  err_request :: "rpc_request option"
  err_kind :: client_error_kind

type_synonym 'a client_result = "client_error + 'a"

datatype transport_error =
    TransportIoError io_error
  | TransportTransactionError transaction_error
  | TransportCustom string

text \<open>\<open>ErrorKind::get_transaction_error\<close>.\<close>

fun kind_transaction_error :: "client_error_kind \<Rightarrow> transaction_error option" where
  "kind_transaction_error
     (RpcErrorKind (RpcResponseError _ _ (SendTransactionPreflightFailure v))) =
     (case sim_err v of Some tx_err \<Rightarrow> Some tx_err | None \<Rightarrow> None)"
| "kind_transaction_error (TransactionErrorKind tx_err) = Some tx_err"
| "kind_transaction_error _ = None"

definition get_transaction_error :: "client_error \<Rightarrow> transaction_error option" where
  "get_transaction_error e = kind_transaction_error (err_kind e)"

definition new_with_request :: "client_error_kind \<Rightarrow> rpc_request \<Rightarrow> client_error" where
  "new_with_request kind request = \<lparr>err_request = Some request, err_kind = kind\<rparr>"

definition into_with_request :: "client_error \<Rightarrow> rpc_request \<Rightarrow> client_error" where
  "into_with_request self request = self\<lparr>err_request := Some request\<rparr>"

text \<open>The accessors \<open>request\<close> and \<open>kind\<close> of the two fields.\<close>

definition error_request :: "client_error \<Rightarrow> rpc_request option" where
  "error_request self = err_request self"

definition error_kind :: "client_error \<Rightarrow> client_error_kind" where
  "error_kind self = err_kind self"

section \<open>Conversions\<close>

text \<open>Each of the \<open>From\<close> instances into \<open>Error\<close> leaves the request empty.\<close>

definition error_from_kind :: "client_error_kind \<Rightarrow> client_error" where
  "error_from_kind kind = \<lparr>err_request = None, err_kind = kind\<rparr>"

fun kind_from_transport :: "transport_error \<Rightarrow> client_error_kind" where
  "kind_from_transport (TransportIoError err) = IoKind err"
| "kind_from_transport (TransportTransactionError err) = TransactionErrorKind err"
| "kind_from_transport (TransportCustom err) = CustomKind err"

definition error_from_transport :: "transport_error \<Rightarrow> client_error" where
  "error_from_transport err = \<lparr>err_request = None, err_kind = kind_from_transport err\<rparr>"

definition error_from_io :: "io_error \<Rightarrow> client_error" where
  "error_from_io err = \<lparr>err_request = None, err_kind = IoKind err\<rparr>"

definition error_from_rpc :: "client_rpc_error \<Rightarrow> client_error" where
  "error_from_rpc err = \<lparr>err_request = None, err_kind = RpcErrorKind err\<rparr>"

definition error_from_serde :: "serde_error \<Rightarrow> client_error" where
  "error_from_serde err = \<lparr>err_request = None, err_kind = SerdeJsonKind err\<rparr>"

definition error_from_signer :: "signer_error \<Rightarrow> client_error" where
  "error_from_signer err = \<lparr>err_request = None, err_kind = SigningErrorKind err\<rparr>"

definition error_from_transaction :: "transaction_error \<Rightarrow> client_error" where
  "error_from_transaction err = \<lparr>err_request = None, err_kind = TransactionErrorKind err\<rparr>"

text \<open>
  The texts of foreign types: the \<open>Display\<close> of the two Solana errors, and the \<open>Debug\<close>
  texts \<open>{err:?}\<close> of the payloads.
\<close>

record error_texts =
  show_signer_error :: "signer_error \<Rightarrow> string"
  show_transaction_error :: "transaction_error \<Rightarrow> string"
  dbg_rpc_error :: "client_rpc_error \<Rightarrow> string"
  dbg_serde_error :: "serde_error \<Rightarrow> string"
  dbg_signer_error :: "signer_error \<Rightarrow> string"
  dbg_string :: "string \<Rightarrow> string"

fun transport_from_kind :: "error_texts \<Rightarrow> client_error_kind \<Rightarrow> transport_error" where
  "transport_from_kind T (IoKind err) = TransportIoError err"
| "transport_from_kind T (TransactionErrorKind err) = TransportTransactionError err"
| "transport_from_kind T (RpcErrorKind err) = TransportCustom (dbg_rpc_error T err)"
| "transport_from_kind T (SerdeJsonKind err) = TransportCustom (dbg_serde_error T err)"
| "transport_from_kind T (SigningErrorKind err) = TransportCustom (dbg_signer_error T err)"
| "transport_from_kind T (CustomKind err) = TransportCustom (dbg_string T err)"

definition transport_from_error :: "error_texts \<Rightarrow> client_error \<Rightarrow> transport_error" where
  "transport_from_error T client_error = transport_from_kind T (err_kind client_error)"

text \<open>\<open>Display\<close>: transparent for all kinds but the custom one; an error shows its kind.\<close>

fun show_error_kind :: "(io_error \<Rightarrow> string) \<Rightarrow> error_texts \<Rightarrow> client_error_kind \<Rightarrow> string" where
  "show_error_kind show_io T (IoKind err) = show_io err"
| "show_error_kind show_io T (RpcErrorKind err) = show_client_rpc_error err"
| "show_error_kind show_io T (SerdeJsonKind err) = serde_message err"
| "show_error_kind show_io T (SigningErrorKind err) = show_signer_error T err"
| "show_error_kind show_io T (TransactionErrorKind err) = show_transaction_error T err"
| "show_error_kind show_io T (CustomKind s) = ''Custom: '' @ s"

definition show_client_error :: "(io_error \<Rightarrow> string) \<Rightarrow> error_texts \<Rightarrow> client_error \<Rightarrow> string" where
  "show_client_error show_io T e = show_error_kind show_io T (err_kind e)"

text \<open>\<open>impl<T> From<ClientError> for RpcError<T>\<close>.\<close>

definition rpc_error_from_client ::
  "(io_error \<Rightarrow> string) \<Rightarrow> error_texts \<Rightarrow> client_error \<Rightarrow> 'e rpc_error" where
  "rpc_error_from_client show_io T value =
     \<lparr>re_code = 500, re_message = show_client_error show_io T value, re_data = None\<rparr>"

section \<open>Facts\<close>

text \<open>
  The contract of a conversion \<open>From<E> for Error\<close>, on which every \<open>?\<close> of the client
  rests: it loses nothing of the error and claims no request.
\<close>

locale error_source =
  fixes into :: "'e \<Rightarrow> client_error" and kind :: "'e \<Rightarrow> client_error_kind"
  assumes no_request: "err_request (into e) = None"
    and keeps_kind: "err_kind (into e) = kind e"
begin

lemma tagged: "into_with_request (into e) req = new_with_request (kind e) req"
  by (simp add: into_with_request_def new_with_request_def no_request keeps_kind)

lemma transaction_error_of: "get_transaction_error (into e) = kind_transaction_error (kind e)"
  by (simp add: get_transaction_error_def keeps_kind)

lemma into_eq: "into e = error_from_kind (kind e)"
  by (rule client_error.equality) (simp_all add: error_from_kind_def no_request keeps_kind)

end

interpretation from_kind: error_source error_from_kind "\<lambda>k. k"
  by unfold_locales (simp_all add: error_from_kind_def)

interpretation from_transport: error_source error_from_transport kind_from_transport
  by unfold_locales (simp_all add: error_from_transport_def)

interpretation from_io: error_source error_from_io IoKind
  by unfold_locales (simp_all add: error_from_io_def)

interpretation from_rpc: error_source error_from_rpc RpcErrorKind
  by unfold_locales (simp_all add: error_from_rpc_def)

interpretation from_serde: error_source error_from_serde SerdeJsonKind
  by unfold_locales (simp_all add: error_from_serde_def)

interpretation from_signer: error_source error_from_signer SigningErrorKind
  by unfold_locales (simp_all add: error_from_signer_def)

interpretation from_transaction: error_source error_from_transaction TransactionErrorKind
  by unfold_locales (simp_all add: error_from_transaction_def)

lemma new_with_request_sel [simp]:
  "err_request (new_with_request k r) = Some r" "err_kind (new_with_request k r) = k"
  by (simp_all add: new_with_request_def)

lemma into_with_request_sel [simp]:
  "err_request (into_with_request e r) = Some r" "err_kind (into_with_request e r) = err_kind e"
  by (simp_all add: into_with_request_def)

lemma into_with_request_id: "err_request e = Some r \<Longrightarrow> into_with_request e r = e"
  by (simp add: into_with_request_def)

lemma kind_transaction_error_iff:
  "kind_transaction_error k = Some t \<longleftrightarrow>
     k = TransactionErrorKind t \<or>
     (\<exists>c m v. k = RpcErrorKind (RpcResponseError c m (SendTransactionPreflightFailure v))
        \<and> sim_err v = Some t)"
  by (cases k rule: kind_transaction_error.cases) (auto split: option.splits)

text \<open>
  The transaction error of a client error is there exactly for the two
  kinds that carry one: a transaction error, and a failed preflight simulation whose \<open>err\<close> is
  set; the request tag and re-tagging never change it.
\<close>

lemma transaction_error_of_error:
  "(get_transaction_error e = Some t \<longleftrightarrow>
      err_kind e = TransactionErrorKind t \<or>
      (\<exists>c m v. err_kind e = RpcErrorKind (RpcResponseError c m (SendTransactionPreflightFailure v))
         \<and> sim_err v = Some t)) \<and>
   get_transaction_error (into_with_request e req) = get_transaction_error e"
  by (simp add: get_transaction_error_def kind_transaction_error_iff)

section \<open>Properties\<close>

text \<open>
  A transport error turned into a client error and back is the same error,
  except that the text of a custom error comes back as its \<open>Debug\<close> form, in quotes.
\<close>

theorem transport_round_trip:
  "transport_from_error T (error_from_transport t) =
     (case t of TransportCustom s \<Rightarrow> TransportCustom (dbg_string T s) | _ \<Rightarrow> t)"
  by (cases t) (simp_all add: transport_from_error_def error_from_transport_def)

end
