(* ===== verification/Zela_Env.thy ===== *)
theory Zela_Env
  imports Zela_Error
begin

text \<open>
  The functions of the crates the client links against, added to the host of \<open>Zela_Host\<close>:
  text encodings, the Solana types' texts, parsers and wire names, account decoding, and the
  \<open>Debug\<close> texts that reach log lines and messages. They are arguments of the model.
\<close>

datatype bs58_error = Bs58Error string
datatype base64_error = Base64Error string

text \<open>An \<open>f32\<close> is its bit pattern; its operations are those of the target.\<close>

type_synonym f32 = "32 word"

record 'h env = "'h host" +
  \<comment> \<open>bs58, base64\<close>
  bs58_encode :: "u8 list \<Rightarrow> string"
  bs58_decode :: "string \<Rightarrow> bs58_error + u8 list"
  base64_encode :: "u8 list \<Rightarrow> string"
  base64_decode :: "string \<Rightarrow> base64_error + u8 list"
  \<comment> \<open>solana crates: texts and parsers, errors as their text\<close>
  pubkey_to_string :: "pubkey \<Rightarrow> string"
  pubkey_from_str :: "string \<Rightarrow> string + pubkey"
  signature_to_string :: "signature \<Rightarrow> string"
  signature_from_str :: "string \<Rightarrow> string + signature"
  hash_to_string :: "hash \<Rightarrow> string"
  hash_from_str :: "string \<Rightarrow> string + hash"
  default_commitment_level :: commitment_level
  account_decode :: "ui_account \<Rightarrow> account option"
  satisfies_commitment :: "transaction_status \<Rightarrow> commitment_config \<Rightarrow> bool"
  valid_token_account_data :: "u8 list \<Rightarrow> bool"
  max_lockout_history :: usize
  default_ms_per_slot :: u64
  \<comment> \<open>wire names of the unit enums, and the data slice\<close>
  commitment_level_name :: "commitment_level \<Rightarrow> string"
  transaction_encoding_name :: "ui_transaction_encoding \<Rightarrow> string"
  account_encoding_name :: "ui_account_encoding \<Rightarrow> string"
  transaction_details_name :: "transaction_details \<Rightarrow> string"
  ser_data_slice :: "ui_data_slice_config \<Rightarrow> json"
  \<comment> \<open>texts\<close>
  error_texts_of :: error_texts
  show_transaction_encoding :: "ui_transaction_encoding \<Rightarrow> string"
  dbg_pubkey :: "pubkey \<Rightarrow> string"
  dbg_signature :: "signature \<Rightarrow> string"
  dbg_hash :: "hash \<Rightarrow> string"
  dbg_ui_account :: "ui_account option \<Rightarrow> string"
  dbg_balance_result :: "client_error + u64 \<Rightarrow> string"
  dbg_opt_u64 :: "u64 option \<Rightarrow> string"
  dbg_client_error :: "client_error \<Rightarrow> string"
  \<comment> \<open>single precision\<close>
  f32_of_u64 :: "u64 \<Rightarrow> f32"
  f32_mul :: "f32 \<Rightarrow> f32 \<Rightarrow> f32"
  f32_div :: "f32 \<Rightarrow> f32 \<Rightarrow> f32"
  f32_less :: "f32 \<Rightarrow> f32 \<Rightarrow> bool"
  show_f32 :: "f32 \<Rightarrow> string"
  show_f32_1 :: "f32 \<Rightarrow> string"

text \<open>\<open>CommitmentConfig::default()\<close> and \<open>CommitmentConfig::processed()\<close>.\<close>

definition default_commitment :: "'h env \<Rightarrow> commitment_config" where
  "default_commitment E = CommitmentConfig (default_commitment_level E)"

definition processed_commitment :: commitment_config where
  "processed_commitment = CommitmentConfig Processed"

text \<open>A commitment on the wire: its one field, flattened or as an object of its own.\<close>

definition commitment_members :: "'h env \<Rightarrow> commitment_config \<Rightarrow> (string \<times> json) list" where
  "commitment_members E c = [(''commitment'', JString (commitment_level_name E (cc_level c)))]"

definition ser_commitment :: "'h env \<Rightarrow> commitment_config \<Rightarrow> json" where
  "ser_commitment E c = JObject (commitment_members E c)"

definition show_error :: "'h env \<Rightarrow> client_error \<Rightarrow> string" where
  "show_error E = show_client_error (show_io_error E) (error_texts_of E)"

lemma ser_commitment_kinds [simp]:
  "is_object (ser_commitment E c)" "\<not> is_null (ser_commitment E c)"
  by (simp_all add: ser_commitment_def)

end
