(* ===== verification/Zela_Sample.thy ===== *)
theory Zela_Sample
  imports Zela_Env
begin

text \<open>
  A concrete environment in which the witnesses run the model: a host that answers calls
  from a script and keeps the time in nanoseconds, a \<open>serde_json\<close> that reads bytes as an
  array of numbers, and text encodings that keep one character per byte. No definition of
  the model depends on it.
\<close>

type_synonym sample_state = "nat \<times> (u32 + wit_rpc_error + u8 list) list"

definition sample_text :: "u8 list \<Rightarrow> string" where
  "sample_text bs = map (\<lambda>b. char_of (unat b)) bs"

definition sample_bytes :: "string \<Rightarrow> u8 list" where
  "sample_bytes s = map of_char s"

definition sample_error_texts :: error_texts where
  "sample_error_texts = \<lparr>show_signer_error = (\<lambda>_. ''signer''),
     show_transaction_error = (\<lambda>_. ''transaction''), dbg_rpc_error = show_client_rpc_error,
     dbg_serde_error = serde_message, dbg_signer_error = (\<lambda>_. ''signer''),
     dbg_string = (\<lambda>s. [CHR 0x22] @ s @ [CHR 0x22])\<rparr>"

definition sample_env :: "sample_state env" where
  "sample_env = \<lparr>
     h_call_rpc = (\<lambda>m p (t, rs). case rs of [] \<Rightarrow> (Inl 1, (t, [])) | r # rs' \<Rightarrow> (r, (t, rs'))),
     h_subscribe = (\<lambda>m p s. (Inr (Inr (SubscriptionHandle 1)), s)),
     h_recv = (\<lambda>h (t, rs). case rs of Inr (Inr b) # rs' \<Rightarrow> (Inr b, (t, rs')) | _ \<Rightarrow> (Inl 1, (t, rs))),
     h_log = (\<lambda>msg s. s),
     h_now = (\<lambda>(t, rs). (t, (t, rs))),
     h_sleep = (\<lambda>d (t, rs). (t + d, rs)),
     overflow_checks = False,
     json_to_vec = (\<lambda>j. Inr []),
     json_from_slice = (\<lambda>b. Inr (ser_vec ser_u8 b)),
     show_io_error = (\<lambda>e. ''io''),
     bs58_encode = sample_text,
     bs58_decode = (\<lambda>s. if s = ''III'' then Inl (Bs58Error ''I'') else Inr (sample_bytes s)),
     base64_encode = sample_text,
     base64_decode = (\<lambda>s. Inr (sample_bytes s)),
     pubkey_to_string = (\<lambda>(Pubkey b) \<Rightarrow> sample_text b),
     pubkey_from_str = (\<lambda>s. Inr (Pubkey (sample_bytes s))),
     signature_to_string = (\<lambda>(Signature b) \<Rightarrow> sample_text b),
     signature_from_str = (\<lambda>s. Inr (Signature (sample_bytes s))),
     hash_to_string = (\<lambda>(Hash b) \<Rightarrow> sample_text b),
     hash_from_str = (\<lambda>s. Inr (Hash (sample_bytes s))),
     default_commitment_level = Finalized,
     account_decode = (\<lambda>a. Some \<lparr>acc_lamports = ua_lamports a, acc_data = [],
        acc_owner = Pubkey [], acc_executable = ua_executable a,
        acc_rent_epoch = ua_rent_epoch a\<rparr>),
     satisfies_commitment = (\<lambda>st c. True),
     valid_token_account_data = (\<lambda>d. length d = 165),
     max_lockout_history = 31,
     default_ms_per_slot = 400,
     commitment_level_name = (\<lambda>l. case l of
        Processed \<Rightarrow> ''processed'' | Confirmed \<Rightarrow> ''confirmed'' | Finalized \<Rightarrow> ''finalized''),
     transaction_encoding_name = (\<lambda>e. ''encoding''),
     account_encoding_name = (\<lambda>e. ''encoding''),
     transaction_details_name = (\<lambda>d. ''details''),
     ser_data_slice = (\<lambda>d. JNull),
     error_texts_of = sample_error_texts,
     show_transaction_encoding = (\<lambda>e. ''encoding''),
     dbg_pubkey = (\<lambda>p. []), dbg_signature = (\<lambda>s. []), dbg_hash = (\<lambda>h. []),
     dbg_ui_account = (\<lambda>a. []), dbg_balance_result = (\<lambda>r. []), dbg_opt_u64 = (\<lambda>n. []),
     dbg_client_error = (\<lambda>e. []),
     f32_of_u64 = (\<lambda>n. ucast n), f32_mul = (\<lambda>a b. b), f32_div = (\<lambda>a b. a),
     f32_less = (\<lambda>a b. a < b), show_f32 = (\<lambda>a. []), show_f32_1 = (\<lambda>a. [])\<rparr>"

text \<open>A world at time zero whose host gives the answers of the script.\<close>

definition sample_world :: "(u32 + wit_rpc_error + u8 list) list \<Rightarrow> sample_state world" where
  "sample_world rs = \<lparr>hstate = (0, rs), trace = [], init_once = OnceIncomplete, logger = None,
     max_level = FilterOff\<rparr>"

definition sample_reply :: "u8 list \<Rightarrow> u32 + wit_rpc_error + u8 list" where
  "sample_reply b = Inr (Inr b)"

lemma sample_clock: "clock_ok sample_env fst"
  by (auto simp: clock_ok_def sample_env_def split: list.splits sum.splits)

lemma sample_call [simp]:
  "h_call_rpc sample_env m p (t, r # rs) = (r, (t, rs))"
  "h_call_rpc sample_env m p (t, []) = (Inl 1, (t, []))"
  "json_to_vec sample_env j = Inr []"
  "json_from_slice sample_env b = Inr (ser_vec ser_u8 b)"
  by (simp_all add: sample_env_def)

text \<open>The decoders of the witnesses ignore the bytes of the script.\<close>

definition sample_context :: rpc_response_context where
  "sample_context = \<lparr>ctx_slot = 9, ctx_api_version = None\<rparr>"

definition sample_response :: "'a \<Rightarrow> json \<Rightarrow> serde_error + 'a response" where
  "sample_response x = (\<lambda>j. Inr \<lparr>rsp_context = sample_context, rsp_value = x\<rparr>)"

definition sample_account :: ui_account where
  "sample_account = \<lparr>ua_lamports = 5, ua_data = DataLegacyBinary [], ua_owner = [],
     ua_executable = False, ua_rent_epoch = 0, ua_space = None\<rparr>"

definition sample_status :: transaction_status where
  "sample_status = \<lparr>ts_slot = 1, ts_confirmations = None, ts_status = Inr (), ts_err = None,
     ts_confirmation_status = None\<rparr>"

lemma sample_now: "h_now sample_env (t, rs) = (t, (t, rs))"
  by (simp add: sample_env_def)

lemma sample_recv:
  "h_recv sample_env s (t, Inr (Inr b) # rs) = (Inr b, (t, rs))"
  "h_recv sample_env s (t, []) = (Inl 1, (t, []))"
  by (simp_all add: sample_env_def)

end
