(* ===== verification/Zela_Filter.thy ===== *)
theory Zela_Filter
  imports Zela_Sample
begin

text \<open>
  \<open>src/rpc_client/filter.rs\<close>: account filters, their verification, matching against account
  data, conversion to raw bytes, and their form on the wire.
\<close>

section \<open>Types\<close>

definition MAX_DATA_SIZE :: nat where "MAX_DATA_SIZE = 128"
definition MAX_DATA_BASE58_SIZE :: nat where "MAX_DATA_BASE58_SIZE = 175"
definition MAX_DATA_BASE64_SIZE :: nat where "MAX_DATA_BASE64_SIZE = 172"

lemmas max_sizes = MAX_DATA_SIZE_def MAX_DATA_BASE58_SIZE_def MAX_DATA_BASE64_SIZE_def

datatype memcmp_encoded_bytes = Base58 string | Base64 string | Bytes "u8 list"

record memcmp =
  mc_offset :: usize
  mc_bytes :: memcmp_encoded_bytes

datatype rpc_filter_type = DataSize u64 | Memcmp memcmp | TokenAccountState

datatype rpc_filter_error =
    DataTooLarge
  | Base58DecodeError bs58_error
  | Base64DecodeError base64_error

section \<open>Operations of \<open>Memcmp\<close>\<close>

definition memcmp_new :: "usize \<Rightarrow> memcmp_encoded_bytes \<Rightarrow> memcmp" where
  "memcmp_new offset encoded_bytes = \<lparr>mc_offset = offset, mc_bytes = encoded_bytes\<rparr>"

definition new_raw_bytes :: "usize \<Rightarrow> u8 list \<Rightarrow> memcmp" where
  "new_raw_bytes offset bytes = \<lparr>mc_offset = offset, mc_bytes = Bytes bytes\<rparr>"

definition new_base58_encoded :: "'h env \<Rightarrow> usize \<Rightarrow> u8 list \<Rightarrow> memcmp" where
  "new_base58_encoded E offset bytes =
     \<lparr>mc_offset = offset, mc_bytes = Base58 (bs58_encode E bytes)\<rparr>"

definition memcmp_offset :: "memcmp \<Rightarrow> usize" where
  "memcmp_offset self = mc_offset self"

definition memcmp_bytes :: "'h env \<Rightarrow> memcmp \<Rightarrow> u8 list option" where
  "memcmp_bytes E self = (case mc_bytes self of
       Base58 bytes \<Rightarrow> (case bs58_decode E bytes of Inl _ \<Rightarrow> None | Inr b \<Rightarrow> Some b)
     | Base64 bytes \<Rightarrow> (case base64_decode E bytes of Inl _ \<Rightarrow> None | Inr b \<Rightarrow> Some b)
     | Bytes bytes \<Rightarrow> Some bytes)"

text \<open>\<open>&mut self\<close>: the filter after the call, and the result.\<close>

definition convert_to_raw_bytes :: "'h env \<Rightarrow> memcmp \<Rightarrow> (rpc_filter_error + unit) \<times> memcmp" where
  "convert_to_raw_bytes E self = (case mc_bytes self of
       Base58 bytes \<Rightarrow> (case bs58_decode E bytes of
           Inl e \<Rightarrow> (Inl (Base58DecodeError e), self)
         | Inr b \<Rightarrow> (Inr (), self\<lparr>mc_bytes := Bytes b\<rparr>))
     | Base64 bytes \<Rightarrow> (case base64_decode E bytes of
           Inl e \<Rightarrow> (Inl (Base64DecodeError e), self)
         | Inr b \<Rightarrow> (Inr (), self\<lparr>mc_bytes := Bytes b\<rparr>))
     | _ \<Rightarrow> (Inr (), self))"

text \<open>A slice \<open>data[a..b]\<close> panics where its bounds are out of order or out of range.\<close>

definition slice :: "'a list \<Rightarrow> nat \<Rightarrow> nat \<Rightarrow> 'a list outcome" where
  "slice xs a b =
     (if a \<le> b \<and> b \<le> length xs then Done (take (b - a) (drop a xs)) else Panicked IndexOutOfBounds)"

definition bytes_match :: "'h env \<Rightarrow> memcmp \<Rightarrow> u8 list \<Rightarrow> bool outcome" where
  "bytes_match E self data = (case memcmp_bytes E self of
       Some bytes \<Rightarrow>
         (let offset = unat (mc_offset self) in
          if length data < offset then Done False
          else (case slice data offset (length data) of
              Done rest \<Rightarrow>
                (if length rest < length bytes then Done False
                 else map_outcome (\<lambda>s. s = bytes) (slice data offset (offset + length bytes)))
            | Panicked p \<Rightarrow> Panicked p
            | NoFuel \<Rightarrow> NoFuel))
     | None \<Rightarrow> Done False)"

definition raw_bytes_as_ref :: "memcmp \<Rightarrow> u8 list option" where
  "raw_bytes_as_ref self = (case mc_bytes self of Bytes bytes \<Rightarrow> Some bytes | _ \<Rightarrow> None)"

section \<open>Operations of \<open>RpcFilterType\<close>\<close>

definition verify :: "'h env \<Rightarrow> rpc_filter_type \<Rightarrow> rpc_filter_error + unit" where
  "verify E self = (case self of
       DataSize _ \<Rightarrow> Inr ()
     | Memcmp compare \<Rightarrow> (case mc_bytes compare of
           Base58 bytes \<Rightarrow>
             (if MAX_DATA_BASE58_SIZE < length bytes then Inl DataTooLarge
              else (case bs58_decode E bytes of
                  Inl e \<Rightarrow> Inl (Base58DecodeError e)
                | Inr b \<Rightarrow> if MAX_DATA_SIZE < length b then Inl DataTooLarge else Inr ()))
         | Base64 bytes \<Rightarrow>
             (if MAX_DATA_BASE64_SIZE < length bytes then Inl DataTooLarge
              else (case base64_decode E bytes of
                  Inl e \<Rightarrow> Inl (Base64DecodeError e)
                | Inr b \<Rightarrow> if MAX_DATA_SIZE < length b then Inl DataTooLarge else Inr ()))
         | Bytes bytes \<Rightarrow>
             (if MAX_DATA_SIZE < length bytes then Inl DataTooLarge else Inr ()))
     | TokenAccountState \<Rightarrow> Inr ())"

definition allows :: "'h env \<Rightarrow> rpc_filter_type \<Rightarrow> u8 list \<Rightarrow> bool outcome" where
  "allows E self data = (case self of
       DataSize sz \<Rightarrow> Done (of_nat (length data) = sz)
     | Memcmp compare \<Rightarrow> bytes_match E compare data
     | TokenAccountState \<Rightarrow> Done (valid_token_account_data E data))"

section \<open>On the wire\<close>

text \<open>\<open>#[serde(tag = "encoding", content = "bytes")]\<close>, in camel case.\<close>

fun members_encoded_bytes :: "memcmp_encoded_bytes \<Rightarrow> (string \<times> json) list" where
  "members_encoded_bytes (Base58 s) = [(''encoding'', JString ''base58''), (''bytes'', JString s)]"
| "members_encoded_bytes (Base64 s) = [(''encoding'', JString ''base64''), (''bytes'', JString s)]"
| "members_encoded_bytes (Bytes b) =
     [(''encoding'', JString ''bytes''), (''bytes'', ser_vec ser_u8 b)]"

definition members_memcmp :: "memcmp \<Rightarrow> (string \<times> json) list" where
  "members_memcmp m = (''offset'', ser_usize (mc_offset m)) # members_encoded_bytes (mc_bytes m)"

fun ser_filter :: "rpc_filter_type \<Rightarrow> json" where
  "ser_filter (DataSize n) = JObject [(''dataSize'', ser_u64 n)]"
| "ser_filter (Memcmp m) = JObject [(''memcmp'', JObject (members_memcmp m))]"
| "ser_filter TokenAccountState = JString ''tokenAccountState''"

text \<open>
  The hand-written \<open>Deserialize\<close> of \<open>MemcmpEncodedBytes\<close>: it reads the helper struct
  \<open>RpcMemcmpInner\<close>, whose reader is derived, and picks the variant.
\<close>

datatype data_type = Encoded string | Raw "u8 list"
datatype rpc_memcmp_encoding = EncodingBase58 | EncodingBase64 | EncodingBytes

record rpc_memcmp_inner =
  inner_bytes :: data_type
  inner_encoding :: "rpc_memcmp_encoding option"

definition de_memcmp_encoded_bytes ::
  "(json \<Rightarrow> serde_error + rpc_memcmp_inner) \<Rightarrow> json \<Rightarrow> serde_error + memcmp_encoded_bytes" where
  "de_memcmp_encoded_bytes de_inner j = (case de_inner j of
       Inl e \<Rightarrow> Inl e
     | Inr data \<Rightarrow> Inr (case inner_bytes data of
           Encoded bytes \<Rightarrow>
             (case (case inner_encoding data of None \<Rightarrow> EncodingBase58 | Some e \<Rightarrow> e) of
                EncodingBase58 \<Rightarrow> Base58 bytes
              | EncodingBytes \<Rightarrow> Base58 bytes
              | EncodingBase64 \<Rightarrow> Base64 bytes)
         | Raw bytes \<Rightarrow> Bytes bytes))"

fun encoding_name :: "rpc_memcmp_encoding \<Rightarrow> string" where
  "encoding_name EncodingBase58 = ''base58''"
| "encoding_name EncodingBase64 = ''base64''"
| "encoding_name EncodingBytes = ''bytes''"

text \<open>
  The derived readers. Beside a flattened field \<open>serde\<close> has buffered the members, and a
  variant without fields may then also carry an empty object. A string is read as the first
  variant of the untagged \<open>DataType\<close> and an array of bytes as the second.
\<close>

fun buffered_variant_name :: "json \<Rightarrow> string option" where
  "buffered_variant_name (JObject [(s, JObject [])]) = Some s"
| "buffered_variant_name j = variant_name j"

definition read_data_type :: "json \<Rightarrow> data_type option" where
  "read_data_type j = (case read_string j of
       Some s \<Rightarrow> Some (Encoded s)
     | None \<Rightarrow> map_option Raw (read_vec read_u8 j))"

definition read_memcmp_encoding :: "json \<Rightarrow> rpc_memcmp_encoding option" where
  "read_memcmp_encoding j = Option.bind (buffered_variant_name j) (\<lambda>s.
     if s = ''base58'' then Some EncodingBase58
     else if s = ''base64'' then Some EncodingBase64
     else if s = ''bytes'' then Some EncodingBytes
     else None)"

definition build_memcmp_inner :: "(string \<Rightarrow> json option) \<Rightarrow> rpc_memcmp_inner option" where
  "build_memcmp_inner m = do {
     x_bytes \<leftarrow> required read_data_type (m ''bytes'');
     x_encoding \<leftarrow> optional read_memcmp_encoding (m ''encoding'');
     Some \<lparr>inner_bytes = x_bytes, inner_encoding = x_encoding\<rparr> }"

abbreviation read_memcmp_inner :: "json \<Rightarrow> rpc_memcmp_inner option" where
  "read_memcmp_inner \<equiv> read_struct [''bytes'', ''encoding''] build_memcmp_inner"

text \<open>\<open>Memcmp\<close>: one member \<open>offset\<close>, and every other member handed to the flattened reader.\<close>

fun read_memcmp :: "json \<Rightarrow> memcmp option" where
  "read_memcmp (JObject ms) = (case filter (\<lambda>(k, _). k = ''offset'') ms of
       [(_, j)] \<Rightarrow> do {
         x_offset \<leftarrow> read_usize j;
         (case de_memcmp_encoded_bytes (de_of (\<lambda>_. SerdeError []) read_memcmp_inner)
                 (JObject (filter (\<lambda>(k, _). k \<noteq> ''offset'') ms)) of
            Inl _ \<Rightarrow> None
          | Inr x_bytes \<Rightarrow> Some \<lparr>mc_offset = x_offset, mc_bytes = x_bytes\<rparr>) }
     | _ \<Rightarrow> None)"
| "read_memcmp _ = None"

declare read_memcmp.simps [simp del]

fun read_filter :: "json \<Rightarrow> rpc_filter_type option" where
  "read_filter (JString s) = (if s = ''tokenAccountState'' then Some TokenAccountState else None)"
| "read_filter (JObject [(s, j)]) =
     (if s = ''dataSize'' then map_option DataSize (read_u64 j)
      else if s = ''memcmp'' then map_option Memcmp (read_memcmp j)
      else if s = ''tokenAccountState'' \<and> is_null j then Some TokenAccountState
      else None)"
| "read_filter _ = None"

text \<open>
  What the hand-written reader needs of the reader of its helper: the two members are found
  by name whatever the others are, in any order.
\<close>

definition reads_inner :: "(json \<Rightarrow> serde_error + rpc_memcmp_inner) \<Rightarrow> bool" where
  "reads_inner de_inner \<longleftrightarrow> (\<forall>ms e. distinct (map fst ms) \<longrightarrow>
     map_of ms ''encoding'' = Some (JString (encoding_name e)) \<longrightarrow>
       (\<forall>s. map_of ms ''bytes'' = Some (JString s) \<longrightarrow>
          de_inner (JObject ms) = Inr \<lparr>inner_bytes = Encoded s, inner_encoding = Some e\<rparr>) \<and>
       (\<forall>b. map_of ms ''bytes'' = Some (ser_vec ser_u8 b) \<longrightarrow>
          de_inner (JObject ms) = Inr \<lparr>inner_bytes = Raw b, inner_encoding = Some e\<rparr>))"

section \<open>Facts\<close>

interpretation memcmp_wire: wire_struct members_memcmp
proof unfold_locales
  show "distinct (map fst (members_memcmp m))" for m
    by (cases "mc_bytes m") (simp_all add: members_memcmp_def)
qed

lemma slice_full: "a \<le> length xs \<Longrightarrow> slice xs a (length xs) = Done (drop a xs)"
  by (simp add: slice_def)

lemma slice_in_range:
  "a + n \<le> length xs \<Longrightarrow> slice xs a (a + n) = Done (take n (drop a xs))"
  by (simp add: slice_def)

lemma infix_at_iff:
  "(\<exists>pre post. xs = pre @ ys @ post \<and> length pre = n) \<longleftrightarrow>
     n + length ys \<le> length xs \<and> take (length ys) (drop n xs) = ys"
proof
  assume "n + length ys \<le> length xs \<and> take (length ys) (drop n xs) = ys"
  then have "xs = take n xs @ ys @ drop (length ys) (drop n xs)" "length (take n xs) = n"
    by (metis append_take_drop_id, simp)
  then show "\<exists>pre post. xs = pre @ ys @ post \<and> length pre = n" by blast
qed auto

lemma bytes_match_Done:
  "bytes_match E m data = Done (case memcmp_bytes E m of
     None \<Rightarrow> False
   | Some bytes \<Rightarrow> unat (mc_offset m) + length bytes \<le> length data \<and>
       take (length bytes) (drop (unat (mc_offset m)) data) = bytes)"
  by (auto simp: bytes_match_def Let_def slice_full slice_in_range split: option.split)

lemma convert_keeps_offset: "mc_offset (snd (convert_to_raw_bytes E m)) = mc_offset m"
  by (auto simp: convert_to_raw_bytes_def split: memcmp_encoded_bytes.split sum.split)

lemma convert_keeps_bytes: "memcmp_bytes E (snd (convert_to_raw_bytes E m)) = memcmp_bytes E m"
  by (auto simp: convert_to_raw_bytes_def memcmp_bytes_def
      split: memcmp_encoded_bytes.split sum.split)

lemma convert_ok_iff:
  "fst (convert_to_raw_bytes E m) = Inr () \<longleftrightarrow> memcmp_bytes E m \<noteq> None"
  by (auto simp: convert_to_raw_bytes_def memcmp_bytes_def
      split: memcmp_encoded_bytes.split sum.split)

lemma convert_raw:
  "fst (convert_to_raw_bytes E m) = Inr () \<Longrightarrow>
     raw_bytes_as_ref (snd (convert_to_raw_bytes E m)) = memcmp_bytes E m"
  by (auto simp: convert_to_raw_bytes_def memcmp_bytes_def raw_bytes_as_ref_def
      split: memcmp_encoded_bytes.splits sum.splits)

lemma verify_memcmp_ok:
  "verify E (Memcmp m) = Inr () \<longleftrightarrow>
     (\<exists>bytes. memcmp_bytes E m = Some bytes \<and> length bytes \<le> MAX_DATA_SIZE) \<and>
     (case mc_bytes m of Base58 s \<Rightarrow> length s \<le> MAX_DATA_BASE58_SIZE
        | Base64 s \<Rightarrow> length s \<le> MAX_DATA_BASE64_SIZE | Bytes _ \<Rightarrow> True)"
  by (auto simp: verify_def memcmp_bytes_def split: memcmp_encoded_bytes.splits sum.splits)

lemma read_memcmp_encoding_name: "read_memcmp_encoding (JString (encoding_name e)) = Some e"
  by (cases e) (simp_all add: read_memcmp_encoding_def)

lemma read_data_type_simps:
  "read_data_type (JString s) = Some (Encoded s)"
  "read_data_type (ser_vec ser_u8 b) = Some (Raw b)"
  using u8.read_vec_write [of b]
  by (simp_all add: read_data_type_def ser_vec_def list_all_iff)

lemma reads_inner_derived: "reads_inner (de_of msg read_memcmp_inner)"
  unfolding reads_inner_def
  by (auto simp: de_of_def read_struct_def build_memcmp_inner_def wire_simps read_opt_def
      read_data_type_simps read_memcmp_encoding_name restrict_map_def distinct_filter)

lemma de_members_encoded:
  assumes "reads_inner de_inner" and "distinct (map fst ms)"
    and "\<And>k. k \<in> {''encoding'', ''bytes''} \<Longrightarrow> map_of ms k = map_of (members_encoded_bytes b) k"
  shows "de_memcmp_encoded_bytes de_inner (JObject ms) = Inr b"
proof -
  have e: "map_of ms ''encoding'' = map_of (members_encoded_bytes b) ''encoding''"
    and y: "map_of ms ''bytes'' = map_of (members_encoded_bytes b) ''bytes''"
    using assms(3) by simp_all
  note r = assms(1) [unfolded reads_inner_def, rule_format, OF assms(2)]
  show ?thesis
  proof (cases b)
    case (Base58 s)
    with e y r [of EncodingBase58] show ?thesis by (simp add: de_memcmp_encoded_bytes_def)
  next
    case (Base64 s)
    with e y r [of EncodingBase64] show ?thesis by (simp add: de_memcmp_encoded_bytes_def)
  next
    case (Bytes s)
    with e y r [of EncodingBytes] show ?thesis by (simp add: de_memcmp_encoded_bytes_def)
  qed
qed

text \<open>The hand-written reader reads what the derived writer writes, other members included.\<close>

lemma memcmp_wire_round_trip:
  assumes "reads_inner de_inner"
  shows "de_memcmp_encoded_bytes de_inner (JObject (members_memcmp m)) = Inr (mc_bytes m)"
  using assms memcmp_wire.distinct_names by (rule de_members_encoded) (auto simp: members_memcmp_def)

lemma read_memcmp_write: "read_memcmp (JObject (members_memcmp m)) = Some m"
proof -
  let ?b = "mc_bytes m"
  have off: "filter (\<lambda>(k, _). k = ''offset'') (members_memcmp m) = [(''offset'', ser_usize (mc_offset m))]"
    and rest: "filter (\<lambda>(k, _). k \<noteq> ''offset'') (members_memcmp m) = members_encoded_bytes ?b"
    by (cases ?b; simp add: members_memcmp_def)+
  have "distinct (map fst (members_encoded_bytes ?b))" by (cases ?b) simp_all
  then have "de_memcmp_encoded_bytes (de_of (\<lambda>_. SerdeError []) read_memcmp_inner)
      (JObject (members_encoded_bytes ?b)) = Inr ?b"
    by (rule de_members_encoded [OF reads_inner_derived]) simp
  then show ?thesis unfolding read_memcmp.simps off rest by (simp add: usize.read_write)
qed

interpretation memcmp_value: wire_value "\<lambda>m. JObject (members_memcmp m)" read_memcmp "\<lambda>_. True"
  by unfold_locales (simp_all add: read_memcmp_write)

lemma read_filter_write: "read_filter (ser_filter f) = Some f"
  by (cases f) (simp_all add: u64.read_write read_memcmp_write)

interpretation filter_wire: wire_value ser_filter read_filter "\<lambda>_. True"
proof unfold_locales
  show "ser_filter f \<noteq> JNull" for f by (cases f) simp_all
qed (rule read_filter_write)

section \<open>Properties\<close>

text \<open>
  C14: matching never panics and is what the filter means: the account data hold the
  filter's bytes at its offset. A filter whose text cannot be decoded matches nothing.
\<close>

theorem bytes_match_infix:
  "bytes_match E m data = Done (case memcmp_bytes E m of
     None \<Rightarrow> False
   | Some bytes \<Rightarrow> (\<exists>pre post. data = pre @ bytes @ post \<and> length pre = unat (mc_offset m)))"
  unfolding bytes_match_Done infix_at_iff by (rule refl)

text \<open>
  \<open>verify\<close> accepts a memory comparison exactly when its bytes can be
  decoded, are at most 128, and an encoded text is within its own bound.
\<close>

theorem verify_accepts_exactly:
  "verify E (Memcmp m) = Inr () \<longleftrightarrow>
     (\<exists>bytes. memcmp_bytes E m = Some bytes \<and> length bytes \<le> 128) \<and>
     (case mc_bytes m of Base58 s \<Rightarrow> length s \<le> 175 | Base64 s \<Rightarrow> length s \<le> 172 | Bytes _ \<Rightarrow> True)"
  unfolding verify_memcmp_ok max_sizes by (rule refl)

text \<open>
  C32: converting a filter to raw bytes changes neither what it matches nor
  its offset; it succeeds exactly where the text decodes, and then the bytes are raw, so a
  second conversion changes nothing. A failed conversion leaves the filter as it was.
\<close>

theorem convert_preserves_match:
  "(let (r, m') = convert_to_raw_bytes E m in
     mc_offset m' = mc_offset m \<and> bytes_match E m' data = bytes_match E m data \<and>
     (case r of
        Inr _ \<Rightarrow> raw_bytes_as_ref m' = memcmp_bytes E m \<and> raw_bytes_as_ref m' \<noteq> None \<and>
          convert_to_raw_bytes E m' = (Inr (), m')
      | Inl _ \<Rightarrow> m' = m \<and> memcmp_bytes E m = None))"
proof -
  have "bytes_match E (snd (convert_to_raw_bytes E m)) data = bytes_match E m data"
    unfolding bytes_match_Done convert_keeps_offset convert_keeps_bytes by (rule refl)
  then show ?thesis
    by (auto simp: convert_to_raw_bytes_def memcmp_bytes_def raw_bytes_as_ref_def
        split: memcmp_encoded_bytes.splits sum.splits)
qed

text \<open>
  C34: a filter that is written as JSON and read back is the same filter, for
  each kind and each encoding; and a text with no encoding, or with the encoding \<open>bytes\<close>, is
  read as base58.
\<close>

theorem filter_round_trip:
  "read_filter (ser_filter f) = Some f \<and>
   read_memcmp (JObject [(''offset'', ser_usize n), (''bytes'', JString s)]) =
     Some (memcmp_new n (Base58 s)) \<and>
   read_memcmp (JObject [(''offset'', ser_usize n), (''encoding'', JString ''bytes''),
     (''bytes'', JString s)]) = Some (memcmp_new n (Base58 s))"
proof -
  have "read_memcmp (JObject [(''offset'', ser_usize n), (''bytes'', JString s)]) =
      Some (memcmp_new n (Base58 s))"
    "read_memcmp (JObject [(''offset'', ser_usize n), (''encoding'', JString ''bytes''),
       (''bytes'', JString s)]) = Some (memcmp_new n (Base58 s))"
    by (simp_all add: read_memcmp.simps usize.read_write de_memcmp_encoded_bytes_def de_of_def read_struct_def
        build_memcmp_inner_def wire_simps read_opt_def read_data_type_simps
        read_memcmp_encoding_def memcmp_new_def restrict_map_def)
  then show ?thesis using read_filter_write by blast
qed

end
