(* ===== verification/Zela_Config.thy ===== *)
theory Zela_Config
  imports Zela_Filter
begin

text \<open>
  \<open>src/rpc_client/config.rs\<close>: the request options, and the JSON members each of them is
  written as: the fields in camel case, an absent option as \<open>null\<close>, a flattened commitment
  as its member or nothing. Each struct is shown to be a \<open>wire_struct\<close>: flattening never
  makes two members share a name.
\<close>

section \<open>Transactions\<close>

record rpc_signature_status_config =
  ssg_search_transaction_history :: bool

definition members_signature_status_config ::
  "rpc_signature_status_config \<Rightarrow> (string \<times> json) list" where
  "members_signature_status_config c =
     [(''searchTransactionHistory'', JBool (ssg_search_transaction_history c))]"

record rpc_send_transaction_config =
  stc_skip_preflight :: bool
  stc_preflight_commitment :: "commitment_level option"
  stc_encoding :: "ui_transaction_encoding option"
  stc_max_retries :: "usize option"
  stc_min_context_slot :: "slot option"

definition default_send_transaction_config :: rpc_send_transaction_config where
  "default_send_transaction_config = \<lparr>stc_skip_preflight = False,
     stc_preflight_commitment = None, stc_encoding = None, stc_max_retries = None,
     stc_min_context_slot = None\<rparr>"

definition members_send_transaction_config ::
  "'h env \<Rightarrow> rpc_send_transaction_config \<Rightarrow> (string \<times> json) list" where
  "members_send_transaction_config E c = [
     (''skipPreflight'', JBool (stc_skip_preflight c)),
     (''preflightCommitment'',
        ser_opt (\<lambda>l. JString (commitment_level_name E l)) (stc_preflight_commitment c)),
     (''encoding'', ser_opt (\<lambda>e. JString (transaction_encoding_name E e)) (stc_encoding c)),
     (''maxRetries'', ser_opt ser_usize (stc_max_retries c)),
     (''minContextSlot'', ser_opt ser_u64 (stc_min_context_slot c))]"

record rpc_simulate_transaction_accounts_config =
  sac_encoding :: "ui_account_encoding option"
  sac_addresses :: "string list"

definition members_simulate_accounts_config ::
  "'h env \<Rightarrow> rpc_simulate_transaction_accounts_config \<Rightarrow> (string \<times> json) list" where
  "members_simulate_accounts_config E c = [
     (''encoding'', ser_opt (\<lambda>e. JString (account_encoding_name E e)) (sac_encoding c)),
     (''addresses'', ser_vec JString (sac_addresses c))]"

record rpc_simulate_transaction_config =
  simc_sig_verify :: bool
  simc_replace_recent_blockhash :: bool
  simc_commitment :: "commitment_config option"
  simc_encoding :: "ui_transaction_encoding option"
  simc_accounts :: "rpc_simulate_transaction_accounts_config option"
  simc_min_context_slot :: "slot option"
  simc_inner_instructions :: bool

definition default_simulate_transaction_config :: rpc_simulate_transaction_config where
  "default_simulate_transaction_config = \<lparr>simc_sig_verify = False,
     simc_replace_recent_blockhash = False, simc_commitment = None, simc_encoding = None,
     simc_accounts = None, simc_min_context_slot = None, simc_inner_instructions = False\<rparr>"

definition members_simulate_transaction_config ::
  "'h env \<Rightarrow> rpc_simulate_transaction_config \<Rightarrow> (string \<times> json) list" where
  "members_simulate_transaction_config E c =
     [(''sigVerify'', JBool (simc_sig_verify c)),
      (''replaceRecentBlockhash'', JBool (simc_replace_recent_blockhash c))] @
     flatten_opt (commitment_members E) (simc_commitment c) @
     [(''encoding'', ser_opt (\<lambda>e. JString (transaction_encoding_name E e)) (simc_encoding c)),
      (''accounts'',
         ser_opt (\<lambda>a. JObject (members_simulate_accounts_config E a)) (simc_accounts c)),
      (''minContextSlot'', ser_opt ser_u64 (simc_min_context_slot c)),
      (''innerInstructions'', JBool (simc_inner_instructions c))]"

record rpc_request_airdrop_config =
  adc_recent_blockhash :: "string option"
  adc_commitment :: "commitment_config option"

definition default_request_airdrop_config :: rpc_request_airdrop_config where
  "default_request_airdrop_config = \<lparr>adc_recent_blockhash = None, adc_commitment = None\<rparr>"

definition members_request_airdrop_config ::
  "'h env \<Rightarrow> rpc_request_airdrop_config \<Rightarrow> (string \<times> json) list" where
  "members_request_airdrop_config E c =
     (''recentBlockhash'', ser_opt JString (adc_recent_blockhash c)) #
     flatten_opt (commitment_members E) (adc_commitment c)"

section \<open>Cluster\<close>

record rpc_leader_schedule_config =
  lsc_identity :: "string option"
  lsc_commitment :: "commitment_config option"

definition default_leader_schedule_config :: rpc_leader_schedule_config where
  "default_leader_schedule_config = \<lparr>lsc_identity = None, lsc_commitment = None\<rparr>"

definition members_leader_schedule_config ::
  "'h env \<Rightarrow> rpc_leader_schedule_config \<Rightarrow> (string \<times> json) list" where
  "members_leader_schedule_config E c =
     (''identity'', ser_opt JString (lsc_identity c)) #
     flatten_opt (commitment_members E) (lsc_commitment c)"

record rpc_block_production_config_range =
  bpr_first_slot :: slot
  bpr_last_slot :: "slot option"

definition members_block_production_config_range ::
  "rpc_block_production_config_range \<Rightarrow> (string \<times> json) list" where
  "members_block_production_config_range c = [
     (''firstSlot'', ser_u64 (bpr_first_slot c)),
     (''lastSlot'', ser_opt ser_u64 (bpr_last_slot c))]"

record rpc_block_production_config =
  bpc_identity :: "string option"
  bpc_range :: "rpc_block_production_config_range option"
  bpc_commitment :: "commitment_config option"

definition members_block_production_config ::
  "'h env \<Rightarrow> rpc_block_production_config \<Rightarrow> (string \<times> json) list" where
  "members_block_production_config E c =
     [(''identity'', ser_opt JString (bpc_identity c)),
      (''range'',
         ser_opt (\<lambda>r. JObject (members_block_production_config_range r)) (bpc_range c))] @
     flatten_opt (commitment_members E) (bpc_commitment c)"

record rpc_get_vote_accounts_config =
  gvc_vote_pubkey :: "string option"
  gvc_commitment :: "commitment_config option"
  gvc_keep_unstaked_delinquents :: "bool option"
  gvc_delinquent_slot_distance :: "u64 option"

definition default_get_vote_accounts_config :: rpc_get_vote_accounts_config where
  "default_get_vote_accounts_config = \<lparr>gvc_vote_pubkey = None, gvc_commitment = None,
     gvc_keep_unstaked_delinquents = None, gvc_delinquent_slot_distance = None\<rparr>"

definition members_get_vote_accounts_config ::
  "'h env \<Rightarrow> rpc_get_vote_accounts_config \<Rightarrow> (string \<times> json) list" where
  "members_get_vote_accounts_config E c =
     (''votePubkey'', ser_opt JString (gvc_vote_pubkey c)) #
     flatten_opt (commitment_members E) (gvc_commitment c) @
     [(''keepUnstakedDelinquents'', ser_opt JBool (gvc_keep_unstaked_delinquents c)),
      (''delinquentSlotDistance'', ser_opt ser_u64 (gvc_delinquent_slot_distance c))]"

text \<open>The untagged wrappers write the option they hold, a bare \<open>null\<close> where it is empty.\<close>

datatype rpc_leader_schedule_config_wrapper =
  SlotOnly "slot option" | LeaderConfigOnly "rpc_leader_schedule_config option"

fun ser_leader_schedule_config_wrapper ::
  "'h env \<Rightarrow> rpc_leader_schedule_config_wrapper \<Rightarrow> json" where
  "ser_leader_schedule_config_wrapper E (SlotOnly s) = ser_opt ser_u64 s"
| "ser_leader_schedule_config_wrapper E (LeaderConfigOnly c) =
     ser_opt (\<lambda>c. JObject (members_leader_schedule_config E c)) c"

datatype rpc_largest_accounts_filter = Circulating | NonCirculating

fun ser_largest_accounts_filter :: "rpc_largest_accounts_filter \<Rightarrow> json" where
  "ser_largest_accounts_filter Circulating = JString ''circulating''"
| "ser_largest_accounts_filter NonCirculating = JString ''nonCirculating''"

record rpc_largest_accounts_config =
  lac_commitment :: "commitment_config option"
  lac_filter :: "rpc_largest_accounts_filter option"
  lac_sort_results :: "bool option"

definition members_largest_accounts_config ::
  "'h env \<Rightarrow> rpc_largest_accounts_config \<Rightarrow> (string \<times> json) list" where
  "members_largest_accounts_config E c =
     flatten_opt (commitment_members E) (lac_commitment c) @
     [(''filter'', ser_opt ser_largest_accounts_filter (lac_filter c)),
      (''sortResults'', ser_opt JBool (lac_sort_results c))]"

record rpc_supply_config =
  suc_commitment :: "commitment_config option"
  suc_exclude_non_circulating_accounts_list :: bool

definition default_supply_config :: rpc_supply_config where
  "default_supply_config =
     \<lparr>suc_commitment = None, suc_exclude_non_circulating_accounts_list = False\<rparr>"

definition members_supply_config :: "'h env \<Rightarrow> rpc_supply_config \<Rightarrow> (string \<times> json) list" where
  "members_supply_config E c =
     flatten_opt (commitment_members E) (suc_commitment c) @
     [(''excludeNonCirculatingAccountsList'',
         JBool (suc_exclude_non_circulating_accounts_list c))]"

record rpc_epoch_config =
  epc_epoch :: "epoch option"
  epc_commitment :: "commitment_config option"
  epc_min_context_slot :: "slot option"

definition members_epoch_config ::
  "'h env \<Rightarrow> rpc_epoch_config \<Rightarrow> (string \<times> json) list" where
  "members_epoch_config E c =
     (''epoch'', ser_opt ser_u64 (epc_epoch c)) #
     flatten_opt (commitment_members E) (epc_commitment c) @
     [(''minContextSlot'', ser_opt ser_u64 (epc_min_context_slot c))]"

section \<open>Accounts\<close>

datatype rpc_account_index = IndexProgramId | IndexSplTokenMint | IndexSplTokenOwner

fun ser_account_index :: "rpc_account_index \<Rightarrow> json" where
  "ser_account_index IndexProgramId = JString ''programId''"
| "ser_account_index IndexSplTokenMint = JString ''splTokenMint''"
| "ser_account_index IndexSplTokenOwner = JString ''splTokenOwner''"

definition read_account_index :: "json \<Rightarrow> rpc_account_index option" where
  "read_account_index j = Option.bind (variant_name j) (\<lambda>s.
     if s = ''programId'' then Some IndexProgramId
     else if s = ''splTokenMint'' then Some IndexSplTokenMint
     else if s = ''splTokenOwner'' then Some IndexSplTokenOwner
     else None)"

record rpc_account_info_config =
  aic_encoding :: "ui_account_encoding option"
  aic_data_slice :: "ui_data_slice_config option"
  aic_commitment :: "commitment_config option"
  aic_min_context_slot :: "slot option"

definition default_account_info_config :: rpc_account_info_config where
  "default_account_info_config = \<lparr>aic_encoding = None, aic_data_slice = None,
     aic_commitment = None, aic_min_context_slot = None\<rparr>"

definition members_account_info_config ::
  "'h env \<Rightarrow> rpc_account_info_config \<Rightarrow> (string \<times> json) list" where
  "members_account_info_config E c =
     [(''encoding'', ser_opt (\<lambda>e. JString (account_encoding_name E e)) (aic_encoding c)),
      (''dataSlice'', ser_opt (ser_data_slice E) (aic_data_slice c))] @
     flatten_opt (commitment_members E) (aic_commitment c) @
     [(''minContextSlot'', ser_opt ser_u64 (aic_min_context_slot c))]"

record rpc_program_accounts_config =
  pac_filters :: "rpc_filter_type list option"
  pac_account_config :: rpc_account_info_config
  pac_with_context :: "bool option"
  pac_sort_results :: "bool option"

definition default_program_accounts_config :: rpc_program_accounts_config where
  "default_program_accounts_config = \<lparr>pac_filters = None,
     pac_account_config = default_account_info_config, pac_with_context = None,
     pac_sort_results = None\<rparr>"

definition members_program_accounts_config ::
  "'h env \<Rightarrow> rpc_program_accounts_config \<Rightarrow> (string \<times> json) list" where
  "members_program_accounts_config E c =
     (''filters'', ser_opt (ser_vec ser_filter) (pac_filters c)) #
     members_account_info_config E (pac_account_config c) @
     [(''withContext'', ser_opt JBool (pac_with_context c)),
      (''sortResults'', ser_opt JBool (pac_sort_results c))]"

datatype rpc_token_accounts_filter = TokenMintFilter string | TokenProgramIdFilter string

fun ser_token_accounts_filter :: "rpc_token_accounts_filter \<Rightarrow> json" where
  "ser_token_accounts_filter (TokenMintFilter s) = JObject [(''mint'', JString s)]"
| "ser_token_accounts_filter (TokenProgramIdFilter s) = JObject [(''programId'', JString s)]"

section \<open>Subscriptions\<close>

datatype rpc_transaction_logs_filter = LogsAll | LogsAllWithVotes | LogsMentions "string list"

fun ser_transaction_logs_filter :: "rpc_transaction_logs_filter \<Rightarrow> json" where
  "ser_transaction_logs_filter LogsAll = JString ''all''"
| "ser_transaction_logs_filter LogsAllWithVotes = JString ''allWithVotes''"
| "ser_transaction_logs_filter (LogsMentions as) = JObject [(''mentions'', ser_vec JString as)]"

record rpc_transaction_logs_config =
  tlc_commitment :: "commitment_config option"

definition members_transaction_logs_config ::
  "'h env \<Rightarrow> rpc_transaction_logs_config \<Rightarrow> (string \<times> json) list" where
  "members_transaction_logs_config E c = flatten_opt (commitment_members E) (tlc_commitment c)"

record rpc_signature_subscribe_config =
  ssc_commitment :: "commitment_config option"
  ssc_enable_received_notification :: "bool option"

definition members_signature_subscribe_config ::
  "'h env \<Rightarrow> rpc_signature_subscribe_config \<Rightarrow> (string \<times> json) list" where
  "members_signature_subscribe_config E c =
     flatten_opt (commitment_members E) (ssc_commitment c) @
     [(''enableReceivedNotification'', ser_opt JBool (ssc_enable_received_notification c))]"

datatype rpc_block_subscribe_filter = BlockAll | MentionsAccountOrProgram string

fun ser_block_subscribe_filter :: "rpc_block_subscribe_filter \<Rightarrow> json" where
  "ser_block_subscribe_filter BlockAll = JString ''all''"
| "ser_block_subscribe_filter (MentionsAccountOrProgram s) =
     JObject [(''mentionsAccountOrProgram'', JString s)]"

record rpc_block_subscribe_config =
  bsc_commitment :: "commitment_config option"
  bsc_encoding :: "ui_transaction_encoding option"
  bsc_transaction_details :: "transaction_details option"
  bsc_show_rewards :: "bool option"
  bsc_max_supported_transaction_version :: "u8 option"

definition members_block_subscribe_config ::
  "'h env \<Rightarrow> rpc_block_subscribe_config \<Rightarrow> (string \<times> json) list" where
  "members_block_subscribe_config E c =
     flatten_opt (commitment_members E) (bsc_commitment c) @
     [(''encoding'', ser_opt (\<lambda>e. JString (transaction_encoding_name E e)) (bsc_encoding c)),
      (''transactionDetails'',
         ser_opt (\<lambda>d. JString (transaction_details_name E d)) (bsc_transaction_details c)),
      (''showRewards'', ser_opt JBool (bsc_show_rewards c)),
      (''maxSupportedTransactionVersion'',
         ser_opt ser_u8 (bsc_max_supported_transaction_version c))]"

section \<open>History\<close>

record rpc_signatures_for_address_config =
  sfa_before :: "string option"
  sfa_until :: "string option"
  sfa_limit :: "usize option"
  sfa_commitment :: "commitment_config option"
  sfa_min_context_slot :: "slot option"

definition members_signatures_for_address_config ::
  "'h env \<Rightarrow> rpc_signatures_for_address_config \<Rightarrow> (string \<times> json) list" where
  "members_signatures_for_address_config E c =
     [(''before'', ser_opt JString (sfa_before c)),
      (''until'', ser_opt JString (sfa_until c)),
      (''limit'', ser_opt ser_usize (sfa_limit c))] @
     flatten_opt (commitment_members E) (sfa_commitment c) @
     [(''minContextSlot'', ser_opt ser_u64 (sfa_min_context_slot c))]"

datatype 't rpc_encoding_config_wrapper =
  Deprecated "ui_transaction_encoding option" | Current "'t option"

record rpc_block_config =
  blc_encoding :: "ui_transaction_encoding option"
  blc_transaction_details :: "transaction_details option"
  blc_rewards :: "bool option"
  blc_commitment :: "commitment_config option"
  blc_max_supported_transaction_version :: "u8 option"

definition default_block_config :: rpc_block_config where
  "default_block_config = \<lparr>blc_encoding = None, blc_transaction_details = None,
     blc_rewards = None, blc_commitment = None, blc_max_supported_transaction_version = None\<rparr>"

definition rewards_only :: rpc_block_config where
  "rewards_only = default_block_config\<lparr>blc_transaction_details := Some DetailsNone\<rparr>"

definition rewards_with_commitment :: "commitment_config option \<Rightarrow> rpc_block_config" where
  "rewards_with_commitment commitment = default_block_config
     \<lparr>blc_transaction_details := Some DetailsNone, blc_commitment := commitment\<rparr>"

definition wrapper_from_block_config ::
  "rpc_block_config \<Rightarrow> rpc_block_config rpc_encoding_config_wrapper" where
  "wrapper_from_block_config config = Current (Some config)"

definition members_block_config ::
  "'h env \<Rightarrow> rpc_block_config \<Rightarrow> (string \<times> json) list" where
  "members_block_config E c =
     [(''encoding'', ser_opt (\<lambda>e. JString (transaction_encoding_name E e)) (blc_encoding c)),
      (''transactionDetails'',
         ser_opt (\<lambda>d. JString (transaction_details_name E d)) (blc_transaction_details c)),
      (''rewards'', ser_opt JBool (blc_rewards c))] @
     flatten_opt (commitment_members E) (blc_commitment c) @
     [(''maxSupportedTransactionVersion'',
         ser_opt ser_u8 (blc_max_supported_transaction_version c))]"

record rpc_transaction_config =
  txc_encoding :: "ui_transaction_encoding option"
  txc_commitment :: "commitment_config option"
  txc_max_supported_transaction_version :: "u8 option"

definition members_transaction_config ::
  "'h env \<Rightarrow> rpc_transaction_config \<Rightarrow> (string \<times> json) list" where
  "members_transaction_config E c =
     (''encoding'', ser_opt (\<lambda>e. JString (transaction_encoding_name E e)) (txc_encoding c)) #
     flatten_opt (commitment_members E) (txc_commitment c) @
     [(''maxSupportedTransactionVersion'',
         ser_opt ser_u8 (txc_max_supported_transaction_version c))]"

record rpc_context_config =
  rcc_commitment :: "commitment_config option"
  rcc_min_context_slot :: "slot option"

definition members_context_config :: "'h env \<Rightarrow> rpc_context_config \<Rightarrow> (string \<times> json) list" where
  "members_context_config E c =
     flatten_opt (commitment_members E) (rcc_commitment c) @
     [(''minContextSlot'', ser_opt ser_u64 (rcc_min_context_slot c))]"

datatype rpc_blocks_config_wrapper =
  EndSlotOnly "slot option" | BlocksConfigOnly "rpc_context_config option"

fun ser_blocks_config_wrapper :: "'h env \<Rightarrow> rpc_blocks_config_wrapper \<Rightarrow> json" where
  "ser_blocks_config_wrapper E (EndSlotOnly s) = ser_opt ser_u64 s"
| "ser_blocks_config_wrapper E (BlocksConfigOnly c) =
     ser_opt (\<lambda>c. JObject (members_context_config E c)) c"

section \<open>Member names never collide\<close>

named_theorems member_defs \<open>the members of the configuration structs\<close>

lemmas [member_defs] =
  commitment_members_def members_send_transaction_config_def members_simulate_accounts_config_def
  members_simulate_transaction_config_def members_request_airdrop_config_def
  members_leader_schedule_config_def members_block_production_config_range_def
  members_block_production_config_def members_get_vote_accounts_config_def
  members_largest_accounts_config_def members_epoch_config_def members_account_info_config_def
  members_program_accounts_config_def members_transaction_logs_config_def
  members_signature_subscribe_config_def members_block_subscribe_config_def
  members_signatures_for_address_config_def members_block_config_def
  members_transaction_config_def members_signature_status_config_def members_supply_config_def
  members_context_config_def flatten_opt_def

interpretation signature_status_wire: wire_struct members_signature_status_config
  by unfold_locales (simp add: member_defs)

interpretation supply_wire: wire_struct "members_supply_config E" for E
  by unfold_locales (simp add: member_defs split: option.split)

interpretation context_wire: wire_struct "members_context_config E" for E
  by unfold_locales (simp add: member_defs split: option.split)

interpretation account_index: wire_value ser_account_index read_account_index "\<lambda>_. True"
proof unfold_locales
  show "read_account_index (ser_account_index i) = Some i" for i
    by (cases i) (simp_all add: read_account_index_def)
  show "ser_account_index i \<noteq> JNull" for i by (cases i) simp_all
qed

interpretation send_transaction_wire: wire_struct "members_send_transaction_config E" for E
  by unfold_locales (simp add: member_defs)

interpretation simulate_transaction_wire: wire_struct "members_simulate_transaction_config E" for E
  by unfold_locales (simp add: member_defs split: option.split)

interpretation request_airdrop_wire: wire_struct "members_request_airdrop_config E" for E
  by unfold_locales (simp add: member_defs split: option.split)

interpretation leader_schedule_wire: wire_struct "members_leader_schedule_config E" for E
  by unfold_locales (simp add: member_defs split: option.split)

interpretation block_production_wire: wire_struct "members_block_production_config E" for E
  by unfold_locales (simp add: member_defs split: option.split)

interpretation get_vote_accounts_wire: wire_struct "members_get_vote_accounts_config E" for E
  by unfold_locales (simp add: member_defs split: option.split)

interpretation largest_accounts_wire: wire_struct "members_largest_accounts_config E" for E
  by unfold_locales (simp add: member_defs split: option.split)

interpretation epoch_wire: wire_struct "members_epoch_config E" for E
  by unfold_locales (simp add: member_defs split: option.split)

interpretation account_info_wire: wire_struct "members_account_info_config E" for E
  by unfold_locales (simp add: member_defs split: option.split)

interpretation program_accounts_wire: wire_struct "members_program_accounts_config E" for E
  by unfold_locales (simp add: member_defs split: option.split)

interpretation signature_subscribe_wire: wire_struct "members_signature_subscribe_config E" for E
  by unfold_locales (simp add: member_defs split: option.split)

interpretation block_subscribe_wire: wire_struct "members_block_subscribe_config E" for E
  by unfold_locales (simp add: member_defs split: option.split)

interpretation signatures_for_address_wire:
  wire_struct "members_signatures_for_address_config E" for E
  by unfold_locales (simp add: member_defs split: option.split)

interpretation block_wire: wire_struct "members_block_config E" for E
  by unfold_locales (simp add: member_defs split: option.split)

interpretation transaction_wire: wire_struct "members_transaction_config E" for E
  by unfold_locales (simp add: member_defs split: option.split)

end
