(* ===== verification/Zela_Send.thy ===== *)
theory Zela_Send
  imports Zela_Config
begin

text \<open>
  The core every client method goes through (\<open>src/rpc_client/client.rs\<close>): the client and
  its configuration, \<open>send\<close>, \<open>serialize_and_encode\<close>, \<open>parse_keyed_accounts\<close>, and the traits of
  \<open>src/rpc_client/util.rs\<close>. The locale \<open>rpc_transport\<close> states what the methods rely on.
\<close>

section \<open>The client\<close>

record rpc_client_config =
  cfg_commitment_config :: commitment_config
  cfg_confirm_transaction_initial_timeout :: "duration option"

record rpc_client =
  client_config :: rpc_client_config

definition default_client_config :: "'h env \<Rightarrow> rpc_client_config" where
  "default_client_config E = \<lparr>cfg_commitment_config = default_commitment E,
     cfg_confirm_transaction_initial_timeout = None\<rparr>"

definition config_with_commitment :: "'h env \<Rightarrow> commitment_config \<Rightarrow> rpc_client_config" where
  "config_with_commitment E c = (default_client_config E)\<lparr>cfg_commitment_config := c\<rparr>"

definition new_with_commitment :: "'h env \<Rightarrow> commitment_config \<Rightarrow> rpc_client" where
  "new_with_commitment E c = \<lparr>client_config = config_with_commitment E c\<rparr>"

definition client_new :: "'h env \<Rightarrow> rpc_client" where
  "client_new E = new_with_commitment E (default_commitment E)"

definition new_with_config :: "rpc_client_config \<Rightarrow> rpc_client" where
  "new_with_config config = \<lparr>client_config = config\<rparr>"

definition set_node_version :: "rpc_client \<Rightarrow> string \<Rightarrow> unit + unit" where
  "set_node_version self version = Inr ()"

definition commitment :: "rpc_client \<Rightarrow> commitment_config" where
  "commitment self = cfg_commitment_config (client_config self)"

section \<open>Sending a request\<close>

definition structured :: "json \<Rightarrow> bool" where
  "structured params \<longleftrightarrow> is_object params \<or> is_array params \<or> is_null params"

lemma structured_simps [simp]:
  "structured (JArray xs)" "structured (JObject ms)" "structured JNull"
  by (simp_all add: structured_def)

text \<open>What \<open>send\<close> makes of the answer to its call.\<close>

definition send_result ::
  "'h env \<Rightarrow> (json \<Rightarrow> serde_error + 't) \<Rightarrow> rpc_request
     \<Rightarrow> io_error + json rpc_error + json \<Rightarrow> 't client_result" where
  "send_result E de request r = (case r of
       Inr (Inr response) \<Rightarrow>
         map_err (\<lambda>err. new_with_request (SerdeJsonKind err) request) (de response)
     | Inr (Inl err) \<Rightarrow> Inl \<lparr>err_request = Some request,
         err_kind = RpcErrorKind (RpcResponseError (scast (re_code err)) (re_message err) EmptyData)\<rparr>
     | Inl err \<Rightarrow> Inl \<lparr>err_request = Some request,
         err_kind = CustomKind (''RPC call failed: '' @ show_io_error E err)\<rparr>)"

definition send ::
  "'h env \<Rightarrow> (json \<Rightarrow> serde_error + 't) \<Rightarrow> rpc_request \<Rightarrow> json
     \<Rightarrow> ('h world, 't client_result) prog" where
  "send E de request params =
     (if \<not> structured params then panic AssertFailed
      else mapp (send_result E de request)
        (call_rpc E (json_to_vec E) (json_from_slice E) (json_from_slice E)
           (method_name request) params))"

text \<open>The calls it makes of the host: one, when the parameters can be serialised.\<close>

definition send_calls :: "'h env \<Rightarrow> rpc_request \<Rightarrow> json \<Rightarrow> event list" where
  "send_calls E request params = (if \<not> structured params then [] else
     case json_to_vec E params of Inl _ \<Rightarrow> [] | Inr b \<Rightarrow> [EvCallRpc (method_name request) b])"

text \<open>A call under a given method name.\<close>

definition is_call_named :: "string \<Rightarrow> event \<Rightarrow> bool" where
  "is_call_named m e \<longleftrightarrow> (case e of EvCallRpc m' _ \<Rightarrow> m' = m | _ \<Rightarrow> False)"

lemma is_call_named_simps [simp]:
  "is_call_named m (EvCallRpc m' b) \<longleftrightarrow> m' = m" "\<not> is_call_named m (EvLog s)"
  "\<not> is_call_named m (EvSleep d)" "\<not> is_call_named m (EvSubscribe m' b)"
  "\<not> is_call_named m (EvRecv h)"
  by (simp_all add: is_call_named_def)

text \<open>
  The interface between the methods and the transport under them: one request under the
  request's method name, nothing else written, and errors that name the request.
\<close>

locale rpc_transport =
  fixes request_with :: "rpc_request \<Rightarrow> json \<Rightarrow> ('h world, 't client_result) prog"
    and calls :: "rpc_request \<Rightarrow> json \<Rightarrow> event list"
  assumes tagged: "request_with req ps w = (Done (Inl e), w') \<Longrightarrow> err_request e = Some req"
    and no_transaction_error:
      "request_with req ps w = (Done (Inl e), w') \<Longrightarrow> get_transaction_error e = None"
    and issues: "trace (snd (request_with req ps w)) = trace w @ calls req ps"
    and calls_name: "ev \<in> set (calls req ps) \<Longrightarrow> \<exists>b. ev = EvCallRpc (method_name req) b"
    and calls_one: "length (calls req ps) \<le> 1"
    and no_panic: "structured ps \<Longrightarrow> fst (request_with req ps w) \<noteq> Panicked p"
    and answers_always: "answers (request_with req ps)"
    and statics_kept: "moves same_statics (request_with req ps)"
begin

lemma emits_request:
  "(\<And>b. P (EvCallRpc (method_name req) b)) \<Longrightarrow> moves (emits P) (request_with req ps)"
  unfolding moves_def emits_def list_all_iff by (metis issues calls_name)

lemma retag_error: "request_with req ps w = (Done (Inl e), w') \<Longrightarrow> into_with_request e req = e"
  by (rule into_with_request_id) (rule tagged)

lemma completes:
  "structured ps \<Longrightarrow> \<exists>r. request_with req ps w = (Done r, snd (request_with req ps w))"
proof -
  assume "structured ps"
  then have p: "fst (request_with req ps w) \<noteq> Panicked p" for p by (rule no_panic)
  have a: "fst (request_with req ps w) \<noteq> NoFuel" by (rule answersD [OF answers_always])
  obtain out w' where "request_with req ps w = (out, w')" by (cases "request_with req ps w")
  with p a show ?thesis by (cases out) auto
qed

end

lemma map_outcome_Panicked: "map_outcome f x = Panicked p \<longleftrightarrow> x = Panicked p"
  by (cases x) simp_all

lemma send_result_tagged: "send_result E de req r = Inl e \<Longrightarrow> err_request e = Some req"
  by (auto simp: send_result_def map_err_def split: sum.splits)

lemma send_result_kind:
  "send_result E de req r = Inl e \<Longrightarrow> kind_transaction_error (err_kind e) = None"
  by (auto simp: send_result_def map_err_def split: sum.splits)

interpretation transport: rpc_transport "send E de" "send_calls E" for E de
proof unfold_locales
  show "err_request e = Some req" if "send E de req ps w = (Done (Inl e), w')" for req ps w e w'
    using that
    by (auto simp: send_def mapp_eq_Done panic_def dest!: sym [of "Inl e"] send_result_tagged
        split: if_splits)
  show "get_transaction_error e = None" if "send E de req ps w = (Done (Inl e), w')" for req ps w e w'
    using that
    by (auto simp: send_def mapp_eq_Done panic_def get_transaction_error_def
        dest!: sym [of "Inl e"] send_result_kind split: if_splits)
  show "trace (snd (send E de req ps w)) = trace w @ send_calls E req ps" for req ps w
    by (auto simp: send_def send_calls_def call_rpc_trace panic_def)
  show "\<exists>b. ev = EvCallRpc (method_name req) b" if "ev \<in> set (send_calls E req ps)" for ev req ps
    using that by (auto simp: send_calls_def split: if_splits sum.splits)
  show "length (send_calls E req ps) \<le> 1" for req ps
    by (auto simp: send_calls_def split: sum.splits)
  show "fst (send E de req ps w) \<noteq> Panicked p" if "structured ps" for req ps w p
    using that by (simp add: send_def fst_mapp map_outcome_Panicked call_rpc_no_panic)
  show "answers (send E de req ps)" for req ps
    by (auto simp: send_def intro: answers_intros)
  show "moves same_statics (send E de req ps)" for req ps
    by (auto simp: send_def intro!: statics.moves_intros statics_call_rpc)
qed

lemma later_send: "clock_ok E \<tau> \<Longrightarrow> moves (later \<tau>) (send E de req ps)"
  by (auto simp: send_def intro!: later.moves_intros later_call_rpc)

lemmas answers_send [answers_intros] = transport.answers_always
lemmas emits_send = transport.emits_request

section \<open>Encoding transactions and messages\<close>

text \<open>
  The traits of \<open>util.rs\<close>. \<open>bincode\<close> is the supertrait \<open>Serialize\<close> used through
  \<open>bincode::serialize\<close>; its error is the text it displays.
\<close>

record 'tx serializable_transaction =
  get_signature :: "'tx \<Rightarrow> signature outcome"
  get_recent_blockhash :: "'tx \<Rightarrow> hash"
  uses_durable_nonce :: "'tx \<Rightarrow> bool"
  bincode_transaction :: "'tx \<Rightarrow> string + u8 list"

text \<open>\<open>Transaction\<close> and \<open>VersionedTransaction\<close>: the fields the two instances read.\<close>

record 'm transaction =
  tx_signatures :: "signature list"
  tx_message :: 'm

definition first_signature :: "('m, 'z) transaction_scheme \<Rightarrow> signature outcome" where
  "first_signature t =
     (case tx_signatures t of [] \<Rightarrow> Panicked IndexOutOfBounds | s # _ \<Rightarrow> Done s)"

definition legacy_transaction_impl ::
  "('m \<Rightarrow> hash) \<Rightarrow> ('m transaction \<Rightarrow> 'ix option) \<Rightarrow> ('m transaction \<Rightarrow> string + u8 list)
     \<Rightarrow> 'm transaction serializable_transaction" where
  "legacy_transaction_impl message_blockhash nonce_instruction ser = \<lparr>
     get_signature = first_signature,
     get_recent_blockhash = (\<lambda>t. message_blockhash (tx_message t)),
     uses_durable_nonce = (\<lambda>t. nonce_instruction t \<noteq> None),
     bincode_transaction = ser\<rparr>"

definition versioned_transaction_impl ::
  "('m \<Rightarrow> hash) \<Rightarrow> ('m transaction \<Rightarrow> bool) \<Rightarrow> ('m transaction \<Rightarrow> string + u8 list)
     \<Rightarrow> 'm transaction serializable_transaction" where
  "versioned_transaction_impl message_blockhash nonce ser = \<lparr>
     get_signature = first_signature,
     get_recent_blockhash = (\<lambda>t. message_blockhash (tx_message t)),
     uses_durable_nonce = nonce,
     bincode_transaction = ser\<rparr>"

definition serialize_and_encode ::
  "'h env \<Rightarrow> string + u8 list \<Rightarrow> ui_transaction_encoding \<Rightarrow> string client_result" where
  "serialize_and_encode E serialized encoding = (case serialized of
       Inl e \<Rightarrow> Inl (error_from_kind (CustomKind (''Serialization failed: '' @ e)))
     | Inr bytes \<Rightarrow> (case encoding of
           UiBase58 \<Rightarrow> Inr (bs58_encode E bytes)
         | UiBase64 \<Rightarrow> Inr (base64_encode E bytes)
         | _ \<Rightarrow> Inl (error_from_kind (CustomKind
             (''unsupported encoding: '' @ show_transaction_encoding E encoding @
              ''. Supported encodings: base58, base64'')))))"

definition outcome_prog :: "'a outcome \<Rightarrow> ('w, 'a) prog" where
  "outcome_prog x = (\<lambda>w. (x, w))"

section \<open>Lists of results\<close>

text \<open>Collecting an iterator of results stops at the first error.\<close>

fun traverse :: "('a \<Rightarrow> 'e + 'b) \<Rightarrow> 'a list \<Rightarrow> 'e + 'b list" where
  "traverse f [] = Inr []"
| "traverse f (x # xs) = (case f x of
       Inl e \<Rightarrow> Inl e
     | Inr y \<Rightarrow> (case traverse f xs of Inl e \<Rightarrow> Inl e | Inr ys \<Rightarrow> Inr (y # ys)))"

lemma traverse_ok_iff:
  "traverse f xs = Inr ys \<longleftrightarrow> list_all2 (\<lambda>x y. f x = Inr y) xs ys"
proof (induction xs arbitrary: ys)
  case (Cons x xs)
  show ?case by (cases ys) (auto simp flip: Cons.IH split: sum.splits)
qed auto

lemma traverse_err:
  "traverse f xs = Inl e \<Longrightarrow>
     \<exists>i < length xs. f (xs ! i) = Inl e \<and> (\<forall>j < i. \<exists>y. f (xs ! j) = Inr y)"
proof (induction xs)
  case (Cons x xs)
  show ?case
  proof (cases "f x")
    case (Inl e')
    with Cons.prems show ?thesis by auto
  next
    case (Inr y)
    with Cons.prems have "traverse f xs = Inl e" by (auto split: sum.splits)
    with Cons.IH obtain i where "i < length xs" "f (xs ! i) = Inl e"
      "\<forall>j < i. \<exists>y. f (xs ! j) = Inr y" by blast
    with Inr show ?thesis
      by (intro exI [of _ "Suc i"]) (auto simp: less_Suc_eq_0_disj)
  qed
qed simp

text \<open>The loop of \<open>parse_keyed_accounts\<close>, with the pairs pushed so far.\<close>

fun push_keyed_accounts ::
  "'h env \<Rightarrow> rpc_request \<Rightarrow> (pubkey \<times> account) list \<Rightarrow> rpc_keyed_account list
     \<Rightarrow> (pubkey \<times> account) list client_result" where
  "push_keyed_accounts E request acc [] = Inr acc"
| "push_keyed_accounts E request acc (ka # kas) = (case pubkey_from_str E (ka_pubkey ka) of
       Inl _ \<Rightarrow> Inl (new_with_request (RpcErrorKind (ParseError ''Pubkey'')) request)
     | Inr pubkey \<Rightarrow> (case account_decode E (ka_account ka) of
           None \<Rightarrow> Inl (new_with_request (RpcErrorKind (ParseError ''Account from rpc'')) request)
         | Some a \<Rightarrow> push_keyed_accounts E request (acc @ [(pubkey, a)]) kas))"

definition parse_keyed_accounts ::
  "'h env \<Rightarrow> rpc_keyed_account list \<Rightarrow> rpc_request \<Rightarrow> (pubkey \<times> account) list client_result" where
  "parse_keyed_accounts E accounts request = push_keyed_accounts E request [] accounts"

lemma push_keyed_accounts_ok:
  "push_keyed_accounts E req acc kas = Inr out \<longleftrightarrow>
     (\<exists>ys. out = acc @ ys \<and> list_all2 (\<lambda>ka (pk, a).
        pubkey_from_str E (ka_pubkey ka) = Inr pk \<and> account_decode E (ka_account ka) = Some a) kas ys)"
proof (induction kas arbitrary: acc)
  case Nil
  then show ?case by auto
next
  case (Cons ka kas)
  show ?case
    by (auto simp: Cons.IH list_all2_Cons1 split: sum.splits option.splits)
qed

lemma push_keyed_accounts_error:
  "push_keyed_accounts E req acc kas = Inl e \<Longrightarrow>
     e = new_with_request (RpcErrorKind (ParseError ''Pubkey'')) req \<or>
     e = new_with_request (RpcErrorKind (ParseError ''Account from rpc'')) req"
  by (induction E req acc kas rule: push_keyed_accounts.induct)
    (auto split: sum.splits option.splits)

text \<open>The client of the witnesses, and what evaluates its requests.\<close>

definition sample_client :: rpc_client where
  "sample_client = client_new sample_env"

lemmas sample_run = send_def call_rpc_def host_call_rpc_def send_result_def mapp_def tryp_def
  bindp_def ret_def sample_world_def sample_reply_def sample_response_def log_at_def

section \<open>Properties\<close>

text \<open>
  C10: with structured parameters \<open>send\<close> makes exactly one call, under the request's
  method name and with the serialised parameters, and its result is the answer's: the decoded
  value, or an error tagged with the request that carries the decoder's error, the remote code
  (sign-extended) and message, or the text of the failed call.
\<close>

theorem send_behaviour:
  assumes "structured params" and "json_to_vec E params = Inr b"
    and "h_call_rpc E (method_name req) b (hstate w) = (answer, h)"
  shows "send E de req params w =
    (Done (case answer of
        Inr (Inr v) \<Rightarrow> (case json_from_slice E v of
            Inr j \<Rightarrow> (case de j of Inr x \<Rightarrow> Inr x | Inl e \<Rightarrow> Inl (new_with_request (SerdeJsonKind e) req))
          | Inl e \<Rightarrow> Inl (new_with_request (CustomKind (''RPC call failed: '' @
              show_io_error E (IoCustom InvalidInput e))) req))
      | Inr (Inl e) \<Rightarrow> (case Option.bind (wit_data e) (\<lambda>d. case json_from_slice E d of
            Inl err \<Rightarrow> Some err | Inr _ \<Rightarrow> None) of
            None \<Rightarrow> Inl (new_with_request (RpcErrorKind
              (RpcResponseError (scast (wit_code e)) (wit_message e) EmptyData)) req)
          | Some err \<Rightarrow> Inl (new_with_request (CustomKind (''RPC call failed: '' @
              show_io_error E (IoCustom InvalidInput err))) req))
      | Inl errno \<Rightarrow> Inl (new_with_request (CustomKind (''RPC call failed: '' @
          show_io_error E (RawOsError errno))) req)),
     w\<lparr>hstate := h, trace := trace w @ [EvCallRpc (method_name req) b]\<rparr>)"
  using assms
  by (auto simp: send_def send_result_def call_rpc_def host_call_rpc_def read_rpc_error_def mapp_def
      bindp_def ret_def new_with_request_def map_err_def split: sum.split option.split)

lemma send_behaviour_witness:
  "send sample_env Inr GetHealth JNull (sample_world [Inr (Inl \<lparr>wit_code = -32005,
       wit_message = ''behind'', wit_data = None\<rparr>)]) =
     (Done (Inl (new_with_request (RpcErrorKind (RpcResponseError (- 32005) ''behind'' EmptyData))
        GetHealth)),
      (sample_world [])\<lparr>trace := [EvCallRpc ''getHealth'' []]\<rparr>)"
  using send_behaviour [of JNull sample_env "[]" GetHealth "sample_world [Inr (Inl \<lparr>wit_code = -32005,
       wit_message = ''behind'', wit_data = None\<rparr>)]" _ "(0, [])" Inr]
  by (simp add: sample_world_def)

text \<open>
  C35: every error of \<open>send\<close> names its request and re-tagging it with that request
  changes nothing; and no error of \<open>send\<close> carries a transaction error, since the data of a
  remote error are dropped.
\<close>

theorem send_error_is_tagged:
  assumes "send E de req params w = (Done (Inl e), w')"
  shows "err_request e = Some req \<and> into_with_request e req = e \<and> get_transaction_error e = None"
  using transport.tagged [OF assms] transport.retag_error [OF assms]
    transport.no_transaction_error [OF assms] by simp

lemma send_error_is_tagged_witness:
  "\<exists>e w'. send sample_env Inr SendTransaction JNull (sample_world [Inl 5]) = (Done (Inl e), w') \<and>
     err_request e = Some SendTransaction \<and> get_transaction_error e = None"
proof -
  let ?w = "sample_world [Inl 5]"
  obtain e w' where s: "send sample_env Inr SendTransaction JNull ?w = (Done (Inl e), w')"
    by (simp add: send_def call_rpc_def host_call_rpc_def send_result_def sample_world_def mapp_def
        bindp_def ret_def)
  with send_error_is_tagged [OF s] show ?thesis by blast
qed

text \<open>
  \<open>send\<close> panics only on parameters that are neither an object nor an array nor
  null; on all others it returns, touches none of the instance's statics, and asks for at most
  one call, under its own method name.
\<close>

theorem send_completes:
  "(structured params \<longleftrightarrow> (\<exists>r. fst (send E de req params w) = Done r)) \<and>
   same_statics w (snd (send E de req params w)) \<and>
   (\<exists>evs. trace (snd (send E de req params w)) = trace w @ evs \<and> length evs \<le> 1 \<and>
      list_all (is_call_named (method_name req)) evs)"
proof (intro conjI)
  show "structured params \<longleftrightarrow> (\<exists>r. fst (send E de req params w) = Done r)"
    using transport.completes [of params E de req w]
    by (auto simp: send_def panic_def)
  show "same_statics w (snd (send E de req params w))"
    using transport.statics_kept [of E de req params] by (simp add: moves_def)
  show "\<exists>evs. trace (snd (send E de req params w)) = trace w @ evs \<and> length evs \<le> 1 \<and>
      list_all (is_call_named (method_name req)) evs"
  proof (intro exI conjI)
    show "trace (snd (send E de req params w)) = trace w @ send_calls E req params"
      by (rule transport.issues)
    show "length (send_calls E req params) \<le> 1" by (rule transport.calls_one)
    show "list_all (is_call_named (method_name req)) (send_calls E req params)"
      unfolding list_all_iff by (auto dest: transport.calls_name)
  qed
qed

text \<open>
  The accounts of a program are returned in the node's order, one for one,
  each with its parsed address and decoded account, exactly when all of them parse; the first
  one that does not ends the call with a parse error tagged with the request.
\<close>

theorem keyed_accounts_parse:
  "case parse_keyed_accounts E accounts req of
     Inr out \<Rightarrow> list_all2 (\<lambda>ka (pk, a). pubkey_from_str E (ka_pubkey ka) = Inr pk \<and>
         account_decode E (ka_account ka) = Some a) accounts out
   | Inl e \<Rightarrow> err_request e = Some req \<and>
       err_kind e \<in> {RpcErrorKind (ParseError ''Pubkey''), RpcErrorKind (ParseError ''Account from rpc'')}
       \<and> (\<exists>ka \<in> set accounts. (\<exists>err. pubkey_from_str E (ka_pubkey ka) = Inl err) \<or>
            account_decode E (ka_account ka) = None)"
proof (cases "parse_keyed_accounts E accounts req")
  case (Inr out)
  then have "list_all2 (\<lambda>ka (pk, a). pubkey_from_str E (ka_pubkey ka) = Inr pk \<and>
      account_decode E (ka_account ka) = Some a) accounts out"
    by (simp add: parse_keyed_accounts_def push_keyed_accounts_ok)
  with Inr show ?thesis by simp
next
  case (Inl e)
  moreover have "\<exists>ka \<in> set kas. (\<exists>err. pubkey_from_str E (ka_pubkey ka) = Inl err) \<or>
      account_decode E (ka_account ka) = None"
    if "push_keyed_accounts E req acc kas = Inl e" for acc kas
    using that by (induction E req acc kas rule: push_keyed_accounts.induct)
      (auto split: sum.splits option.splits)
  moreover have "e = new_with_request (RpcErrorKind (ParseError ''Pubkey'')) req \<or>
      e = new_with_request (RpcErrorKind (ParseError ''Account from rpc'')) req"
    using Inl by (auto simp: parse_keyed_accounts_def dest: push_keyed_accounts_error)
  moreover have "push_keyed_accounts E req [] accounts = Inl e"
    using Inl by (simp add: parse_keyed_accounts_def)
  ultimately show ?thesis by (auto simp only: sum.case new_with_request_sel insert_iff HOL.simp_thms)
qed

end
