(* ===== verification/Zela_Client.thy ===== *)
theory Zela_Client
  imports Zela_Send
begin

text \<open>
  The single-request methods of \<open>RpcClient\<close> (\<open>src/rpc_client/client.rs\<close>), in the order of
  the file. A method whose result type is read by a derived or foreign \<open>Deserialize\<close> takes
  that reader as its argument \<open>de\<close>; \<open>self\<close> appears where the method reads the client's
  configuration. The methods that submit transactions are in \<open>Zela_Transactions\<close>, those that
  loop in \<open>Zela_Polling\<close>.
\<close>

definition client_target :: string where
  "client_target = ''zela_std::rpc_client::client''"

definition ser_pubkeys :: "'h env \<Rightarrow> pubkey list \<Rightarrow> json" where
  "ser_pubkeys E addresses = ser_vec (\<lambda>a. JString (pubkey_to_string E a)) addresses"

text \<open>\<open>Option::filter\<close>.\<close>

definition opt_filter :: "('a \<Rightarrow> bool) \<Rightarrow> 'a option \<Rightarrow> 'a option" where
  "opt_filter P x = (case x of Some v \<Rightarrow> if P v then Some v else None | None \<Rightarrow> None)"

lemma opt_filter_Some: "opt_filter P x = Some v \<longleftrightarrow> x = Some v \<and> P v"
  by (auto simp: opt_filter_def split: option.splits if_splits)

section \<open>Slots, heights and leaders\<close>

definition get_highest_snapshot_slot where
  "get_highest_snapshot_slot E de = send E de GetHighestSnapshotSlot JNull"

definition get_slot_with_commitment where
  "get_slot_with_commitment E de c = send E de GetSlot (JArray [ser_commitment E c])"

definition get_slot where
  "get_slot E de self = get_slot_with_commitment E de (commitment self)"

definition get_block_height_with_commitment where
  "get_block_height_with_commitment E de c =
     send E de GetBlockHeight (JArray [ser_commitment E c])"

definition get_block_height where
  "get_block_height E de self = get_block_height_with_commitment E de (commitment self)"

definition get_slot_leaders ::
  "'h env \<Rightarrow> (json \<Rightarrow> serde_error + string list) \<Rightarrow> slot \<Rightarrow> u64
     \<Rightarrow> ('h world, pubkey list client_result) prog" where
  "get_slot_leaders E de start_slot limit =
     mapp (and_then (traverse (\<lambda>slot_leader. map_err
         (\<lambda>err. error_from_kind (CustomKind (''pubkey deserialization failed: '' @ err)))
         (pubkey_from_str E slot_leader))))
       (send E de GetSlotLeaders (JArray [ser_u64 start_slot, ser_u64 limit]))"

definition get_block_production where
  "get_block_production E de = send E de GetBlockProduction JNull"

definition get_block_production_with_config where
  "get_block_production_with_config E de config =
     send E de GetBlockProduction (JArray [JObject (members_block_production_config E config)])"

definition supply_with_commitment where
  "supply_with_commitment E de c = send E de GetSupply (JArray [ser_commitment E c])"

definition client_supply where
  "client_supply E de self = supply_with_commitment E de (commitment self)"

definition get_largest_accounts_with_config where
  "get_largest_accounts_with_config E de config =
     (let commitment = (case lac_commitment config of None \<Rightarrow> default_commitment E | Some c \<Rightarrow> c);
          config = config\<lparr>lac_commitment := Some commitment\<rparr>
      in send E de GetLargestAccounts (JArray [JObject (members_largest_accounts_config E config)]))"

definition get_vote_accounts_with_config where
  "get_vote_accounts_with_config E de config =
     send E de GetVoteAccounts (JArray [JObject (members_get_vote_accounts_config E config)])"

definition get_vote_accounts_with_commitment where
  "get_vote_accounts_with_commitment E de c =
     get_vote_accounts_with_config E de (default_get_vote_accounts_config\<lparr>gvc_commitment := Some c\<rparr>)"

definition get_vote_accounts where
  "get_vote_accounts E de self = get_vote_accounts_with_commitment E de (commitment self)"

definition get_cluster_nodes where
  "get_cluster_nodes E de = send E de GetClusterNodes JNull"

section \<open>Blocks and history\<close>

definition ser_transaction_encoding :: "'h env \<Rightarrow> ui_transaction_encoding \<Rightarrow> json" where
  "ser_transaction_encoding E e = JString (transaction_encoding_name E e)"

definition get_block_with_encoding where
  "get_block_with_encoding E de slot encoding =
     send E de GetBlock (JArray [ser_u64 slot, ser_transaction_encoding E encoding])"

definition get_block where
  "get_block E de slot = get_block_with_encoding E de slot UiJson"

definition get_block_with_config where
  "get_block_with_config E de slot config =
     send E de GetBlock (JArray [ser_u64 slot, JObject (members_block_config E config)])"

definition get_blocks where
  "get_blocks E de start_slot end_slot =
     send E de GetBlocks (JArray [ser_u64 start_slot, ser_opt ser_u64 end_slot])"

definition get_blocks_with_commitment where
  "get_blocks_with_commitment E de start_slot end_slot c =
     (let json = (if end_slot \<noteq> None
          then JArray [ser_u64 start_slot, ser_opt ser_u64 end_slot, ser_commitment E c]
          else JArray [ser_u64 start_slot, ser_commitment E c])
      in send E de GetBlocks json)"

definition get_blocks_with_limit where
  "get_blocks_with_limit E de start_slot limit =
     send E de GetBlocksWithLimit (JArray [ser_u64 start_slot, ser_usize limit])"

definition get_blocks_with_limit_and_commitment where
  "get_blocks_with_limit_and_commitment E de start_slot limit c =
     send E de GetBlocksWithLimit
       (JArray [ser_u64 start_slot, ser_usize limit, ser_commitment E c])"

text \<open>\<open>GetConfirmedSignaturesForAddress2Config\<close> of \<open>util.rs\<close>.\<close>

record get_signatures_config =
  gsc_before :: "signature option"
  gsc_until :: "signature option"
  gsc_limit :: "usize option"
  gsc_commitment :: "commitment_config option"

definition default_get_signatures_config :: get_signatures_config where
  "default_get_signatures_config =
     \<lparr>gsc_before = None, gsc_until = None, gsc_limit = None, gsc_commitment = None\<rparr>"

definition get_signatures_for_address_with_config where
  "get_signatures_for_address_with_config E de address config =
     (let config' = \<lparr>
         sfa_before = map_option (signature_to_string E) (gsc_before config),
         sfa_until = map_option (signature_to_string E) (gsc_until config),
         sfa_limit = gsc_limit config,
         sfa_commitment = gsc_commitment config,
         sfa_min_context_slot = None\<rparr>
      in send E de GetSignaturesForAddress (JArray [JString (pubkey_to_string E address),
           JObject (members_signatures_for_address_config E config')]))"

definition get_signatures_for_address where
  "get_signatures_for_address E de address =
     get_signatures_for_address_with_config E de address default_get_signatures_config"

definition get_transaction where
  "get_transaction E de signature encoding = send E de GetTransaction
     (JArray [JString (signature_to_string E signature), ser_transaction_encoding E encoding])"

definition get_transaction_with_config where
  "get_transaction_with_config E de signature config = send E de GetTransaction
     (JArray [JString (signature_to_string E signature),
        JObject (members_transaction_config E config)])"

text \<open>
  \<open>response.map(closure).map_err(tag)?\<close>: the closure's own result is the result of the
  method, so its errors do not pass through \<open>map_err\<close>.
\<close>

definition get_block_time ::
  "'h env \<Rightarrow> (json \<Rightarrow> serde_error + i64) \<Rightarrow> slot
     \<Rightarrow> ('h world, unix_timestamp client_result) prog" where
  "get_block_time E de slot = (let request = GetBlockTime in
     bindp (send E Inr request (JArray [ser_u64 slot])) (\<lambda>response. case response of
         Inl err \<Rightarrow> ret (Inl (into_with_request err request))
       | Inr result_json \<Rightarrow>
           if is_null result_json then
             ret (Inl (error_from_rpc (ForUser (''Block Not Found: slot='' @ nat_str (unat slot)))))
           else (case de result_json of
               Inl err \<Rightarrow> ret (Inl (new_with_request (SerdeJsonKind err) request))
             | Inr result \<Rightarrow> bindp (log_at E LevelTrace client_target
                 (''Response block timestamp '' @ nat_str (unat slot) @ '' '' @ int_str (sint result)))
                 (\<lambda>_. ret (Inr result)))))"

definition get_epoch_info_with_commitment where
  "get_epoch_info_with_commitment E de c = send E de GetEpochInfo (JArray [ser_commitment E c])"

definition get_epoch_info where
  "get_epoch_info E de self = get_epoch_info_with_commitment E de (commitment self)"

definition get_leader_schedule_with_config where
  "get_leader_schedule_with_config E de slot config = send E de GetLeaderSchedule
     (JArray [ser_opt ser_u64 slot, JObject (members_leader_schedule_config E config)])"

definition get_leader_schedule_with_commitment where
  "get_leader_schedule_with_commitment E de slot c = get_leader_schedule_with_config E de slot
     (default_leader_schedule_config\<lparr>lsc_commitment := Some c\<rparr>)"

definition get_leader_schedule where
  "get_leader_schedule E de self slot =
     get_leader_schedule_with_commitment E de slot (commitment self)"

definition get_epoch_schedule where
  "get_epoch_schedule E de = send E de GetEpochSchedule JNull"

definition get_recent_performance_samples where
  "get_recent_performance_samples E de limit =
     send E de GetRecentPerformanceSamples (JArray [ser_opt ser_usize limit])"

definition get_recent_prioritization_fees where
  "get_recent_prioritization_fees E de addresses =
     send E de GetRecentPrioritizationFees (JArray [ser_pubkeys E addresses])"

section \<open>Node and inflation\<close>

definition get_identity ::
  "'h env \<Rightarrow> (json \<Rightarrow> serde_error + rpc_identity) \<Rightarrow> ('h world, pubkey client_result) prog" where
  "get_identity E de = tryp (send E de GetIdentity JNull) (\<lambda>rpc_identity. ret
     (map_err (\<lambda>_. new_with_request (RpcErrorKind (ParseError ''Pubkey'')) GetIdentity)
        (pubkey_from_str E (id_identity rpc_identity))))"

definition get_inflation_governor where
  "get_inflation_governor E de = send E de GetInflationGovernor JNull"

definition get_inflation_rate where
  "get_inflation_rate E de = send E de GetInflationRate JNull"

definition get_inflation_reward where
  "get_inflation_reward E de self addresses epoch = send E de GetInflationReward
     (JArray [ser_pubkeys E addresses, JObject (members_epoch_config E
        \<lparr>epc_epoch = epoch, epc_commitment = Some (commitment self),
         epc_min_context_slot = None\<rparr>)])"

definition get_version where
  "get_version E de = send E de GetVersion JNull"

definition minimum_ledger_slot where
  "minimum_ledger_slot E de = send E de MinimumLedgerSlot JNull"

section \<open>Accounts\<close>

definition account_not_found :: "'h env \<Rightarrow> pubkey \<Rightarrow> string" where
  "account_not_found E pubkey = ''AccountNotFound: pubkey='' @ pubkey_to_string E pubkey"

text \<open>A failed \<open>send\<close> is folded into the text; errors of the closure stay as they are.\<close>

definition get_account_with_config ::
  "'h env \<Rightarrow> (json \<Rightarrow> serde_error + ui_account option response) \<Rightarrow> pubkey
     \<Rightarrow> rpc_account_info_config \<Rightarrow> ('h world, account option response client_result) prog" where
  "get_account_with_config E de pubkey config =
     bindp (send E Inr GetAccountInfo (JArray [JString (pubkey_to_string E pubkey),
         JObject (members_account_info_config E config)])) (\<lambda>response. case response of
         Inl err \<Rightarrow> ret (Inl (error_from_rpc (ForUser
             (account_not_found E pubkey @ '': '' @ show_error E err))))
       | Inr result_json \<Rightarrow>
           if is_null result_json then
             ret (Inl (error_from_rpc (ForUser (account_not_found E pubkey))))
           else (case de result_json of
               Inl err \<Rightarrow> ret (Inl (error_from_serde err))
             | Inr rsp \<Rightarrow> bindp (log_at E LevelTrace client_target
                 (''Response account '' @ dbg_pubkey E pubkey @ '' '' @
                  dbg_ui_account E (rsp_value rsp)))
                 (\<lambda>_. ret (Inr \<lparr>rsp_context = rsp_context rsp,
                    rsp_value = Option.bind (rsp_value rsp) (account_decode E)\<rparr>))))"

definition get_account_with_commitment where
  "get_account_with_commitment E de pubkey c = get_account_with_config E de pubkey
     \<lparr>aic_encoding = Some AccountBase64Zstd, aic_data_slice = None, aic_commitment = Some c,
      aic_min_context_slot = None\<rparr>"

definition get_account where
  "get_account E de self pubkey = tryp (get_account_with_commitment E de pubkey (commitment self))
     (\<lambda>rsp. ret (ok_or (error_from_rpc (ForUser (account_not_found E pubkey))) (rsp_value rsp)))"

definition get_max_retransmit_slot where
  "get_max_retransmit_slot E de = send E de GetMaxRetransmitSlot JNull"

definition get_max_shred_insert_slot where
  "get_max_shred_insert_slot E de = send E de GetMaxShredInsertSlot JNull"

definition get_multiple_accounts_with_config ::
  "'h env \<Rightarrow> (json \<Rightarrow> serde_error + ui_account option list response) \<Rightarrow> rpc_client \<Rightarrow> pubkey list
     \<Rightarrow> rpc_account_info_config \<Rightarrow> ('h world, account option list response client_result) prog"
  where
  "get_multiple_accounts_with_config E de self pubkeys config =
     (let config = config\<lparr>aic_commitment :=
         (case aic_commitment config of Some c \<Rightarrow> Some c | None \<Rightarrow> Some (commitment self))\<rparr>
      in tryp (send E Inr GetMultipleAccounts (JArray [ser_pubkeys E pubkeys,
           JObject (members_account_info_config E config)])) (\<lambda>response. case de response of
           Inl err \<Rightarrow> ret (Inl (error_from_serde err))
         | Inr rsp \<Rightarrow> ret (Inr \<lparr>rsp_context = rsp_context rsp,
             rsp_value = map (\<lambda>rpc_account. Option.bind rpc_account (account_decode E))
               (rsp_value rsp)\<rparr>)))"

definition get_multiple_accounts_with_commitment where
  "get_multiple_accounts_with_commitment E de self pubkeys c =
     get_multiple_accounts_with_config E de self pubkeys
       \<lparr>aic_encoding = Some AccountBase64Zstd, aic_data_slice = None, aic_commitment = Some c,
        aic_min_context_slot = None\<rparr>"

definition get_multiple_accounts where
  "get_multiple_accounts E de self pubkeys = mapp (map_ok rsp_value)
     (get_multiple_accounts_with_commitment E de self pubkeys (commitment self))"

definition get_account_data where
  "get_account_data E de self pubkey = mapp (map_ok acc_data) (get_account E de self pubkey)"

definition get_minimum_balance_for_rent_exemption ::
  "'h env \<Rightarrow> (json \<Rightarrow> serde_error + u64) \<Rightarrow> usize \<Rightarrow> ('h world, u64 client_result) prog" where
  "get_minimum_balance_for_rent_exemption E de data_len =
     (let request = GetMinimumBalanceForRentExemption in
      tryp (mapp (map_err (\<lambda>err. into_with_request err request))
          (send E Inr request (JArray [ser_usize data_len]))) (\<lambda>minimum_balance_json.
        case de minimum_balance_json of
          Inl err \<Rightarrow> ret (Inl (new_with_request (SerdeJsonKind err) request))
        | Inr minimum_balance \<Rightarrow> bindp (log_at E LevelTrace client_target
            (''Response minimum balance '' @ nat_str (unat data_len) @ '' '' @
             nat_str (unat minimum_balance)))
            (\<lambda>_. ret (Inr minimum_balance))))"

definition get_balance_with_commitment ::
  "'h env \<Rightarrow> (json \<Rightarrow> serde_error + u64 response) \<Rightarrow> pubkey \<Rightarrow> commitment_config
     \<Rightarrow> ('h world, u64 response client_result) prog" where
  "get_balance_with_commitment E de pubkey c = send E de GetBalance
     (JArray [JString (pubkey_to_string E pubkey), ser_commitment E c])"

definition get_balance where
  "get_balance E de self pubkey =
     mapp (map_ok rsp_value) (get_balance_with_commitment E de pubkey (commitment self))"

definition get_program_accounts_with_config ::
  "'h env \<Rightarrow> (json \<Rightarrow> serde_error + rpc_keyed_account list optional_context) \<Rightarrow> rpc_client
     \<Rightarrow> pubkey \<Rightarrow> rpc_program_accounts_config
     \<Rightarrow> ('h world, (pubkey \<times> account) list client_result) prog" where
  "get_program_accounts_with_config E de self pubkey config =
     (let c = (case aic_commitment (pac_account_config config) of
          Some c \<Rightarrow> c | None \<Rightarrow> commitment self);
          config = config\<lparr>pac_account_config :=
            (pac_account_config config)\<lparr>aic_commitment := Some c\<rparr>\<rparr>
      in tryp (send E de GetProgramAccounts (JArray [JString (pubkey_to_string E pubkey),
           JObject (members_program_accounts_config E config)])) (\<lambda>accounts.
         ret (parse_keyed_accounts E (parse_value accounts) GetProgramAccounts)))"

definition get_program_accounts where
  "get_program_accounts E de self pubkey = get_program_accounts_with_config E de self pubkey
     (default_program_accounts_config\<lparr>pac_account_config :=
        default_account_info_config\<lparr>aic_encoding := Some AccountBase64Zstd\<rparr>\<rparr>)"

section \<open>Stake, counts and health\<close>

definition get_stake_minimum_delegation_with_commitment ::
  "'h env \<Rightarrow> (json \<Rightarrow> serde_error + u64 response) \<Rightarrow> commitment_config
     \<Rightarrow> ('h world, u64 client_result) prog" where
  "get_stake_minimum_delegation_with_commitment E de c = mapp (map_ok rsp_value)
     (send E de GetStakeMinimumDelegation (JArray [ser_commitment E c]))"

definition get_stake_minimum_delegation where
  "get_stake_minimum_delegation E de self =
     get_stake_minimum_delegation_with_commitment E de (commitment self)"

definition get_transaction_count_with_commitment where
  "get_transaction_count_with_commitment E de c =
     send E de GetTransactionCount (JArray [ser_commitment E c])"

definition get_transaction_count where
  "get_transaction_count E de self = get_transaction_count_with_commitment E de (commitment self)"

definition get_first_available_block where
  "get_first_available_block E de = send E de GetFirstAvailableBlock JNull"

definition get_genesis_hash ::
  "'h env \<Rightarrow> (json \<Rightarrow> serde_error + string) \<Rightarrow> ('h world, hash client_result) prog" where
  "get_genesis_hash E de = tryp (send E de GetGenesisHash JNull) (\<lambda>hash_str. ret
     (map_err (\<lambda>_. new_with_request (RpcErrorKind (ParseError ''Hash'')) GetGenesisHash)
        (hash_from_str E hash_str)))"

definition get_health ::
  "'h env \<Rightarrow> (json \<Rightarrow> serde_error + string) \<Rightarrow> ('h world, unit client_result) prog" where
  "get_health E de = mapp (map_ok (\<lambda>_. ())) (send E de GetHealth JNull)"

section \<open>Token accounts\<close>

definition token_account_unparsed :: "'h env \<Rightarrow> pubkey \<Rightarrow> string" where
  "token_account_unparsed E pubkey =
     ''Account could not be parsed as token account: pubkey='' @ pubkey_to_string E pubkey"

definition get_token_account_with_commitment ::
  "'h env \<Rightarrow> (json \<Rightarrow> serde_error + ui_account option response)
     \<Rightarrow> (json \<Rightarrow> serde_error + token_account_type) \<Rightarrow> pubkey \<Rightarrow> commitment_config
     \<Rightarrow> ('h world, ui_token_account option response client_result) prog" where
  "get_token_account_with_commitment E de de_token pubkey c =
     (let config = \<lparr>aic_encoding = Some AccountJsonParsed, aic_data_slice = None,
          aic_commitment = Some c, aic_min_context_slot = None\<rparr> in
      bindp (send E Inr GetAccountInfo (JArray [JString (pubkey_to_string E pubkey),
         JObject (members_account_info_config E config)])) (\<lambda>response. case response of
         Inl err \<Rightarrow> ret (Inl (error_from_rpc (ForUser
             (account_not_found E pubkey @ '': '' @ show_error E err))))
       | Inr result_json \<Rightarrow>
           if is_null result_json then
             ret (Inl (error_from_rpc (ForUser (account_not_found E pubkey))))
           else (case de result_json of
               Inl err \<Rightarrow> ret (Inl (error_from_serde err))
             | Inr rsp \<Rightarrow> bindp (log_at E LevelTrace client_target
                 (''Response account '' @ dbg_pubkey E pubkey @ '' '' @
                  dbg_ui_account E (rsp_value rsp)))
                 (\<lambda>_. let unparsed =
                     Inl (error_from_rpc (ForUser (token_account_unparsed E pubkey)))
                   in ret (case rsp_value rsp of
                     Some rpc_account \<Rightarrow> (case ua_data rpc_account of
                         DataJson account_data \<Rightarrow> (case de_token (pa_parsed account_data) of
                             Inl err \<Rightarrow> Inl (error_from_serde err)
                           | Inr (TokenAccount token_account) \<Rightarrow>
                               Inr \<lparr>rsp_context = rsp_context rsp,
                                 rsp_value = Some token_account\<rparr>
                           | Inr _ \<Rightarrow> unparsed)
                       | _ \<Rightarrow> unparsed)
                   | None \<Rightarrow> unparsed)))))"

definition get_token_account where
  "get_token_account E de de_token self pubkey = mapp (map_ok rsp_value)
     (get_token_account_with_commitment E de de_token pubkey (commitment self))"

definition get_token_account_balance_with_commitment where
  "get_token_account_balance_with_commitment E de pubkey c = send E de GetTokenAccountBalance
     (JArray [JString (pubkey_to_string E pubkey), ser_commitment E c])"

definition get_token_account_balance where
  "get_token_account_balance E de self pubkey = mapp (map_ok rsp_value)
     (get_token_account_balance_with_commitment E de pubkey (commitment self))"

fun token_filter_param :: "'h env \<Rightarrow> token_accounts_filter \<Rightarrow> rpc_token_accounts_filter" where
  "token_filter_param E (MintFilter mint) = TokenMintFilter (pubkey_to_string E mint)"
| "token_filter_param E (ProgramIdFilter program_id) =
     TokenProgramIdFilter (pubkey_to_string E program_id)"

definition get_token_accounts_by_delegate_with_commitment where
  "get_token_accounts_by_delegate_with_commitment E de delegate token_account_filter c =
     (let token_account_filter = token_filter_param E token_account_filter;
          config = \<lparr>aic_encoding = Some AccountJsonParsed, aic_data_slice = None,
            aic_commitment = Some c, aic_min_context_slot = None\<rparr>
      in send E de GetTokenAccountsByOwner (JArray [JString (pubkey_to_string E delegate),
           ser_token_accounts_filter token_account_filter,
           JObject (members_account_info_config E config)]))"

definition get_token_accounts_by_delegate where
  "get_token_accounts_by_delegate E de self delegate token_account_filter =
     mapp (map_ok rsp_value) (get_token_accounts_by_delegate_with_commitment E de delegate
       token_account_filter (commitment self))"

definition get_token_accounts_by_owner_with_commitment where
  "get_token_accounts_by_owner_with_commitment E de owner token_account_filter c =
     (let token_account_filter = token_filter_param E token_account_filter;
          config = \<lparr>aic_encoding = Some AccountJsonParsed, aic_data_slice = None,
            aic_commitment = Some c, aic_min_context_slot = None\<rparr>
      in send E de GetTokenAccountsByOwner (JArray [JString (pubkey_to_string E owner),
           ser_token_accounts_filter token_account_filter,
           JObject (members_account_info_config E config)]))"

definition get_token_accounts_by_owner where
  "get_token_accounts_by_owner E de self owner token_account_filter =
     mapp (map_ok rsp_value) (get_token_accounts_by_owner_with_commitment E de owner
       token_account_filter (commitment self))"

definition get_token_largest_accounts_with_commitment where
  "get_token_largest_accounts_with_commitment E de mint c = send E de GetTokenLargestAccounts
     (JArray [JString (pubkey_to_string E mint), ser_commitment E c])"

definition get_token_largest_accounts where
  "get_token_largest_accounts E de self mint = mapp (map_ok rsp_value)
     (get_token_largest_accounts_with_commitment E de mint (commitment self))"

definition get_token_supply_with_commitment where
  "get_token_supply_with_commitment E de mint c = send E de GetTokenSupply
     (JArray [JString (pubkey_to_string E mint), ser_commitment E c])"

definition get_token_supply where
  "get_token_supply E de self mint = mapp (map_ok rsp_value)
     (get_token_supply_with_commitment E de mint (commitment self))"

section \<open>Airdrops\<close>

definition request_airdrop_with_config ::
  "'h env \<Rightarrow> (json \<Rightarrow> serde_error + string) \<Rightarrow> pubkey \<Rightarrow> u64 \<Rightarrow> rpc_request_airdrop_config
     \<Rightarrow> ('h world, signature client_result) prog" where
  "request_airdrop_with_config E de pubkey lamports config =
     (let commitment = (case adc_commitment config of None \<Rightarrow> default_commitment E | Some c \<Rightarrow> c);
          config = config\<lparr>adc_commitment := Some commitment\<rparr>
      in mapp (\<lambda>r. map_err
            (\<lambda>_. error_from_rpc (ForUser (''airdrop request failed. '' @
               ''This can happen when the rate limit is reached.'')))
            (and_then (\<lambda>signature. map_err
               (\<lambda>err. error_from_kind (CustomKind (''signature deserialization failed: '' @ err)))
               (signature_from_str E signature)) r))
          (send E de RequestAirdrop (JArray [JString (pubkey_to_string E pubkey),
             ser_u64 lamports, JObject (members_request_airdrop_config E config)])))"

definition request_airdrop where
  "request_airdrop E de self pubkey lamports = request_airdrop_with_config E de pubkey lamports
     (default_request_airdrop_config\<lparr>adc_commitment := Some (commitment self)\<rparr>)"

definition request_airdrop_with_blockhash where
  "request_airdrop_with_blockhash E de self pubkey lamports recent_blockhash =
     request_airdrop_with_config E de pubkey lamports
       \<lparr>adc_recent_blockhash = Some (hash_to_string E recent_blockhash),
        adc_commitment = Some (commitment self)\<rparr>"

section \<open>Blockhashes and fees\<close>

definition get_latest_blockhash_with_commitment ::
  "'h env \<Rightarrow> (json \<Rightarrow> serde_error + rpc_blockhash response) \<Rightarrow> commitment_config
     \<Rightarrow> ('h world, (hash \<times> u64) client_result) prog" where
  "get_latest_blockhash_with_commitment E de c =
     tryp (send E de GetLatestBlockhash (JArray [ser_commitment E c])) (\<lambda>rsp.
       let rpc_blockhash = rsp_value rsp in
       ret (map_ok (\<lambda>blockhash. (blockhash, bh_last_valid_block_height rpc_blockhash))
         (map_err (\<lambda>_. new_with_request (RpcErrorKind (ParseError ''Hash'')) GetLatestBlockhash)
            (hash_from_str E (bh_blockhash rpc_blockhash)))))"

definition get_latest_blockhash where
  "get_latest_blockhash E de self = mapp (map_ok fst)
     (get_latest_blockhash_with_commitment E de (commitment self))"

definition is_blockhash_valid ::
  "'h env \<Rightarrow> (json \<Rightarrow> serde_error + bool response) \<Rightarrow> hash \<Rightarrow> commitment_config
     \<Rightarrow> ('h world, bool client_result) prog" where
  "is_blockhash_valid E de blockhash c = mapp (map_ok rsp_value)
     (send E de IsBlockhashValid (JArray [JString (hash_to_string E blockhash), ser_commitment E c]))"

text \<open>The message's \<open>bincode\<close> form is the argument \<open>serialized\<close>.\<close>

definition get_fee_for_message ::
  "'h env \<Rightarrow> (json \<Rightarrow> serde_error + u64 option response) \<Rightarrow> rpc_client \<Rightarrow> string + u8 list
     \<Rightarrow> ('h world, u64 client_result) prog" where
  "get_fee_for_message E de self serialized =
     tryp (ret (serialize_and_encode E serialized UiBase64)) (\<lambda>serialized_encoded.
     tryp (send E de GetFeeForMessage
         (JArray [JString serialized_encoded, ser_commitment E (commitment self)])) (\<lambda>result.
       ret (ok_or (error_from_kind (CustomKind ''Invalid blockhash'')) (rsp_value result))))"

section \<open>An untagged error\<close>

text \<open>
  The error of a block time query is tagged with its request except for a block
  that was not found, which carries no request: it is returned from inside the closure, past
  the re-tagging.
\<close>

lemma block_time_errors:
  assumes "get_block_time E de slot w = (Done (Inl e), w')"
  shows "err_request e = Some GetBlockTime \<or>
    e = error_from_rpc (ForUser (''Block Not Found: slot='' @ nat_str (unat slot)))"
  using assms
  by (auto simp: get_block_time_def Let_def bindp_eq_Done ret_def split_sum_ex
      split: if_splits sum.splits)

section \<open>Properties\<close>

lemma trace_lineE:
  obtains w' where "\<And>line. log_at E LevelTrace client_target line w = (Done (), w' line)"
  using that [of "\<lambda>line. snd (log_at E LevelTrace client_target line w)"]
  by (simp add: log_at_def host_log_def split: option.split)

lemma get_account_run:
  assumes "send E Inr GetAccountInfo (JArray [JString (pubkey_to_string E pk),
      JObject (members_account_info_config E
        \<lparr>aic_encoding = Some AccountBase64Zstd, aic_data_slice = None,
         aic_commitment = Some (commitment self), aic_min_context_slot = None\<rparr>)]) w = (Done r, w1)"
  shows "get_account E de self pk w = (case r of
      Inl err \<Rightarrow> (Done (Inl (error_from_rpc (ForUser
        (account_not_found E pk @ '': '' @ show_error E err)))), w1)
    | Inr j \<Rightarrow> (if is_null j then (Done (Inl (error_from_rpc (ForUser (account_not_found E pk)))), w1)
        else (case de j of
            Inl err \<Rightarrow> (Done (Inl (error_from_serde err)), w1)
          | Inr rsp \<Rightarrow> (Done (ok_or (error_from_rpc (ForUser (account_not_found E pk)))
              (Option.bind (rsp_value rsp) (account_decode E))),
              snd (log_at E LevelTrace client_target (''Response account '' @ dbg_pubkey E pk @
                '' '' @ dbg_ui_account E (rsp_value rsp)) w1)))))"
proof -
  obtain w2 where "log_at E LevelTrace client_target line w1 = (Done (), w2 line)" for line
    using trace_lineE [of E w1] by blast
  with assms show ?thesis
    by (simp add: get_account_def get_account_with_commitment_def get_account_with_config_def
        tryp_def bindp_def ret_def split: sum.split)
qed

text \<open>
  C30: \<open>get_account\<close> asks the node once, for the account of the very key, as
  compressed base64 and at the client's commitment. It returns an account exactly when the
  answer is not null, reads as a response, holds an account, and that account decodes; and then
  it is that account. Every other answer is an error: the one of the reader where the answer is
  no response, and else one for the user that names the key, with the text of the failed request
  where that failed. It never panics, and after the request it at most writes a trace line.
\<close>

theorem account_is_node_answer:
  "\<exists>r w1 result w'. send E Inr GetAccountInfo (JArray [JString (pubkey_to_string E pk),
      JObject (members_account_info_config E
        \<lparr>aic_encoding = Some AccountBase64Zstd, aic_data_slice = None,
         aic_commitment = Some (commitment self), aic_min_context_slot = None\<rparr>)]) w = (Done r, w1) \<and>
    get_account E de self pk w = (Done result, w') \<and>
    (w' = w1 \<or> (\<exists>line. log_at E LevelTrace client_target line w1 = (Done (), w'))) \<and>
    (case result of
       Inr a \<Rightarrow> \<exists>j rsp ua. r = Inr j \<and> \<not> is_null j \<and> de j = Inr rsp \<and>
         rsp_value rsp = Some ua \<and> account_decode E ua = Some a
     | Inl e \<Rightarrow>
         (\<exists>err. r = Inl err \<and> e = error_from_rpc (ForUser
            (''AccountNotFound: pubkey='' @ pubkey_to_string E pk @ '': '' @ show_error E err))) \<or>
         (\<exists>j err. r = Inr j \<and> \<not> is_null j \<and> de j = Inl err \<and> e = error_from_serde err) \<or>
         (\<exists>j. r = Inr j \<and>
            (is_null j \<or> (\<exists>rsp. de j = Inr rsp \<and>
               Option.bind (rsp_value rsp) (account_decode E) = None)) \<and>
            e = error_from_rpc (ForUser (''AccountNotFound: pubkey='' @ pubkey_to_string E pk))))"
proof -
  let ?ps = "JArray [JString (pubkey_to_string E pk), JObject (members_account_info_config E
    \<lparr>aic_encoding = Some AccountBase64Zstd, aic_data_slice = None,
     aic_commitment = Some (commitment self), aic_min_context_slot = None\<rparr>)]"
  obtain r w1 where s: "send E Inr GetAccountInfo ?ps w = (Done r, w1)"
    using transport.completes [of ?ps E Inr GetAccountInfo w] by auto
  obtain w2 where l: "log_at E LevelTrace client_target line w1 = (Done (), w2 line)" for line
    using trace_lineE [of E w1] by blast
  note run = get_account_run [OF s, of de, unfolded l snd_conv]
  show ?thesis
  proof (cases r)
    case (Inl err)
    with s run show ?thesis by (simp add: account_not_found_def)
  next
    case r: (Inr j)
    consider (null) "is_null j" | (unread) err where "\<not> is_null j" "de j = Inl err"
      | (none) rsp where "\<not> is_null j" "de j = Inr rsp"
          "Option.bind (rsp_value rsp) (account_decode E) = None"
      | (some) rsp ua a where "\<not> is_null j" "de j = Inr rsp" "rsp_value rsp = Some ua"
          "account_decode E ua = Some a"
      by (cases "de j") (force simp: bind_eq_Some_conv)+
    then show ?thesis
      using s run r l by cases (auto simp: account_not_found_def)
  qed
qed

text \<open>
  The accounts returned for several keys are aligned with the node's
  answer, position by position: the same context and length, each present account decoded, an
  absent or undecodable one \<open>None\<close>.
\<close>

theorem multiple_accounts_aligned:
  assumes "get_multiple_accounts_with_config E de self pks config w = (Done (Inr rsp), w')"
  shows "\<exists>j raw. de j = Inr raw \<and> rsp_context rsp = rsp_context raw \<and>
    length (rsp_value rsp) = length (rsp_value raw) \<and>
    list_all2 (\<lambda>account answer. account = Option.bind answer (account_decode E))
      (rsp_value rsp) (rsp_value raw)"
proof -
  from assms obtain j raw where "de j = Inr raw" "rsp = \<lparr>rsp_context = rsp_context raw,
      rsp_value = map (\<lambda>a. Option.bind a (account_decode E)) (rsp_value raw)\<rparr>"
    by (auto simp: get_multiple_accounts_with_config_def Let_def tryp_eq_Ok match_eq_Ok ret_apply)
  then show ?thesis by (auto simp: list_all2_conv_all_nth)
qed

lemma multiple_accounts_aligned_witness:
  "\<exists>rsp. fst (get_multiple_accounts_with_config sample_env (sample_response [None, Some sample_account])
      sample_client [Pubkey [1], Pubkey [2]] default_account_info_config
      (sample_world [sample_reply []])) = Done (Inr rsp) \<and> length (rsp_value rsp) = 2"
proof -
  let ?r = "get_multiple_accounts_with_config sample_env (sample_response [None, Some sample_account])
      sample_client [Pubkey [1], Pubkey [2]] default_account_info_config
      (sample_world [sample_reply []])"
  obtain rsp where r: "?r = (Done (Inr rsp), snd ?r)"
    by (simp add: get_multiple_accounts_with_config_def sample_run)
  from multiple_accounts_aligned [OF r] have "length (rsp_value rsp) = 2"
    by (auto simp: sample_response_def)
  with r show ?thesis by (metis fst_conv)
qed

text \<open>
  Every request for program accounts states a commitment: the one of the
  filter's account options where it is set, else the client's, readable in the flattened
  options under the one member of that name.
\<close>

theorem program_accounts_commitment:
  "\<exists>ms. get_program_accounts_with_config E de self pk config =
      tryp (send E de GetProgramAccounts (JArray [JString (pubkey_to_string E pk), JObject ms]))
        (\<lambda>accounts. ret (parse_keyed_accounts E (parse_value accounts) GetProgramAccounts)) \<and>
    distinct (map fst ms) \<and>
    member_of (JObject ms) ''commitment'' = Some (JString (commitment_level_name E (cc_level
      (case aic_commitment (pac_account_config config) of Some c \<Rightarrow> c | None \<Rightarrow> commitment self))))"
proof -
  let ?c = "case aic_commitment (pac_account_config config) of Some c \<Rightarrow> c | None \<Rightarrow> commitment self"
  let ?config = "config\<lparr>pac_account_config := (pac_account_config config)\<lparr>aic_commitment := Some ?c\<rparr>\<rparr>"
  let ?ms = "members_program_accounts_config E ?config"
  have "(''commitment'', JString (commitment_level_name E (cc_level ?c))) \<in> set ?ms"
    by (simp add: members_program_accounts_config_def members_account_info_config_def
        commitment_members_def)
  then have "member_of (JObject ?ms) ''commitment'' =
      Some (JString (commitment_level_name E (cc_level ?c)))"
    by (simp only: program_accounts_wire.member_iff)
  moreover have "distinct (map fst ?ms)" by (rule program_accounts_wire.distinct_names)
  moreover have "get_program_accounts_with_config E de self pk config =
      tryp (send E de GetProgramAccounts (JArray [JString (pubkey_to_string E pk), JObject ?ms]))
        (\<lambda>accounts. ret (parse_keyed_accounts E (parse_value accounts) GetProgramAccounts))"
    by (simp add: get_program_accounts_with_config_def Let_def)
  ultimately show ?thesis by blast
qed

text \<open>
  C39: the accounts delegated to a key are asked for with the very request that
  asks for the accounts the key owns: the two methods are the same function, and the method
  name \<open>getTokenAccountsByDelegate\<close> is never sent.
\<close>

theorem delegate_asks_for_owner:
  "get_token_accounts_by_delegate E de self key flt = get_token_accounts_by_owner E de self key flt \<and>
   moves (emits (\<lambda>e. \<exists>b. e = EvCallRpc (method_name GetTokenAccountsByOwner) b))
     (get_token_accounts_by_delegate E de self key flt)"
  by (auto simp: get_token_accounts_by_delegate_def get_token_accounts_by_owner_def
      get_token_accounts_by_delegate_with_commitment_def
      get_token_accounts_by_owner_with_commitment_def Let_def
      intro!: emits.moves_intros transport.emits_request)


end
