(* ===== verification/Zela_Transactions.thy ===== *)
theory Zela_Transactions
  imports Zela_Client
begin

text \<open>
  Submitting, confirming and simulating transactions (\<open>src/rpc_client/client.rs\<close>). A
  transaction type is its instance of the trait \<open>SerializableTransaction\<close>, the argument
  \<open>T\<close>. The status loop of \<open>send_and_confirm_transaction\<close> runs at most \<open>usize::MAX\<close> times,
  so it needs no more fuel than that.
\<close>

section \<open>Submitting\<close>

text \<open>\<open>{:>3}\<close>.\<close>

definition pad_left :: "nat \<Rightarrow> string \<Rightarrow> string" where
  "pad_left n s = replicate (n - length s) CHR 0x20 @ s"

fun debug_lines :: "'h env \<Rightarrow> nat \<Rightarrow> string list \<Rightarrow> ('h world, unit) prog" where
  "debug_lines E i [] = ret ()"
| "debug_lines E i (line # lines) =
     bindp (log_at E LevelDebug client_target (pad_left 3 (nat_str (i + 1)) @ '': '' @ line))
       (\<lambda>_. debug_lines E (Suc i) lines)"

definition debug_send_error :: "'h env \<Rightarrow> client_error \<Rightarrow> ('h world, unit) prog" where
  "debug_send_error E err = (case err_kind err of
       RpcErrorKind (RpcResponseError code message data) \<Rightarrow>
         bindp (log_at E LevelDebug client_target (int_str (sint code) @ '' '' @ message)) (\<lambda>_.
           case data of
             SendTransactionPreflightFailure r \<Rightarrow> (case sim_logs r of
                 Some logs \<Rightarrow> bindp (debug_lines E 0 logs)
                   (\<lambda>_. log_at E LevelDebug client_target [])
               | None \<Rightarrow> ret ())
           | _ \<Rightarrow> ret ())
     | _ \<Rightarrow> ret ())"

text \<open>The node's answer against the transaction's own first signature.\<close>

definition check_signature ::
  "'h env \<Rightarrow> 'tx serializable_transaction \<Rightarrow> 'tx \<Rightarrow> string
     \<Rightarrow> ('h world, signature client_result) prog" where
  "check_signature E T transaction signature_base58_str =
     (case signature_from_str E signature_base58_str of
        Inl err \<Rightarrow> ret (Inl (error_from_rpc (ParseError err)))
      | Inr signature \<Rightarrow> bindp (outcome_prog (get_signature T transaction)) (\<lambda>own.
          if signature \<noteq> own then ret (Inl (error_from_rpc (RpcRequestError
            (''RPC node returned mismatched signature '' @ dbg_signature E signature @
             '', expected '' @ dbg_signature E own))))
          else ret (Inr own)))"

definition resolve_send_config :: "'h env \<Rightarrow> rpc_send_transaction_config \<Rightarrow> rpc_send_transaction_config"
  where
  "resolve_send_config E config = config
     \<lparr>stc_encoding := Some (case stc_encoding config of None \<Rightarrow> UiBase64 | Some e \<Rightarrow> e),
      stc_preflight_commitment := Some (case stc_preflight_commitment config of
         None \<Rightarrow> default_commitment_level E | Some l \<Rightarrow> l)\<rparr>"

definition send_transaction_with_config ::
  "'h env \<Rightarrow> (json \<Rightarrow> serde_error + string) \<Rightarrow> 'tx serializable_transaction \<Rightarrow> 'tx
     \<Rightarrow> rpc_send_transaction_config \<Rightarrow> ('h world, signature client_result) prog" where
  "send_transaction_with_config E de T transaction config =
     (let encoding = (case stc_encoding config of None \<Rightarrow> UiBase64 | Some e \<Rightarrow> e);
          config = resolve_send_config E config
      in tryp (ret (serialize_and_encode E (bincode_transaction T transaction) encoding))
        (\<lambda>serialized_encoded.
          bindp (send E de SendTransaction (JArray [JString serialized_encoded,
              JObject (members_send_transaction_config E config)])) (\<lambda>response. case response of
            Inr signature_base58_str \<Rightarrow> check_signature E T transaction signature_base58_str
          | Inl err \<Rightarrow> bindp (debug_send_error E err) (\<lambda>_. ret (Inl err)))))"

definition send_transaction ::
  "'h env \<Rightarrow> (json \<Rightarrow> serde_error + string) \<Rightarrow> 'tx serializable_transaction \<Rightarrow> rpc_client \<Rightarrow> 'tx
     \<Rightarrow> ('h world, signature client_result) prog" where
  "send_transaction E de T self transaction =
     send_transaction_with_config E de T transaction (default_send_transaction_config
       \<lparr>stc_preflight_commitment := Some (cc_level (commitment self))\<rparr>)"

section \<open>Simulating\<close>

definition simulate_transaction_with_config ::
  "'h env \<Rightarrow> (json \<Rightarrow> serde_error + rpc_simulate_transaction_result response)
     \<Rightarrow> 'tx serializable_transaction \<Rightarrow> 'tx \<Rightarrow> rpc_simulate_transaction_config
     \<Rightarrow> ('h world, rpc_simulate_transaction_result response client_result) prog" where
  "simulate_transaction_with_config E de T transaction config =
     (let encoding = (case simc_encoding config of None \<Rightarrow> UiBase64 | Some e \<Rightarrow> e);
          commitment = (case simc_commitment config of None \<Rightarrow> default_commitment E | Some c \<Rightarrow> c);
          config = config\<lparr>simc_encoding := Some encoding, simc_commitment := Some commitment\<rparr>
      in tryp (ret (serialize_and_encode E (bincode_transaction T transaction) encoding))
        (\<lambda>serialized_encoded. send E de SimulateTransaction (JArray [JString serialized_encoded,
           JObject (members_simulate_transaction_config E config)])))"

definition simulate_transaction where
  "simulate_transaction E de T self transaction = simulate_transaction_with_config E de T transaction
     (default_simulate_transaction_config\<lparr>simc_commitment := Some (commitment self)\<rparr>)"

section \<open>Signature statuses\<close>

type_synonym statuses = "transaction_status option list response"

definition ser_signatures :: "'h env \<Rightarrow> signature list \<Rightarrow> json" where
  "ser_signatures E sigs = ser_vec (\<lambda>s. JString (signature_to_string E s)) sigs"

definition get_signature_statuses ::
  "'h env \<Rightarrow> (json \<Rightarrow> serde_error + statuses) \<Rightarrow> signature list
     \<Rightarrow> ('h world, statuses client_result) prog" where
  "get_signature_statuses E de signatures =
     send E de GetSignatureStatuses (JArray [ser_signatures E signatures])"

definition get_signature_statuses_with_history ::
  "'h env \<Rightarrow> (json \<Rightarrow> serde_error + statuses) \<Rightarrow> signature list
     \<Rightarrow> ('h world, statuses client_result) prog" where
  "get_signature_statuses_with_history E de signatures = send E de GetSignatureStatuses
     (JArray [ser_signatures E signatures, JObject [(''searchTransactionHistory'', JBool True)]])"

definition satisfied_status ::
  "'h env \<Rightarrow> commitment_config \<Rightarrow> transaction_status option \<Rightarrow> (transaction_error + unit) option" where
  "satisfied_status E c st = map_option ts_status (opt_filter (\<lambda>r. satisfies_commitment E r c) st)"

definition get_signature_status_with_commitment ::
  "'h env \<Rightarrow> (json \<Rightarrow> serde_error + statuses) \<Rightarrow> signature \<Rightarrow> commitment_config
     \<Rightarrow> ('h world, (transaction_error + unit) option client_result) prog" where
  "get_signature_status_with_commitment E de signature c =
     tryp (send E de GetSignatureStatuses
        (JArray [JArray [JString (signature_to_string E signature)]])) (\<lambda>result.
     bindp (index_vec (rsp_value result) 0) (\<lambda>st. ret (Inr (satisfied_status E c st))))"

definition get_signature_status where
  "get_signature_status E de self signature =
     get_signature_status_with_commitment E de signature (commitment self)"

definition get_signature_status_with_commitment_and_history ::
  "'h env \<Rightarrow> (json \<Rightarrow> serde_error + statuses) \<Rightarrow> signature \<Rightarrow> commitment_config \<Rightarrow> bool
     \<Rightarrow> ('h world, (transaction_error + unit) option client_result) prog" where
  "get_signature_status_with_commitment_and_history E de signature c search_transaction_history =
     tryp (send E de GetSignatureStatuses
        (JArray [JArray [JString (signature_to_string E signature)],
           JObject [(''searchTransactionHistory'', JBool search_transaction_history)]])) (\<lambda>result.
     bindp (index_vec (rsp_value result) 0) (\<lambda>st. ret (Inr (satisfied_status E c st))))"

definition confirm_transaction_with_commitment ::
  "'h env \<Rightarrow> (json \<Rightarrow> serde_error + statuses) \<Rightarrow> signature \<Rightarrow> commitment_config
     \<Rightarrow> ('h world, bool response client_result) prog" where
  "confirm_transaction_with_commitment E de signature c =
     tryp (get_signature_statuses E de [signature]) (\<lambda>rsp.
     bindp (index_vec (rsp_value rsp) 0) (\<lambda>st. ret (Inr
       \<lparr>rsp_context = rsp_context rsp,
        rsp_value = (case opt_filter (\<lambda>r. satisfies_commitment E r c) st of
            None \<Rightarrow> False | Some r \<Rightarrow> (case ts_status r of Inl _ \<Rightarrow> False | Inr _ \<Rightarrow> True))\<rparr>)))"

definition confirm_transaction where
  "confirm_transaction E de self signature = mapp (map_ok rsp_value)
     (confirm_transaction_with_commitment E de signature (commitment self))"

definition get_num_blocks_since_signature_confirmation ::
  "'h env \<Rightarrow> (json \<Rightarrow> serde_error + statuses) \<Rightarrow> signature \<Rightarrow> ('h world, usize client_result) prog"
  where
  "get_num_blocks_since_signature_confirmation E de signature =
     tryp (send E de GetSignatureStatuses
        (JArray [JArray [JString (signature_to_string E signature)]])) (\<lambda>result.
     bindp (index_vec (rsp_value result) 0) (\<lambda>st. case st of
         None \<Rightarrow> ret (Inl (new_with_request (CustomKind ''signature not found'') GetSignatureStatuses))
       | Some r \<Rightarrow> bindp (add_checked E (max_lockout_history E) 1) (\<lambda>rooted.
           ret (Inr (case ts_confirmations r of Some n \<Rightarrow> n | None \<Rightarrow> rooted)))))"

section \<open>Submitting and confirming\<close>

definition SEND_RETRIES :: nat where
  "SEND_RETRIES = 1"

definition GET_STATUS_RETRIES :: nat where
  "GET_STATUS_RETRIES = unat (- 1 :: usize)"

text \<open>How the status loop is left: a \<open>return\<close>, \<open>break 'sending\<close>, or the end of its range.\<close>

datatype status_exit =
  Return "signature client_result" | BreakSending | RangeExhausted

text \<open>One iteration for the value \<open>status_retry\<close> of the range; \<open>cfg!(not(test))\<close> holds.\<close>

definition status_body ::
  "'h env \<Rightarrow> (json \<Rightarrow> serde_error + statuses) \<Rightarrow> (json \<Rightarrow> serde_error + bool response)
     \<Rightarrow> rpc_client \<Rightarrow> signature \<Rightarrow> hash \<Rightarrow> nat \<Rightarrow> ('h world, nat + status_exit) prog" where
  "status_body E de_status de_valid self signature recent_blockhash status_retry =
     (if \<not> status_retry < GET_STATUS_RETRIES then ret (Inr RangeExhausted)
      else bindp (get_signature_status E de_status self signature) (\<lambda>r. case r of
          Inl e \<Rightarrow> ret (Inr (Return (Inl e)))
        | Inr (Some (Inr _)) \<Rightarrow> ret (Inr (Return (Inr signature)))
        | Inr (Some (Inl e)) \<Rightarrow> ret (Inr (Return (Inl (error_from_transaction e))))
        | Inr None \<Rightarrow>
            bindp (is_blockhash_valid E de_valid recent_blockhash processed_commitment) (\<lambda>valid.
              case valid of
                Inl e \<Rightarrow> ret (Inr (Return (Inl e)))
              | Inr v \<Rightarrow>
                  if \<not> v then ret (Inr BreakSending)
                  else if status_retry < GET_STATUS_RETRIES then
                    bindp (thread_sleep E (from_millis 500)) (\<lambda>_. ret (Inl (Suc status_retry)))
                  else ret (Inl (Suc status_retry)))))"

definition unable_to_confirm :: client_error where
  "unable_to_confirm = error_from_rpc (ForUser (''unable to confirm transaction. '' @
     ''This can happen in situations such as transaction expiration '' @
     ''and insufficient fee-payer funds''))"

record confirm_decoders =
  de_signature :: "json \<Rightarrow> serde_error + string"
  de_blockhash :: "json \<Rightarrow> serde_error + rpc_blockhash response"
  de_statuses :: "json \<Rightarrow> serde_error + statuses"
  de_valid :: "json \<Rightarrow> serde_error + bool response"

definition recent_blockhash_of ::
  "'h env \<Rightarrow> confirm_decoders \<Rightarrow> 'tx serializable_transaction \<Rightarrow> 'tx
     \<Rightarrow> ('h world, hash client_result) prog" where
  "recent_blockhash_of E D T transaction =
     (if uses_durable_nonce T transaction
      then mapp (map_ok fst)
        (get_latest_blockhash_with_commitment E (de_blockhash D) processed_commitment)
      else ret (Inr (get_recent_blockhash T transaction)))"

text \<open>The loop \<open>'sending\<close>, with the rounds still to go.\<close>

primrec sending_loop ::
  "'h env \<Rightarrow> confirm_decoders \<Rightarrow> 'tx serializable_transaction \<Rightarrow> rpc_client \<Rightarrow> nat \<Rightarrow> 'tx \<Rightarrow> nat
     \<Rightarrow> ('h world, signature client_result) prog" where
  "sending_loop E D T self fuel transaction 0 = ret (Inl unable_to_confirm)"
| "sending_loop E D T self fuel transaction (Suc rounds) =
     tryp (send_transaction E (de_signature D) T self transaction) (\<lambda>signature.
     tryp (recent_blockhash_of E D T transaction) (\<lambda>recent_blockhash.
     bindp (loop (status_body E (de_statuses D) (de_valid D) self signature recent_blockhash)
         fuel 0) (\<lambda>exit. case exit of
         Return r \<Rightarrow> ret r
       | BreakSending \<Rightarrow> ret (Inl unable_to_confirm)
       | RangeExhausted \<Rightarrow> sending_loop E D T self fuel transaction rounds)))"

definition send_and_confirm_transaction where
  "send_and_confirm_transaction E D T self fuel transaction =
     sending_loop E D T self fuel transaction SEND_RETRIES"

section \<open>What the methods ask of the host\<close>

text \<open>Programs that make no call named \<open>m\<close>; they may log and sleep.\<close>

abbreviation avoids :: "string \<Rightarrow> ('h world, 'a) prog \<Rightarrow> bool" where
  "avoids m p \<equiv> moves (emits (\<lambda>e. \<not> is_call_named m e)) p"

lemma avoids_send: "method_name req \<noteq> m \<Longrightarrow> avoids m (send E de req ps)"
  by (rule transport.emits_request) simp

lemma avoids_debug_lines: "avoids m (debug_lines E i lines)"
  by (induction lines arbitrary: i) (auto intro!: emits.moves_intros emits_log_at)

lemma avoids_debug_send_error: "avoids m (debug_send_error E err)"
  by (auto simp: debug_send_error_def intro!: emits.moves_intros emits_log_at avoids_debug_lines
      split: client_error_kind.split client_rpc_error.split rpc_response_error_data.split
        option.split)

lemma avoids_outcome: "avoids m (outcome_prog x)"
  by (simp add: moves_def outcome_prog_def emits_def)

lemma avoids_check_signature: "avoids m (check_signature E T tx s)"
  by (auto simp: check_signature_def intro!: emits.moves_intros avoids_outcome split: sum.split)

lemma avoids_status:
  "''getSignatureStatuses'' \<noteq> m \<Longrightarrow> avoids m (get_signature_status_with_commitment E de s c)"
  "''getSignatureStatuses'' \<noteq> m \<Longrightarrow> avoids m (get_signature_status E de self s)"
  by (auto simp: get_signature_status_with_commitment_def get_signature_status_def
      intro!: emits.moves_intros emits_pure avoids_send)

lemma avoids_blockhash:
  "''isBlockhashValid'' \<noteq> m \<Longrightarrow> avoids m (is_blockhash_valid E de_b h c)"
  "''getLatestBlockhash'' \<noteq> m \<Longrightarrow> avoids m (get_latest_blockhash_with_commitment E de_l c)"
  by (auto simp: is_blockhash_valid_def get_latest_blockhash_with_commitment_def Let_def
      intro!: emits.moves_intros avoids_send)

lemma avoids_status_body:
  "avoids ''sendTransaction'' (status_body E de_s de_v self s h n)"
  by (auto simp: status_body_def
      intro!: emits.moves_intros emits_host avoids_status avoids_blockhash
      split: sum.split option.split)

lemma avoids_recent_blockhash: "avoids ''sendTransaction'' (recent_blockhash_of E D T tx)"
  by (auto simp: recent_blockhash_of_def intro!: emits.moves_intros avoids_blockhash)

lemma at_most_avoids: "avoids m p \<Longrightarrow> at_most (is_call_named m) k p"
  by (rule at_most_emits)

lemma at_most_send: "at_most Q 1 (send E de req ps)"
  by (rule at_most_trace) (use transport.issues transport.calls_one in blast)

lemma at_most_send_transaction_with_config:
  "at_most (is_call_named m) 1 (send_transaction_with_config E de T tx config)"
proof -
  have rest: "at_most (is_call_named m) 0 (case r of
        Inr s \<Rightarrow> check_signature E T tx s
      | Inl err \<Rightarrow> bindp (debug_send_error E err) (\<lambda>_. ret (Inl err)))" for r
    by (auto intro!: at_most_avoids emits.moves_intros avoids_check_signature
        avoids_debug_send_error split: sum.split)
  have "at_most (is_call_named m) (0 + (1 + 0)) (send_transaction_with_config E de T tx config)"
    unfolding send_transaction_with_config_def Let_def
    by (rule at_most_tryp at_most_ret at_most_bindp at_most_send rest)+
  then show ?thesis by simp
qed

lemma at_most_sending_loop:
  "at_most (is_call_named ''sendTransaction'') n (sending_loop E D T self fuel tx n)"
proof (induction n)
  case 0
  then show ?case by (simp add: at_most_ret)
next
  case (Suc n)
  have exit: "at_most (is_call_named ''sendTransaction'') n (case exit of
      Return r \<Rightarrow> ret r | BreakSending \<Rightarrow> ret (Inl unable_to_confirm)
    | RangeExhausted \<Rightarrow> sending_loop E D T self fuel tx n)" for exit
    using Suc by (auto intro: at_most_ret split: status_exit.split)
  have "at_most (is_call_named ''sendTransaction'') (1 + (0 + (0 + n)))
      (sending_loop E D T self fuel tx (Suc n))"
    unfolding sending_loop.simps send_transaction_def
    by (rule at_most_tryp at_most_bindp at_most_send_transaction_with_config exit
        at_most_avoids avoids_recent_blockhash emits.moves_loop avoids_status_body)+
  then show ?case by simp
qed

section \<open>The status loop ends\<close>

lemma answers_status [answers_intros]:
  "answers (get_signature_status_with_commitment E de s c)"
  "answers (get_signature_status E de self s)"
  "answers (is_blockhash_valid E de_b h c)"
  "answers (get_latest_blockhash_with_commitment E de_l c)"
  by (auto simp: get_signature_status_with_commitment_def get_signature_status_def
      is_blockhash_valid_def get_latest_blockhash_with_commitment_def Let_def
      intro!: answers_intros)

lemma answers_debug_lines [answers_intros]: "answers (debug_lines E i lines)"
  by (induction lines arbitrary: i) (auto intro!: answers_intros)

lemma answers_debug_send_error [answers_intros]: "answers (debug_send_error E err)"
  by (auto simp: debug_send_error_def intro!: answers_intros
      split: client_error_kind.split client_rpc_error.split rpc_response_error_data.split
        option.split)

lemma answers_status_body [answers_intros]: "answers (status_body E de_s de_v self s h n)"
  by (auto simp: status_body_def intro!: answers_intros split: sum.split option.split)

lemma status_body_next:
  "status_body E de_s de_v self s h n w = (Done (Inl n'), w') \<Longrightarrow>
     n < GET_STATUS_RETRIES \<and> n' = Suc n"
  by (auto simp: status_body_def bindp_eq_Done ret_def split_sum_ex split_option_ex
      split: if_splits)

interpretation status_poll: bounded_loop "status_body E de_s de_v self s h"
  "\<lambda>n w. n \<le> GET_STATUS_RETRIES" "\<lambda>n w. GET_STATUS_RETRIES - n" for E de_s de_v self s h
  by unfold_locales
    (auto dest: status_body_next simp: answersD [OF answers_status_body])

lemma status_body_return:
  "status_body E de_s de_v self s h n w = (Done (Inr (Return (Inr sg))), w') \<Longrightarrow>
     sg = s \<and> get_signature_status E de_s self s w = (Done (Inr (Some (Inr ()))), w')"
  by (auto simp: status_body_def bindp_eq_Done ret_def split_sum_ex split_option_ex
      split: if_splits)

lemma status_loop_return:
  assumes "loop (status_body E de_s de_v self s h) fuel n w = (Done (Return (Inr sg)), w')"
  shows "sg = s \<and> (\<exists>w0. get_signature_status E de_s self s w0 = (Done (Inr (Some (Inr ()))), w'))"
  using loop_result_rule [OF assms, where I = "\<lambda>_ _. True"
      and Q = "\<lambda>r w'. r = Return (Inr sg) \<longrightarrow> sg = s \<and>
        (\<exists>w0. get_signature_status E de_s self s w0 = (Done (Inr (Some (Inr ()))), w'))"]
  by (auto dest: status_body_return)

lemma check_signature_ok:
  "check_signature E T tx str w = (Done (Inr s), w') \<longleftrightarrow>
     w' = w \<and> signature_from_str E str = Inr s \<and> get_signature T tx = Done s"
  by (cases "get_signature T tx")
    (auto simp: check_signature_def outcome_prog_def bindp_def ret_def split: sum.splits)

lemma send_transaction_with_config_ok:
  "send_transaction_with_config E de T tx config w = (Done (Inr s), w') \<Longrightarrow>
     get_signature T tx = Done s \<and>
     (\<exists>enc str. serialize_and_encode E (bincode_transaction T tx)
          (case stc_encoding config of None \<Rightarrow> UiBase64 | Some e \<Rightarrow> e) = Inr enc \<and>
        send E de SendTransaction (JArray [JString enc,
          JObject (members_send_transaction_config E (resolve_send_config E config))]) w
          = (Done (Inr str), w') \<and> signature_from_str E str = Inr s)"
  by (auto simp: send_transaction_with_config_def Let_def tryp_eq_Ok bindp_eq_Done ret_def
      check_signature_ok split_sum_ex)

lemma get_signature_status_ok:
  "get_signature_status E de self s w = (Done (Inr (Some (Inr ()))), w') \<longleftrightarrow>
     (\<exists>rsp st rest. send E de GetSignatureStatuses
        (JArray [JArray [JString (signature_to_string E s)]]) w = (Done (Inr rsp), w') \<and>
      rsp_value rsp = Some st # rest \<and> satisfies_commitment E st (commitment self) \<and>
      ts_status st = Inr ())"
proof -
  have st: "(bindp (index_vec (rsp_value rsp) 0) (\<lambda>st. ret (Inr (satisfied_status E c st))) w1
        = (Done (Inr (Some (Inr ()))), w')) \<longleftrightarrow>
      w1 = w' \<and> (\<exists>st rest. rsp_value rsp = Some st # rest \<and> satisfies_commitment E st c \<and>
        ts_status st = Inr ())" for rsp :: statuses and c w1
    by (cases "rsp_value rsp")
      (auto simp: satisfied_status_def opt_filter_def ret_apply panic_apply split: option.splits if_splits)
  show ?thesis
    by (auto simp: get_signature_status_def get_signature_status_with_commitment_def tryp_eq_Ok st)
qed

lemma answers_send_transaction:
  assumes "get_signature T tx \<noteq> NoFuel"
  shows "answers (send_transaction_with_config E de T tx config)" "answers (send_transaction E de T self tx)"
proof -
  have "answers (check_signature E T tx str)" for str
    using assms by (cases "get_signature T tx")
      (auto simp: check_signature_def answers_def outcome_prog_def bindp_def ret_def split: sum.split)
  then have "answers (send_transaction_with_config E de T tx config)" for config
    by (auto simp: send_transaction_with_config_def Let_def intro!: answers_intros split: sum.split)
  then show "answers (send_transaction_with_config E de T tx config)"
    "answers (send_transaction E de T self tx)"
    by (simp_all add: send_transaction_def)
qed

lemma unat_minus_1_usize: "unat (- 1 :: usize) = 4294967295"
  by (simp add: unsigned_minus_1_eq_mask mask_eq_exp_minus_1)

lemma GET_STATUS_RETRIES_value: "GET_STATUS_RETRIES = 4294967295"
  unfolding GET_STATUS_RETRIES_def by (rule unat_minus_1_usize)

section \<open>What a confirmation may ask for, and how it may panic\<close>

text \<open>
  The one submission of a transaction: its bytes in base64 under the options \<open>send_transaction\<close>
  fills in; everything else is one of three queries, a pause of half a second, or a log line.
\<close>

definition submission :: "'h env \<Rightarrow> 'tx serializable_transaction \<Rightarrow> rpc_client \<Rightarrow> 'tx \<Rightarrow> u8 list \<Rightarrow> bool"
  where
  "submission E T self tx b \<longleftrightarrow> (\<exists>bytes. bincode_transaction T tx = Inr bytes \<and>
     json_to_vec E (JArray [JString (base64_encode E bytes), JObject (members_send_transaction_config E
       \<lparr>stc_skip_preflight = False, stc_preflight_commitment = Some (cc_level (commitment self)),
        stc_encoding = Some UiBase64, stc_max_retries = None, stc_min_context_slot = None\<rparr>)]) = Inr b)"

definition confirm_event ::
  "'h env \<Rightarrow> 'tx serializable_transaction \<Rightarrow> rpc_client \<Rightarrow> 'tx \<Rightarrow> event \<Rightarrow> bool" where
  "confirm_event E T self tx e \<longleftrightarrow> (case e of
       EvCallRpc m b \<Rightarrow> m = ''sendTransaction'' \<and> submission E T self tx b \<or>
         m \<in> {''getSignatureStatuses'', ''isBlockhashValid'', ''getLatestBlockhash''}
     | EvSleep d \<Rightarrow> d = from_millis 500
     | EvLog _ \<Rightarrow> True
     | _ \<Rightarrow> False)"

lemma confirm_event_simps [simp]:
  "confirm_event E T self tx (EvLog msg)" "confirm_event E T self tx (EvSleep (from_millis 500))"
  by (simp_all add: confirm_event_def)

abbreviation confirms where
  "confirms E T self tx \<equiv> moves (emits (confirm_event E T self tx))"

lemma confirms_query:
  "method_name req \<in> {''getSignatureStatuses'', ''isBlockhashValid'', ''getLatestBlockhash''} \<Longrightarrow>
     confirms E T self tx (send E de req ps)"
  by (rule transport.emits_request) (simp add: confirm_event_def)

lemma confirms_debug: "confirms E T self tx (debug_send_error E err)"
proof -
  have "confirms E T self tx (debug_lines E i lines)" for i lines
    by (induction lines arbitrary: i) (auto intro!: emits.moves_intros emits_log_at)
  then show ?thesis
    by (auto simp: debug_send_error_def intro!: emits.moves_intros emits_log_at
        split: client_error_kind.split client_rpc_error.split rpc_response_error_data.split
          option.split)
qed

lemma confirms_check_signature: "confirms E T self tx (check_signature E T' tx' s)"
proof -
  have "confirms E T self tx (outcome_prog x)" for x :: "'a outcome"
    by (simp add: moves_def outcome_prog_def emits_def)
  then show ?thesis
    by (auto simp: check_signature_def outcome_prog_def moves_def emits_def bindp_def ret_def
        split: sum.split outcome.split)
qed

lemma confirms_send_transaction: "confirms E T self tx (send_transaction E de T self tx)"
proof (cases "bincode_transaction T tx")
  case (Inl e)
  then show ?thesis
    by (simp add: send_transaction_def send_transaction_with_config_def Let_def
        serialize_and_encode_def emits.moves_ret)
next
  case (Inr bytes)
  let ?ps = "JArray [JString (base64_encode E bytes), JObject (members_send_transaction_config E
     \<lparr>stc_skip_preflight = False, stc_preflight_commitment = Some (cc_level (commitment self)),
      stc_encoding = Some UiBase64, stc_max_retries = None, stc_min_context_slot = None\<rparr>)]"
  have "list_all (confirm_event E T self tx) (send_calls E SendTransaction ?ps)"
    using Inr by (auto simp: send_calls_def confirm_event_def submission_def split: sum.split)
  then have "confirms E T self tx (send E de SendTransaction ?ps)"
    using transport.issues [of E de SendTransaction ?ps] by (auto simp: moves_def emits_def)
  then show ?thesis
    using Inr
    by (auto simp: send_transaction_def send_transaction_with_config_def Let_def
        serialize_and_encode_def resolve_send_config_def default_send_transaction_config_def
        intro!: emits.moves_intros confirms_debug confirms_check_signature split: sum.split)
qed

lemma confirms_sending_loop:
  "confirms E T self tx (sending_loop E D T self fuel tx n)"
proof (induction n)
  case (Suc n)
  have status: "confirms E T self tx (status_body E (de_statuses D) (de_valid D) self s h k)" for s h k
    by (auto simp: status_body_def get_signature_status_def get_signature_status_with_commitment_def
        is_blockhash_valid_def
        intro!: emits.moves_intros emits_host emits_pure confirms_query split: sum.split option.split)
  have recent: "confirms E T self tx (recent_blockhash_of E D T tx)"
    by (auto simp: recent_blockhash_of_def get_latest_blockhash_with_commitment_def Let_def
        intro!: emits.moves_intros confirms_query)
  show ?case
    unfolding sending_loop.simps
    by (intro emits.moves_intros confirms_send_transaction recent status)
      (auto intro: emits.moves_ret Suc split: status_exit.split)
qed (auto intro: emits.moves_ret)

text \<open>An answer without any status, after which the world is \<open>w\<close>.\<close>

definition empty_status_answer ::
  "'h env \<Rightarrow> (json \<Rightarrow> serde_error + statuses) \<Rightarrow> signature \<Rightarrow> panic \<Rightarrow> 'h world \<Rightarrow> bool" where
  "empty_status_answer E de s p w \<longleftrightarrow> p = IndexOutOfBounds \<and>
     (\<exists>w0 rsp. send E de GetSignatureStatuses (JArray [JArray [JString (signature_to_string E s)]]) w0 =
        (Done (Inr rsp), w) \<and> rsp_value rsp = [])"

lemma panics_send [panics_intros]: "structured ps \<Longrightarrow> panics Q (send E de req ps)"
  unfolding panics_def using transport.no_panic by (metis fst_conv)

lemma panics_log [panics_intros]: "panics Q (log_at E lvl tgt args)" "panics Q (thread_sleep E d)"
  by (auto simp: panics_def log_at_def host_log_def thread_sleep_def split: if_splits option.splits)

lemma panics_status:
  "panics (empty_status_answer E de s) (get_signature_status_with_commitment E de s c)"
  unfolding panics_def
proof (intro allI impI)
  fix w p w'
  assume run: "get_signature_status_with_commitment E de s c w = (Panicked p, w')"
  let ?ps = "JArray [JArray [JString (signature_to_string E s)]]"
  obtain r w1 where s: "send E de GetSignatureStatuses ?ps w = (Done r, w1)"
    using transport.completes [of ?ps E de GetSignatureStatuses w] by auto
  with run obtain rsp where "r = Inr rsp" "rsp_value rsp = []" "p = IndexOutOfBounds" "w' = w1"
    by (cases r)
      (auto simp: get_signature_status_with_commitment_def tryp_def bindp_def ret_def index_vec_def
        panic_def split: if_splits)
  with s show "empty_status_answer E de s p w'" by (auto simp: empty_status_answer_def)
qed

lemma panics_debug: "panics Q (debug_send_error E err)"
proof -
  have "panics Q (debug_lines E i lines)" for i lines
    by (induction lines arbitrary: i) (auto intro!: panics_intros)
  then show ?thesis
    by (auto simp: debug_send_error_def intro!: panics_intros
        split: client_error_kind.split client_rpc_error.split rpc_response_error_data.split
          option.split)
qed

lemma panics_send_transaction:
  assumes "get_signature T tx = Done own"
  shows "panics Q (send_transaction E de T self tx)"
proof -
  have "panics Q (check_signature E T tx str)" for str
    using assms by (auto simp: check_signature_def panics_def outcome_prog_def bindp_def ret_def
        split: sum.splits)
  then show ?thesis
    unfolding send_transaction_def send_transaction_with_config_def Let_def
    by (auto intro!: panics_intros panics_debug split: sum.split)
qed

lemma panics_send_and_confirm:
  assumes "get_signature T tx = Done own"
  shows "panics (empty_status_answer E (de_statuses D) own)
    (send_and_confirm_transaction E D T self fuel tx)"
proof -
  let ?Q = "empty_status_answer E (de_statuses D) own"
  have valid: "panics ?Q (is_blockhash_valid E (de_valid D) h c)" for h c
    by (auto simp: is_blockhash_valid_def intro!: panics_intros)
  have status: "panics ?Q (status_body E (de_statuses D) (de_valid D) self own h k)" for h k
    by (auto simp: status_body_def get_signature_status_def
        intro!: panics_intros panics_status valid split: sum.split option.split)
  have recent: "panics ?Q (recent_blockhash_of E D T tx)"
    by (auto simp: recent_blockhash_of_def get_latest_blockhash_with_commitment_def Let_def
        intro!: panics_intros)
  have s: "s = own" if "send_transaction E (de_signature D) T self tx w = (Done (Inr s), w')" for s w w'
    using that assms by (auto simp: send_transaction_def dest!: send_transaction_with_config_ok)
  show ?thesis
    unfolding send_and_confirm_transaction_def SEND_RETRIES_def One_nat_def sending_loop.simps
  proof (rule panics_tryp [OF panics_send_transaction [OF assms]])
    fix sg w w'
    assume "send_transaction E (de_signature D) T self tx w = (Done (Inr sg), w')"
    then have "sg = own" by (rule s)
    with status recent show "panics ?Q (tryp (recent_blockhash_of E D T tx) (\<lambda>h.
        bindp (loop (status_body E (de_statuses D) (de_valid D) self sg h) fuel 0) (\<lambda>exit.
          case exit of Return r \<Rightarrow> ret r | BreakSending \<Rightarrow> ret (Inl unable_to_confirm)
          | RangeExhausted \<Rightarrow> ret (Inl unable_to_confirm))))"
      by (auto intro!: panics_intros split: status_exit.split)
  qed
qed

section \<open>A sample run\<close>

text \<open>The sample transaction: one signature, and a node that accepts and confirms it.\<close>

definition sample_tx :: "unit transaction" where
  "sample_tx = \<lparr>tx_signatures = [Signature [7]], tx_message = ()\<rparr>"

definition sample_impl :: "unit transaction serializable_transaction" where
  "sample_impl = legacy_transaction_impl (\<lambda>_. Hash [1]) (\<lambda>_. None :: unit option) (\<lambda>_. Inr [4])"

definition sample_decoders :: confirm_decoders where
  "sample_decoders = \<lparr>de_signature = (\<lambda>j. Inr (sample_text [7])),
     de_blockhash = (\<lambda>j. Inl (SerdeError ''unused'')),
     de_statuses = sample_response [Some sample_status], de_valid = sample_response True\<rparr>"

lemmas sample_tx_defs = sample_tx_def sample_impl_def sample_status_def sample_decoders_def
  legacy_transaction_impl_def first_signature_def

lemma sample_confirm_run:
  "\<exists>w'. send_and_confirm_transaction sample_env sample_decoders sample_impl sample_client 1
     sample_tx (sample_world [sample_reply [], sample_reply []]) = (Done (Inr (Signature [7])), w')"
proof -
  let ?r = "send_and_confirm_transaction sample_env sample_decoders sample_impl sample_client 1
    sample_tx (sample_world [sample_reply [], sample_reply []])"
  have "signature_from_str sample_env (sample_text [7]) = Inr (Signature [7])" by code_simp
  moreover have "satisfies_commitment sample_env st c" for st c by (simp add: sample_env_def)
  ultimately have "?r = (Done (Inr (Signature [7])), snd ?r)"
    by (simp add: send_and_confirm_transaction_def SEND_RETRIES_def send_transaction_def
        send_transaction_with_config_def serialize_and_encode_def check_signature_def
        outcome_prog_def recent_blockhash_of_def status_body_def GET_STATUS_RETRIES_value
        get_signature_status_def get_signature_status_with_commitment_def satisfied_status_def
        opt_filter_def default_send_transaction_config_def Let_def sample_tx_defs sample_run)
  then show ?thesis by blast
qed

section \<open>Properties\<close>

text \<open>
  C1: whatever the cluster answers and however far the run of
  \<open>send_and_confirm_transaction\<close> gets, it submits the transaction at most once, as its own bytes
  in base64 under the client's commitment. Besides that it only asks for the statuses of
  signatures, the validity of a blockhash and the latest blockhash, pauses for half a second,
  and logs: it makes no other request, opens no subscription and receives from none.
\<close>

theorem submitted_at_most_once:
  "\<exists>evs. trace (snd (send_and_confirm_transaction E D T self fuel tx w)) = trace w @ evs \<and>
     length (filter (is_call_named ''sendTransaction'') evs) \<le> 1 \<and>
     list_all (\<lambda>e. case e of
         EvCallRpc m payload \<Rightarrow>
           m \<in> {''getSignatureStatuses'', ''isBlockhashValid'', ''getLatestBlockhash''} \<or>
           m = ''sendTransaction'' \<and> (\<exists>bytes. bincode_transaction T tx = Inr bytes \<and>
             json_to_vec E (JArray [JString (base64_encode E bytes),
               JObject (members_send_transaction_config E
                 \<lparr>stc_skip_preflight = False,
                  stc_preflight_commitment = Some (cc_level (commitment self)),
                  stc_encoding = Some UiBase64, stc_max_retries = None,
                  stc_min_context_slot = None\<rparr>)]) = Inr payload)
       | EvSleep d \<Rightarrow> d = from_millis 500
       | EvLog _ \<Rightarrow> True
       | _ \<Rightarrow> False) evs"
proof -
  have "\<exists>evs. trace (snd (sending_loop E D T self fuel tx SEND_RETRIES w)) = trace w @ evs \<and>
      list_all (confirm_event E T self tx) evs"
    using confirms_sending_loop [of E T self tx D fuel SEND_RETRIES] by (simp add: moves_def emits_def)
  moreover have "\<exists>evs. trace (snd (sending_loop E D T self fuel tx SEND_RETRIES w)) = trace w @ evs \<and>
      length (filter (is_call_named ''sendTransaction'') evs) \<le> 1"
    using at_most_sending_loop [of SEND_RETRIES E D T self fuel tx]
    by (simp add: at_most_def SEND_RETRIES_def)
  ultimately obtain evs where evs:
    "trace (snd (sending_loop E D T self fuel tx SEND_RETRIES w)) = trace w @ evs"
    "length (filter (is_call_named ''sendTransaction'') evs) \<le> 1"
    "list_all (confirm_event E T self tx) evs" by auto
  then show ?thesis
    unfolding send_and_confirm_transaction_def
    by (intro exI [of _ evs] conjI)
      (auto simp: confirm_event_def submission_def elim!: list.pred_mono_strong split: event.splits)
qed

text \<open>
  C2: a signature that \<open>send_and_confirm_transaction\<close> returns is the
  transaction's own, the node accepted the transaction under it, and the last answer of the
  node reported it as executed without error at the client's commitment.
\<close>

theorem confirmed_means_status_ok:
  assumes "send_and_confirm_transaction E D T self fuel tx w = (Done (Inr s), w')"
  shows "get_signature T tx = Done s \<and>
    (\<exists>w1. send_transaction E (de_signature D) T self tx w = (Done (Inr s), w1)) \<and>
    (\<exists>w0 rsp st rest. send E (de_statuses D) GetSignatureStatuses
        (JArray [JArray [JString (signature_to_string E s)]]) w0 = (Done (Inr rsp), w') \<and>
      rsp_value rsp = Some st # rest \<and> satisfies_commitment E st (commitment self) \<and>
      ts_status st = Inr ())"
proof -
  from assms obtain sg w1 bh w2 exit w3 where
    s: "send_transaction E (de_signature D) T self tx w = (Done (Inr sg), w1)"
    and l: "loop (status_body E (de_statuses D) (de_valid D) self sg bh) fuel 0 w2 = (Done exit, w3)"
    and x: "(case exit of Return r \<Rightarrow> ret r | _ \<Rightarrow> ret (Inl unable_to_confirm)) w3 = (Done (Inr s), w')"
    by (auto simp: send_and_confirm_transaction_def SEND_RETRIES_def tryp_eq_Ok bindp_eq_Done)
  from x have "exit = Return (Inr s)" "w3 = w'"
    by (auto simp: ret_def split: status_exit.splits)
  with l have "s = sg" "\<exists>w0. get_signature_status E (de_statuses D) self sg w0 =
      (Done (Inr (Some (Inr ()))), w')"
    using status_loop_return by fast+
  with s show ?thesis
    by (auto simp: get_signature_status_ok send_transaction_def
        dest!: send_transaction_with_config_ok)
qed

lemma confirmed_means_status_ok_witness:
  "\<exists>w'. send_and_confirm_transaction sample_env sample_decoders sample_impl sample_client 1 sample_tx
      (sample_world [sample_reply [], sample_reply []]) = (Done (Inr (Signature [7])), w') \<and>
    get_signature sample_impl sample_tx = Done (Signature [7])"
proof -
  obtain w' where "send_and_confirm_transaction sample_env sample_decoders sample_impl sample_client 1
      sample_tx (sample_world [sample_reply [], sample_reply []]) = (Done (Inr (Signature [7])), w')"
    using sample_confirm_run by blast
  with confirmed_means_status_ok [OF this] show ?thesis by blast
qed

text \<open>
  C19: for a transaction whose own signature can be read,
  \<open>send_and_confirm_transaction\<close> comes to an end within the \<open>usize::MAX\<close> values of the range of
  its status loop, and one round more: it returns a signature or an error, but for one case, a
  node that answers the request for the status of that signature with an empty list, where
  indexing the answer panics.
\<close>

theorem send_and_confirm_returns:
  assumes "get_signature T tx = Done own" and "GET_STATUS_RETRIES < fuel"
  shows "case send_and_confirm_transaction E D T self fuel tx w of
      (Done r, w') \<Rightarrow> True
    | (Panicked p, w') \<Rightarrow> p = IndexOutOfBounds \<and>
        (\<exists>w0 rsp. send E (de_statuses D) GetSignatureStatuses
            (JArray [JArray [JString (signature_to_string E own)]]) w0 = (Done (Inr rsp), w') \<and>
          rsp_value rsp = [])
    | (NoFuel, w') \<Rightarrow> False"
proof -
  have "answers (loop (status_body E (de_statuses D) (de_valid D) self s h) fuel 0)" for s h
    unfolding answers_def by (intro allI status_poll.loop_returns) (use assms(2) in auto)
  then have "answers (send_and_confirm_transaction E D T self fuel tx)"
    using assms(1)
    by (auto simp: send_and_confirm_transaction_def SEND_RETRIES_def recent_blockhash_of_def
        intro!: answers_intros answers_send_transaction split: status_exit.split)
  then have "fst (send_and_confirm_transaction E D T self fuel tx w) \<noteq> NoFuel" by (rule answersD)
  then show ?thesis
    using panicsD [OF panics_send_and_confirm [OF assms(1), of E D self fuel], of w]
    by (fastforce simp: empty_status_answer_def split: prod.split outcome.split)
qed

lemma send_and_confirm_returns_witness:
  "case send_and_confirm_transaction sample_env sample_decoders sample_impl sample_client
      (Suc GET_STATUS_RETRIES) sample_tx (sample_world []) of
     (Done r, w') \<Rightarrow> True | (Panicked p, w') \<Rightarrow> p = IndexOutOfBounds | (NoFuel, w') \<Rightarrow> False"
proof -
  have "get_signature sample_impl sample_tx = Done (Signature [7])" by (simp add: sample_tx_defs)
  from send_and_confirm_returns [OF this, of "Suc GET_STATUS_RETRIES" sample_env sample_decoders
      sample_client "sample_world []"]
  show ?thesis by (auto split: prod.splits outcome.splits)
qed

text \<open>
  C20: \<open>send_transaction_with_config\<close> returns a signature exactly when the
  transaction serialises, the encoding asked for is base64, base58 or none (which is base64),
  the node's answer to the one request parses as a signature, and that signature is the first
  of the transaction. The request carries the bytes in that encoding and the caller's options:
  the encoding and the preflight commitment with their defaults filled in, all others as
  they are.
\<close>

theorem send_transaction_own_signature:
  "send_transaction_with_config E de T tx config w = (Done (Inr s), w') \<longleftrightarrow>
     (\<exists>bytes encoding enc str. bincode_transaction T tx = Inr bytes \<and>
        (encoding = UiBase64 \<and> stc_encoding config \<in> {None, Some UiBase64} \<and>
           enc = base64_encode E bytes \<or>
         encoding = UiBase58 \<and> stc_encoding config = Some UiBase58 \<and>
           enc = bs58_encode E bytes) \<and>
        send E de SendTransaction (JArray [JString enc,
          JObject (members_send_transaction_config E
            \<lparr>stc_skip_preflight = stc_skip_preflight config,
             stc_preflight_commitment = Some (case stc_preflight_commitment config of
               Some level \<Rightarrow> level | None \<Rightarrow> default_commitment_level E),
             stc_encoding = Some encoding,
             stc_max_retries = stc_max_retries config,
             stc_min_context_slot = stc_min_context_slot config\<rparr>)]) w = (Done (Inr str), w') \<and>
        signature_from_str E str = Inr s \<and> get_signature T tx = Done s)"
proof -
  have encode: "serialize_and_encode E (bincode_transaction T tx) e = Inr enc \<longleftrightarrow>
      (\<exists>bytes. bincode_transaction T tx = Inr bytes \<and>
        (e = UiBase64 \<and> enc = base64_encode E bytes \<or> e = UiBase58 \<and> enc = bs58_encode E bytes))"
    for e enc
    by (auto simp: serialize_and_encode_def split: sum.split ui_transaction_encoding.split)
  have resolved: "resolve_send_config E config =
      \<lparr>stc_skip_preflight = stc_skip_preflight config,
       stc_preflight_commitment = Some (case stc_preflight_commitment config of
         Some level \<Rightarrow> level | None \<Rightarrow> default_commitment_level E),
       stc_encoding = Some (case stc_encoding config of None \<Rightarrow> UiBase64 | Some e \<Rightarrow> e),
       stc_max_retries = stc_max_retries config,
       stc_min_context_slot = stc_min_context_slot config\<rparr>"
    by (simp add: resolve_send_config_def split: option.split)
  show ?thesis
    unfolding send_transaction_with_config_def Let_def resolved
    by (cases "stc_encoding config")
      (auto simp: tryp_eq_Ok bindp_eq_Done ret_def check_signature_ok split_sum_ex encode)
qed

text \<open>
  An iteration of the status loop that leads to another one ends
  with a pause of half a second, the last value of its range included: the guard that is to
  skip the sleep at the last step never does.
\<close>

theorem status_retry_always_sleeps:
  assumes "status_body E de_s de_v self s h n w = (Done (Inl n'), w')"
  shows "n < GET_STATUS_RETRIES \<and> n' = Suc n \<and>
    (\<exists>evs. trace w' = trace w @ evs @ [EvSleep (from_millis 500)])"
proof -
  from assms obtain w1 w2 where
    g: "get_signature_status E de_s self s w = (Done (Inr None), w1)"
    and v: "is_blockhash_valid E de_v h processed_commitment w1 = (Done (Inr True), w2)"
    and w': "w' = w2\<lparr>hstate := h_sleep E (from_millis 500) (hstate w2),
      trace := trace w2 @ [EvSleep (from_millis 500)]\<rparr>"
    by (auto simp: status_body_def bindp_eq_Done ret_def split_sum_ex split_option_ex
        thread_sleep_def split: if_splits)
  have "moves (emits (\<lambda>e. True)) (get_signature_status E de_s self s)"
    "moves (emits (\<lambda>e. True)) (is_blockhash_valid E de_v h processed_commitment)"
    by (auto simp: get_signature_status_def get_signature_status_with_commitment_def
        is_blockhash_valid_def intro!: emits.moves_intros emits_pure emits_send)
  with g v have "emits (\<lambda>e. True) w w1" "emits (\<lambda>e. True) w1 w2" by (auto dest: movesD)
  then have "\<exists>evs. trace w2 = trace w @ evs" by (auto simp: emits_def)
  with w' status_body_next [OF assms] show ?thesis by auto
qed

lemma status_retry_always_sleeps_witness:
  "\<exists>w'. status_body sample_env (sample_response [None]) (sample_response True) sample_client
      (Signature []) (Hash []) (GET_STATUS_RETRIES - 1)
      (sample_world [sample_reply [], sample_reply []]) = (Done (Inl GET_STATUS_RETRIES), w') \<and>
    (\<exists>evs. trace w' = evs @ [EvSleep (from_millis 500)])"
proof -
  let ?r = "status_body sample_env (sample_response [None]) (sample_response True) sample_client
      (Signature []) (Hash []) (GET_STATUS_RETRIES - 1)
      (sample_world [sample_reply [], sample_reply []])"
  have "0 < GET_STATUS_RETRIES" by (simp add: GET_STATUS_RETRIES_value)
  then have r: "?r = (Done (Inl GET_STATUS_RETRIES), snd ?r)"
    by (simp add: status_body_def get_signature_status_def get_signature_status_with_commitment_def
        is_blockhash_valid_def satisfied_status_def opt_filter_def thread_sleep_def sample_run)
  from status_retry_always_sleeps [OF r] have "\<exists>evs. trace (snd ?r) = evs @ [EvSleep (from_millis 500)]"
    by (elim conjE exE) (simp only: append_assoc [symmetric], blast)
  with r show ?thesis by blast
qed

text \<open>
  C38: \<open>confirm_transaction\<close> makes one request and answers true exactly
  when the first status of the answer is present, at the client's commitment and without
  error; an answer without any status panics.
\<close>

theorem confirm_transaction_outcome:
  assumes "send E de GetSignatureStatuses (JArray [ser_signatures E [s]]) w = (Done r, w')"
  shows "confirm_transaction E de self s w = (case r of
      Inl e \<Rightarrow> Done (Inl e)
    | Inr rsp \<Rightarrow> (case rsp_value rsp of
          [] \<Rightarrow> Panicked IndexOutOfBounds
        | st # _ \<Rightarrow> Done (Inr (\<exists>x. st = Some x \<and> satisfies_commitment E x (commitment self) \<and>
            ts_status x = Inr ()))), w')"
proof -
  have "(\<forall>e. x \<noteq> Inl e) \<longleftrightarrow> x = Inr ()" for x :: "transaction_error + unit" by (cases x) auto
  with assms show ?thesis
    by (auto simp: confirm_transaction_def confirm_transaction_with_commitment_def
        get_signature_statuses_def opt_filter_def tryp_def mapp_def bindp_def ret_def panic_def
        split: sum.split list.split option.split)
qed

lemma confirm_transaction_outcome_witness:
  "\<exists>w'. confirm_transaction sample_env (sample_response []) sample_client (Signature [7])
      (sample_world [sample_reply []]) = (Panicked IndexOutOfBounds, w')"
proof -
  let ?s = "send sample_env (sample_response []) GetSignatureStatuses
    (JArray [ser_signatures sample_env [Signature [7]]]) (sample_world [sample_reply []])"
  have "?s = (Done (Inr \<lparr>rsp_context = sample_context, rsp_value = []\<rparr>), snd ?s)"
    by (simp add: sample_run ser_signatures_def ser_vec_def)
  from confirm_transaction_outcome [OF this, of sample_client]
  have "confirm_transaction sample_env (sample_response []) sample_client (Signature [7])
    (sample_world [sample_reply []]) = (Panicked IndexOutOfBounds, snd ?s)" by simp
  then show ?thesis by blast
qed

end
