(* ===== verification/Zela_Polling.thy ===== *)
theory Zela_Polling
  imports Zela_Transactions
begin

text \<open>
  The methods of \<open>RpcClient\<close> that wait: for the stake to drop, for a balance, for a
  signature, for its confirmation, for a new blockhash. Each is the loop combinator on the
  method's loop body; \<open>fuel\<close> bounds the iterations of the run. Where the clock decides, an
  interpretation of \<open>bounded_loop\<close> shows that the loop ends.
\<close>

section \<open>Waiting for the stake to drop\<close>

text \<open>\<open>sum::<u64>()\<close> from left to right, and the running maximum of the closure.\<close>

fun sum_u64 :: "'h env \<Rightarrow> u64 \<Rightarrow> u64 list \<Rightarrow> ('h world, u64) prog" where
  "sum_u64 E acc [] = ret acc"
| "sum_u64 E acc (x # xs) = bindp (add_checked E acc x) (\<lambda>a. sum_u64 E a xs)"

definition max_u64 :: "u64 list \<Rightarrow> u64" where
  "max_u64 xs = foldl max 0 xs"

definition f32_100 :: f32 where
  "f32_100 = 0x42C80000"

definition current_percent :: "'h env \<Rightarrow> u64 \<Rightarrow> u64 \<Rightarrow> f32" where
  "current_percent E mx total_stake = f32_div E (f32_mul E f32_100 (f32_of_u64 E mx)) (f32_of_u64 E total_stake)"

definition stakes :: "rpc_vote_account_status \<Rightarrow> u64 list" where
  "stakes va = map va_activated_stake (vs_current va @ vs_delinquent va)"

definition max_stake_body ::
  "'h env \<Rightarrow> (json \<Rightarrow> serde_error + rpc_vote_account_status) \<Rightarrow> commitment_config \<Rightarrow> f32
     \<Rightarrow> duration option \<Rightarrow> instant \<Rightarrow> unit \<Rightarrow> ('h world, unit + unit client_result) prog" where
  "max_stake_body E de c max_stake_percent timeout start _ =
     bindp (get_vote_accounts_with_commitment E de c) (\<lambda>r. case r of
         Inl e \<Rightarrow> ret (Inr (Inl e))
       | Inr vote_accounts \<Rightarrow> bindp (sum_u64 E 0 (stakes vote_accounts)) (\<lambda>total_active_stake.
           let percent = current_percent E (max_u64 (stakes vote_accounts)) total_active_stake;
               go_on = bindp (log_at E LevelInfo client_target
                   (''Waiting for stake to drop below '' @ show_f32 E max_stake_percent @
                    '' current: '' @ show_f32_1 E percent))
                 (\<lambda>_. bindp (thread_sleep E (from_secs 5)) (\<lambda>_. ret (Inl ())))
           in if f32_less E percent max_stake_percent then ret (Inr (Inr ()))
              else (case timeout of
                  Some t \<Rightarrow> bindp (elapsed E start) (\<lambda>d.
                    if t < d then ret (Inr (Inl (error_from_kind (CustomKind
                      ''timed out waiting for max stake to drop''))))
                    else go_on)
                | None \<Rightarrow> go_on)))"

definition max_stake_helper where
  "max_stake_helper E de c max_stake_percent timeout fuel =
     bindp (now E) (\<lambda>start. loop (max_stake_body E de c max_stake_percent timeout start) fuel ())"

definition wait_for_max_stake where
  "wait_for_max_stake E de c max_stake_percent fuel =
     max_stake_helper E de c max_stake_percent None fuel"

definition wait_for_max_stake_below_threshold_with_timeout where
  "wait_for_max_stake_below_threshold_with_timeout E de c max_stake_percent timeout fuel =
     max_stake_helper E de c max_stake_percent (Some timeout) fuel"

section \<open>Waiting for a balance\<close>

definition poll_balance_body ::
  "'h env \<Rightarrow> (json \<Rightarrow> serde_error + u64 response) \<Rightarrow> pubkey \<Rightarrow> duration \<Rightarrow> duration
     \<Rightarrow> commitment_config \<Rightarrow> instant \<Rightarrow> unit \<Rightarrow> ('h world, unit + u64 client_result) prog" where
  "poll_balance_body E de pubkey polling_frequency timeout c start _ =
     bindp (get_balance_with_commitment E de pubkey c) (\<lambda>r. case r of
         Inr bal \<Rightarrow> ret (Inr (Inr (rsp_value bal)))
       | Inl e \<Rightarrow> bindp (thread_sleep E polling_frequency) (\<lambda>_. bindp (elapsed E start) (\<lambda>d.
           if timeout < d then ret (Inr (Inl e)) else ret (Inl ()))))"

definition poll_balance_with_timeout_and_commitment where
  "poll_balance_with_timeout_and_commitment E de pubkey polling_frequency timeout c fuel =
     bindp (now E) (\<lambda>start.
       loop (poll_balance_body E de pubkey polling_frequency timeout c start) fuel ())"

definition poll_get_balance_with_commitment where
  "poll_get_balance_with_commitment E de pubkey c fuel =
     poll_balance_with_timeout_and_commitment E de pubkey (from_millis 100) (from_secs 1) c fuel"

definition LAST :: usize where
  "LAST = 30"

definition balance_body ::
  "'h env \<Rightarrow> (json \<Rightarrow> serde_error + u64 response) \<Rightarrow> pubkey \<Rightarrow> u64 option \<Rightarrow> commitment_config
     \<Rightarrow> nat \<Rightarrow> usize \<Rightarrow> ('h world, usize + u64 client_result) prog" where
  "balance_body E de pubkey expected_balance c poll_fuel run =
     bindp (poll_get_balance_with_commitment E de pubkey c poll_fuel) (\<lambda>balance_result.
       let again = bindp (add_checked E run 1) (\<lambda>run. ret (Inl run)) in
       if expected_balance = None \<or> isl balance_result \<and> run = LAST
       then ret (Inr balance_result)
       else bindp (log_at E LevelTrace client_target
           (''wait_for_balance_with_commitment ['' @ nat_str (unat run) @ ''] '' @
            dbg_balance_result E balance_result @ '' '' @ dbg_opt_u64 E expected_balance)) (\<lambda>_.
         case (expected_balance, balance_result) of
           (Some expected, Inr balance) \<Rightarrow>
             if expected = balance then ret (Inr (Inr balance)) else again
         | _ \<Rightarrow> again))"

definition wait_for_balance_with_commitment where
  "wait_for_balance_with_commitment E de pubkey expected_balance c poll_fuel fuel =
     loop (balance_body E de pubkey expected_balance c poll_fuel) fuel 0"

section \<open>Waiting for a signature\<close>

definition signature_not_found :: "duration \<Rightarrow> client_error" where
  "signature_not_found d = error_from_rpc (ForUser
     (''signature not found after '' @ nat_str (as_secs d) @ '' seconds''))"

definition poll_signature_body ::
  "'h env \<Rightarrow> (json \<Rightarrow> serde_error + statuses) \<Rightarrow> signature \<Rightarrow> commitment_config \<Rightarrow> instant
     \<Rightarrow> unit \<Rightarrow> ('h world, unit + unit client_result) prog" where
  "poll_signature_body E de signature c start _ =
     bindp (get_signature_status_with_commitment E de signature c) (\<lambda>r. case r of
         Inr (Some _) \<Rightarrow> ret (Inr (Inr ()))
       | _ \<Rightarrow> bindp (elapsed E start) (\<lambda>d.
           if 15 < as_secs d
           then bindp (elapsed E start) (\<lambda>d'. ret (Inr (Inl (signature_not_found d'))))
           else bindp (thread_sleep E (from_millis 250)) (\<lambda>_. ret (Inl ()))))"

definition poll_for_signature_with_commitment where
  "poll_for_signature_with_commitment E de signature c fuel =
     bindp (now E) (\<lambda>start. loop (poll_signature_body E de signature c start) fuel ())"

definition poll_for_signature where
  "poll_for_signature E de self signature fuel =
     poll_for_signature_with_commitment E de signature (commitment self) fuel"

text \<open>The loop's variables: \<open>now\<close>, the instant of the last change, and \<open>confirmed_blocks\<close>.\<close>

definition confirmation_text :: "'h env \<Rightarrow> signature \<Rightarrow> usize \<Rightarrow> usize \<Rightarrow> string \<Rightarrow> duration \<Rightarrow> string"
  where
  "confirmation_text E signature count min_confirmed_blocks word d =
     ''signature '' @ signature_to_string E signature @ '' confirmed '' @ nat_str (unat count) @
     '' out of '' @ nat_str (unat min_confirmed_blocks) @ word @ nat_str (as_millis d) @ '' ms''"

definition confirmation_timeout ::
  "'h env \<Rightarrow> signature \<Rightarrow> usize \<Rightarrow> instant \<Rightarrow> usize
     \<Rightarrow> ('h world, (instant \<times> usize) + usize client_result) prog" where
  "confirmation_timeout E signature min_confirmed_blocks since confirmed_blocks =
     bindp (elapsed E since) (\<lambda>d.
       if 20 < as_secs d then
         bindp (log_with E LevelInfo client_target (mapp (confirmation_text E signature
             confirmed_blocks min_confirmed_blocks '' failed after '') (elapsed E since))) (\<lambda>_.
           if 0 < confirmed_blocks then ret (Inr (Inr confirmed_blocks))
           else bindp (elapsed E since) (\<lambda>d'. ret (Inr (Inl (signature_not_found d')))))
       else bindp (thread_sleep E (from_millis 250)) (\<lambda>_. ret (Inl (since, confirmed_blocks))))"

definition confirmation_body ::
  "'h env \<Rightarrow> (json \<Rightarrow> serde_error + statuses) \<Rightarrow> signature \<Rightarrow> usize \<Rightarrow> instant \<times> usize
     \<Rightarrow> ('h world, (instant \<times> usize) + usize client_result) prog" where
  "confirmation_body E de signature min_confirmed_blocks = (\<lambda>(since, confirmed_blocks).
     bindp (get_num_blocks_since_signature_confirmation E de signature) (\<lambda>response.
       case response of
         Inr count \<Rightarrow>
           bindp (if confirmed_blocks \<noteq> count
                then bindp (log_with E LevelInfo client_target (mapp (confirmation_text E signature
                    count min_confirmed_blocks '' after '') (elapsed E since)))
                  (\<lambda>_. bindp (now E) (\<lambda>t. ret (t, count)))
                else ret (since, confirmed_blocks)) (\<lambda>(since, confirmed_blocks).
             if min_confirmed_blocks \<le> count then ret (Inr (Inr confirmed_blocks))
             else confirmation_timeout E signature min_confirmed_blocks since confirmed_blocks)
       | Inl err \<Rightarrow>
           bindp (log_at E LevelDebug client_target
               (''check_confirmations request failed: '' @ dbg_client_error E err)) (\<lambda>_.
             confirmation_timeout E signature min_confirmed_blocks since confirmed_blocks)))"

definition poll_for_signature_confirmation where
  "poll_for_signature_confirmation E de signature min_confirmed_blocks fuel =
     bindp (now E) (\<lambda>start.
       loop (confirmation_body E de signature min_confirmed_blocks) fuel (start, 0))"

section \<open>Waiting for a new blockhash\<close>

definition new_blockhash_body ::
  "'h env \<Rightarrow> (json \<Rightarrow> serde_error + rpc_blockhash response) \<Rightarrow> rpc_client \<Rightarrow> hash \<Rightarrow> instant
     \<Rightarrow> i32 \<Rightarrow> ('h world, i32 + hash client_result) prog" where
  "new_blockhash_body E de self blockhash start num_retries =
     bindp (elapsed E start) (\<lambda>d.
       if \<not> as_secs d < 5 then
         bindp (elapsed E start) (\<lambda>d'. ret (Inr (Inl (error_from_rpc (ForUser
           (''Unable to get new blockhash after '' @ nat_str (as_millis d') @ ''ms (retried '' @
            int_str (sint num_retries) @ '' times), stuck at '' @ hash_to_string E blockhash))))))
       else bindp (get_latest_blockhash E de self) (\<lambda>r.
         let again = bindp (log_at E LevelDebug client_target
               (''Got same blockhash ('' @ dbg_hash E blockhash @ ''), will retry...''))
             (\<lambda>_. bindp (thread_sleep E (from_millis (unat (default_ms_per_slot E div 2))))
             (\<lambda>_. bindp (add_signed_checked E num_retries 1) (\<lambda>n. ret (Inl n))))
         in case r of
             Inr new_blockhash \<Rightarrow>
               if new_blockhash \<noteq> blockhash then ret (Inr (Inr new_blockhash)) else again
           | Inl _ \<Rightarrow> again))"

definition get_new_latest_blockhash where
  "get_new_latest_blockhash E de self blockhash fuel =
     bindp (now E) (\<lambda>start. loop (new_blockhash_body E de self blockhash start) fuel 0)"

section \<open>Time and answers of the parts\<close>

lemma later_polling:
  assumes "clock_ok E \<tau>"
  shows "moves (later \<tau>) (get_balance_with_commitment E de pk c)"
    "moves (later \<tau>) (get_signature_status_with_commitment E de_s s c)"
    "moves (later \<tau>) (get_num_blocks_since_signature_confirmation E de_s s)"
    "moves (later \<tau>) (get_latest_blockhash E de_b self)"
    "moves (later \<tau>) (get_vote_accounts_with_commitment E de_v c)"
  by (auto simp: get_balance_with_commitment_def get_signature_status_with_commitment_def
      get_num_blocks_since_signature_confirmation_def get_latest_blockhash_def
      get_latest_blockhash_with_commitment_def get_vote_accounts_with_commitment_def
      get_vote_accounts_with_config_def Let_def
      intro!: later.moves_intros later_send [OF assms] later_pure split: option.split)

lemma answers_sum_u64 [answers_intros]: "answers (sum_u64 E acc xs)"
  by (induction xs arbitrary: acc) (auto intro!: answers_intros)

lemma answers_polling [answers_intros]:
  "answers (get_balance_with_commitment E de pk c)"
  "answers (get_num_blocks_since_signature_confirmation E de_s s)"
  "answers (get_latest_blockhash E de_b self)"
  "answers (get_vote_accounts_with_commitment E de_v c)"
  by (auto simp: get_balance_with_commitment_def get_num_blocks_since_signature_confirmation_def
      get_latest_blockhash_def get_vote_accounts_with_commitment_def
      get_vote_accounts_with_config_def
      intro!: answers_intros split: option.split)

lemma answers_bodies [answers_intros]:
  "answers (poll_balance_body E de pk freq timeout c start u)"
  "answers (poll_signature_body E de_s s c start u)"
  "answers (confirmation_timeout E s mn since n)"
  "answers (confirmation_body E de_s s mn st)"
  "answers (new_blockhash_body E de_b self bh start k)"
  "answers (max_stake_body E de_v c pct tmo start u)"
  by (auto simp: poll_balance_body_def poll_signature_body_def confirmation_timeout_def
      confirmation_body_def new_blockhash_body_def max_stake_body_def Let_def
      intro!: answers_intros split: sum.split option.split prod.split)

lemma laterD: "moves (later \<tau>) m \<Longrightarrow> m w = (out, w') \<Longrightarrow> \<tau> (hstate w) \<le> \<tau> (hstate w')"
  by (drule movesD) (simp_all add: later_def)

section \<open>The balance loop ends\<close>

text \<open>
  The measure of these loops: how many periods of length \<open>p\<close> are left before the instant \<open>b\<close>
  that ends them, at time \<open>t\<close>. An iteration that starts before \<open>b\<close> and sleeps a period
  uses one up.
\<close>

definition periods :: "nat \<Rightarrow> nat \<Rightarrow> nat \<Rightarrow> nat" where
  "periods b p t = (b + p - 1 - t) div p"

lemma periods_step:
  assumes "0 < p" "t < b" "t + p \<le> t'"
  shows "periods b p t' < periods b p t"
proof -
  have "(b + p - 1 - t') div p \<le> (b - 1 - t) div p"
    by (rule div_le_mono) (use assms in simp)
  also have "\<dots> < (b - 1 - t + p) div p" using assms(1) by (simp add: div_add_self2)
  also have "b - 1 - t + p = b + p - 1 - t" using assms(2) by simp
  finally show ?thesis by (simp add: periods_def)
qed

lemma periods_start: "start \<le> t \<Longrightarrow> periods (start + d) p t \<le> (d + p - 1) div p"
  unfolding periods_def by (rule div_le_mono) simp

lemma now_start:
  assumes "clock_ok E \<tau>"
  obtains start w1 where "now E w = (Done start, w1)" "start \<le> \<tau> (hstate w1)"
proof -
  obtain start w1 where n: "now E w = (Done start, w1)"
    by (cases "now E w") (auto simp: now_def split: prod.splits)
  with now_clock(2) [OF assms n] that show thesis by blast
qed

text \<open>A further iteration has slept one period, and the timeout has not passed before it.\<close>

lemma poll_balance_next:
  assumes "clock_ok E \<tau>"
    and "poll_balance_body E de pk freq timeout c start () w = (Done (Inl ()), w')"
  shows "\<tau> (hstate w) + freq \<le> start + timeout \<and> \<tau> (hstate w) + freq \<le> \<tau> (hstate w')"
proof -
  from assms(2) obtain e w1 w2 d where
    g: "get_balance_with_commitment E de pk c w = (Done (Inl e), w1)"
    and s: "thread_sleep E freq w1 = (Done (), w2)"
    and d: "elapsed E start w2 = (Done d, w')" "\<not> timeout < d"
    by (auto simp: poll_balance_body_def bindp_eq_Done ret_def split_sum_ex split: if_splits)
  have "\<tau> (hstate w) \<le> \<tau> (hstate w1)" by (rule laterD [OF later_polling(1) [OF assms(1)] g])
  with thread_sleep_clock [OF assms(1) s] elapsed_clock [OF assms(1) d(1)] d(2)
  show ?thesis by auto
qed

interpretation poll_balance: bounded_loop "poll_balance_body E de pk freq timeout c start"
  "\<lambda>_ w. clock_ok E \<tau> \<and> 0 < freq"
  "\<lambda>_ w. periods (start + (timeout + 1)) freq (\<tau> (hstate w))" for E de pk freq timeout c start \<tau>
proof unfold_locales
  fix s s' :: unit and w w'
  assume "clock_ok E \<tau> \<and> 0 < freq"
    and "poll_balance_body E de pk freq timeout c start s w = (Done (Inl s'), w')"
  then show "periods (start + (timeout + 1)) freq (\<tau> (hstate w'))
      < periods (start + (timeout + 1)) freq (\<tau> (hstate w))"
    using poll_balance_next [of E \<tau>] by (intro periods_step) fastforce+
qed (auto simp: answersD [OF answers_bodies(1)])

lemma poll_balance_returns:
  assumes "clock_ok E \<tau>" "0 < freq" "timeout div freq + 1 < n"
  shows "fst (poll_balance_with_timeout_and_commitment E de pk freq timeout c n w) \<noteq> NoFuel"
proof -
  obtain start w1 where n: "now E w = (Done start, w1)" "start \<le> \<tau> (hstate w1)"
    using now_start [OF assms(1)] .
  have "periods (start + (timeout + 1)) freq (\<tau> (hstate w1)) \<le> (timeout + freq) div freq"
    using periods_start [OF n(2), of "timeout + 1" freq] by simp
  also have "\<dots> = timeout div freq + 1" using assms(2) by (simp add: div_add_self2)
  finally have "periods (start + (timeout + 1)) freq (\<tau> (hstate w1)) < n" using assms(3) by simp
  then have "fst (loop (poll_balance_body E de pk freq timeout c start) n () w1) \<noteq> NoFuel"
    using assms(1,2) by (intro poll_balance.loop_returns [where \<tau> = \<tau>]) simp_all
  with n show ?thesis by (simp add: poll_balance_with_timeout_and_commitment_def bindp_def)
qed

lemma at_most_poll_balance_body:
  "at_most Q 1 (poll_balance_body E de pk freq timeout c start u)" if "\<And>d. \<not> Q (EvSleep d)"
proof -
  have rest: "at_most Q 0 (case r of
        Inr bal \<Rightarrow> ret (Inr (Inr (rsp_value bal)))
      | Inl e \<Rightarrow> bindp (thread_sleep E freq) (\<lambda>_. bindp (elapsed E start) (\<lambda>d.
          if timeout < d then ret (Inr (Inl e)) else ret (Inl ()))))" for r
    by (auto intro!: at_most_emits emits.moves_intros emits_host that split: sum.split)
  have "at_most Q (1 + 0) (poll_balance_body E de pk freq timeout c start u)"
    unfolding poll_balance_body_def get_balance_with_commitment_def
    by (rule at_most_bindp at_most_send rest)+
  then show ?thesis by simp
qed

section \<open>The signature loop ends\<close>

lemma poll_signature_next:
  assumes "clock_ok E \<tau>"
    and "poll_signature_body E de s c start () w = (Done (Inl ()), w')"
  shows "\<tau> (hstate w) < start + from_secs 16 \<and> \<tau> (hstate w) + from_millis 250 \<le> \<tau> (hstate w')"
proof -
  from assms(2) obtain r w1 d w2 where
    g: "get_signature_status_with_commitment E de s c w = (Done r, w1)"
    and d: "elapsed E start w1 = (Done d, w2)" "\<not> 15 < as_secs d"
    and s: "thread_sleep E (from_millis 250) w2 = (Done (), w')"
    by (auto simp: poll_signature_body_def bindp_eq_Done ret_def split_sum_ex split_option_ex
        split: if_splits)
  have "\<tau> (hstate w) \<le> \<tau> (hstate w1)" by (rule laterD [OF later_polling(2) [OF assms(1)] g])
  moreover have "\<tau> (hstate w1) < start + from_secs 16"
    using d(2) elapsed_clock(1) [OF assms(1) d(1)] by (simp add: as_secs_def from_secs_def)
  ultimately show ?thesis
    using thread_sleep_clock(2) [OF assms(1) s] elapsed_clock(2) [OF assms(1) d(1)] by simp
qed

interpretation poll_signature: bounded_loop "poll_signature_body E de s c start"
  "\<lambda>_ w. clock_ok E \<tau>"
  "\<lambda>_ w. periods (start + from_secs 16) (from_millis 250) (\<tau> (hstate w))" for E de s c start \<tau>
proof unfold_locales
  fix u u' :: unit and w w'
  assume "clock_ok E \<tau>" and "poll_signature_body E de s c start u w = (Done (Inl u'), w')"
  then show "periods (start + from_secs 16) (from_millis 250) (\<tau> (hstate w'))
      < periods (start + from_secs 16) (from_millis 250) (\<tau> (hstate w))"
    using poll_signature_next [of E \<tau>] by (intro periods_step) (auto simp: from_millis_def)
qed (auto simp: answersD [OF answers_bodies(2)])

lemma poll_signature_returns:
  assumes "clock_ok E \<tau>" "64 < n"
  shows "fst (poll_for_signature_with_commitment E de s c n w) \<noteq> NoFuel"
proof -
  obtain start w1 where n: "now E w = (Done start, w1)" "start \<le> \<tau> (hstate w1)"
    using now_start [OF assms(1)] .
  have "periods (start + from_secs 16) (from_millis 250) (\<tau> (hstate w1))
      \<le> (from_secs 16 + from_millis 250 - 1) div from_millis 250"
    using n(2) by (rule periods_start)
  also have "\<dots> < n" using assms(2) by (simp add: from_secs_def from_millis_def)
  finally have "fst (loop (poll_signature_body E de s c start) n () w1) \<noteq> NoFuel"
    using assms(1) by (intro poll_signature.loop_returns [where \<tau> = \<tau>])
  with n show ?thesis by (simp add: poll_for_signature_with_commitment_def bindp_def)
qed

section \<open>The blockhash loop ends\<close>

lemma new_blockhash_next:
  assumes "clock_ok E \<tau>"
    and "new_blockhash_body E de self bh start k w = (Done (Inl k'), w')"
  shows "\<tau> (hstate w) < start + from_secs 5 \<and>
    \<tau> (hstate w) + from_millis (unat (default_ms_per_slot E div 2)) \<le> \<tau> (hstate w')"
proof -
  let ?p = "from_millis (unat (default_ms_per_slot E div 2))"
  from assms(2) obtain d w1 r w2 w3 w4 where
    d: "elapsed E start w = (Done d, w1)" "as_secs d < 5"
    and g: "get_latest_blockhash E de self w1 = (Done r, w2)"
    and l: "log_at E LevelDebug client_target
      (''Got same blockhash ('' @ dbg_hash E bh @ ''), will retry...'') w2 = (Done (), w3)"
    and s: "thread_sleep E ?p w3 = (Done (), w4)"
    and a: "add_signed_checked E k 1 w4 = (Done k', w')"
    by (auto simp: new_blockhash_body_def Let_def bindp_eq_Done ret_def split_sum_ex
        split: if_splits)
  have "\<tau> (hstate w1) \<le> \<tau> (hstate w2)" by (rule laterD [OF later_polling(4) [OF assms(1)] g])
  also have "\<dots> \<le> \<tau> (hstate w3)" by (rule laterD [OF later_host(7) [OF assms(1)] l])
  finally have "\<tau> (hstate w) + ?p \<le> \<tau> (hstate w4)"
    using thread_sleep_clock(2) [OF assms(1) s] elapsed_clock(2) [OF assms(1) d(1)] by simp
  also have "\<dots> \<le> \<tau> (hstate w')"
    by (rule laterD [OF add_signed_moves [OF later.world_preorder_axioms] a])
  finally show ?thesis
    using d(2) elapsed_clock(1) [OF assms(1) d(1)] by (simp add: as_secs_def from_secs_def)
qed

text \<open>The pause between two attempts, positive as soon as a slot has two milliseconds.\<close>

abbreviation half_slot :: "'h env \<Rightarrow> duration" where
  "half_slot E \<equiv> from_millis (unat (default_ms_per_slot E div 2))"

lemma half_slot_positive: "2 \<le> default_ms_per_slot E \<Longrightarrow> 0 < half_slot E"
  by (simp add: from_millis_def unat_div word_le_nat_alt)

interpretation new_blockhash: bounded_loop "new_blockhash_body E de self bh start"
  "\<lambda>_ w. clock_ok E \<tau> \<and> 2 \<le> default_ms_per_slot E"
  "\<lambda>_ w. periods (start + from_secs 5) (half_slot E) (\<tau> (hstate w))" for E de self bh start \<tau>
proof unfold_locales
  fix k k' w w'
  assume "clock_ok E \<tau> \<and> 2 \<le> default_ms_per_slot E"
    and "new_blockhash_body E de self bh start k w = (Done (Inl k'), w')"
  then show "periods (start + from_secs 5) (half_slot E) (\<tau> (hstate w'))
      < periods (start + from_secs 5) (half_slot E) (\<tau> (hstate w))"
    using new_blockhash_next [of E \<tau>] by (intro periods_step half_slot_positive) fastforce+
qed (auto simp: answersD [OF answers_bodies(5)])

lemma new_blockhash_returns:
  assumes "clock_ok E \<tau>" "2 \<le> default_ms_per_slot E"
    and "(from_secs 5 + half_slot E - 1) div half_slot E < n"
  shows "fst (get_new_latest_blockhash E de self bh n w) \<noteq> NoFuel"
proof -
  obtain start w1 where n: "now E w = (Done start, w1)" "start \<le> \<tau> (hstate w1)"
    using now_start [OF assms(1)] .
  have "periods (start + from_secs 5) (half_slot E) (\<tau> (hstate w1)) < n"
    using periods_start [OF n(2), of "from_secs 5" "half_slot E"] assms(3) by linarith
  then have "fst (loop (new_blockhash_body E de self bh start) n 0 w1) \<noteq> NoFuel"
    using assms(1,2) by (intro new_blockhash.loop_returns [where \<tau> = \<tau>]) simp_all
  with n show ?thesis by (simp add: get_new_latest_blockhash_def bindp_def)
qed

lemma new_blockhash_result:
  "new_blockhash_body E de self bh start k w = (Done (Inr (Inr h)), w') \<Longrightarrow> h \<noteq> bh"
  by (auto simp: new_blockhash_body_def Let_def bindp_eq_Done ret_def split_sum_ex
      split: if_splits)

section \<open>The stake loop ends at its timeout\<close>

lemma later_sum_u64: "moves (later \<tau>) (sum_u64 E acc xs)"
  by (induction xs arbitrary: acc) (auto intro!: later.moves_intros later_pure)

lemma max_stake_next:
  assumes "clock_ok E \<tau>"
    and "max_stake_body E de c pct (Some t) start () w = (Done (Inl ()), w')"
  shows "\<tau> (hstate w) < start + (t + 1) \<and> \<tau> (hstate w) + from_secs 5 \<le> \<tau> (hstate w')"
proof -
  from assms(2) obtain va w1 ttl w2 d w3 msg w4 where
    g: "get_vote_accounts_with_commitment E de c w = (Done (Inr va), w1)"
    and s: "sum_u64 E 0 (stakes va) w1 = (Done ttl, w2)"
    and d: "elapsed E start w2 = (Done d, w3)" "\<not> t < d"
    and l: "log_at E LevelInfo client_target msg w3 = (Done (), w4)"
    and z: "thread_sleep E (from_secs 5) w4 = (Done (), w')"
    by (auto simp: max_stake_body_def Let_def bindp_eq_Done ret_def split_sum_ex split: if_splits)
  have "\<tau> (hstate w) \<le> \<tau> (hstate w1)" by (rule laterD [OF later_polling(5) [OF assms(1)] g])
  also have "\<dots> \<le> \<tau> (hstate w2)" by (rule laterD [OF later_sum_u64 s])
  finally have le: "\<tau> (hstate w) \<le> \<tau> (hstate w2)" .
  moreover have "\<tau> (hstate w3) \<le> \<tau> (hstate w4)" by (rule laterD [OF later_host(7) [OF assms(1)] l])
  ultimately show ?thesis
    using thread_sleep_clock(2) [OF assms(1) z] elapsed_clock [OF assms(1) d(1)] d(2) by linarith
qed

interpretation max_stake: bounded_loop "max_stake_body E de c pct (Some t) start"
  "\<lambda>_ w. clock_ok E \<tau>"
  "\<lambda>_ w. periods (start + (t + 1)) (from_secs 5) (\<tau> (hstate w))" for E de c pct t start \<tau>
proof unfold_locales
  fix u u' :: unit and w w'
  assume "clock_ok E \<tau>" and "max_stake_body E de c pct (Some t) start u w = (Done (Inl u'), w')"
  then show "periods (start + (t + 1)) (from_secs 5) (\<tau> (hstate w'))
      < periods (start + (t + 1)) (from_secs 5) (\<tau> (hstate w))"
    using max_stake_next [of E \<tau>] by (intro periods_step) (auto simp: from_secs_def)
qed (auto simp: answersD [OF answers_bodies(6)])

lemma max_stake_returns:
  assumes "clock_ok E \<tau>" "t div from_secs 5 + 1 < n"
  shows "fst (max_stake_helper E de c pct (Some t) n w) \<noteq> NoFuel"
proof -
  obtain start w1 where n: "now E w = (Done start, w1)" "start \<le> \<tau> (hstate w1)"
    using now_start [OF assms(1)] .
  have "periods (start + (t + 1)) (from_secs 5) (\<tau> (hstate w1)) \<le> (t + from_secs 5) div from_secs 5"
    using periods_start [OF n(2), of "t + 1" "from_secs 5"] by simp
  also have "\<dots> = t div from_secs 5 + 1" by (simp add: from_secs_def)
  finally have "periods (start + (t + 1)) (from_secs 5) (\<tau> (hstate w1)) < n" using assms(2) by simp
  then have "fst (loop (max_stake_body E de c pct (Some t) start) n () w1) \<noteq> NoFuel"
    using assms(1) by (intro max_stake.loop_returns [where \<tau> = \<tau>])
  with n show ?thesis by (simp add: max_stake_helper_def bindp_def)
qed



section \<open>What the bodies return\<close>

lemma log_at_done: "\<exists>w'. log_at E lvl tgt args w = (Done (), w')"
  by (auto simp: log_at_def host_log_def split: option.split)

lemma poll_get_balance_fuel_mono:
  assumes "fst (poll_get_balance_with_commitment E de pk c n w) \<noteq> NoFuel"
  shows "poll_get_balance_with_commitment E de pk c (n + k) w =
    poll_get_balance_with_commitment E de pk c n w"
proof -
  obtain start w1 where n: "now E w = (Done start, w1)"
    by (cases "now E w") (auto simp: now_def split: prod.splits)
  let ?l = "\<lambda>n. loop (poll_balance_body E de pk (from_millis 100) (from_secs 1) c start) n () w1"
  have "poll_get_balance_with_commitment E de pk c m w = ?l m" for m
    by (simp add: poll_get_balance_with_commitment_def poll_balance_with_timeout_and_commitment_def
        bindp_Done [where m = "now E", OF n])
  with assms show ?thesis using loop_fuel_mono [of _ n "()" w1 _ _ k] by (metis prod.collapse)
qed

text \<open>A balance leaves the loop right after the poll that found it, but for a trace line.\<close>

lemma balance_body_ok:
  "balance_body E de pk expected c poll_fuel run w = (Done (Inr (Inr b)), w') \<Longrightarrow>
     (\<forall>b'. expected = Some b' \<longrightarrow> b = b') \<and>
     (\<exists>w2. poll_get_balance_with_commitment E de pk c poll_fuel w = (Done (Inr b), w2) \<and>
        (w' = w2 \<or> (\<exists>msg. log_at E LevelTrace client_target msg w2 = (Done (), w'))))"
  by (auto simp: balance_body_def Let_def bindp_eq_Done ret_def split_sum_ex
      split: if_splits option.splits)

lemma balance_body_unexpected:
  assumes "poll_get_balance_with_commitment E de pk c poll_fuel w = (Done (Inr b), w1)"
    and "b \<noteq> expected"
  shows "\<exists>w2. balance_body E de pk (Some expected) c poll_fuel run w =
    (if overflow_checks E \<and> add_overflows run 1 then (Panicked ArithOverflow, w2)
     else (Done (Inl (run + 1)), w2))"
proof -
  obtain w2 where l: "log_at E LevelTrace client_target
      (''wait_for_balance_with_commitment ['' @ nat_str (unat run) @ ''] '' @
       dbg_balance_result E (Inr b) @ '' '' @ dbg_opt_u64 E (Some expected)) w1 = (Done (), w2)"
    using log_at_done by blast
  with assms show ?thesis
    by (auto simp: balance_body_def Let_def bindp_def add_checked_def ret_def panic_def)
qed

lemma balance_body_again:
  assumes "poll_get_balance_with_commitment E de pk c poll_fuel w = (Done r, w1)"
    and "r \<noteq> Inr expected" and "isl r \<longrightarrow> run \<noteq> LAST"
    and "\<not> overflow_checks E \<or> \<not> add_overflows run 1"
  shows "\<exists>w2. balance_body E de pk (Some expected) c poll_fuel run w = (Done (Inl (run + 1)), w2)"
proof -
  obtain w2 where l: "log_at E LevelTrace client_target
      (''wait_for_balance_with_commitment ['' @ nat_str (unat run) @ ''] '' @
       dbg_balance_result E r @ '' '' @ dbg_opt_u64 E (Some expected)) w1 = (Done (), w2)"
    using log_at_done by blast
  have a: "add_checked E run 1 = ret (run + 1)" using assms(4) by (auto simp: add_checked_def)
  show ?thesis
    using assms(2,3)
    by (cases r) (use l in \<open>auto simp: balance_body_def Let_def bindp_def assms(1) a ret_def\<close>)
qed

lemma confirmation_timeout_count:
  "confirmation_timeout E s mn since n w = (Done x, w') \<Longrightarrow>
     (case x of Inl st \<Rightarrow> snd st = n | Inr (Inl e) \<Rightarrow> True | Inr (Inr m) \<Rightarrow> m = n \<and> 0 < n)"
  by (auto simp: confirmation_timeout_def bindp_eq_Done ret_def split: if_splits)

text \<open>The count a round of the confirmation loop is told, and the counts a whole run is told.\<close>

definition told ::
  "'h env \<Rightarrow> (json \<Rightarrow> serde_error + statuses) \<Rightarrow> signature \<Rightarrow> 'h world \<Rightarrow> usize \<Rightarrow> bool" where
  "told E de s w n \<longleftrightarrow> (\<exists>w'. get_num_blocks_since_signature_confirmation E de s w = (Done (Inr n), w'))"

lemma confirmation_step:
  assumes "confirmation_body E de s mn (since, n) w = (Done x, w')"
  shows "(case x of
      Inl st \<Rightarrow> told E de s w (snd st) \<or> snd st = n \<and> (\<forall>m. \<not> told E de s w m)
    | Inr (Inl e) \<Rightarrow> True
    | Inr (Inr m) \<Rightarrow> told E de s w m \<and> (mn \<le> m \<or> 0 < m) \<or>
        m = n \<and> 0 < n \<and> (\<forall>m'. \<not> told E de s w m'))"
proof -
  from assms obtain r w1 where
    g: "get_num_blocks_since_signature_confirmation E de s w = (Done r, w1)"
    by (auto simp: confirmation_body_def bindp_eq_Done)
  show ?thesis
  proof (cases r)
    case (Inl e)
    with g have "\<not> told E de s w m" for m by (simp add: told_def)
    with assms g Inl show ?thesis
      by (fastforce simp: confirmation_body_def bindp_eq_Done dest!: confirmation_timeout_count
          split: sum.splits)
  next
    case (Inr count)
    with g have t: "told E de s w count" by (simp add: told_def)
    from assms(1) g Inr have "x = Inr (Inr count) \<and> mn \<le> count \<or>
        (\<exists>since w2. confirmation_timeout E s mn since count w2 = (Done x, w'))"
      by (auto simp: confirmation_body_def bindp_eq_Done ret_def split: if_splits)
    with t show ?thesis
      by (fastforce dest!: confirmation_timeout_count split: sum.splits)
  qed
qed

lemma told_unique: "told E de s w n \<Longrightarrow> told E de s w m \<Longrightarrow> n = m"
  by (auto simp: told_def)

text \<open>
  A run that returns the count \<open>n\<close> was told it in one of its rounds, and no other count in any
  later one; or it was told no count but \<open>n\<close> at all, and started with it.
\<close>

lemma confirmation_run_told:
  assumes "loop (confirmation_body E de s mn) fuel st w = (Done (Inr n), w')"
  shows "(\<exists>k stk wk. k < fuel \<and> loop_rounds (confirmation_body E de s mn) k st w stk wk \<and>
        told E de s wk n \<and> (mn \<le> n \<or> 0 < n) \<and>
        (\<forall>j stj wj m. k \<le> j \<longrightarrow> loop_rounds (confirmation_body E de s mn) j st w stj wj \<longrightarrow>
           told E de s wj m \<longrightarrow> m = n)) \<or>
     snd st = n \<and> 0 < n \<and> (\<forall>j stj wj m. loop_rounds (confirmation_body E de s mn) j st w stj wj \<longrightarrow>
        told E de s wj m \<longrightarrow> m = n)"
  using assms
proof (induction fuel arbitrary: st w)
  case (Suc fuel)
  let ?body = "confirmation_body E de s mn"
  from Suc.prems obtain x w1 where b: "?body st w = (Done x, w1)"
    and x: "(case x of Inl st' \<Rightarrow> loop ?body fuel st' | Inr r \<Rightarrow> ret r) w1 = (Done (Inr n), w')"
    by (auto simp: bindp_eq_Done)
  have step: "case x of
      Inl st' \<Rightarrow> told E de s w (snd st') \<or> snd st' = snd st \<and> (\<forall>m. \<not> told E de s w m)
    | Inr (Inl e) \<Rightarrow> True
    | Inr (Inr m) \<Rightarrow> told E de s w m \<and> (mn \<le> m \<or> 0 < m) \<or>
        m = snd st \<and> 0 < snd st \<and> (\<forall>m'. \<not> told E de s w m')"
    using confirmation_step [of E de s mn "fst st" "snd st" w x w1] b by simp
  show ?case
  proof (cases x)
    case (Inr r)
    with x have r: "r = Inr n" "w1 = w'" by (auto simp: ret_def)
    have one: "j = 0 \<and> wj = w" if "loop_rounds ?body j st w stj wj" for j stj wj
      using that b Inr by (cases rule: loop_rounds_cases) auto
    show ?thesis
    proof (cases "told E de s w n")
      case True
      with step Inr r have mn: "mn \<le> n \<or> 0 < n" by auto
      have "m = n" if "loop_rounds ?body j st w stj wj" "told E de s wj m" for j stj wj m
        using one [OF that(1)] that(2) told_unique [OF True] by auto
      with True mn show ?thesis
        by (intro disjI1 exI [of _ 0] exI [of _ st] exI [of _ w]) auto
    next
      case False
      with step Inr r have n: "snd st = n" "0 < n" and no: "\<not> told E de s w m" for m by auto
      have "m = n" if "loop_rounds ?body j st w stj wj" "told E de s wj m" for j stj wj m
        using one [OF that(1)] that(2) no by auto
      with n show ?thesis by blast
    qed
  next
    case (Inl st')
    with x have l: "loop ?body fuel st' w1 = (Done (Inr n), w')" by simp
    have first: "loop_rounds ?body (Suc k) st w stk wk" if "loop_rounds ?body k st' w1 stk wk" for k stk wk
      using b that unfolding Inl by (rule loop_rounds_Suc)
    have later: "(j = 0 \<and> wj = w) \<or> (\<exists>i. j = Suc i \<and> loop_rounds ?body i st' w1 stj wj)"
      if "loop_rounds ?body j st w stj wj" for j stj wj
      using that b Inl by (cases rule: loop_rounds_cases) auto
    from Suc.IH [OF l] show ?thesis
    proof
      assume "\<exists>k stk wk. k < fuel \<and> loop_rounds ?body k st' w1 stk wk \<and>
        told E de s wk n \<and> (mn \<le> n \<or> 0 < n) \<and>
        (\<forall>j stj wj m. k \<le> j \<longrightarrow> loop_rounds ?body j st' w1 stj wj \<longrightarrow> told E de s wj m \<longrightarrow> m = n)"
      then obtain k stk wk where k: "k < fuel" "loop_rounds ?body k st' w1 stk wk" "told E de s wk n"
        "mn \<le> n \<or> 0 < n" and all: "\<And>j stj wj m. k \<le> j \<Longrightarrow> loop_rounds ?body j st' w1 stj wj \<Longrightarrow>
          told E de s wj m \<Longrightarrow> m = n" by blast
      have "m = n" if "Suc k \<le> j" "loop_rounds ?body j st w stj wj" "told E de s wj m" for j stj wj m
        using later [OF that(2)] all that(1,3) by fastforce
      with k first [OF k(2)] show ?thesis
        by (intro disjI1 exI [of _ "Suc k"] exI [of _ stk] exI [of _ wk]) auto
    next
      assume a: "snd st' = n \<and> 0 < n \<and> (\<forall>j stj wj m. loop_rounds ?body j st' w1 stj wj \<longrightarrow>
        told E de s wj m \<longrightarrow> m = n)"
      then have all: "m = n" if "loop_rounds ?body j st' w1 stj wj" "told E de s wj m" for j stj wj m
        using that by blast
      from step Inl a consider "told E de s w n" | "snd st = n" "\<forall>m. \<not> told E de s w m" by auto
      then show ?thesis
      proof cases
        case 1
        have "m = n" if "loop_rounds ?body j st w stj wj" "told E de s wj m" for j stj wj m
          using later [OF that(1)] all that(2) told_unique [OF 1] by blast
        with 1 a show ?thesis
          by (intro disjI1 exI [of _ 0] exI [of _ st] exI [of _ w]) auto
      next
        case 2
        have "m = n" if "loop_rounds ?body j st w stj wj" "told E de s wj m" for j stj wj m
          using later [OF that(1)] all that(2) 2(2) by blast
        with 2(1) a show ?thesis by blast
      qed
    qed
  qed
qed simp




section \<open>Properties\<close>

text \<open>
  C22: under a clock that runs, polling a balance for a second every tenth of
  one ends after at most twelve iterations, with at most twelve balance requests, whatever the
  node answers.
\<close>

theorem poll_get_balance_bounded:
  assumes "clock_ok E \<tau>" and "12 \<le> fuel"
  shows "fst (poll_get_balance_with_commitment E de pk c fuel w) \<noteq> NoFuel \<and>
    (\<exists>evs. trace (snd (poll_get_balance_with_commitment E de pk c fuel w)) = trace w @ evs \<and>
      length (filter (is_call_named ''getBalance'') evs) \<le> 12)"
proof -
  let ?poll = "\<lambda>n. poll_get_balance_with_commitment E de pk c n w"
  have r: "fst (?poll 12) \<noteq> NoFuel"
    unfolding poll_get_balance_with_commitment_def
    by (rule poll_balance_returns [OF assms(1)]) (simp_all add: from_millis_def from_secs_def)
  obtain k where "fuel = 12 + k" using assms(2) le_Suc_ex by blast
  with r have "?poll fuel = ?poll 12"
    by (simp only:) (rule poll_get_balance_fuel_mono)
  moreover have "at_most (is_call_named ''getBalance'') (0 + 12 * 1)
      (poll_get_balance_with_commitment E de pk c 12)"
    unfolding poll_get_balance_with_commitment_def poll_balance_with_timeout_and_commitment_def
    by (intro at_most_bindp at_most_loop at_most_poll_balance_body at_most_emits emits_host) simp
  ultimately show ?thesis using r by (simp add: at_most_def)
qed

lemma poll_get_balance_bounded_witness:
  "fst (poll_get_balance_with_commitment sample_env (\<lambda>j. Inl (SerdeError ''no''))
     (Pubkey []) processed_commitment 12 (sample_world [])) \<noteq> NoFuel"
  using poll_get_balance_bounded [OF sample_clock, of 12] by simp

text \<open>
  Under a clock that runs, polling for a signature ends: sixteen
  seconds of quarter-second pauses are 64 iterations at the most, and one more that returns.
\<close>

theorem poll_for_signature_returns:
  assumes "clock_ok E \<tau>" and "64 < fuel"
  shows "fst (poll_for_signature E de self s fuel w) \<noteq> NoFuel"
  unfolding poll_for_signature_def using assms by (rule poll_signature_returns)

lemma poll_for_signature_returns_witness:
  "fst (poll_for_signature sample_env (\<lambda>j. Inl (SerdeError ''no'')) sample_client (Signature []) 65
     (sample_world [])) \<noteq> NoFuel"
  by (rule poll_for_signature_returns [OF sample_clock]) simp

text \<open>
  When polling for a signature succeeds, the last answer of the node held a
  status of it at the client's commitment, with or without an error; when it fails, the error
  is the one for the user, never that of a request.
\<close>

theorem poll_for_signature_ok:
  assumes "poll_for_signature E de self s fuel w = (Done r, w')"
  shows "case r of
      Inr _ \<Rightarrow> \<exists>w0 st. get_signature_status E de self s w0 = (Done (Inr (Some st)), w')
    | Inl e \<Rightarrow> \<exists>d. e = signature_not_found d"
proof -
  obtain start w1 where
    l: "loop (poll_signature_body E de s (commitment self) start) fuel () w1 = (Done r, w')"
    using assms by (auto simp: poll_for_signature_def poll_for_signature_with_commitment_def
        bindp_eq_Done)
  show ?thesis
  proof (rule loop_result_rule [OF l, where I = "\<lambda>_ _. True"])
    fix u :: unit and w2 r2 w2'
    assume "poll_signature_body E de s (commitment self) start u w2 = (Done (Inr r2), w2')"
    then show "case r2 of
        Inr _ \<Rightarrow> \<exists>w0 st. get_signature_status E de self s w0 = (Done (Inr (Some st)), w2')
      | Inl e \<Rightarrow> \<exists>d. e = signature_not_found d"
      by (auto simp: poll_signature_body_def get_signature_status_def bindp_eq_Done ret_def
          split_sum_ex split_option_ex split: if_splits) blast
  qed simp_all
qed

lemma poll_for_signature_ok_witness:
  "\<exists>w0 st w'. get_signature_status sample_env (sample_response [Some sample_status]) sample_client
      (Signature []) w0 = (Done (Inr (Some st)), w')"
proof -
  let ?r = "poll_for_signature sample_env (sample_response [Some sample_status]) sample_client
    (Signature []) 1 (sample_world [sample_reply []])"
  have "satisfies_commitment sample_env st c" for st c by (simp add: sample_env_def)
  then have "?r = (Done (Inr ()), snd ?r)"
    by (simp add: poll_for_signature_def poll_for_signature_with_commitment_def now_def
        sample_now poll_signature_body_def get_signature_status_with_commitment_def
        satisfied_status_def opt_filter_def sample_run)
  from poll_for_signature_ok [OF this] show ?thesis by auto
qed

text \<open>
  C26: a number of blocks that \<open>poll_for_signature_confirmation\<close> returns is the
  last one the node told it: a round of this very run was told it, and no later round was told
  another. It reaches the minimum asked for or is positive: after the timeout it may be below
  the minimum, but it is never zero then.
\<close>

theorem confirmation_count:
  assumes "poll_for_signature_confirmation E de s mn fuel w = (Done (Inr n), w')"
  shows "(mn \<le> n \<or> 0 < n) \<and>
    (\<exists>start w0 k st wk. now E w = (Done start, w0) \<and> k < fuel \<and>
      loop_rounds (confirmation_body E de s mn) k (start, 0) w0 st wk \<and> told E de s wk n \<and>
      (\<forall>j stj wj m. k \<le> j \<longrightarrow>
        loop_rounds (confirmation_body E de s mn) j (start, 0) w0 stj wj \<longrightarrow>
        told E de s wj m \<longrightarrow> m = n))"
proof -
  obtain start w0 where start: "now E w = (Done start, w0)"
    and l: "loop (confirmation_body E de s mn) fuel (start, 0) w0 = (Done (Inr n), w')"
    using assms by (auto simp: poll_for_signature_confirmation_def bindp_eq_Done)
  from confirmation_run_told [OF l] obtain k st wk where
    "k < fuel" "loop_rounds (confirmation_body E de s mn) k (start, 0) w0 st wk" "told E de s wk n"
    "mn \<le> n \<or> 0 < n" "\<forall>j stj wj m. k \<le> j \<longrightarrow>
        loop_rounds (confirmation_body E de s mn) j (start, 0) w0 stj wj \<longrightarrow> told E de s wj m \<longrightarrow> m = n"
    by auto
  with start show ?thesis by blast
qed

lemma confirmation_count_witness:
  "\<exists>start w0 st wk. now sample_env (sample_world [sample_reply []]) = (Done start, w0) \<and>
     loop_rounds (confirmation_body sample_env (sample_response [Some sample_status]) (Signature []) 3)
       0 (start, 0) w0 st wk \<and>
     told sample_env (sample_response [Some sample_status]) (Signature []) wk 32"
proof -
  let ?r = "poll_for_signature_confirmation sample_env (sample_response [Some sample_status])
    (Signature []) 3 1 (sample_world [sample_reply []])"
  have "max_lockout_history sample_env = 31" "\<not> overflow_checks sample_env"
    by (simp_all add: sample_env_def)
  then have "?r = (Done (Inr 32), snd ?r)"
    by (simp add: poll_for_signature_confirmation_def confirmation_body_def now_def log_with_def
        get_num_blocks_since_signature_confirmation_def add_checked_def sample_now sample_run
        sample_status_def)
  from confirmation_count [OF this] show ?thesis by auto
qed

text \<open>
  C27: a balance that \<open>wait_for_balance_with_commitment\<close> returns is the answer of
  its last poll, after which it only may write a trace line, and it is the expected one
  wherever one was named.
\<close>

theorem wait_for_balance_ok:
  assumes "wait_for_balance_with_commitment E de pk expected c poll_fuel fuel w = (Done (Inr b), w')"
  shows "(\<forall>b'. expected = Some b' \<longrightarrow> b = b') \<and>
    (\<exists>k run wk w2. k < fuel \<and>
      loop_rounds (balance_body E de pk expected c poll_fuel) k 0 w run wk \<and>
      poll_get_balance_with_commitment E de pk c poll_fuel wk = (Done (Inr b), w2) \<and>
      (w' = w2 \<or> (\<exists>msg. log_at E LevelTrace client_target msg w2 = (Done (), w'))))"
  using assms unfolding wait_for_balance_with_commitment_def loop_eq_Done
  by (blast dest: balance_body_ok)

lemma wait_for_balance_ok_witness:
  "\<exists>w2. poll_get_balance_with_commitment sample_env (sample_response 8) (Pubkey [])
     processed_commitment 1 (sample_world [sample_reply []]) = (Done (Inr 8), w2)"
proof -
  let ?r = "wait_for_balance_with_commitment sample_env (sample_response 8) (Pubkey []) (Some 8)
    processed_commitment 1 1 (sample_world [sample_reply []])"
  have "?r = (Done (Inr 8), snd ?r)"
    by (simp add: wait_for_balance_with_commitment_def balance_body_def Let_def
        poll_get_balance_with_commitment_def poll_balance_with_timeout_and_commitment_def
        now_def sample_now poll_balance_body_def get_balance_with_commitment_def sample_run)
  from wait_for_balance_ok [OF this] show ?thesis by auto
qed

text \<open>
  When every poll fails, the wait ends with the error of its 31st
  poll.
\<close>

theorem wait_for_balance_gives_up:
  assumes "\<And>w. \<exists>e w'. poll_get_balance_with_commitment E de pk c poll_fuel w = (Done (Inl e), w')"
    and "31 \<le> fuel"
  shows "\<exists>e w'. wait_for_balance_with_commitment E de pk (Some b) c poll_fuel fuel w = (Done (Inl e), w')"
proof -
  have "\<exists>e w'. loop (balance_body E de pk (Some b) c poll_fuel) n run w = (Done (Inl e), w')"
    if "unat run \<le> 30" "31 - unat run \<le> n" for n run w
    using that
  proof (induction n arbitrary: run w)
    case (Suc n)
    obtain e w1 where p: "poll_get_balance_with_commitment E de pk c poll_fuel w = (Done (Inl e), w1)"
      using assms(1) by blast
    show ?case
    proof (cases "run = LAST")
      case True
      with p show ?thesis by (simp add: balance_body_def Let_def bindp_def ret_def)
    next
      case False
      then have "unat run \<noteq> 30" by (simp add: LAST_def word_unat_eq_iff)
      with Suc.prems have u: "unat run < 30" by simp
      then have u1: "unat (run + 1) = unat run + 1" "\<not> add_overflows run 1"
        by (auto simp: add_overflows_def unat_word_ariths)
      obtain w2 where "balance_body E de pk (Some b) c poll_fuel run w = (Done (Inl (run + 1)), w2)"
        using balance_body_again [OF p, of b run] False u1(2) by auto
      moreover have "\<exists>e w'. loop (balance_body E de pk (Some b) c poll_fuel) n (run + 1) w2 =
          (Done (Inl e), w')"
        by (rule Suc.IH) (use u u1 Suc.prems in auto)
      ultimately show ?thesis by (simp add: bindp_def)
    qed
  qed simp
  then show ?thesis using assms(2) by (simp add: wait_for_balance_with_commitment_def)
qed

lemma wait_for_balance_gives_up_witness:
  "\<exists>e w'. wait_for_balance_with_commitment (sample_env\<lparr>h_call_rpc := (\<lambda>m p s. (Inl 1, s)),
      h_sleep := (\<lambda>d (t, rs). (t + 2000000000, rs))\<rparr>) (sample_response 8) (Pubkey []) (Some 9)
      processed_commitment 1 31 (sample_world []) = (Done (Inl e), w')"
proof (rule wait_for_balance_gives_up)
  show "\<exists>e w'. poll_get_balance_with_commitment (sample_env\<lparr>h_call_rpc := (\<lambda>m p s. (Inl 1, s)),
      h_sleep := (\<lambda>d (t, rs). (t + 2000000000, rs))\<rparr>) (sample_response 8) (Pubkey [])
      processed_commitment 1 w = (Done (Inl e), w')" for w
    by (cases "hstate w") (simp add: poll_get_balance_with_commitment_def
        poll_balance_with_timeout_and_commitment_def now_def sample_now poll_balance_body_def
        get_balance_with_commitment_def thread_sleep_def elapsed_def from_secs_def sample_run)
qed simp

text \<open>
  C36: where every poll is answered, each time with some balance other than
  the expected one, the wait returns nothing, however long it runs: the count of runs only
  limits polls that fail. A build that checks overflow panics when that count leaves \<open>usize\<close>,
  in the 2^32nd run; any other build goes on for ever.
\<close>

theorem wait_for_balance_never_ends:
  assumes "\<And>w. \<exists>b w'. b \<noteq> expected \<and>
      poll_get_balance_with_commitment E de pk c poll_fuel w = (Done (Inr b), w')"
  shows "fst (wait_for_balance_with_commitment E de pk (Some expected) c poll_fuel fuel w) =
    (if overflow_checks E \<and> 2 ^ 32 \<le> fuel then Panicked ArithOverflow else NoFuel)"
proof -
  have "fst (loop (balance_body E de pk (Some expected) c poll_fuel) n run w) =
    (if overflow_checks E \<and> 2 ^ 32 \<le> n + unat run then Panicked ArithOverflow else NoFuel)" for n run w
  proof (induction n arbitrary: run w)
    case 0
    have "unat run < 2 ^ LENGTH(32)" by (rule unsigned_less)
    then show ?case by simp
  next
    case (Suc n)
    obtain b w1 where b: "b \<noteq> expected"
      "poll_get_balance_with_commitment E de pk c poll_fuel w = (Done (Inr b), w1)"
      using assms by blast
    obtain w2 where "balance_body E de pk (Some expected) c poll_fuel run w =
        (if overflow_checks E \<and> add_overflows run 1 then (Panicked ArithOverflow, w2)
         else (Done (Inl (run + 1)), w2))"
      using balance_body_unexpected [OF b(2,1)] by blast
    moreover have "add_overflows run 1 \<Longrightarrow> 2 ^ 32 \<le> Suc n + unat run"
      by (simp add: add_overflows_def)
    moreover have "\<not> add_overflows run 1 \<Longrightarrow> unat (run + 1) = Suc (unat run)"
      by (simp add: unat_add_no_overflow)
    ultimately show ?case using Suc.IH by (auto simp: bindp_def)
  qed
  then show ?thesis by (simp add: wait_for_balance_with_commitment_def)
qed

lemma wait_for_balance_never_ends_witness:
  "fst (wait_for_balance_with_commitment (sample_env\<lparr>h_call_rpc := (\<lambda>m p s. (Inr (Inr []), s))\<rparr>)
     (sample_response 8) (Pubkey []) (Some 9) processed_commitment 1 1000 (sample_world [])) = NoFuel"
proof -
  have "\<exists>b w'. b \<noteq> 9 \<and> poll_get_balance_with_commitment
      (sample_env\<lparr>h_call_rpc := (\<lambda>m p s. (Inr (Inr []), s))\<rparr>)
      (sample_response 8) (Pubkey []) processed_commitment 1 w = (Done (Inr (b::u64)), w')" for w
    by (cases "hstate w") (auto intro!: exI [of _ 8] simp: poll_get_balance_with_commitment_def
        poll_balance_with_timeout_and_commitment_def now_def sample_now poll_balance_body_def
        get_balance_with_commitment_def sample_run)
  from wait_for_balance_never_ends [OF this] show ?thesis by simp
qed

text \<open>
  C25: under a clock that runs, and with slots of two milliseconds or more, the
  wait for a new blockhash ends, with the five seconds' worth of half slots as fuel; and the old
  blockhash is never its result.
\<close>

theorem new_blockhash_returns_other:
  assumes "clock_ok E \<tau>" and "2 \<le> default_ms_per_slot E"
    and "(from_secs 5 + half_slot E - 1) div half_slot E < fuel"
  shows "fst (get_new_latest_blockhash E de self bh fuel w) \<noteq> NoFuel \<and>
    fst (get_new_latest_blockhash E de self bh fuel w) \<noteq> Done (Inr bh)"
proof
  show "fst (get_new_latest_blockhash E de self bh fuel w) \<noteq> NoFuel"
    using assms by (rule new_blockhash_returns)
  show "fst (get_new_latest_blockhash E de self bh fuel w) \<noteq> Done (Inr bh)"
  proof
    assume "fst (get_new_latest_blockhash E de self bh fuel w) = Done (Inr bh)"
    then have "get_new_latest_blockhash E de self bh fuel w =
        (Done (Inr bh), snd (get_new_latest_blockhash E de self bh fuel w))" by (simp add: prod_eq_iff)
    then obtain start w1 w' where l: "loop (new_blockhash_body E de self bh start) fuel 0 w1 =
        (Done (Inr bh), w')"
      by (auto simp: get_new_latest_blockhash_def bindp_eq_Done)
    have "Inr bh = (Inr h :: hash client_result) \<longrightarrow> h \<noteq> bh" for h
      by (rule loop_result_rule [OF l, where I = "\<lambda>_ _. True"
            and Q = "\<lambda>r _. r = Inr h \<longrightarrow> h \<noteq> bh"]) (auto dest: new_blockhash_result)
    then show False by blast
  qed
qed

lemma new_blockhash_returns_other_witness:
  "fst (get_new_latest_blockhash sample_env (\<lambda>j. Inl (SerdeError ''no'')) sample_client (Hash [1])
     26 (sample_world [])) \<noteq> NoFuel"
proof -
  have "default_ms_per_slot sample_env = 400" by (simp add: sample_env_def)
  then have "half_slot sample_env = 200000000" by (simp add: from_millis_def unat_div)
  then show ?thesis
    using new_blockhash_returns_other [OF sample_clock, of 26]
    by (simp add: from_secs_def sample_env_def)
qed




text \<open>
  With a timeout, the wait for the stake to drop ends after at most
  one iteration per five seconds of it, and two more.
\<close>

theorem max_stake_returns_timeout:
  assumes "clock_ok E \<tau>" and "timeout div from_secs 5 + 1 < fuel"
  shows "fst (wait_for_max_stake_below_threshold_with_timeout E de c pct timeout fuel w) \<noteq> NoFuel"
  unfolding wait_for_max_stake_below_threshold_with_timeout_def using assms by (rule max_stake_returns)

lemma max_stake_returns_timeout_witness:
  "fst (wait_for_max_stake_below_threshold_with_timeout sample_env (\<lambda>j. Inl (SerdeError ''no''))
     processed_commitment f32_100 (from_secs 10) 4 (sample_world [])) \<noteq> NoFuel"
  by (rule max_stake_returns_timeout [OF sample_clock]) (simp add: from_secs_def)

end
