(* ===== verification/Zela_Protocol.thy ===== *)
theory Zela_Protocol
  imports Zela_Polling
begin

text \<open>
  The requests of \<open>send_and_confirm_transaction\<close> and \<open>get_new_latest_blockhash\<close> as paths of
  abstract protocols: step relations over phases, whose labels are the requests the host
  sees. That every run of a method is such a path is its refinement of the protocol; what
  holds of all paths then holds of all runs.
\<close>

section \<open>Programs and protocols\<close>

text \<open>Log lines are not part of a protocol.\<close>

definition is_log :: "event \<Rightarrow> bool" where
  "is_log e \<longleftrightarrow> (case e of EvLog _ \<Rightarrow> True | _ \<Rightarrow> False)"

definition observed :: "'h world \<Rightarrow> 'h world \<Rightarrow> event list \<Rightarrow> bool" where
  "observed w w' ls \<longleftrightarrow> (\<exists>evs. trace w' = trace w @ evs \<and> filter (\<lambda>e. \<not> is_log e) evs = ls)"

inductive path :: "('p \<Rightarrow> event \<Rightarrow> 'p \<Rightarrow> bool) \<Rightarrow> 'p \<Rightarrow> event list \<Rightarrow> 'p \<Rightarrow> bool"
  for step :: "'p \<Rightarrow> event \<Rightarrow> 'p \<Rightarrow> bool" where
  path_Nil: "path step p [] p"
| path_Cons: "step p e q \<Longrightarrow> path step q es r \<Longrightarrow> path step p (e # es) r"

inductive_cases path_NilE: "path step p [] q"
inductive_cases path_ConsE: "path step p (e # es) q"

lemma path_append: "path step p es q \<Longrightarrow> path step q fs r \<Longrightarrow> path step p (es @ fs) r"
  by (induction rule: path.induct) (auto intro: path.intros)

lemma path_snoc: "path step p es q \<Longrightarrow> step q e r \<Longrightarrow> path step p (es @ [e]) r"
  by (erule path_append) (blast intro: path.intros)

text \<open>
  From the phase \<open>p\<close> the program walks a path of the protocol, and when it answers, the phase
  it has come to fits its result.
\<close>

definition follows ::
  "('p \<Rightarrow> event \<Rightarrow> 'p \<Rightarrow> bool) \<Rightarrow> 'p \<Rightarrow> ('h world, 'a) prog \<Rightarrow> ('a \<Rightarrow> 'p \<Rightarrow> bool) \<Rightarrow> bool" where
  "follows step p m Q \<longleftrightarrow> (\<forall>w out w'. m w = (out, w') \<longrightarrow>
     (\<exists>ls q. observed w w' ls \<and> path step p ls q \<and> (\<forall>x. out = Done x \<longrightarrow> Q x q)))"

lemma followsI:
  "(\<And>w out w'. m w = (out, w') \<Longrightarrow>
     \<exists>ls q. observed w w' ls \<and> path step p ls q \<and> (\<forall>x. out = Done x \<longrightarrow> Q x q)) \<Longrightarrow> follows step p m Q"
  unfolding follows_def by blast

lemma followsD:
  assumes "follows step p m Q" "m w = (out, w')"
  obtains ls q where "observed w w' ls" "path step p ls q" "\<forall>x. out = Done x \<longrightarrow> Q x q"
  using assms(1) [unfolded follows_def, rule_format, OF assms(2)] by blast

lemma observed_refl: "observed w w []"
  by (simp add: observed_def)

lemma observed_trans: "observed u v es \<Longrightarrow> observed v w fs \<Longrightarrow> observed u w (es @ fs)"
  by (auto simp: observed_def)

lemma follows_ret: "Q x p \<Longrightarrow> follows step p (ret x) Q"
  by (rule followsI) (auto simp: ret_def intro: observed_refl path_Nil)

lemma follows_weaken:
  "follows step p m Q \<Longrightarrow> (\<And>x q. Q x q \<Longrightarrow> R x q) \<Longrightarrow> follows step p m R"
  unfolding follows_def by meson

lemma follows_bindp:
  assumes m: "follows step p m Q" and f: "\<And>x q. Q x q \<Longrightarrow> follows step q (f x) R"
  shows "follows step p (bindp m f) R"
proof (rule followsI)
  fix w out w'
  assume run: "bindp m f w = (out, w')"
  obtain o1 w1 where m1: "m w = (o1, w1)" by (cases "m w")
  with m [unfolded follows_def, rule_format, OF m1] obtain ls q
    where q: "observed w w1 ls" "path step p ls q" "\<And>x. o1 = Done x \<Longrightarrow> Q x q"
    by blast
  show "\<exists>ls q. observed w w' ls \<and> path step p ls q \<and> (\<forall>x. out = Done x \<longrightarrow> R x q)"
  proof (cases o1)
    case (Done x)
    with run m1 have "f x w1 = (out, w')" by (simp add: bindp_def)
    from f [OF q(3) [OF Done], unfolded follows_def, rule_format, OF this] obtain ls' q' where
      "observed w1 w' ls'" "path step q ls' q'" "\<forall>x. out = Done x \<longrightarrow> R x q'"
      by blast
    with q(1,2) show ?thesis by (meson observed_trans path_append)
  qed (use run m1 q in \<open>auto simp: bindp_def\<close>)
qed

lemma follows_mapp: "follows step p m (\<lambda>x. Q (f x)) \<Longrightarrow> follows step p (mapp f m) Q"
  unfolding mapp_def by (erule follows_bindp) (erule follows_ret)

lemma follows_tryp:
  assumes "follows step p m Q" and "\<And>v q. Q (Inr v) q \<Longrightarrow> follows step q (f v) R"
    and "\<And>e q. Q (Inl e) q \<Longrightarrow> R (Inl e) q"
  shows "follows step p (tryp m f) R"
  unfolding tryp_def
  by (rule follows_bindp [OF assms(1)]) (auto intro: follows_ret assms(2,3) split: sum.split)

lemma follows_quiet:
  assumes "moves (emits is_log) m"
  shows "follows step p m (\<lambda>_ q. q = p)"
proof (rule followsI)
  fix w out w'
  assume "m w = (out, w')"
  with assms have "emits is_log w w'" by (rule movesD)
  then have "observed w w' []" by (auto simp: emits_def observed_def list_all_iff)
  then show "\<exists>ls q. observed w w' ls \<and> path step p ls q \<and> (\<forall>x. out = Done x \<longrightarrow> q = p)"
    by (blast intro: path_Nil)
qed

lemma follows_loop:
  assumes "\<And>s p. I s p \<Longrightarrow> follows step p (body s)
      (\<lambda>x q. case x of Inl s' \<Rightarrow> I s' q | Inr r \<Rightarrow> Q r q)"
    and "I s p"
  shows "follows step p (loop body n s) Q"
  using assms(2)
proof (induction n arbitrary: s p)
  case 0
  show ?case by (rule followsI) (auto intro: observed_refl path_Nil)
next
  case (Suc n)
  show ?case
    unfolding loop.simps
    by (rule follows_bindp [OF assms(1) [OF Suc.prems]])
      (auto intro: Suc.IH follows_ret split: sum.splits)
qed

lemma follows_sleep:
  "step p (EvSleep d) q \<Longrightarrow> follows step p (thread_sleep E d) (\<lambda>_ r. r = q)"
  by (rule followsI)
    (auto simp: thread_sleep_def observed_def is_log_def intro!: path_Cons path_Nil exI)

text \<open>
  A request is one step where its call is made; it has an answer only where it was. The phase
  after it may depend on the answer.
\<close>

lemma send_ok_calls:
  assumes "send E de req ps w = (Done (Inr x), w')"
  shows "\<exists>e. send_calls E req ps = [e]"
  using assms by (auto simp: send_def mapp_eq_Done panic_def call_rpc_def ret_def
      send_result_def send_calls_def split: if_splits sum.splits)

lemma send_calls_not_log: "ev \<in> set (send_calls E req ps) \<Longrightarrow> \<not> is_log ev"
  using transport.calls_name [of ev E req ps] by (auto simp: is_log_def)

lemma follows_send:
  assumes "\<And>e x. send_calls E req ps = [e] \<Longrightarrow> step p e (next_phase x)"
  shows "follows step p (send E de req ps) (\<lambda>r q. case r of Inl _ \<Rightarrow> True | Inr x \<Rightarrow> q = next_phase x)"
proof (rule followsI)
  fix w out w'
  assume run: "send E de req ps w = (out, w')"
  have tr: "trace w' = trace w @ send_calls E req ps"
    using transport.issues [of E de req ps w] run by simp
  have obs: "observed w w' (send_calls E req ps)"
    using tr send_calls_not_log by (fastforce simp: observed_def filter_id_conv)
  show "\<exists>ls q. observed w w' ls \<and> path step p ls q \<and>
      (\<forall>r. out = Done r \<longrightarrow> (case r of Inl _ \<Rightarrow> True | Inr x \<Rightarrow> q = next_phase x))"
  proof (cases "\<exists>x. out = Done (Inr x)")
    case True
    then obtain x where x: "out = Done (Inr x)" by blast
    with run have "\<exists>e. send_calls E req ps = [e]" by (blast dest: send_ok_calls)
    then obtain e where e: "send_calls E req ps = [e]" by blast
    with assms have "path step p [e] (next_phase x)" by (blast intro: path.intros)
    with x e obs show ?thesis by auto
  next
    case False
    have "\<exists>q. path step p (send_calls E req ps) q"
    proof (cases "send_calls E req ps")
      case (Cons e rest)
      then have "send_calls E req ps = [e]"
        using transport.calls_one [of E req ps] by simp
      with assms show ?thesis by (auto intro: path.intros)
    qed (auto intro: path_Nil)
    with False obs show ?thesis by (auto split: sum.split)
  qed
qed

section \<open>The protocol of a confirmation\<close>

text \<open>
  The transaction is submitted once. A durable nonce then makes it fetch the blockhash the
  validity checks ask about; another transaction has its own. From then on, in turn: the
  status of the transaction's signature is asked, the blockhash is checked, half a second
  passes.
\<close>

datatype confirm_phase =
    Idle
  | Submitted
  | Refreshed hash
  | Asked hash
  | Checked hash
  | Paused hash

inductive confirm_step ::
  "'h env \<Rightarrow> 'tx serializable_transaction \<Rightarrow> 'tx \<Rightarrow> confirm_phase \<Rightarrow> event \<Rightarrow> confirm_phase \<Rightarrow> bool"
  for E :: "'h env" and T :: "'tx serializable_transaction" and tx :: 'tx where
  submit: "send_calls E SendTransaction (JArray [JString encoded, JObject ms]) = [e] \<Longrightarrow>
     confirm_step E T tx Idle e Submitted"
| refresh: "uses_durable_nonce T tx \<Longrightarrow>
     send_calls E GetLatestBlockhash (JArray [ser_commitment E processed_commitment]) = [e] \<Longrightarrow>
     confirm_step E T tx Submitted e (Refreshed h)"
| ask_first: "\<not> uses_durable_nonce T tx \<Longrightarrow> get_signature T tx = Done s \<Longrightarrow>
     send_calls E GetSignatureStatuses (JArray [JArray [JString (signature_to_string E s)]]) = [e] \<Longrightarrow>
     confirm_step E T tx Submitted e (Asked (get_recent_blockhash T tx))"
| ask_refreshed: "get_signature T tx = Done s \<Longrightarrow>
     send_calls E GetSignatureStatuses (JArray [JArray [JString (signature_to_string E s)]]) = [e] \<Longrightarrow>
     confirm_step E T tx (Refreshed h) e (Asked h)"
| check: "send_calls E IsBlockhashValid
       (JArray [JString (hash_to_string E h), ser_commitment E processed_commitment]) = [e] \<Longrightarrow>
     confirm_step E T tx (Asked h) e (Checked h)"
| pause: "confirm_step E T tx (Checked h) (EvSleep (from_millis 500)) (Paused h)"
| ask_again: "get_signature T tx = Done s \<Longrightarrow>
     send_calls E GetSignatureStatuses (JArray [JArray [JString (signature_to_string E s)]]) = [e] \<Longrightarrow>
     confirm_step E T tx (Paused h) e (Asked h)"

inductive_cases confirm_step_IdleE: "confirm_step E T tx Idle e q"
inductive_cases confirm_step_SubmittedE: "confirm_step E T tx Submitted e q"
inductive_cases confirm_step_RefreshedE: "confirm_step E T tx (Refreshed h) e q"
inductive_cases confirm_step_AskedE: "confirm_step E T tx (Asked h) e q"
inductive_cases confirm_step_CheckedE: "confirm_step E T tx (Checked h) e q"
inductive_cases confirm_step_PausedE: "confirm_step E T tx (Paused h) e q"

lemmas confirm_step_cases = confirm_step_IdleE confirm_step_SubmittedE confirm_step_RefreshedE
  confirm_step_AskedE confirm_step_CheckedE confirm_step_PausedE

text \<open>The phases in which the status of the signature is asked next.\<close>

fun ready_to_ask :: "'tx serializable_transaction \<Rightarrow> 'tx \<Rightarrow> hash \<Rightarrow> confirm_phase \<Rightarrow> bool" where
  "ready_to_ask T tx h Submitted \<longleftrightarrow> \<not> uses_durable_nonce T tx \<and> h = get_recent_blockhash T tx"
| "ready_to_ask T tx h (Refreshed h') \<longleftrightarrow> h' = h"
| "ready_to_ask T tx h (Paused h') \<longleftrightarrow> h' = h"
| "ready_to_ask T tx h _ \<longleftrightarrow> False"

lemma ask_step:
  assumes "ready_to_ask T tx h p" "get_signature T tx = Done s"
    and "send_calls E GetSignatureStatuses (JArray [JArray [JString (signature_to_string E s)]]) = [e]"
  shows "confirm_step E T tx p e (Asked h)"
  using assms by (cases p) (auto intro: confirm_step.intros)

section \<open>The method follows it\<close>

lemma quiet_log: "moves (emits is_log) (log_at E lvl tgt args)"
  by (rule emits_log_at) (simp add: is_log_def)

lemma quiet_debug: "moves (emits is_log) (debug_send_error E err)"
proof -
  have "moves (emits is_log) (debug_lines E i lines)" for i lines
    by (induction lines arbitrary: i) (auto intro!: emits.moves_intros quiet_log)
  then show ?thesis
    by (auto simp: debug_send_error_def intro!: emits.moves_intros quiet_log
        split: client_error_kind.split client_rpc_error.split rpc_response_error_data.split
          option.split)
qed

lemma quiet_check_signature: "moves (emits is_log) (check_signature E T tx s)"
  by (auto simp: check_signature_def outcome_prog_def moves_def emits_def bindp_def ret_def
      split: sum.split outcome.split)

lemma follows_check_signature:
  "follows step p (check_signature E T tx str)
     (\<lambda>r q. q = p \<and> (\<forall>s. r = Inr s \<longrightarrow> get_signature T tx = Done s))"
proof (rule followsI)
  fix w out w'
  assume run: "check_signature E T tx str w = (out, w')"
  have "observed w w' []"
    using movesD [OF quiet_check_signature run]
    by (auto simp: emits_def observed_def list_all_iff)
  moreover have "get_signature T tx = Done s" if "out = Done (Inr s)" for s
    using run that by (simp add: check_signature_ok)
  ultimately show "\<exists>ls q. observed w w' ls \<and> path step p ls q \<and>
      (\<forall>x. out = Done x \<longrightarrow> q = p \<and> (\<forall>s. x = Inr s \<longrightarrow> get_signature T tx = Done s))"
    by (blast intro: path_Nil)
qed

lemma follows_send_transaction:
  "follows (confirm_step E T tx) Idle (send_transaction E de T self tx)
     (\<lambda>r q. \<forall>s. r = Inr s \<longrightarrow> q = Submitted \<and> get_signature T tx = Done s)"
  unfolding send_transaction_def send_transaction_with_config_def Let_def
proof (rule follows_tryp [where Q = "\<lambda>_ q. q = Idle"], rule follows_ret)
  fix encoded q
  assume "q = Idle"
  let ?cfg = "resolve_send_config E (default_send_transaction_config
    \<lparr>stc_preflight_commitment := Some (cc_level (commitment self))\<rparr>)"
  show "follows (confirm_step E T tx) q
     (bindp (send E de SendTransaction
        (JArray [JString encoded, JObject (members_send_transaction_config E ?cfg)]))
       (\<lambda>response. case response of
          Inl err \<Rightarrow> bindp (debug_send_error E err) (\<lambda>_. ret (Inl err))
        | Inr str \<Rightarrow> check_signature E T tx str))
     (\<lambda>r q. \<forall>s. r = Inr s \<longrightarrow> q = Submitted \<and> get_signature T tx = Done s)"
    unfolding \<open>q = Idle\<close>
    by (rule follows_bindp [OF follows_send [where next_phase = "\<lambda>_. Submitted"]])
      (auto intro: confirm_step.submit follows_ret follows_bindp [OF follows_quiet [OF quiet_debug]]
        follows_weaken [OF follows_check_signature] split: sum.splits)
qed simp_all

lemma follows_recent_blockhash:
  "follows (confirm_step E T tx) Submitted (recent_blockhash_of E D T tx)
     (\<lambda>r q. \<forall>h. r = Inr h \<longrightarrow> ready_to_ask T tx h q)"
proof (cases "uses_durable_nonce T tx")
  case True
  let ?next = "\<lambda>rsp. Refreshed (case hash_from_str E (bh_blockhash (rsp_value rsp)) of
    Inl _ \<Rightarrow> Hash [] | Inr h \<Rightarrow> h)"
  have "follows (confirm_step E T tx) Submitted
      (get_latest_blockhash_with_commitment E (de_blockhash D) processed_commitment)
      (\<lambda>r q. \<forall>hv. r = Inr hv \<longrightarrow> q = Refreshed (fst hv))"
    unfolding get_latest_blockhash_with_commitment_def Let_def
    by (rule follows_tryp [OF follows_send [where next_phase = ?next]])
      (auto simp: True map_ok_eq_Inr intro!: confirm_step.refresh follows_ret split: sum.splits)
  with True show ?thesis
    by (auto simp: recent_blockhash_of_def map_ok_eq_Inr intro!: follows_mapp
        elim!: follows_weaken)
next
  case False
  then show ?thesis by (auto simp: recent_blockhash_of_def intro: follows_ret)
qed

lemma follows_status:
  assumes "ready_to_ask T tx h p" "get_signature T tx = Done s"
  shows "follows (confirm_step E T tx) p (get_signature_status E de self s)
     (\<lambda>r q. \<forall>x. r = Inr x \<longrightarrow> q = Asked h)"
  unfolding get_signature_status_def get_signature_status_with_commitment_def
proof (rule follows_tryp [OF follows_send [where next_phase = "\<lambda>_. Asked h"]])
  show "confirm_step E T tx p e (Asked h)"
    if "send_calls E GetSignatureStatuses (JArray [JArray [JString (signature_to_string E s)]]) = [e]"
    for e using assms that by (rule ask_step)
next
  fix rsp :: statuses and q
  assume "case Inr rsp of Inl _ \<Rightarrow> True | Inr _ \<Rightarrow> q = Asked h"
  then have q: "q = Asked h" by simp
  have "moves (emits is_log) (index_vec (rsp_value rsp) 0)" by (rule emits_pure)
  then show "follows (confirm_step E T tx) q (bindp (index_vec (rsp_value rsp) 0)
      (\<lambda>st. ret (Inr (satisfied_status E (commitment self) st)))) (\<lambda>r q. \<forall>x. r = Inr x \<longrightarrow> q = Asked h)"
    unfolding q by (auto intro: follows_bindp [OF follows_quiet] follows_ret)
qed auto

lemma follows_blockhash_valid:
  "follows (confirm_step E T tx) (Asked h) (is_blockhash_valid E de h processed_commitment)
     (\<lambda>r q. \<forall>x. r = Inr x \<longrightarrow> q = Checked h)"
  unfolding is_blockhash_valid_def
  by (rule follows_mapp, rule follows_weaken [OF follows_send [where next_phase = "\<lambda>_. Checked h"]])
    (auto simp: map_ok_eq_Inr intro: confirm_step.check)

text \<open>What the phase says of how the status loop is left.\<close>

fun exit_phase :: "signature \<Rightarrow> hash \<Rightarrow> status_exit \<Rightarrow> confirm_phase \<Rightarrow> bool" where
  "exit_phase s h (Return (Inr s')) q \<longleftrightarrow> s' = s \<and> q = Asked h"
| "exit_phase s h (Return (Inl _)) q \<longleftrightarrow> True"
| "exit_phase s h BreakSending q \<longleftrightarrow> q = Checked h"
| "exit_phase s h RangeExhausted q \<longleftrightarrow> True"

lemma follows_status_body:
  assumes "ready_to_ask T tx h p" "get_signature T tx = Done s"
  shows "follows (confirm_step E T tx) p (status_body E de_s de_v self s h n)
     (\<lambda>x q. case x of Inl _ \<Rightarrow> ready_to_ask T tx h q \<and> q = Paused h
                    | Inr r \<Rightarrow> exit_phase s h r q)"
proof (cases "n < GET_STATUS_RETRIES")
  case True
  have pause: "follows (confirm_step E T tx) (Checked h) (thread_sleep E (from_millis 500))
      (\<lambda>_ q. q = Paused h)"
    by (rule follows_sleep) (rule confirm_step.pause)
  show ?thesis
    unfolding status_body_def using True
    by (auto intro!: follows_bindp [OF follows_status [OF assms]]
        follows_bindp [OF follows_blockhash_valid] follows_bindp [OF pause] follows_ret
        split: sum.split option.split)
qed (auto simp: status_body_def intro!: follows_ret)

lemma follows_status_loop:
  assumes "ready_to_ask T tx h p" "get_signature T tx = Done s"
  shows "follows (confirm_step E T tx) p (loop (status_body E de_s de_v self s h) fuel n)
     (exit_phase s h)"
  by (rule follows_loop [where I = "\<lambda>_. ready_to_ask T tx h"])
    (auto intro!: follows_weaken [OF follows_status_body [OF _ assms(2)]] assms(1) split: sum.splits)

lemma follows_send_and_confirm:
  "follows (confirm_step E T tx) Idle (send_and_confirm_transaction E D T self fuel tx)
     (\<lambda>r q. \<forall>s. r = Inr s \<longrightarrow> get_signature T tx = Done s \<and> (\<exists>h. q = Asked h))"
  unfolding send_and_confirm_transaction_def SEND_RETRIES_def One_nat_def sending_loop.simps
proof (rule follows_tryp [OF follows_send_transaction])
  fix s q
  assume "\<forall>s'. Inr s = (Inr s' :: signature client_result) \<longrightarrow>
      q = Submitted \<and> get_signature T tx = Done s'"
  then have q: "q = Submitted" and s: "get_signature T tx = Done s" by auto
  show "follows (confirm_step E T tx) q
     (tryp (recent_blockhash_of E D T tx) (\<lambda>h. bindp
        (loop (status_body E (de_statuses D) (de_valid D) self s h) fuel 0) (\<lambda>exit. case exit of
          Return r \<Rightarrow> ret r | BreakSending \<Rightarrow> ret (Inl unable_to_confirm)
        | RangeExhausted \<Rightarrow> ret (Inl unable_to_confirm))))
     (\<lambda>r q. \<forall>s. r = Inr s \<longrightarrow> get_signature T tx = Done s \<and> (\<exists>h. q = Asked h))"
    unfolding q
  proof (rule follows_tryp [OF follows_recent_blockhash])
    fix h q'
    assume "\<forall>h'. Inr h = (Inr h' :: hash client_result) \<longrightarrow> ready_to_ask T tx h' q'"
    then have r: "ready_to_ask T tx h q'" by simp
    show "follows (confirm_step E T tx) q'
       (bindp (loop (status_body E (de_statuses D) (de_valid D) self s h) fuel 0) (\<lambda>exit. case exit of
          Return r \<Rightarrow> ret r | BreakSending \<Rightarrow> ret (Inl unable_to_confirm)
        | RangeExhausted \<Rightarrow> ret (Inl unable_to_confirm)))
       (\<lambda>r q. \<forall>s. r = Inr s \<longrightarrow> get_signature T tx = Done s \<and> (\<exists>h. q = Asked h))"
      by (rule follows_bindp [OF follows_status_loop [OF r s]])
        (auto intro!: follows_ret simp: s split: status_exit.splits sum.splits)
  qed auto
qed auto

section \<open>What holds of all paths\<close>

definition is_pause :: "event \<Rightarrow> bool" where
  "is_pause e \<longleftrightarrow> (case e of EvSleep _ \<Rightarrow> True | _ \<Rightarrow> False)"

lemma is_pause_simps [simp]: "is_pause (EvSleep d)" "\<not> is_pause (EvCallRpc m b)"
  by (simp_all add: is_pause_def)

abbreviation count_calls :: "string \<Rightarrow> event list \<Rightarrow> nat" where
  "count_calls m es \<equiv> length (filter (is_call_named m) es)"

abbreviation count_pauses :: "event list \<Rightarrow> nat" where
  "count_pauses es \<equiv> length (filter is_pause es)"

fun status_known :: "confirm_phase \<Rightarrow> nat" where
  "status_known (Asked _) = 1"
| "status_known (Checked _) = 1"
| "status_known _ = 0"

fun blockhash_known :: "confirm_phase \<Rightarrow> nat" where
  "blockhash_known (Checked _) = 1"
| "blockhash_known _ = 0"

fun to_submit :: "confirm_phase \<Rightarrow> nat" where
  "to_submit Idle = 1"
| "to_submit _ = 0"

lemma send_calls_eq: "send_calls E req ps = [e] \<Longrightarrow> \<exists>b. e = EvCallRpc (method_name req) b"
  using transport.calls_name [of e E req ps] by simp

text \<open>Each step moves the counts of its label and of its phases together.\<close>

lemma confirm_step_counts:
  assumes "confirm_step E T tx p e q"
  shows "count_calls ''getSignatureStatuses'' [e] + status_known p = count_pauses [e] + status_known q"
    and "count_calls ''isBlockhashValid'' [e] + blockhash_known p = count_pauses [e] + blockhash_known q"
    and "count_calls ''sendTransaction'' [e] + to_submit q = to_submit p"
  using assms by (cases rule: confirm_step.cases; fastforce dest!: send_calls_eq)+

lemma path_counts:
  assumes "path (confirm_step E T tx) p es q"
  shows "count_calls ''getSignatureStatuses'' es + status_known p = count_pauses es + status_known q"
    and "count_calls ''isBlockhashValid'' es + blockhash_known p = count_pauses es + blockhash_known q"
    and "count_calls ''sendTransaction'' es + to_submit q = to_submit p"
  using assms
proof (induction rule: path.induct)
  case (path_Cons p e q es r)
  note s = confirm_step_counts [OF path_Cons.hyps(1)]
  {
    case 1
    show ?case using s(1) path_Cons.IH(1) by (simp split: if_splits)
  next
    case 2
    show ?case using s(2) path_Cons.IH(2) by (simp split: if_splits)
  next
    case 3
    show ?case using s(3) path_Cons.IH(3) by (simp split: if_splits)
  }
qed simp_all

lemma blockhash_known_le: "blockhash_known q \<le> status_known q" "status_known q \<le> 1"
  by (cases q; simp)+

section \<open>Properties\<close>

text \<open>
  C3: every run of \<open>send_and_confirm_transaction\<close> is a path of the
  protocol of a confirmation: submit, fetch a blockhash for a durable nonce, then ask the
  status of the transaction's own signature, check the same blockhash each time, pause half a
  second, and ask again. A signature is only returned right after an answered status request.
\<close>

theorem confirmation_follows_protocol:
  assumes "send_and_confirm_transaction E D T self fuel tx w = (out, w')"
  shows "\<exists>ls q. observed w w' ls \<and> path (confirm_step E T tx) Idle ls q \<and>
    (\<forall>s. out = Done (Inr s) \<longrightarrow> get_signature T tx = Done s \<and> (\<exists>h. q = Asked h))"
proof -
  obtain ls q where "observed w w' ls" "path (confirm_step E T tx) Idle ls q"
    "\<forall>x. out = Done x \<longrightarrow> (\<forall>s. x = Inr s \<longrightarrow> get_signature T tx = Done s \<and> (\<exists>h. q = Asked h))"
    using followsD [OF follows_send_and_confirm assms] .
  then show ?thesis by blast
qed

lemma confirmation_follows_protocol_witness:
  "\<exists>ls q w'. observed (sample_world [sample_reply [], sample_reply []]) w' ls \<and>
     path (confirm_step sample_env sample_impl sample_tx) Idle ls q \<and> (\<exists>h. q = Asked h)"
proof -
  obtain w' where r: "send_and_confirm_transaction sample_env sample_decoders sample_impl sample_client 1
      sample_tx (sample_world [sample_reply [], sample_reply []]) = (Done (Inr (Signature [7])), w')"
    using sample_confirm_run by (elim exE)
  obtain ls q where "observed (sample_world [sample_reply [], sample_reply []]) w' ls"
    "path (confirm_step sample_env sample_impl sample_tx) Idle ls q" "\<exists>h. q = Asked h"
    using confirmation_follows_protocol [OF r] by (elim exE conjE) simp
  then show ?thesis by (elim exE) (intro exI conjI)
qed

text \<open>
  While it waits for a confirmation, the client asks for the status once
  more than it has paused at most, checks the blockhash at most as often as it asks, and
  pauses at most as often as it checks; and it submits at most once.
\<close>

theorem confirmation_pacing:
  "\<exists>ls. observed w (snd (send_and_confirm_transaction E D T self fuel tx w)) ls \<and>
     count_calls ''getSignatureStatuses'' ls \<le> count_pauses ls + 1 \<and>
     count_calls ''isBlockhashValid'' ls \<le> count_calls ''getSignatureStatuses'' ls \<and>
     count_pauses ls \<le> count_calls ''isBlockhashValid'' ls \<and>
     count_calls ''sendTransaction'' ls \<le> 1"
proof -
  obtain ls q where ls: "observed w (snd (send_and_confirm_transaction E D T self fuel tx w)) ls"
    and p: "path (confirm_step E T tx) Idle ls q"
    using followsD [OF follows_send_and_confirm prod.collapse [symmetric]] .
  from path_counts [OF p] blockhash_known_le [of q] ls show ?thesis
    by (intro exI [of _ ls]) simp
qed

end
