(* ===== verification/Zela_Calls.thy ===== *)
theory Zela_Calls
  imports Zela_Protocol
begin

text \<open>
  What one request of the client costs: each method of \<open>src/rpc_client/client.rs\<close> that makes a
  single request makes at most one call of the host, under the name of its request, writes only
  log lines beside it, and comes to a result, or panics where it indexes the answer.
\<close>

section \<open>Programs with one request\<close>

text \<open>Programs that write only log lines and always come to a value.\<close>

definition harmless :: "('h world, 'a) prog \<Rightarrow> bool" where
  "harmless m \<longleftrightarrow> (\<forall>w. (\<exists>x. fst (m w) = Done x) \<and> emits is_log w (snd (m w)))"

definition single_request :: "rpc_request \<Rightarrow> ('h world, 'a) prog \<Rightarrow> bool" where
  "single_request req m \<longleftrightarrow> (\<forall>w. (\<exists>x. fst (m w) = Done x) \<and>
     (\<exists>ls. observed w (snd (m w)) ls \<and> length ls \<le> 1 \<and>
        (\<forall>e \<in> set ls. is_call_named (method_name req) e)))"

named_theorems single_intros \<open>programs with one request\<close>

lemma harmless_ret [single_intros]: "harmless (ret x)"
  by (simp add: harmless_def ret_def emits_def)

lemma harmless_log [single_intros]: "harmless (log_at E lvl tgt args)"
proof -
  have "moves (emits is_log) (log_at E lvl tgt args)" by (rule quiet_log)
  then show ?thesis
    by (auto simp: harmless_def moves_def log_at_def host_log_def split: option.split)
qed

lemma harmless_bindp [single_intros]:
  assumes "harmless m" "\<And>x. harmless (f x)"
  shows "harmless (bindp m f)"
  unfolding harmless_def
proof
  fix w
  obtain x w1 where m: "m w = (Done x, w1)"
    using assms(1) unfolding harmless_def by (metis prod.collapse)
  moreover have "emits is_log w w1" using assms(1) m unfolding harmless_def by (metis snd_conv)
  moreover have "(\<exists>y. fst (f x w1) = Done y) \<and> emits is_log w1 (snd (f x w1))"
    using assms(2) unfolding harmless_def by blast
  ultimately show "(\<exists>y. fst (bindp m f w) = Done y) \<and> emits is_log w (snd (bindp m f w))"
    by (auto simp: bindp_Done [where m = m, OF m] intro: emits.R_trans)
qed

lemma observed_quiet: "observed u v ls \<Longrightarrow> emits is_log v w \<Longrightarrow> observed u w ls"
  by (auto simp: observed_def emits_def list_all_iff)

lemma single_send [single_intros]:
  assumes "structured ps"
  shows "single_request req (send E de req ps)"
  unfolding single_request_def
proof (intro allI conjI)
  fix w
  show "\<exists>x. fst (send E de req ps w) = Done x"
    using transport.completes [OF assms, of E de req w] by (metis fst_conv)
  have "observed w (snd (send E de req ps w)) (send_calls E req ps)"
    using transport.issues [of E de req ps w] send_calls_not_log
    by (fastforce simp: observed_def filter_id_conv)
  moreover have "\<forall>e \<in> set (send_calls E req ps). is_call_named (method_name req) e"
    using transport.calls_name by (metis is_call_named_simps(1))
  ultimately show "\<exists>ls. observed w (snd (send E de req ps w)) ls \<and> length ls \<le> 1 \<and>
      (\<forall>e \<in> set ls. is_call_named (method_name req) e)"
    using transport.calls_one by blast
qed

lemma single_bindp [single_intros]:
  assumes "single_request req m" "\<And>x. harmless (f x)"
  shows "single_request req (bindp m f)"
  unfolding single_request_def
proof
  fix w
  obtain x w1 where m: "m w = (Done x, w1)"
    using assms(1) unfolding single_request_def by (metis prod.collapse)
  obtain ls where ls: "observed w w1 ls" "length ls \<le> 1"
    "\<forall>e \<in> set ls. is_call_named (method_name req) e"
    using assms(1) m unfolding single_request_def by (metis snd_conv)
  have "(\<exists>y. fst (f x w1) = Done y) \<and> emits is_log w1 (snd (f x w1))"
    using assms(2) unfolding harmless_def by blast
  with ls show "(\<exists>y. fst (bindp m f w) = Done y) \<and> (\<exists>ls. observed w (snd (bindp m f w)) ls \<and>
      length ls \<le> 1 \<and> (\<forall>e \<in> set ls. is_call_named (method_name req) e))"
    by (auto simp: bindp_Done [where m = m, OF m] intro: observed_quiet)
qed

lemma single_tryp [single_intros]:
  "single_request req m \<Longrightarrow> (\<And>x. harmless (f x)) \<Longrightarrow> single_request req (tryp m f)"
  unfolding tryp_def by (erule single_bindp) (auto intro: harmless_ret split: sum.split)

lemma single_mapp [single_intros]: "single_request req m \<Longrightarrow> single_request req (mapp f m)"
  unfolding mapp_def by (erule single_bindp) (rule harmless_ret)

text \<open>A pure check before the request can only spare it.\<close>

lemma single_checked:
  "(\<And>v. r = Inr v \<Longrightarrow> single_request req (f v)) \<Longrightarrow> single_request req (tryp (ret r) f)"
proof (cases r)
  case (Inl e)
  have "single_request req (ret (Inl e))"
    by (auto simp: single_request_def ret_def observed_refl intro!: exI [of _ "[]"])
  with Inl show ?thesis by simp
qed simp

section \<open>Methods that may panic\<close>

text \<open>
  The methods that index into the answer, or look for the transaction's own signature, make one
  request also, but may end in one of a few other ways than with a value.
\<close>

definition ends :: "unit outcome set \<Rightarrow> 'a outcome \<Rightarrow> bool" where
  "ends bad out \<longleftrightarrow> map_outcome (\<lambda>_. ()) out \<in> insert (Done ()) bad"

definition tame :: "unit outcome set \<Rightarrow> ('h world, 'a) prog \<Rightarrow> bool" where
  "tame bad m \<longleftrightarrow> (\<forall>w. ends bad (fst (m w)) \<and> emits is_log w (snd (m w)))"

definition one_request :: "unit outcome set \<Rightarrow> rpc_request \<Rightarrow> ('h world, 'a) prog \<Rightarrow> bool" where
  "one_request bad req m \<longleftrightarrow> (\<forall>w. ends bad (fst (m w)) \<and>
     (\<exists>ls. observed w (snd (m w)) ls \<and> length ls \<le> 1 \<and>
        (\<forall>e \<in> set ls. is_call_named (method_name req) e)))"

lemma ends_simps [simp]:
  "ends bad (Done x)" "ends bad (Panicked p) \<longleftrightarrow> Panicked p \<in> bad" "ends bad NoFuel \<longleftrightarrow> NoFuel \<in> bad"
  by (simp_all add: ends_def)

lemma tame_harmless: "harmless m \<Longrightarrow> tame bad m"
  unfolding harmless_def tame_def by (metis ends_simps(1))

lemma tame_ret [single_intros]: "tame bad (ret x)"
  by (intro tame_harmless harmless_ret)

lemma tame_bindp [single_intros]:
  assumes "tame bad m" "\<And>x. tame bad (f x)"
  shows "tame bad (bindp m f)"
  unfolding tame_def
proof
  fix w
  obtain out w1 where m: "m w = (out, w1)" by (cases "m w")
  with assms(1) have "ends bad out" "emits is_log w w1" unfolding tame_def by (metis fst_conv snd_conv)+
  moreover have "ends bad (fst (f x w1)) \<and> emits is_log w1 (snd (f x w1))" for x
    using assms(2) unfolding tame_def by blast
  ultimately show "ends bad (fst (bindp m f w)) \<and> emits is_log w (snd (bindp m f w))"
    using m by (cases out) (auto simp: bindp_def intro: emits.R_trans)
qed

lemma tame_index: "Panicked IndexOutOfBounds \<in> bad \<Longrightarrow> tame bad (index_vec xs i)"
  by (simp add: tame_def index_vec_def ret_def panic_def emits_def)

lemma tame_add: "Panicked ArithOverflow \<in> bad \<Longrightarrow> tame bad (add_checked E a b)"
  by (simp add: tame_def add_checked_def ret_def panic_def emits_def)

lemma tame_outcome: "map_outcome (\<lambda>_. ()) x \<in> bad \<Longrightarrow> tame bad (outcome_prog x)"
  by (simp add: tame_def outcome_prog_def ends_def emits_def)

lemma tame_debug: "tame bad (debug_send_error E err)"
proof -
  have "harmless (debug_lines E i lines)" for i lines
    by (induction lines arbitrary: i) (auto intro!: single_intros)
  then have "harmless (debug_send_error E err)"
    by (auto simp: debug_send_error_def intro!: single_intros
        split: client_error_kind.split client_rpc_error.split rpc_response_error_data.split
          option.split)
  then show ?thesis by (rule tame_harmless)
qed

lemma one_bindp [single_intros]:
  assumes "single_request req m" "\<And>x. tame bad (f x)"
  shows "one_request bad req (bindp m f)"
  unfolding one_request_def
proof
  fix w
  obtain x w1 where m: "m w = (Done x, w1)"
    using assms(1) unfolding single_request_def by (metis prod.collapse)
  obtain ls where ls: "observed w w1 ls" "length ls \<le> 1"
    "\<forall>e \<in> set ls. is_call_named (method_name req) e"
    using assms(1) m unfolding single_request_def by (metis snd_conv)
  have "ends bad (fst (f x w1)) \<and> emits is_log w1 (snd (f x w1))"
    using assms(2) unfolding tame_def by blast
  with ls show "ends bad (fst (bindp m f w)) \<and> (\<exists>ls. observed w (snd (bindp m f w)) ls \<and>
      length ls \<le> 1 \<and> (\<forall>e \<in> set ls. is_call_named (method_name req) e))"
    by (auto simp: bindp_Done [where m = m, OF m] intro: observed_quiet)
qed

lemma one_tryp [single_intros]:
  "single_request req m \<Longrightarrow> (\<And>x. tame bad (f x)) \<Longrightarrow> one_request bad req (tryp m f)"
  unfolding tryp_def by (erule one_bindp) (auto intro: tame_ret split: sum.split)

lemma one_mapp: "one_request bad req m \<Longrightarrow> one_request bad req (mapp f m)"
proof -
  assume m: "one_request bad req m"
  have "ends bad (fst (mapp f m w)) = ends bad (fst (m w))" for w
    by (simp add: fst_mapp ends_def outcome.map_comp comp_def)
  with m show ?thesis unfolding one_request_def by simp
qed

lemma one_checked:
  "(\<And>v. r = Inr v \<Longrightarrow> one_request bad req (f v)) \<Longrightarrow> one_request bad req (tryp (ret r) f)"
proof (cases r)
  case (Inl e)
  have "one_request bad req (ret (Inl e))"
    by (auto simp: one_request_def ret_def observed_refl intro!: exI [of _ "[]"])
  with Inl show ?thesis by simp
qed simp

lemma one_send_transaction:
  "one_request {map_outcome (\<lambda>_. ()) (get_signature T tx)} SendTransaction
     (send_transaction_with_config E de T tx config)"
proof -
  let ?bad = "{map_outcome (\<lambda>_. ()) (get_signature T tx)}"
  have "tame ?bad (check_signature E T tx str)" for str
    by (auto simp: check_signature_def intro!: single_intros tame_outcome split: sum.split)
  then show ?thesis
    unfolding send_transaction_with_config_def Let_def
    by (auto intro!: one_checked one_bindp single_send tame_bindp tame_debug tame_ret split: sum.split)
qed

lemmas client_method_defs =
  get_highest_snapshot_slot_def get_slot_with_commitment_def get_slot_def
  get_block_height_with_commitment_def get_block_height_def get_slot_leaders_def
  get_block_production_def get_block_production_with_config_def supply_with_commitment_def
  client_supply_def get_largest_accounts_with_config_def get_vote_accounts_with_config_def
  get_vote_accounts_with_commitment_def get_vote_accounts_def get_cluster_nodes_def
  get_block_with_encoding_def get_block_def get_block_with_config_def get_blocks_def
  get_blocks_with_commitment_def get_blocks_with_limit_def
  get_blocks_with_limit_and_commitment_def get_signatures_for_address_with_config_def
  get_signatures_for_address_def get_transaction_def get_transaction_with_config_def
  get_block_time_def get_epoch_info_with_commitment_def get_epoch_info_def
  get_leader_schedule_with_config_def get_leader_schedule_with_commitment_def
  get_leader_schedule_def get_epoch_schedule_def get_recent_performance_samples_def
  get_recent_prioritization_fees_def get_identity_def get_inflation_governor_def
  get_inflation_rate_def get_inflation_reward_def get_version_def minimum_ledger_slot_def
  get_account_with_config_def get_account_with_commitment_def get_account_def
  get_max_retransmit_slot_def get_max_shred_insert_slot_def
  get_multiple_accounts_with_config_def get_multiple_accounts_with_commitment_def
  get_multiple_accounts_def get_account_data_def get_minimum_balance_for_rent_exemption_def
  get_balance_with_commitment_def get_balance_def get_program_accounts_with_config_def
  get_program_accounts_def get_stake_minimum_delegation_with_commitment_def
  get_stake_minimum_delegation_def get_transaction_count_with_commitment_def
  get_transaction_count_def get_first_available_block_def get_genesis_hash_def get_health_def
  get_token_account_with_commitment_def get_token_account_def
  get_token_account_balance_with_commitment_def get_token_account_balance_def
  get_token_accounts_by_owner_with_commitment_def get_token_accounts_by_owner_def
  get_token_largest_accounts_with_commitment_def get_token_largest_accounts_def
  get_token_supply_with_commitment_def get_token_supply_def request_airdrop_with_config_def
  request_airdrop_def request_airdrop_with_blockhash_def
  get_latest_blockhash_with_commitment_def get_latest_blockhash_def is_blockhash_valid_def
  get_fee_for_message_def get_token_accounts_by_delegate_def
  get_token_accounts_by_delegate_with_commitment_def simulate_transaction_with_config_def
  simulate_transaction_def get_signature_statuses_def get_signature_statuses_with_history_def

section \<open>Properties\<close>

text \<open>
  C15: every method of the client that makes one request (all but the generic
  \<open>send\<close> and the ones that submit and confirm a transaction in one go, wait, or poll) makes at
  most one call of the host, under the method name of the request named here, and writes
  nothing else but log lines. The first group always returns a value or an error, whatever the
  host answers. The six after it index into the answer and may panic there, one of them also
  where it adds one to a constant; the last two end otherwise than with a value or an error
  only if the lookup of the transaction's own signature does.
\<close>

theorem queries_make_one_request:
  "single_request GetHighestSnapshotSlot (get_highest_snapshot_slot E de1) \<and>
   single_request GetSlot (get_slot E de2 self) \<and>
   single_request GetSlot (get_slot_with_commitment E de2 c) \<and>
   single_request GetBlockHeight (get_block_height E de3 self) \<and>
   single_request GetBlockHeight (get_block_height_with_commitment E de3 c) \<and>
   single_request GetSlotLeaders (get_slot_leaders E de4 start_slot limit) \<and>
   single_request GetBlockProduction (get_block_production E de5) \<and>
   single_request GetBlockProduction (get_block_production_with_config E de5 bp_config) \<and>
   single_request GetSupply (client_supply E de6 self) \<and>
   single_request GetSupply (supply_with_commitment E de6 c) \<and>
   single_request GetLargestAccounts (get_largest_accounts_with_config E de7 la_config) \<and>
   single_request GetVoteAccounts (get_vote_accounts E de8 self) \<and>
   single_request GetVoteAccounts (get_vote_accounts_with_commitment E de8 c) \<and>
   single_request GetVoteAccounts (get_vote_accounts_with_config E de8 v_config) \<and>
   single_request GetClusterNodes (get_cluster_nodes E de9) \<and>
   single_request GetBlock (get_block E de10 slot) \<and>
   single_request GetBlock (get_block_with_encoding E de10 slot encoding) \<and>
   single_request GetBlock (get_block_with_config E de11 slot b_config) \<and>
   single_request GetBlocks (get_blocks E de12 slot end_slot) \<and>
   single_request GetBlocks (get_blocks_with_commitment E de12 slot end_slot c) \<and>
   single_request GetBlocksWithLimit (get_blocks_with_limit E de12 slot n) \<and>
   single_request GetBlocksWithLimit (get_blocks_with_limit_and_commitment E de12 slot n c) \<and>
   single_request GetSignaturesForAddress (get_signatures_for_address E de13 address) \<and>
   single_request GetSignaturesForAddress
     (get_signatures_for_address_with_config E de13 address s_config) \<and>
   single_request GetTransaction (get_transaction E de14 sig encoding) \<and>
   single_request GetTransaction (get_transaction_with_config E de14 sig t_config) \<and>
   single_request GetBlockTime (get_block_time E de15 slot) \<and>
   single_request GetEpochInfo (get_epoch_info E de16 self) \<and>
   single_request GetEpochInfo (get_epoch_info_with_commitment E de16 c) \<and>
   single_request GetLeaderSchedule (get_leader_schedule E de17 self opt_slot) \<and>
   single_request GetLeaderSchedule (get_leader_schedule_with_commitment E de17 opt_slot c) \<and>
   single_request GetLeaderSchedule (get_leader_schedule_with_config E de17 opt_slot l_config) \<and>
   single_request GetEpochSchedule (get_epoch_schedule E de18) \<and>
   single_request GetRecentPerformanceSamples (get_recent_performance_samples E de19 opt_n) \<and>
   single_request GetRecentPrioritizationFees (get_recent_prioritization_fees E de20 addresses) \<and>
   single_request GetIdentity (get_identity E de21) \<and>
   single_request GetInflationGovernor (get_inflation_governor E de22) \<and>
   single_request GetInflationRate (get_inflation_rate E de23) \<and>
   single_request GetInflationReward (get_inflation_reward E de24 self addresses opt_epoch) \<and>
   single_request GetVersion (get_version E de25) \<and>
   single_request MinimumLedgerSlot (minimum_ledger_slot E de26) \<and>
   single_request GetAccountInfo (get_account E de27 self address) \<and>
   single_request GetAccountInfo (get_account_with_commitment E de27 address c) \<and>
   single_request GetAccountInfo (get_account_with_config E de27 address a_config) \<and>
   single_request GetAccountInfo (get_account_data E de27 self address) \<and>
   single_request GetMaxRetransmitSlot (get_max_retransmit_slot E de28) \<and>
   single_request GetMaxShredInsertSlot (get_max_shred_insert_slot E de29) \<and>
   single_request GetMultipleAccounts (get_multiple_accounts E de30 self addresses) \<and>
   single_request GetMultipleAccounts
     (get_multiple_accounts_with_commitment E de30 self addresses c) \<and>
   single_request GetMultipleAccounts
     (get_multiple_accounts_with_config E de30 self addresses a_config) \<and>
   single_request GetMinimumBalanceForRentExemption
     (get_minimum_balance_for_rent_exemption E de31 n) \<and>
   single_request GetBalance (get_balance E de32 self address) \<and>
   single_request GetBalance (get_balance_with_commitment E de32 address c) \<and>
   single_request GetProgramAccounts (get_program_accounts E de33 self address) \<and>
   single_request GetProgramAccounts
     (get_program_accounts_with_config E de33 self address p_config) \<and>
   single_request GetStakeMinimumDelegation (get_stake_minimum_delegation E de34 self) \<and>
   single_request GetStakeMinimumDelegation
     (get_stake_minimum_delegation_with_commitment E de34 c) \<and>
   single_request GetTransactionCount (get_transaction_count E de35 self) \<and>
   single_request GetTransactionCount (get_transaction_count_with_commitment E de35 c) \<and>
   single_request GetFirstAvailableBlock (get_first_available_block E de36) \<and>
   single_request GetGenesisHash (get_genesis_hash E de37) \<and>
   single_request GetHealth (get_health E de38) \<and>
   single_request GetAccountInfo (get_token_account E de39 de_token self address) \<and>
   single_request GetAccountInfo
     (get_token_account_with_commitment E de39 de_token address c) \<and>
   single_request GetTokenAccountBalance (get_token_account_balance E de40 self address) \<and>
   single_request GetTokenAccountBalance
     (get_token_account_balance_with_commitment E de40 address c) \<and>
   single_request GetTokenAccountsByOwner (get_token_accounts_by_owner E de41 self address filt) \<and>
   single_request GetTokenAccountsByOwner
     (get_token_accounts_by_owner_with_commitment E de41 address filt c) \<and>
   single_request GetTokenAccountsByOwner
     (get_token_accounts_by_delegate E de41 self address filt) \<and>
   single_request GetTokenAccountsByOwner
     (get_token_accounts_by_delegate_with_commitment E de41 address filt c) \<and>
   single_request GetTokenLargestAccounts (get_token_largest_accounts E de42 self address) \<and>
   single_request GetTokenLargestAccounts
     (get_token_largest_accounts_with_commitment E de42 address c) \<and>
   single_request GetTokenSupply (get_token_supply E de43 self address) \<and>
   single_request GetTokenSupply (get_token_supply_with_commitment E de43 address c) \<and>
   single_request RequestAirdrop (request_airdrop E de44 self address lamports) \<and>
   single_request RequestAirdrop (request_airdrop_with_blockhash E de44 self address lamports hash) \<and>
   single_request RequestAirdrop (request_airdrop_with_config E de44 address lamports r_config) \<and>
   single_request GetLatestBlockhash (get_latest_blockhash E de45 self) \<and>
   single_request GetLatestBlockhash (get_latest_blockhash_with_commitment E de45 c) \<and>
   single_request IsBlockhashValid (is_blockhash_valid E de46 hash c) \<and>
   single_request GetFeeForMessage (get_fee_for_message E de47 self serialized) \<and>
   single_request SimulateTransaction (simulate_transaction E de48 T self tx) \<and>
   single_request SimulateTransaction (simulate_transaction_with_config E de48 T tx sim_config) \<and>
   single_request GetSignatureStatuses (get_signature_statuses E de49 sigs) \<and>
   single_request GetSignatureStatuses (get_signature_statuses_with_history E de49 sigs) \<and>
   one_request {Panicked IndexOutOfBounds} GetSignatureStatuses
     (get_signature_status E de49 self sig) \<and>
   one_request {Panicked IndexOutOfBounds} GetSignatureStatuses
     (get_signature_status_with_commitment E de49 sig c) \<and>
   one_request {Panicked IndexOutOfBounds} GetSignatureStatuses
     (get_signature_status_with_commitment_and_history E de49 sig c history) \<and>
   one_request {Panicked IndexOutOfBounds} GetSignatureStatuses
     (confirm_transaction E de49 self sig) \<and>
   one_request {Panicked IndexOutOfBounds} GetSignatureStatuses
     (confirm_transaction_with_commitment E de49 sig c) \<and>
   one_request {Panicked IndexOutOfBounds, Panicked ArithOverflow} GetSignatureStatuses
     (get_num_blocks_since_signature_confirmation E de49 sig) \<and>
   one_request {map_outcome (\<lambda>_. ()) (get_signature T tx)} SendTransaction
     (send_transaction E de50 T self tx) \<and>
   one_request {map_outcome (\<lambda>_. ()) (get_signature T tx)} SendTransaction
     (send_transaction_with_config E de50 T tx s_tx_config)"
proof -
  have status: "one_request {Panicked IndexOutOfBounds} GetSignatureStatuses
      (get_signature_status_with_commitment E de49 sig c)" for c
    unfolding get_signature_status_with_commitment_def
    by (intro single_intros tame_index) simp_all
  have confirm: "one_request {Panicked IndexOutOfBounds} GetSignatureStatuses
      (confirm_transaction_with_commitment E de49 sig c)" for c
    unfolding confirm_transaction_with_commitment_def get_signature_statuses_def
    by (intro single_intros tame_index) simp_all
  have num: "one_request {Panicked IndexOutOfBounds, Panicked ArithOverflow} GetSignatureStatuses
      (get_num_blocks_since_signature_confirmation E de49 sig)"
    unfolding get_num_blocks_since_signature_confirmation_def
    by (auto intro!: single_intros tame_index tame_add split: option.split)
  have history: "one_request {Panicked IndexOutOfBounds} GetSignatureStatuses
      (get_signature_status_with_commitment_and_history E de49 sig c history)"
    unfolding get_signature_status_with_commitment_and_history_def
    by (intro single_intros tame_index) simp_all
  have own: "one_request {Panicked IndexOutOfBounds} GetSignatureStatuses (get_signature_status E de49 self sig)"
    "one_request {Panicked IndexOutOfBounds} GetSignatureStatuses (confirm_transaction E de49 self sig)"
    "one_request {map_outcome (\<lambda>_. ()) (get_signature T tx)} SendTransaction
       (send_transaction E de50 T self tx)"
    unfolding get_signature_status_def confirm_transaction_def send_transaction_def
    by (rule status one_mapp confirm one_send_transaction)+
  show ?thesis
    by (intro conjI; (rule own status history confirm num one_send_transaction)?; unfold client_method_defs Let_def)
      (auto intro!: single_intros single_checked split: sum.split option.split)
qed

end
