(* ===== verification/Zela_Waiting.thy ===== *)
theory Zela_Waiting
  imports Zela_Protocol
begin

text \<open>
  What the host sees of the methods that wait (\<open>src/rpc_client/client.rs\<close>): the same question
  again and again, with the same pause between any two. The rounds are those of a protocol
  with two phases, and each waiting method follows it. The last section shows that the wait
  for confirmations ends where the number of confirmations never falls.
\<close>

section \<open>Questions and pauses in turn\<close>

datatype wait_phase = Resting | Answered

text \<open>The question is its call, or no call at all where its parameters cannot be written.\<close>

inductive wait_step :: "event list \<Rightarrow> duration \<Rightarrow> wait_phase \<Rightarrow> event \<Rightarrow> wait_phase \<Rightarrow> bool"
  for asks :: "event list" and d :: duration where
  ask: "asks = [e] \<Longrightarrow> wait_step asks d Resting e Answered"
| pause: "p = Answered \<or> asks = [] \<Longrightarrow> wait_step asks d p (EvSleep d) Resting"

definition asked :: "event list \<Rightarrow> wait_phase" where
  "asked asks = (if asks = [] then Resting else Answered)"

definition rounds :: "event list \<Rightarrow> duration \<Rightarrow> nat \<Rightarrow> event list" where
  "rounds asks d n = concat (replicate n (asks @ [EvSleep d]))"

lemma rounds_simps [simp]:
  "rounds asks d 0 = []" "rounds asks d (Suc n) = asks @ EvSleep d # rounds asks d n"
  by (simp_all add: rounds_def)

lemma wait_path_rounds:
  "path (wait_step asks d) p ls q \<Longrightarrow>
     \<exists>n. (if p = Answered then asks else []) @ ls =
         rounds asks d n @ (if q = Answered then asks else [])"
proof (induction rule: path.induct)
  case (path_Nil p)
  show ?case by (rule exI [of _ 0]) simp
next
  case (path_Cons p e q es r)
  then obtain n where n: "(if q = Answered then asks else []) @ es =
      rounds asks d n @ (if r = Answered then asks else [])" by blast
  from path_Cons.hyps(1) show ?case
  proof cases
    case ask
    with n show ?thesis by (intro exI [of _ n]) simp
  next
    case pause
    with n show ?thesis by (intro exI [of _ "Suc n"]) auto
  qed
qed

text \<open>
  Every run is a number of rounds, with one more question where it was left after an answer;
  and a run that succeeds is left there.
\<close>

definition paced :: "event list \<Rightarrow> duration \<Rightarrow> ('h world, 'e + 'a) prog \<Rightarrow> bool" where
  "paced asks d m \<longleftrightarrow> (\<forall>w. \<exists>n tail.
     observed w (snd (m w)) (rounds asks d n @ tail) \<and> (tail = [] \<or> tail = asks) \<and>
     ((\<exists>x. fst (m w) = Done (Inr x)) \<longrightarrow> tail = asks))"

lemma follows_paced:
  assumes "follows (wait_step asks d) Resting m (\<lambda>r q. \<forall>x. r = Inr x \<longrightarrow> q = asked asks)"
  shows "paced asks d m"
  unfolding paced_def
proof
  fix w
  obtain ls q where ls: "observed w (snd (m w)) ls" "path (wait_step asks d) Resting ls q"
    and q: "\<forall>r. fst (m w) = Done r \<longrightarrow> (\<forall>x. r = Inr x \<longrightarrow> q = asked asks)"
    using followsD [OF assms prod.collapse [symmetric]] .
  obtain n where n: "ls = rounds asks d n @ (if q = Answered then asks else [])"
    using wait_path_rounds [OF ls(2)] by auto
  have "(if q = Answered then asks else []) = asks" if "fst (m w) = Done (Inr x)" for x
    using that q by (auto simp: asked_def)
  with ls(1) n show "\<exists>n tail. observed w (snd (m w)) (rounds asks d n @ tail) \<and>
      (tail = [] \<or> tail = asks) \<and> ((\<exists>x. fst (m w) = Done (Inr x)) \<longrightarrow> tail = asks)"
    by (intro exI [of _ n] exI [of _ "if q = Answered then asks else []"]) auto
qed

section \<open>One question\<close>

abbreviation asks_once :: "event list \<Rightarrow> duration \<Rightarrow> ('h world, 'a) prog \<Rightarrow> bool" where
  "asks_once asks d m \<equiv> follows (wait_step asks d) Resting m (\<lambda>_ q. q = asked asks)"

named_theorems asks_intros \<open>programs with one question\<close>

lemma asks_send [asks_intros]: "asks_once (send_calls E req ps) d (send E de req ps)"
proof (rule followsI)
  fix w out w'
  assume run: "send E de req ps w = (out, w')"
  have tr: "trace w' = trace w @ send_calls E req ps"
    using transport.issues [of E de req ps w] run by simp
  have obs: "observed w w' (send_calls E req ps)"
    using tr send_calls_not_log by (fastforce simp: observed_def filter_id_conv)
  moreover have "path (wait_step (send_calls E req ps) d) Resting (send_calls E req ps)
      (asked (send_calls E req ps))"
  proof (cases "send_calls E req ps")
    case Nil
    then show ?thesis by (simp add: asked_def path_Nil)
  next
    case (Cons e rest)
    then have "send_calls E req ps = [e]" using transport.calls_one [of E req ps] by simp
    then show ?thesis by (auto simp: asked_def intro: path.intros wait_step.intros)
  qed
  ultimately show "\<exists>ls q. observed w w' ls \<and>
      path (wait_step (send_calls E req ps) d) Resting ls q \<and>
      (\<forall>x. out = Done x \<longrightarrow> q = asked (send_calls E req ps))"
    by blast
qed

lemma asks_bindp:
  assumes "asks_once asks d m" and "\<And>x. moves (emits is_log) (f x)"
  shows "asks_once asks d (bindp m f)"
  by (rule follows_bindp [OF assms(1)]) (auto intro: follows_weaken [OF follows_quiet [OF assms(2)]])

lemma quiet_ret: "moves (emits is_log) (ret x)"
  by (auto intro: emits.moves_intros)

lemma asks_tryp:
  assumes "asks_once asks d m" and "\<And>x. moves (emits is_log) (f x)"
  shows "asks_once asks d (tryp m f)"
  unfolding tryp_def using assms by (auto intro!: asks_bindp quiet_ret split: sum.split)

lemma asks_mapp: "asks_once asks d m \<Longrightarrow> asks_once asks d (mapp f m)"
  unfolding mapp_def by (erule asks_bindp) (rule quiet_ret)

text \<open>The questions of the waiting methods, as the host sees them.\<close>

abbreviation balance_question :: "'h env \<Rightarrow> pubkey \<Rightarrow> commitment_config \<Rightarrow> event list" where
  "balance_question E pubkey c \<equiv> send_calls E GetBalance
     (JArray [JString (pubkey_to_string E pubkey), ser_commitment E c])"

abbreviation status_question :: "'h env \<Rightarrow> signature \<Rightarrow> event list" where
  "status_question E s \<equiv> send_calls E GetSignatureStatuses
     (JArray [JArray [JString (signature_to_string E s)]])"

abbreviation blockhash_question :: "'h env \<Rightarrow> commitment_config \<Rightarrow> event list" where
  "blockhash_question E c \<equiv> send_calls E GetLatestBlockhash (JArray [ser_commitment E c])"

abbreviation stake_question :: "'h env \<Rightarrow> commitment_config \<Rightarrow> event list" where
  "stake_question E c \<equiv> send_calls E GetVoteAccounts
     (JArray [JObject (members_get_vote_accounts_config E
       (default_get_vote_accounts_config\<lparr>gvc_commitment := Some c\<rparr>))])"

lemma asks_questions [asks_intros]:
  "asks_once (balance_question E pubkey c) d (get_balance_with_commitment E de pubkey c)"
  "asks_once (status_question E s) d (get_signature_status_with_commitment E de_s s c)"
  "asks_once (status_question E s) d (get_num_blocks_since_signature_confirmation E de_s s)"
  "asks_once (blockhash_question E (commitment self)) d (get_latest_blockhash E de_b self)"
  "asks_once (stake_question E c) d (get_vote_accounts_with_commitment E de_v c)"
  by (auto simp: get_balance_with_commitment_def get_signature_status_with_commitment_def
      get_num_blocks_since_signature_confirmation_def get_latest_blockhash_def
      get_latest_blockhash_with_commitment_def get_vote_accounts_with_commitment_def
      get_vote_accounts_with_config_def Let_def
      intro!: asks_intros asks_tryp asks_mapp emits.moves_intros emits_pure quiet_ret
      split: option.split)

section \<open>The methods ask and pause\<close>

text \<open>
  A loop whose body asks from the resting phase, and either comes back to it or leaves with a
  result, follows the protocol.
\<close>

abbreviation round_result :: "event list \<Rightarrow> 's + ('e + 'a) \<Rightarrow> wait_phase \<Rightarrow> bool" where
  "round_result asks x q \<equiv> (case x of
       Inl _ \<Rightarrow> q = Resting
     | Inr r \<Rightarrow> \<forall>v. r = Inr v \<longrightarrow> q = asked asks)"

lemma paced_loop:
  assumes "\<And>start s. follows (wait_step asks d) Resting (body start s) (round_result asks)"
  shows "paced asks d (bindp (now E) (\<lambda>start. loop (body start) fuel (s start)))"
proof (rule follows_paced, rule follows_bindp [where Q = "\<lambda>_ q. q = Resting"])
  show "follows (wait_step asks d) Resting (now E) (\<lambda>_ q. q = Resting)"
    by (rule follows_quiet) (rule emits_host)
  show "follows (wait_step asks d) q (loop (body start) fuel (s start))
      (\<lambda>r q. \<forall>x. r = Inr x \<longrightarrow> q = asked asks)" if "q = Resting" for start q
    using that
    by (intro follows_loop [where I = "\<lambda>_ p. p = Resting"])
      (auto intro: follows_weaken [OF assms] split: sum.splits)
qed

lemma follows_pause:
  "follows (wait_step asks d) (asked asks) (thread_sleep E d) (\<lambda>_ q. q = Resting)"
  by (rule follows_sleep) (auto simp: asked_def intro: wait_step.pause)
lemma follows_quiet_bindp:
  assumes "moves (emits is_log) m" and "\<And>x. follows step p (f x) R"
  shows "follows step p (bindp m f) R"
  by (rule follows_bindp [OF follows_quiet [OF assms(1)]]) (simp add: assms(2))

lemma quiet_steps:
  "moves (emits is_log) (now E)" "moves (emits is_log) (elapsed E t)"
  "moves (emits is_log) (log_at E lvl tgt args)" "moves (emits is_log) (add_signed_checked E n m)"
  "moves (emits is_log) (sum_u64 E acc xs)"
  "moves (emits is_log) args' \<Longrightarrow> moves (emits is_log) (log_with E lvl tgt args')"
proof -
  show "moves (emits is_log) (sum_u64 E acc xs)"
    by (induction xs arbitrary: acc) (auto intro!: emits.moves_intros emits_pure)
  show "moves (emits is_log) (log_with E lvl tgt args')" if "moves (emits is_log) args'"
    using emits.world_preorder_axioms that quiet_log by (rule log_with_moves)
qed (auto intro: emits_host quiet_log add_signed_moves [OF emits.world_preorder_axioms])

lemmas round_intros = follows_ret follows_bindp [OF follows_pause]
  follows_quiet_bindp [OF quiet_steps(1)] follows_quiet_bindp [OF quiet_steps(2)]
  follows_quiet_bindp [OF quiet_steps(3)] follows_quiet_bindp [OF quiet_steps(4)]
  follows_quiet_bindp [OF quiet_steps(5)]

lemma balance_round:
  "follows (wait_step (balance_question E pubkey c) freq) Resting
     (poll_balance_body E de pubkey freq timeout c start u)
     (round_result (balance_question E pubkey c))"
  unfolding poll_balance_body_def
  by (rule follows_bindp [OF asks_questions(1)]) (auto intro!: round_intros split: sum.split)

lemma signature_round:
  "follows (wait_step (status_question E s) (from_millis 250)) Resting
     (poll_signature_body E de s c start u) (round_result (status_question E s))"
  unfolding poll_signature_body_def
  by (rule follows_bindp [OF asks_questions(2)])
    (auto intro!: round_intros split: sum.split option.split)

lemma blockhash_round:
  "follows (wait_step (blockhash_question E (commitment self)) (half_slot E)) Resting
     (new_blockhash_body E de self bh start k)
     (round_result (blockhash_question E (commitment self)))"
  unfolding new_blockhash_body_def Let_def
  by (auto intro!: round_intros follows_bindp [OF asks_questions(4)] split: sum.split)

lemma stake_round:
  "follows (wait_step (stake_question E c) (from_secs 5)) Resting
     (max_stake_body E de c pct timeout start u) (round_result (stake_question E c))"
  unfolding max_stake_body_def Let_def
  by (rule follows_bindp [OF asks_questions(5)])
    (auto intro!: round_intros split: sum.split option.split)

lemma confirmation_round:
  "follows (wait_step (status_question E s) (from_millis 250)) Resting
     (confirmation_body E de s mn st) (round_result (status_question E s))"
proof -
  have t: "follows (wait_step (status_question E s) (from_millis 250)) (asked (status_question E s))
      (confirmation_timeout E s mn since n) (round_result (status_question E s))" for since n
    unfolding confirmation_timeout_def
    by (auto intro!: round_intros follows_quiet_bindp [OF quiet_steps(6)] emits.moves_intros
        emits_host)
  have count: "moves (emits is_log) (if n \<noteq> count
      then bindp (log_with E LevelInfo client_target (mapp (confirmation_text E s count mn
          '' after '') (elapsed E since))) (\<lambda>_. bindp (now E) (\<lambda>t. ret (t, count)))
      else ret (since, n))" for n count since
    by (auto intro!: emits.moves_intros emits_host quiet_steps(6))
  show ?thesis
    unfolding confirmation_body_def case_prod_beta
  proof (rule follows_bindp [OF asks_questions(3)])
    fix response :: "usize client_result" and q
    assume q: "q = asked (status_question E s)"
    show "follows (wait_step (status_question E s) (from_millis 250)) q
        (case response of
           Inl err \<Rightarrow> bindp (log_at E LevelDebug client_target
               (''check_confirmations request failed: '' @ dbg_client_error E err))
             (\<lambda>_. confirmation_timeout E s mn (fst st) (snd st))
         | Inr count \<Rightarrow> bindp (if snd st \<noteq> count
                then bindp (log_with E LevelInfo client_target (mapp (confirmation_text E s
                    count mn '' after '') (elapsed E (fst st))))
                  (\<lambda>_. bindp (now E) (\<lambda>t. ret (t, count)))
                else ret (fst st, snd st)) (\<lambda>p. if mn \<le> count then ret (Inr (Inr (snd p)))
             else confirmation_timeout E s mn (fst p) (snd p)))
        (round_result (status_question E s))"
    proof (cases response)
      case (Inl e)
      show ?thesis
        unfolding Inl sum.case q by (rule follows_quiet_bindp [OF quiet_log t])
    next
      case (Inr count)
      show ?thesis
        unfolding Inr sum.case
        by (rule follows_quiet_bindp [OF count]) (auto intro!: follows_ret t simp: q)
    qed
  qed
qed

section \<open>The wait for confirmations\<close>

text \<open>
  The timeout of \<open>poll_for_signature_confirmation\<close> starts again with every change of the count.
  The loop ends on a node whose counts never fall: \<open>\<kappa>\<close> is the count it has come to.
\<close>

definition counts_rise ::
  "'h env \<Rightarrow> (json \<Rightarrow> serde_error + statuses) \<Rightarrow> signature \<Rightarrow> ('h \<Rightarrow> nat) \<Rightarrow> bool" where
  "counts_rise E de s \<kappa> \<longleftrightarrow>
     (\<forall>w n w'. get_num_blocks_since_signature_confirmation E de s w = (Done (Inr n), w') \<longrightarrow>
        \<kappa> (hstate w) \<le> unat n \<and> unat n \<le> \<kappa> (hstate w')) \<and>
     (\<forall>h. \<kappa> h \<le> \<kappa> (snd (h_now E h))) \<and> (\<forall>d h. \<kappa> h \<le> \<kappa> (h_sleep E d h)) \<and>
     (\<forall>m p h. \<kappa> h \<le> \<kappa> (snd (h_call_rpc E m p h))) \<and> (\<forall>msg h. \<kappa> h \<le> \<kappa> (h_log E msg h))"

lemma rise_host:
  assumes "counts_rise E de s \<kappa>"
  shows "moves (later \<kappa>) (now E)" "moves (later \<kappa>) (elapsed E t)" "moves (later \<kappa>) (thread_sleep E d)"
    "moves (later \<kappa>) (log_at E lvl tgt args)" "moves (later \<kappa>) (host_call_rpc E m p)"
  using assms
  by (auto simp: moves_def later_def host_defs elapsed_def counts_rise_def
      split: prod.splits option.splits) (metis snd_conv)+

lemma rise_log_with:
  "counts_rise E de s \<kappa> \<Longrightarrow> moves (later \<kappa>) args \<Longrightarrow> moves (later \<kappa>) (log_with E lvl tgt args)"
  using later.world_preorder_axioms rise_host(4) by (metis log_with_moves)

lemma rise_question:
  assumes "counts_rise E de s \<kappa>"
  shows "moves (later \<kappa>) (get_num_blocks_since_signature_confirmation E de s)"
  by (auto simp: get_num_blocks_since_signature_confirmation_def send_def call_rpc_def
      intro!: later.moves_intros later_pure rise_host [OF assms] split: option.split sum.split)

lemma rise_timeout:
  assumes "counts_rise E de s \<kappa>"
  shows "moves (later \<kappa>) (confirmation_timeout E s mn since n)"
  by (auto simp: confirmation_timeout_def
      intro!: later.moves_intros rise_host [OF assms] rise_log_with [OF assms])

text \<open>Another round has slept, and the timeout had not passed.\<close>

lemma confirmation_timeout_next:
  assumes "clock_ok E \<tau>"
    and "confirmation_timeout E s mn since n w = (Done (Inl st), w')"
  shows "st = (since, n) \<and> \<tau> (hstate w) < since + from_secs 21 \<and>
    \<tau> (hstate w) + from_millis 250 \<le> \<tau> (hstate w')"
proof -
  from assms(2) obtain d w1 where d: "elapsed E since w = (Done d, w1)" "\<not> 20 < as_secs d"
    and z: "thread_sleep E (from_millis 250) w1 = (Done (), w')" and st: "st = (since, n)"
    by (auto simp: confirmation_timeout_def bindp_eq_Done ret_def split: if_splits)
  have "\<tau> (hstate w) < since + from_secs 21"
    using d(2) elapsed_clock(1) [OF assms(1) d(1)] by (simp add: as_secs_def from_secs_def)
  with st elapsed_clock(2) [OF assms(1) d(1)] thread_sleep_clock(2) [OF assms(1) z] show ?thesis
    by simp
qed

lemma confirmation_next:
  assumes c: "clock_ok E \<tau>" and k: "counts_rise E de s \<kappa>"
    and "confirmation_body E de s mn (since, n) w = (Done (Inl (since', n')), w')"
    and "unat n \<le> \<kappa> (hstate w)" and "since \<le> \<tau> (hstate w)"
  shows "unat n' \<le> \<kappa> (hstate w') \<and> since' \<le> \<tau> (hstate w') \<and>
    (since' = since \<and> n' = n \<and> \<tau> (hstate w) < since + from_secs 21 \<and>
       \<tau> (hstate w) + from_millis 250 \<le> \<tau> (hstate w')
     \<or> unat n < unat n' \<and> unat n' < unat mn)"
proof -
  from assms(3) obtain r w1 where
    g: "get_num_blocks_since_signature_confirmation E de s w = (Done r, w1)"
    by (auto simp: confirmation_body_def bindp_eq_Done)
  have t1: "\<tau> (hstate w) \<le> \<tau> (hstate w1)" by (rule laterD [OF later_polling(3) [OF c] g])
  have k1: "\<kappa> (hstate w) \<le> \<kappa> (hstate w1)" by (rule laterD [OF rise_question [OF k] g])
  have unchanged: ?thesis
    if "confirmation_timeout E s mn since n w2 = (Done (Inl (since', n')), w')"
      and "\<tau> (hstate w1) \<le> \<tau> (hstate w2)" and "\<kappa> (hstate w1) \<le> \<kappa> (hstate w2)" for w2
    using confirmation_timeout_next [OF c that(1)] laterD [OF rise_timeout [OF k] that(1)]
      that(2,3) t1 k1 assms(4,5) by auto
  show ?thesis
  proof (cases r)
    case (Inl e)
    with assms(3) g obtain w2 where
      l: "log_at E LevelDebug client_target
        (''check_confirmations request failed: '' @ dbg_client_error E e) w1 = (Done (), w2)"
      and x: "confirmation_timeout E s mn since n w2 = (Done (Inl (since', n')), w')"
      by (auto simp: confirmation_body_def bindp_eq_Done)
    from x laterD [OF later_host(7) [OF c] l] laterD [OF rise_host(4) [OF k] l]
    show ?thesis by (rule unchanged)
  next
    case (Inr count)
    have b: "unat n \<le> unat count" "unat count \<le> \<kappa> (hstate w1)"
      using k g Inr assms(4) unfolding counts_rise_def by (meson le_trans)+
    show ?thesis
    proof (cases "n = count")
      case True
      with assms(3) g Inr have "confirmation_timeout E s mn since n w1 = (Done (Inl (since', n')), w')"
        by (auto simp: confirmation_body_def bindp_eq_Done ret_def split: if_splits)
      then show ?thesis by (rule unchanged) simp_all
    next
      case False
      with assms(3) g Inr obtain w2 t w3 where
        l: "log_with E LevelInfo client_target (mapp (confirmation_text E s count mn '' after '')
          (elapsed E since)) w1 = (Done (), w2)"
        and nw: "now E w2 = (Done t, w3)" and m: "\<not> mn \<le> count"
        and x: "confirmation_timeout E s mn t count w3 = (Done (Inl (since', n')), w')"
        by (auto simp: confirmation_body_def bindp_eq_Done ret_def split: if_splits)
      have "\<kappa> (hstate w1) \<le> \<kappa> (hstate w2)"
        by (rule laterD [OF rise_log_with [OF k later.moves_mapp [OF rise_host(2) [OF k]]] l])
      also have "\<dots> \<le> \<kappa> (hstate w3)" by (rule laterD [OF rise_host(1) [OF k] nw])
      also have "\<dots> \<le> \<kappa> (hstate w')" by (rule laterD [OF rise_timeout [OF k] x])
      finally show ?thesis
        using b False m confirmation_timeout_next [OF c x] now_clock(2) [OF c nw]
        by (auto simp: word_le_nat_alt word_unat_eq_iff)
    qed
  qed
qed

interpretation confirmations: bounded_loop "confirmation_body E de s mn"
  "\<lambda>st w. clock_ok E \<tau> \<and> counts_rise E de s \<kappa> \<and>
     unat (snd st) \<le> \<kappa> (hstate w) \<and> fst st \<le> \<tau> (hstate w)"
  "\<lambda>st w. (unat mn - unat (snd st)) * 85 +
     periods (fst st + from_secs 21) (from_millis 250) (\<tau> (hstate w))"
  for E de s mn \<tau> \<kappa>
proof unfold_locales
  fix st st' :: "instant \<times> usize" and w w'
  assume i: "clock_ok E \<tau> \<and> counts_rise E de s \<kappa> \<and>
      unat (snd st) \<le> \<kappa> (hstate w) \<and> fst st \<le> \<tau> (hstate w)"
    and b: "confirmation_body E de s mn st w = (Done (Inl st'), w')"
  have x: "unat (snd st') \<le> \<kappa> (hstate w') \<and> fst st' \<le> \<tau> (hstate w') \<and>
    (fst st' = fst st \<and> snd st' = snd st \<and> \<tau> (hstate w) < fst st + from_secs 21 \<and>
       \<tau> (hstate w) + from_millis 250 \<le> \<tau> (hstate w')
     \<or> unat (snd st) < unat (snd st') \<and> unat (snd st') < unat mn)"
    using i b by (intro confirmation_next [of E \<tau> de s \<kappa> mn]) simp_all
  then show "clock_ok E \<tau> \<and> counts_rise E de s \<kappa> \<and>
      unat (snd st') \<le> \<kappa> (hstate w') \<and> fst st' \<le> \<tau> (hstate w')"
    using i by simp
  let ?p = "\<lambda>since w. periods (since + from_secs 21) (from_millis 250) (\<tau> (hstate w))"
  have lt: "?p (fst st') w' < 85"
    using periods_start [of "fst st'" "\<tau> (hstate w')" "from_secs 21" "from_millis 250"] x
    by (simp add: from_secs_def from_millis_def)
  have same: "?p since w' < ?p since w" if "\<tau> (hstate w) < since + from_secs 21"
    "\<tau> (hstate w) + from_millis 250 \<le> \<tau> (hstate w')" for since
    using that by (intro periods_step) (simp_all add: from_millis_def)
  have rise: "(unat mn - b) * 85 + 85 \<le> (unat mn - a) * 85" if "a < b" "b < unat mn" for a b
    using that by simp
  show "(unat mn - unat (snd st')) * 85 + ?p (fst st') w' < (unat mn - unat (snd st)) * 85 + ?p (fst st) w"
    using x
  proof (elim conjE disjE)
    assume "unat (snd st) < unat (snd st')" "unat (snd st') < unat mn"
    from rise [OF this] lt show ?thesis by linarith
  next
    assume "fst st' = fst st" "snd st' = snd st" "\<tau> (hstate w) < fst st + from_secs 21"
      "\<tau> (hstate w) + from_millis 250 \<le> \<tau> (hstate w')"
    with same [of "fst st"] show ?thesis by simp
  qed
qed (auto simp: answersD [OF answers_bodies(4)])

lemma confirmation_returns:
  assumes "clock_ok E \<tau>" and "counts_rise E de s \<kappa>" and "85 * (unat mn + 1) \<le> n"
  shows "fst (poll_for_signature_confirmation E de s mn n w) \<noteq> NoFuel"
proof -
  obtain start w1 where nw: "now E w = (Done start, w1)" "start \<le> \<tau> (hstate w1)"
    using now_start [OF assms(1)] .
  have "periods (start + from_secs 21) (from_millis 250) (\<tau> (hstate w1)) < 85"
    using periods_start [OF nw(2), of "from_secs 21" "from_millis 250"]
    by (simp add: from_secs_def from_millis_def)
  with assms nw(2) have "fst (loop (confirmation_body E de s mn) n (start, 0) w1) \<noteq> NoFuel"
    by (intro confirmations.loop_returns [where \<tau> = \<tau> and \<kappa> = \<kappa>]) simp_all
  with nw show ?thesis by (simp add: poll_for_signature_confirmation_def bindp_def)
qed

text \<open>
  That the counts never fall is needed. On a node that reports another count below the minimum
  each time, \<open>seen\<close> being the one before, every answer starts the timeout again.
\<close>

definition counts_move ::
  "'h env \<Rightarrow> (json \<Rightarrow> serde_error + statuses) \<Rightarrow> signature \<Rightarrow> usize \<Rightarrow> ('h \<Rightarrow> usize) \<Rightarrow> bool" where
  "counts_move E de s mn seen \<longleftrightarrow>
     (\<forall>w. \<exists>c w'. get_num_blocks_since_signature_confirmation E de s w = (Done (Inr c), w') \<and>
        c < mn \<and> c \<noteq> seen (hstate w) \<and> seen (hstate w') = c) \<and>
     (\<forall>h. seen (snd (h_now E h)) = seen h) \<and> (\<forall>d h. seen (h_sleep E d h) = seen h) \<and>
     (\<forall>msg h. seen (h_log E msg h) = seen h)"

definition readings_close :: "'h env \<Rightarrow> bool" where
  "readings_close E \<longleftrightarrow>
     (\<forall>h. as_secs (fst (h_now E (snd (h_now E h))) - fst (h_now E h)) \<le> 20)"

lemma log_elapsed_keeps:
  assumes "counts_move E de s mn seen"
  obtains w' where "log_with E lvl tgt (mapp f (elapsed E since)) w = (Done (), w')"
    "seen (hstate w') = seen (hstate w)"
proof -
  have "\<exists>w'. log_with E lvl tgt (mapp f (elapsed E since)) w = (Done (), w') \<and>
      seen (hstate w') = seen (hstate w)"
    using assms
    by (auto simp: counts_move_def log_with_def log_at_def host_log_def elapsed_def now_def
        mapp_def bindp_def ret_def Let_def split_beta split: option.split)
  then show thesis using that by blast
qed

lemma confirmation_restarts:
  assumes "counts_move E de s mn seen" and "readings_close E" and "snd st = seen (hstate w)"
  obtains st' w' where "confirmation_body E de s mn st w = (Done (Inl st'), w')"
    "snd st' = seen (hstate w')"
proof -
  obtain c w1 where q: "get_num_blocks_since_signature_confirmation E de s w = (Done (Inr c), w1)"
    "c < mn" "c \<noteq> snd st" "seen (hstate w1) = c"
    using assms(1,3) unfolding counts_move_def by metis
  obtain w2 where l: "log_with E LevelInfo client_target
      (mapp (confirmation_text E s c mn '' after '') (elapsed E (fst st))) w1 = (Done (), w2)"
    "seen (hstate w2) = c"
    using log_elapsed_keeps [OF assms(1)] q(4) by metis
  obtain t h where n1: "h_now E (hstate w2) = (t, h)" by (cases "h_now E (hstate w2)")
  obtain t' h' where n2: "h_now E h = (t', h')" by (cases "h_now E h")
  have close: "\<not> 20 < as_secs (t' - t)"
    using assms(2) n1 n2 unfolding readings_close_def by (metis fst_conv snd_conv not_less)
  have "seen h' = c" using assms(1) l(2) n1 n2 unfolding counts_move_def by (metis snd_conv)
  then have kept: "seen (h_sleep E (from_millis 250) h') = c"
    using assms(1) unfolding counts_move_def by metis
  have "\<exists>w'. confirmation_body E de s mn st w = (Done (Inl (t, c)), w') \<and> seen (hstate w') = c"
    using q l(1) n1 n2 close kept
    by (simp add: confirmation_body_def confirmation_timeout_def split_beta bindp_def now_def
        elapsed_def mapp_def ret_def thread_sleep_def)
  then show thesis using that by fastforce
qed

lemma confirmation_diverges:
  assumes "counts_move E de s mn seen" and "readings_close E" and "snd st = seen (hstate w)"
  shows "fst (loop (confirmation_body E de s mn) n st w) = NoFuel"
  using assms(3)
proof (induction n arbitrary: st w)
  case (Suc n)
  obtain st' w' where "confirmation_body E de s mn st w = (Done (Inl st'), w')"
    "snd st' = seen (hstate w')"
    using confirmation_restarts [OF assms(1,2) Suc.prems] .
  with Suc.IH [of st' w'] show ?case by (simp add: bindp_def)
qed simp

text \<open>A node that answers one and two confirmations in turn.\<close>

definition turning_env :: "sample_state env" where
  "turning_env = sample_env\<lparr>h_call_rpc := (\<lambda>m p (t, rs). case rs of
       [_] \<Rightarrow> (Inr (Inr [2]), (t, [Inl 0, Inl 0]))
     | _ \<Rightarrow> (Inr (Inr [1]), (t, [Inl 0])))\<rparr>"

fun turning_count :: "sample_state \<Rightarrow> usize" where
  "turning_count (t, []) = 0"
| "turning_count (t, [_]) = 1"
| "turning_count (t, _ # _ # _) = 2"

definition turning_statuses :: "json \<Rightarrow> serde_error + statuses" where
  "turning_statuses j = sample_response [Some (sample_status
     \<lparr>ts_confirmations := Some (if j = ser_vec ser_u8 [1] then 1 else 2)\<rparr>)] j"

section \<open>Properties\<close>

text \<open>
  C17: what the host sees of five of the methods that wait is a number of rounds,
  each the same question followed by the same pause: the balance at the frequency asked for, a
  signature status every quarter of a second, by the wait for a signature and by the one for
  its confirmations, a blockhash every half slot, the stakes every five seconds. No round of
  theirs is without its pause, and one of them that succeeds ends right after a question. Of
  the wait for an expected balance, which is built on the first of the five, nothing is said.
\<close>

theorem waiting_is_paced:
  "paced (balance_question E pubkey c) freq
     (poll_balance_with_timeout_and_commitment E de1 pubkey freq timeout c fuel) \<and>
   paced (status_question E s) (from_millis 250)
     (poll_for_signature_with_commitment E de2 s c fuel) \<and>
   paced (status_question E s) (from_millis 250)
     (poll_for_signature_confirmation E de2 s mn fuel) \<and>
   paced (blockhash_question E (commitment self)) (half_slot E)
     (get_new_latest_blockhash E de3 self bh fuel) \<and>
   paced (stake_question E c) (from_secs 5)
     (max_stake_helper E de4 c pct max_wait fuel)"
proof (intro conjI)
  show "paced (balance_question E pubkey c) freq
      (poll_balance_with_timeout_and_commitment E de1 pubkey freq timeout c fuel)"
    unfolding poll_balance_with_timeout_and_commitment_def
    using balance_round by (rule paced_loop)
  show "paced (status_question E s) (from_millis 250)
      (poll_for_signature_with_commitment E de2 s c fuel)"
    unfolding poll_for_signature_with_commitment_def using signature_round by (rule paced_loop)
  show "paced (status_question E s) (from_millis 250)
      (poll_for_signature_confirmation E de2 s mn fuel)"
    unfolding poll_for_signature_confirmation_def using confirmation_round by (rule paced_loop)
  show "paced (blockhash_question E (commitment self)) (half_slot E)
      (get_new_latest_blockhash E de3 self bh fuel)"
    unfolding get_new_latest_blockhash_def using blockhash_round by (rule paced_loop)
  show "paced (stake_question E c) (from_secs 5) (max_stake_helper E de4 c pct max_wait fuel)"
    unfolding max_stake_helper_def using stake_round by (rule paced_loop)
qed

text \<open>
  C23: under a clock that runs, waiting for \<open>min_confirmed_blocks\<close> confirmations ends on a
  node whose counts never fall: every count it has come to is good for at most 85 rounds,
  and at most \<open>min_confirmed_blocks\<close> counts are below the one waited for.
\<close>

theorem confirmation_wait_ends:
  assumes "clock_ok E \<tau>" and "counts_rise E de s \<kappa>"
    and "85 * (unat min_confirmed_blocks + 1) \<le> fuel"
  shows "fst (poll_for_signature_confirmation E de s min_confirmed_blocks fuel w) \<noteq> NoFuel"
  using assms by (rule confirmation_returns)

lemma confirmation_wait_ends_witness:
  "fst (poll_for_signature_confirmation sample_env (sample_response [Some sample_status])
     (Signature []) 40 3485 (sample_world [])) \<noteq> NoFuel"
proof (rule confirmation_wait_ends [OF sample_clock])
  have answer: "rsp = \<lparr>rsp_context = sample_context, rsp_value = [Some sample_status]\<rparr>"
    if run: "send sample_env (sample_response [Some sample_status]) req ps w = (Done (Inr rsp), w')"
    for req ps w w' and rsp :: statuses
  proof -
    obtain r where "Inr rsp = send_result sample_env (sample_response [Some sample_status]) req r"
      using run by (auto simp: send_def mapp_eq_Done panic_def split: if_splits)
    then show ?thesis
      by (auto simp: send_result_def sample_response_def map_err_def split: sum.splits)
  qed
  have "\<not> overflow_checks sample_env" "max_lockout_history sample_env = 31"
    by (simp_all add: sample_env_def)
  then have reported: "n = 32" if "get_num_blocks_since_signature_confirmation sample_env
      (sample_response [Some sample_status]) (Signature []) w = (Done (Inr n), w')" for w n w'
    using that by (auto simp: get_num_blocks_since_signature_confirmation_def tryp_eq_Ok
        bindp_eq_Done index_vec_def add_checked_def ret_def sample_status_def
        dest!: answer [unfolded sample_status_def])
  show "counts_rise sample_env (sample_response [Some sample_status]) (Signature []) (\<lambda>_. 32)"
    by (auto simp: counts_rise_def dest!: reported)
qed simp

text \<open>
  C24: on a node whose count for the signature is another one with
  each answer, and always below the one waited for, the wait for confirmations never ends, with
  a clock of which two readings in a row are at most twenty seconds apart: the timeout is
  measured from the last change of the count, whichever way it changed.
\<close>

theorem confirmation_wait_never_ends:
  assumes "counts_move E de s min_confirmed_blocks seen" and "readings_close E"
    and "seen (hstate w) = 0"
  shows "fst (poll_for_signature_confirmation E de s min_confirmed_blocks fuel w) = NoFuel"
proof -
  obtain t h where n: "h_now E (hstate w) = (t, h)" by (cases "h_now E (hstate w)")
  have "seen h = 0" using assms(1,3) n unfolding counts_move_def by (metis snd_conv)
  then have "fst (loop (confirmation_body E de s min_confirmed_blocks) fuel (t, 0)
      (w\<lparr>hstate := h\<rparr>)) = NoFuel"
    by (intro confirmation_diverges [OF assms(1,2)]) simp
  then show ?thesis by (simp add: poll_for_signature_confirmation_def bindp_def now_def n)
qed

lemma confirmation_wait_never_ends_witness:
  "fst (poll_for_signature_confirmation turning_env turning_statuses (Signature []) 3 1000
     (sample_world [])) = NoFuel"
proof (rule confirmation_wait_never_ends)
  have other: "ser_vec ser_u8 [2] \<noteq> ser_vec ser_u8 [1]" by (simp add: ser_vec_def ser_u8_def)
  have calls: "\<exists>c w'. get_num_blocks_since_signature_confirmation turning_env turning_statuses
        (Signature []) w = (Done (Inr c), w') \<and>
      c < 3 \<and> c \<noteq> turning_count (hstate w) \<and> turning_count (hstate w') = c" for w
    by (cases "hstate w"; cases "snd (hstate w)"; cases "tl (snd (hstate w))")
      (simp_all add: get_num_blocks_since_signature_confirmation_def turning_env_def
        turning_statuses_def sample_run sample_env_def sample_status_def index_vec_def
        add_checked_def other)
  have "turning_count (t + d, rs) = turning_count (t, rs)" for t d rs
    by (cases rs; cases "tl rs") simp_all
  with calls show "counts_move turning_env turning_statuses (Signature []) 3 turning_count"
    by (auto simp: counts_move_def turning_env_def sample_env_def)
  show "readings_close turning_env"
    by (auto simp: readings_close_def turning_env_def sample_env_def as_secs_def)
qed (simp add: sample_world_def)

end
