(* ===== verification/Zela_Pubsub.thy ===== *)
theory Zela_Pubsub
  imports Zela_Polling
begin

text \<open>
  \<open>src/rpc_client/pubsub.rs\<close>: the subscription client and its stream. A stream reads its
  notifications through \<open>Subscription::recv\<close>; each is read by the argument \<open>de\<close>.
\<close>

definition pubsub_target :: string where
  "pubsub_target = ''zela_std::rpc_client::pubsub''"

datatype pubsub_client_error = SubscribeFailed i32 string "json option" | PubsubIo io_error

fun show_pubsub_error :: "'h env \<Rightarrow> pubsub_client_error \<Rightarrow> string" where
  "show_pubsub_error E (SubscribeFailed code message _) =
     ''subscribe failed: '' @ int_str (sint code) @ '' '' @ message"
| "show_pubsub_error E (PubsubIo err) = show_io_error E err"

text \<open>A stream over notifications: the subscription it owns.\<close>

record pubsub_client_stream =
  ps_subscription :: subscription

definition poll_next ::
  "'h env \<Rightarrow> (u8 list \<Rightarrow> serde_error + 'n) \<Rightarrow> pubsub_client_stream
     \<Rightarrow> ('h world, 'n option poll) prog" where
  "poll_next E de self = bindp (subscription_recv E de (ps_subscription self)) (\<lambda>r. case r of
       Inr v \<Rightarrow> ret (Ready (Some v))
     | Inl err \<Rightarrow> bindp (log_at E LevelTrace pubsub_target
         (''Failed to receive a subscription notification: '' @ show_io_error E err))
         (\<lambda>_. ret (Ready None)))"

text \<open>
  What a procedure does with a stream, no code of the crate: it consumes it until its first
  \<open>None\<close>, \<open>while let Some(x) = s.next().await\<close>.
\<close>

definition drain ::
  "'h env \<Rightarrow> (u8 list \<Rightarrow> serde_error + 'n) \<Rightarrow> pubsub_client_stream \<Rightarrow> nat
     \<Rightarrow> ('h world, 'n list) prog" where
  "drain E de self fuel = loop (\<lambda>acc. bindp (poll_next E de self) (\<lambda>p. ret (case p of
       Pending \<Rightarrow> Inl acc
     | Ready (Some v) \<Rightarrow> Inl (acc @ [v])
     | Ready None \<Rightarrow> Inr acc))) fuel []"

text \<open>The client itself holds nothing; its methods take it as \<open>&self\<close> and never look at it.\<close>

datatype pubsub_client = PubsubClient

definition pubsub_client_new :: pubsub_client where
  "pubsub_client_new = PubsubClient"

definition subscribe ::
  "'h env \<Rightarrow> string \<Rightarrow> json \<Rightarrow> ('h world, pubsub_client_error + pubsub_client_stream) prog" where
  "subscribe E method params =
     mapp (\<lambda>r. case r of
         Inr (Inr v) \<Rightarrow> Inr \<lparr>ps_subscription = v\<rparr>
       | Inr (Inl e) \<Rightarrow> Inl (SubscribeFailed (re_code e) (re_message e) (re_data e))
       | Inl err \<Rightarrow> Inl (PubsubIo err))
       (subscription_new E (json_to_vec E) (json_from_slice E) method params)"

definition account_subscribe where
  "account_subscribe E pubkey config = subscribe E ''account''
     (JArray [JString (pubkey_to_string E pubkey),
        ser_opt (\<lambda>c. JObject (members_account_info_config E c)) config])"

definition block_subscribe where
  "block_subscribe E filter_by config = subscribe E ''block''
     (JArray [ser_block_subscribe_filter filter_by,
        ser_opt (\<lambda>c. JObject (members_block_subscribe_config E c)) config])"

definition logs_subscribe where
  "logs_subscribe E filter_by config = subscribe E ''logs''
     (JArray [ser_transaction_logs_filter filter_by,
        JObject (members_transaction_logs_config E config)])"

definition program_subscribe where
  "program_subscribe E pubkey config = subscribe E ''program''
     (JArray [JString (pubkey_to_string E pubkey),
        ser_opt (\<lambda>c. JObject (members_program_accounts_config E c)) config])"

definition vote_subscribe where
  "vote_subscribe E = subscribe E ''vote'' (JArray [])"

definition root_subscribe where
  "root_subscribe E = subscribe E ''root'' (JArray [])"

definition signature_subscribe where
  "signature_subscribe E signature config = subscribe E ''signature''
     (JArray [JString (signature_to_string E signature),
        ser_opt (\<lambda>c. JObject (members_signature_subscribe_config E c)) config])"

definition slot_subscribe where
  "slot_subscribe E = subscribe E ''slot'' (JArray [])"

definition slot_updates_subscribe where
  "slot_updates_subscribe E = subscribe E ''slotsUpdates'' (JArray [])"

lemma answers_poll_next [answers_intros]: "answers (poll_next E de self)"
  by (cases "ps_subscription self")
    (auto simp: poll_next_def intro!: answers_intros split: sum.split)

lemma poll_next_ready:
  "poll_next E de self w = (Done p, w') \<Longrightarrow> p \<noteq> Pending"
  by (cases "ps_subscription self")
    (auto simp: poll_next_def bindp_eq_Done ret_def split_sum_ex)

lemma subscription_recv_step:
  "subscription_recv E de (Subscription s) w =
     (case h_recv E s (hstate w) of (r, h) \<Rightarrow>
        (Done (case r of
            Inr v \<Rightarrow> (case de v of Inl err \<Rightarrow> Inl (IoCustom InvalidInput err) | Inr n \<Rightarrow> Inr n)
          | Inl errno \<Rightarrow> Inl (RawOsError errno)),
         w\<lparr>hstate := h, trace := trace w @ [EvRecv s]\<rparr>))"
  by (simp add: mapp_def host_recv_def bindp_def ret_def split: prod.split)

declare subscription_recv.simps [simp del]

lemma poll_next_receives:
  assumes "ps_subscription self = Subscription s" and "poll_next E de self w = (Done p, w')"
  shows "p \<noteq> Pending \<and>
    (\<exists>evs. trace w' = trace w @ evs \<and> length (filter (\<lambda>e. e = EvRecv s) evs) = 1)"
proof -
  have log: "\<exists>evs. trace w' = trace w @ evs \<and> filter (\<lambda>e. e = EvRecv s) evs = []"
    if "log_at E lvl tgt args w = (out, w')" for lvl tgt args out w w'
    using that by (auto simp: log_at_def host_log_def split: if_splits option.splits)
  obtain r h where h: "h_recv E s (hstate w) = (r, h)" by (cases "h_recv E s (hstate w)")
  let ?w = "w\<lparr>hstate := h, trace := trace w @ [EvRecv s]\<rparr>"
  obtain x where x: "subscription_recv E de (Subscription s) w = (Done x, ?w)"
    unfolding subscription_recv_step h by simp
  have "w' = ?w \<or> (\<exists>args out. log_at E LevelTrace pubsub_target args ?w = (out, w'))"
    using assms by (cases x) (auto simp: poll_next_def bindp_eq_Done ret_def x)
  then have "\<exists>evs. trace w' = trace ?w @ evs \<and> filter (\<lambda>e. e = EvRecv s) evs = []"
    using log by fastforce
  moreover have "p \<noteq> Pending" using assms(2) by (rule poll_next_ready)
  ultimately show ?thesis by auto
qed

section \<open>Properties\<close>

text \<open>
  Polling a stream never is pending: it receives once, and is ready with the
  notification that was received and read; when either fails the stream is at its end, and the
  failure only leaves a log line.
\<close>

theorem poll_next_behaviour:
  assumes "ps_subscription self = Subscription s" and "h_recv E s (hstate w) = (r, h)"
  shows "poll_next E de self w = (case r of
      Inr b \<Rightarrow> (case de b of
          Inr n \<Rightarrow> (Done (Ready (Some n)), w\<lparr>hstate := h, trace := trace w @ [EvRecv s]\<rparr>)
        | Inl err \<Rightarrow> mapp (\<lambda>_. Ready None) (log_at E LevelTrace pubsub_target
            (''Failed to receive a subscription notification: '' @
             show_io_error E (IoCustom InvalidInput err)))
            (w\<lparr>hstate := h, trace := trace w @ [EvRecv s]\<rparr>))
    | Inl errno \<Rightarrow> mapp (\<lambda>_. Ready None) (log_at E LevelTrace pubsub_target
        (''Failed to receive a subscription notification: '' @ show_io_error E (RawOsError errno)))
        (w\<lparr>hstate := h, trace := trace w @ [EvRecv s]\<rparr>))"
proof -
  have "subscription_recv E de (Subscription s) w = (Done (case r of
      Inr v \<Rightarrow> (case de v of Inl err \<Rightarrow> Inl (IoCustom InvalidInput err) | Inr n \<Rightarrow> Inr n)
    | Inl errno \<Rightarrow> Inl (RawOsError errno)), w\<lparr>hstate := h, trace := trace w @ [EvRecv s]\<rparr>)"
    using assms(2) by (simp add: subscription_recv_step)
  with assms(1) show ?thesis
    by (simp add: poll_next_def bindp_def mapp_def ret_def split: sum.split)
qed

lemma poll_next_behaviour_witness:
  "poll_next sample_env Inr \<lparr>ps_subscription = Subscription (SubscriptionHandle 1)\<rparr>
     (sample_world [sample_reply [4, 2]]) =
   (Done (Ready (Some [4, 2])), (sample_world [])\<lparr>trace := [EvRecv (SubscriptionHandle 1)]\<rparr>)"
  using poll_next_behaviour [of "\<lparr>ps_subscription = Subscription (SubscriptionHandle 1)\<rparr>"
      "SubscriptionHandle 1" sample_env "sample_world [sample_reply [4, 2]]" "Inr [4, 2]" "(0, [])" Inr]
  by (simp add: sample_world_def sample_reply_def sample_env_def)

text \<open>
  A consumer that reads a stream to its end receives one time more often than it
  is given notifications: nothing is received and lost, and the end is one failed receive.
\<close>

theorem drain_receives:
  assumes "ps_subscription self = Subscription s" and "drain E de self fuel w = (Done ns, w')"
  shows "\<exists>evs. trace w' = trace w @ evs \<and> length (filter (\<lambda>e. e = EvRecv s) evs) = length ns + 1"
proof -
  let ?got = "\<lambda>n w'. \<exists>evs. trace w' = trace w @ evs \<and> length (filter (\<lambda>e. e = EvRecv s) evs) = n"
  let ?body = "\<lambda>acc. bindp (poll_next E de self) (\<lambda>p. ret (case p of
    Pending \<Rightarrow> Inl acc | Ready (Some v) \<Rightarrow> Inl (acc @ [v]) | Ready None \<Rightarrow> Inr acc))"
  have step: "?got (n + 1) w2 \<and> (x = Inr acc \<or> (\<exists>v. x = Inl (acc @ [v])))"
    if "?got n w1" "?body acc w1 = (Done x, w2)" for n acc w1 x w2
  proof -
    from that(2) obtain p where p: "poll_next E de self w1 = (Done p, w2)" "x = (case p of
        Pending \<Rightarrow> Inl acc | Ready (Some v) \<Rightarrow> Inl (acc @ [v]) | Ready None \<Rightarrow> Inr acc)"
      by (auto simp: bindp_eq_Done ret_def)
    from that(1) poll_next_receives [OF assms(1) p(1)] have "?got (n + 1) w2" by fastforce
    moreover have "p \<noteq> Pending" using p(1) by (rule poll_next_ready)
    ultimately show ?thesis using p(2) by (cases p) (auto split: option.splits)
  qed
  show "?got (length ns + 1) w'"
  proof (rule loop_result_rule [OF assms(2) [unfolded drain_def],
        where I = "\<lambda>acc. ?got (length acc)" and Q = "\<lambda>ns. ?got (length ns + 1)"])
    fix acc acc' w1 w2
    assume "?got (length acc) w1" and "?body acc w1 = (Done (Inl acc'), w2)"
    from step [OF this] show "?got (length acc') w2" by auto
  next
    fix acc ns' w1 w2
    assume "?got (length acc) w1" and "?body acc w1 = (Done (Inr ns'), w2)"
    from step [OF this] show "?got (length ns' + 1) w2" by auto
  qed simp
qed

lemma drain_receives_witness:
  "\<exists>evs. trace (snd (drain sample_env Inr \<lparr>ps_subscription = Subscription (SubscriptionHandle 1)\<rparr> 3
      (sample_world [sample_reply [4], sample_reply [2]]))) = evs \<and>
    length (filter (\<lambda>e. e = EvRecv (SubscriptionHandle 1)) evs) = 3"
proof -
  let ?r = "drain sample_env Inr \<lparr>ps_subscription = Subscription (SubscriptionHandle 1)\<rparr> 3
    (sample_world [sample_reply [4], sample_reply [2]])"
  have "fst ?r = Done [[4], [2]]"
    by (simp add: drain_def eval_nat_numeral poll_next_def subscription_recv_step bindp_def ret_def
        sample_world_def sample_reply_def log_at_def sample_recv)
  then have "?r = (Done [[4], [2]], snd ?r)" by (simp add: prod_eq_iff)
  from drain_receives [OF _ this] show ?thesis by (auto simp: sample_world_def)
qed

end
