(* ===== verification/Zela_Wire.thy ===== *)
theory Zela_Wire
  imports Zela_Response
begin

text \<open>
  The responses of \<open>src/rpc_client/response.rs\<close> on the wire: for each type what
  \<open>#[derive(Serialize, Deserialize)]\<close> makes of it, under the renaming its attributes ask for,
  and the proof that the pair is a \<open>wire_format\<close>. The formats of the types of other crates
  are in the record \<open>foreign\<close>; \<open>foreign_ok\<close> says that each of them is a format too.
\<close>

section \<open>Formats of other crates\<close>

record 'a codec =
  codec_ser :: "'a \<Rightarrow> json"
  codec_de :: "json \<Rightarrow> 'a option"
  codec_valid :: "'a \<Rightarrow> bool"

definition codec_ok :: "'a codec \<Rightarrow> bool" where
  "codec_ok c \<longleftrightarrow> (\<forall>x. codec_valid c x \<longrightarrow>
     codec_de c (codec_ser c x) = Some x \<and> codec_ser c x \<noteq> JNull)"

lemma codec_value: "codec_ok c \<Longrightarrow> wire_value (codec_ser c) (codec_de c) (codec_valid c)"
  by unfold_locales (simp_all add: codec_ok_def)

text \<open>
  \<open>UiTokenAmount\<close> is only used flattened, so its format is about members. The text of a
  semantic version is parsed to the text it is displayed as.
\<close>

record foreign =
  f_transaction_error :: "transaction_error codec"
  f_ui_account :: "ui_account codec"
  f_fee_calculator :: "fee_calculator codec"
  f_fee_rate_governor :: "fee_rate_governor codec"
  f_socket_addr :: "socket_addr codec"
  f_inner_instructions :: "ui_inner_instructions codec"
  f_return_data :: "ui_return_data codec"
  f_confirmed_block :: "ui_confirmed_block codec"
  f_confirmation_status :: "transaction_confirmation_status codec"
  f_token_amount_members :: "ui_token_amount \<Rightarrow> (string \<times> json) list"
  f_token_amount_read :: "(string \<times> json) list \<Rightarrow> ui_token_amount option"
  f_token_amount_valid :: "ui_token_amount \<Rightarrow> bool"
  f_version_from_str :: "string \<Rightarrow> string option"

definition foreign_ok :: "foreign \<Rightarrow> bool" where
  "foreign_ok F \<longleftrightarrow> codec_ok (f_transaction_error F) \<and> codec_ok (f_ui_account F) \<and>
     codec_ok (f_fee_calculator F) \<and> codec_ok (f_fee_rate_governor F) \<and>
     codec_ok (f_socket_addr F) \<and> codec_ok (f_inner_instructions F) \<and>
     codec_ok (f_return_data F) \<and> codec_ok (f_confirmed_block F) \<and>
     codec_ok (f_confirmation_status F) \<and>
     (\<forall>a. distinct (map fst (f_token_amount_members F a)) \<and>
        ''address'' \<notin> fst ` set (f_token_amount_members F a) \<and>
        (f_token_amount_valid F a \<longrightarrow>
           f_token_amount_read F (f_token_amount_members F a) = Some a))"

lemma foreign_values:
  assumes "foreign_ok F"
  shows f_transaction_error_value: "wire_value (codec_ser (f_transaction_error F))
      (codec_de (f_transaction_error F)) (codec_valid (f_transaction_error F))"
    and f_ui_account_value: "wire_value (codec_ser (f_ui_account F))
      (codec_de (f_ui_account F)) (codec_valid (f_ui_account F))"
    and f_fee_calculator_value: "wire_value (codec_ser (f_fee_calculator F))
      (codec_de (f_fee_calculator F)) (codec_valid (f_fee_calculator F))"
    and f_fee_rate_governor_value: "wire_value (codec_ser (f_fee_rate_governor F))
      (codec_de (f_fee_rate_governor F)) (codec_valid (f_fee_rate_governor F))"
    and f_socket_addr_value: "wire_value (codec_ser (f_socket_addr F))
      (codec_de (f_socket_addr F)) (codec_valid (f_socket_addr F))"
    and f_inner_instructions_value: "wire_value (codec_ser (f_inner_instructions F))
      (codec_de (f_inner_instructions F)) (codec_valid (f_inner_instructions F))"
    and f_return_data_value: "wire_value (codec_ser (f_return_data F))
      (codec_de (f_return_data F)) (codec_valid (f_return_data F))"
    and f_confirmed_block_value: "wire_value (codec_ser (f_confirmed_block F))
      (codec_de (f_confirmed_block F)) (codec_valid (f_confirmed_block F))"
    and f_confirmation_status_value: "wire_value (codec_ser (f_confirmation_status F))
      (codec_de (f_confirmation_status F)) (codec_valid (f_confirmation_status F))"
  using assms by (simp_all add: foreign_ok_def codec_value)

lemma struct_value:
  "struct_format members names build P \<Longrightarrow>
     wire_value (\<lambda>c. JObject (members c)) (read_struct names build) P"
  by unfold_locales (simp_all add: struct_format.read_members)

text \<open>Formats without a condition stay without one under the type constructors.\<close>

lemma trivial_wf [wire_simps]:
  "list_all (\<lambda>_. True) = (\<lambda>_. True)" "pred_option (\<lambda>_. True) = (\<lambda>_. True)"
  "(\<lambda>(x, y). True) = (\<lambda>_. True)" "(\<lambda>(x, y, z). True) = (\<lambda>_. True)"
  by (auto simp: fun_eq_iff list_all_iff pred_option_def)

section \<open>Version, context and value\<close>

definition read_rpc_api_version :: "foreign \<Rightarrow> json \<Rightarrow> rpc_api_version option" where
  "read_rpc_api_version F j =
     (case de_rpc_api_version (de_of (\<lambda>_. SerdeError []) read_string)
        (\<lambda>s. ok_or (SerdeError []) (f_version_from_str F s)) j of
      Inl _ \<Rightarrow> None | Inr v \<Rightarrow> Some v)"

fun wf_rpc_api_version :: "foreign \<Rightarrow> rpc_api_version \<Rightarrow> bool" where
  "wf_rpc_api_version F (RpcApiVersion s) \<longleftrightarrow> f_version_from_str F s = Some s"

lemma rpc_api_version_value:
  "wire_value ser_rpc_api_version (read_rpc_api_version F) (wf_rpc_api_version F)"
proof unfold_locales
  show "read_rpc_api_version F (ser_rpc_api_version v) = Some v" if "wf_rpc_api_version F v" for v
    using that by (cases v) (simp add: read_rpc_api_version_def de_rpc_api_version_def de_of_def)
  show "ser_rpc_api_version v \<noteq> JNull" if "wf_rpc_api_version F v" for v by (cases v) simp
qed

definition names_response_context :: "string list" where
  "names_response_context = [''slot'', ''apiVersion'']"

definition build_response_context ::
  "foreign \<Rightarrow> (string \<Rightarrow> json option) \<Rightarrow> rpc_response_context option" where
  "build_response_context F m = do {
     x_slot \<leftarrow> required read_u64 (m ''slot'');
     x_api_version \<leftarrow> optional (read_rpc_api_version F) (m ''apiVersion'');
     Some \<lparr>ctx_slot = x_slot, ctx_api_version = x_api_version\<rparr> }"

definition wf_response_context :: "foreign \<Rightarrow> rpc_response_context \<Rightarrow> bool" where
  "wf_response_context F c \<longleftrightarrow> pred_option (wf_rpc_api_version F) (ctx_api_version c)"

abbreviation ser_response_context :: "rpc_response_context \<Rightarrow> json" where
  "ser_response_context \<equiv> \<lambda>c. JObject (members_response_context c)"

abbreviation read_response_context :: "foreign \<Rightarrow> json \<Rightarrow> rpc_response_context option" where
  "read_response_context F \<equiv> read_struct names_response_context (build_response_context F)"

interpretation response_context_wire:
  struct_format members_response_context names_response_context "build_response_context F"
    "wf_response_context F" for F
proof unfold_locales
  show "build_response_context F (map_of (members_response_context c)) = Some c"
    if "wf_response_context F c" for c
    using that wire_value.read_opt_write [OF rpc_api_version_value, of F "ctx_api_version c"]
      u64.read_write [of "ctx_slot c"]
    by (cases "ctx_api_version c") (simp_all add: build_response_context_def wire_simps
        members_response_context_def wf_response_context_def)
qed (auto simp: names_response_context_def members_response_context_def split: option.split)

text \<open>
  The field \<open>value\<close> has the generic type, so what an absent one means depends on it: the
  reader of the field is \<open>required\<close> of the reader of the type, or \<open>optional\<close> for an \<open>Option\<close>.
\<close>

definition names_response :: "string list" where
  "names_response = [''context'', ''value'']"

definition members_response :: "('t \<Rightarrow> json) \<Rightarrow> 't response \<Rightarrow> (string \<times> json) list" where
  "members_response ser r = [
     (''context'', ser_response_context (rsp_context r)),
     (''value'', ser (rsp_value r))]"

definition build_response ::
  "foreign \<Rightarrow> (json option \<Rightarrow> 't option) \<Rightarrow> (string \<Rightarrow> json option) \<Rightarrow> 't response option" where
  "build_response F field m = do {
     x_context \<leftarrow> required (read_response_context F) (m ''context'');
     x_value \<leftarrow> field (m ''value'');
     Some \<lparr>rsp_context = x_context, rsp_value = x_value\<rparr> }"

abbreviation ser_response :: "('t \<Rightarrow> json) \<Rightarrow> 't response \<Rightarrow> json" where
  "ser_response ser \<equiv> \<lambda>r. JObject (members_response ser r)"

abbreviation read_response ::
  "foreign \<Rightarrow> (json option \<Rightarrow> 't option) \<Rightarrow> json \<Rightarrow> 't response option" where
  "read_response F field \<equiv> read_struct names_response (build_response F field)"

lemma response_format:
  assumes "\<And>x. P x \<Longrightarrow> field (Some (ser x)) = Some x"
  shows "struct_format (members_response ser) names_response (build_response F field)
     (\<lambda>r. wf_response_context F (rsp_context r) \<and> P (rsp_value r))"
  using assms response_context_wire.read_members
  by unfold_locales
    (simp_all add: names_response_def members_response_def build_response_def wire_simps)

text \<open>A response of a type that is never written as \<open>null\<close>, and of an \<open>Option\<close> of it.\<close>

lemma response_value:
  assumes "wire_value ser de P"
  shows "wire_value (ser_response ser) (read_response F (required de))
     (\<lambda>r. wf_response_context F (rsp_context r) \<and> P (rsp_value r))"
  by (rule struct_value [OF response_format]) (simp add: wire_simps value_read [OF assms])

lemma response_opt_value:
  assumes "wire_value ser de P"
  shows "wire_value (ser_response (ser_opt ser)) (read_response F (optional de))
     (\<lambda>r. wf_response_context F (rsp_context r) \<and> pred_option P (rsp_value r))"
  by (rule struct_value [OF response_format]) (simp add: wire_simps opt_read [OF assms])

fun ser_optional_context :: "('t \<Rightarrow> json) \<Rightarrow> 't optional_context \<Rightarrow> json" where
  "ser_optional_context ser (Context r) = ser_response ser r"
| "ser_optional_context ser (NoContext v) = ser v"

definition read_optional_context ::
  "foreign \<Rightarrow> (json option \<Rightarrow> 't option) \<Rightarrow> json \<Rightarrow> 't optional_context option" where
  "read_optional_context F field j =
     (case de_optional_context (de_of (\<lambda>_. SerdeError []) (read_response F field))
        (de_of (\<lambda>_. SerdeError []) (\<lambda>j. field (Some j))) (SerdeError []) j of
      Inl _ \<Rightarrow> None | Inr oc \<Rightarrow> Some oc)"

lemma read_optional_context_eq:
  "read_optional_context F field j = (case read_response F field j of
     Some r \<Rightarrow> Some (Context r) | None \<Rightarrow> map_option NoContext (field (Some j)))"
  by (cases "read_response F field j"; cases "field (Some j)")
    (simp_all add: read_optional_context_def de_optional_context_def de_of_def)

section \<open>Fees and inflation\<close>

definition names_rpc_block_commitment :: "string list" where
  "names_rpc_block_commitment = [''commitment'', ''totalStake'']"

definition members_rpc_block_commitment ::
  "('t \<Rightarrow> json) \<Rightarrow> 't rpc_block_commitment \<Rightarrow> (string \<times> json) list" where
  "members_rpc_block_commitment ser c = [
     (''commitment'', ser_opt ser (bc_commitment c)),
     (''totalStake'', ser_u64 (bc_total_stake c))]"

definition build_rpc_block_commitment ::
  "(json \<Rightarrow> 't option) \<Rightarrow> (string \<Rightarrow> json option) \<Rightarrow> 't rpc_block_commitment option" where
  "build_rpc_block_commitment de m = do {
     x_commitment \<leftarrow> optional de (m ''commitment'');
     x_total_stake \<leftarrow> required read_u64 (m ''totalStake'');
     Some \<lparr>bc_commitment = x_commitment, bc_total_stake = x_total_stake\<rparr> }"

lemma rpc_block_commitment_format:
  assumes "wire_value ser de P"
  shows "struct_format (members_rpc_block_commitment ser) names_rpc_block_commitment
     (build_rpc_block_commitment de) (\<lambda>c. pred_option P (bc_commitment c))"
  by unfold_locales
    (simp_all add: names_rpc_block_commitment_def members_rpc_block_commitment_def
       build_rpc_block_commitment_def wire_simps wire_value.read_opt_write [OF assms] u64.read_write)

definition names_rpc_blockhash_fee_calculator :: "string list" where
  "names_rpc_blockhash_fee_calculator = [''blockhash'', ''feeCalculator'']"

definition members_rpc_blockhash_fee_calculator ::
  "foreign \<Rightarrow> rpc_blockhash_fee_calculator \<Rightarrow> (string \<times> json) list" where
  "members_rpc_blockhash_fee_calculator F c = [
     (''blockhash'', JString (bfc_blockhash c)),
     (''feeCalculator'', codec_ser (f_fee_calculator F) (bfc_fee_calculator c))]"

definition build_rpc_blockhash_fee_calculator ::
  "foreign \<Rightarrow> (string \<Rightarrow> json option) \<Rightarrow> rpc_blockhash_fee_calculator option" where
  "build_rpc_blockhash_fee_calculator F m = do {
     x_blockhash \<leftarrow> required read_string (m ''blockhash'');
     x_fee_calculator \<leftarrow> required (codec_de (f_fee_calculator F)) (m ''feeCalculator'');
     Some \<lparr>bfc_blockhash = x_blockhash, bfc_fee_calculator = x_fee_calculator\<rparr> }"

abbreviation ser_rpc_blockhash_fee_calculator ::
  "foreign \<Rightarrow> rpc_blockhash_fee_calculator \<Rightarrow> json" where
  "ser_rpc_blockhash_fee_calculator F \<equiv> \<lambda>c. JObject (members_rpc_blockhash_fee_calculator F c)"

abbreviation read_rpc_blockhash_fee_calculator ::
  "foreign \<Rightarrow> json \<Rightarrow> rpc_blockhash_fee_calculator option" where
  "read_rpc_blockhash_fee_calculator F \<equiv>
     read_struct names_rpc_blockhash_fee_calculator (build_rpc_blockhash_fee_calculator F)"

definition wf_rpc_blockhash_fee_calculator ::
  "foreign \<Rightarrow> rpc_blockhash_fee_calculator \<Rightarrow> bool" where
  "wf_rpc_blockhash_fee_calculator F c \<longleftrightarrow> codec_valid (f_fee_calculator F) (bfc_fee_calculator c)"

lemma rpc_blockhash_fee_calculator_format:
  assumes "foreign_ok F"
  shows "struct_format (members_rpc_blockhash_fee_calculator F) names_rpc_blockhash_fee_calculator
    (build_rpc_blockhash_fee_calculator F) (wf_rpc_blockhash_fee_calculator F)"
  by unfold_locales
    (simp_all add: names_rpc_blockhash_fee_calculator_def members_rpc_blockhash_fee_calculator_def
       build_rpc_blockhash_fee_calculator_def wf_rpc_blockhash_fee_calculator_def wire_simps
       value_read [OF wire_string.wire_value_axioms]
       value_read [OF f_fee_calculator_value [OF assms]])

definition names_rpc_blockhash :: "string list" where
  "names_rpc_blockhash = [''blockhash'', ''lastValidBlockHeight'']"

definition members_rpc_blockhash ::
  "rpc_blockhash \<Rightarrow> (string \<times> json) list" where
  "members_rpc_blockhash c = [
     (''blockhash'', JString (bh_blockhash c)),
     (''lastValidBlockHeight'', ser_u64 (bh_last_valid_block_height c))]"

definition build_rpc_blockhash ::
  "(string \<Rightarrow> json option) \<Rightarrow> rpc_blockhash option" where
  "build_rpc_blockhash m = do {
     x_blockhash \<leftarrow> required read_string (m ''blockhash'');
     x_last_valid_block_height \<leftarrow> required read_u64 (m ''lastValidBlockHeight'');
     Some \<lparr>bh_blockhash = x_blockhash,
       bh_last_valid_block_height = x_last_valid_block_height\<rparr> }"

abbreviation ser_rpc_blockhash :: "rpc_blockhash \<Rightarrow> json" where
  "ser_rpc_blockhash \<equiv> \<lambda>c. JObject (members_rpc_blockhash c)"

abbreviation read_rpc_blockhash :: "json \<Rightarrow> rpc_blockhash option" where
  "read_rpc_blockhash \<equiv> read_struct names_rpc_blockhash build_rpc_blockhash"

interpretation rpc_blockhash:
  struct_format members_rpc_blockhash names_rpc_blockhash build_rpc_blockhash "\<lambda>_. True"
  by unfold_locales
    (simp_all add: names_rpc_blockhash_def members_rpc_blockhash_def
       build_rpc_blockhash_def wire_simps
       value_read [OF wire_string.wire_value_axioms]
       value_read [OF u64.wire_value_axioms])

definition names_rpc_fee_calculator :: "string list" where
  "names_rpc_fee_calculator = [''feeCalculator'']"

definition members_rpc_fee_calculator ::
  "foreign \<Rightarrow> rpc_fee_calculator \<Rightarrow> (string \<times> json) list" where
  "members_rpc_fee_calculator F c = [
     (''feeCalculator'', codec_ser (f_fee_calculator F) (rfc_fee_calculator c))]"

definition build_rpc_fee_calculator ::
  "foreign \<Rightarrow> (string \<Rightarrow> json option) \<Rightarrow> rpc_fee_calculator option" where
  "build_rpc_fee_calculator F m = do {
     x_fee_calculator \<leftarrow> required (codec_de (f_fee_calculator F)) (m ''feeCalculator'');
     Some \<lparr>rfc_fee_calculator = x_fee_calculator\<rparr> }"

abbreviation ser_rpc_fee_calculator ::
  "foreign \<Rightarrow> rpc_fee_calculator \<Rightarrow> json" where
  "ser_rpc_fee_calculator F \<equiv> \<lambda>c. JObject (members_rpc_fee_calculator F c)"

abbreviation read_rpc_fee_calculator ::
  "foreign \<Rightarrow> json \<Rightarrow> rpc_fee_calculator option" where
  "read_rpc_fee_calculator F \<equiv>
     read_struct names_rpc_fee_calculator (build_rpc_fee_calculator F)"

definition wf_rpc_fee_calculator ::
  "foreign \<Rightarrow> rpc_fee_calculator \<Rightarrow> bool" where
  "wf_rpc_fee_calculator F c \<longleftrightarrow> codec_valid (f_fee_calculator F) (rfc_fee_calculator c)"

lemma rpc_fee_calculator_format:
  assumes "foreign_ok F"
  shows "struct_format (members_rpc_fee_calculator F) names_rpc_fee_calculator
    (build_rpc_fee_calculator F) (wf_rpc_fee_calculator F)"
  by unfold_locales
    (simp_all add: names_rpc_fee_calculator_def members_rpc_fee_calculator_def
       build_rpc_fee_calculator_def wf_rpc_fee_calculator_def wire_simps
       value_read [OF f_fee_calculator_value [OF assms]])

definition names_rpc_fee_rate_governor :: "string list" where
  "names_rpc_fee_rate_governor = [''feeRateGovernor'']"

definition members_rpc_fee_rate_governor ::
  "foreign \<Rightarrow> rpc_fee_rate_governor \<Rightarrow> (string \<times> json) list" where
  "members_rpc_fee_rate_governor F c = [
     (''feeRateGovernor'', codec_ser (f_fee_rate_governor F) (rfg_fee_rate_governor c))]"

definition build_rpc_fee_rate_governor ::
  "foreign \<Rightarrow> (string \<Rightarrow> json option) \<Rightarrow> rpc_fee_rate_governor option" where
  "build_rpc_fee_rate_governor F m = do {
     x_fee_rate_governor \<leftarrow> required (codec_de (f_fee_rate_governor F))
       (m ''feeRateGovernor'');
     Some \<lparr>rfg_fee_rate_governor = x_fee_rate_governor\<rparr> }"

abbreviation ser_rpc_fee_rate_governor ::
  "foreign \<Rightarrow> rpc_fee_rate_governor \<Rightarrow> json" where
  "ser_rpc_fee_rate_governor F \<equiv> \<lambda>c. JObject (members_rpc_fee_rate_governor F c)"

abbreviation read_rpc_fee_rate_governor ::
  "foreign \<Rightarrow> json \<Rightarrow> rpc_fee_rate_governor option" where
  "read_rpc_fee_rate_governor F \<equiv>
     read_struct names_rpc_fee_rate_governor (build_rpc_fee_rate_governor F)"

definition wf_rpc_fee_rate_governor ::
  "foreign \<Rightarrow> rpc_fee_rate_governor \<Rightarrow> bool" where
  "wf_rpc_fee_rate_governor F c \<longleftrightarrow> codec_valid (f_fee_rate_governor F) (rfg_fee_rate_governor c)"

lemma rpc_fee_rate_governor_format:
  assumes "foreign_ok F"
  shows "struct_format (members_rpc_fee_rate_governor F) names_rpc_fee_rate_governor
    (build_rpc_fee_rate_governor F) (wf_rpc_fee_rate_governor F)"
  by unfold_locales
    (simp_all add: names_rpc_fee_rate_governor_def members_rpc_fee_rate_governor_def
       build_rpc_fee_rate_governor_def wf_rpc_fee_rate_governor_def wire_simps
       value_read [OF f_fee_rate_governor_value [OF assms]])

definition names_rpc_inflation_governor :: "string list" where
  "names_rpc_inflation_governor = [''initial'', ''terminal'', ''taper'', ''foundation'',
     ''foundationTerm'']"

definition members_rpc_inflation_governor ::
  "rpc_inflation_governor \<Rightarrow> (string \<times> json) list" where
  "members_rpc_inflation_governor c = [
     (''initial'', ser_f64 (ig_initial c)),
     (''terminal'', ser_f64 (ig_terminal c)),
     (''taper'', ser_f64 (ig_taper c)),
     (''foundation'', ser_f64 (ig_foundation c)),
     (''foundationTerm'', ser_f64 (ig_foundation_term c))]"

definition build_rpc_inflation_governor ::
  "(string \<Rightarrow> json option) \<Rightarrow> rpc_inflation_governor option" where
  "build_rpc_inflation_governor m = do {
     x_initial \<leftarrow> required read_f64 (m ''initial'');
     x_terminal \<leftarrow> required read_f64 (m ''terminal'');
     x_taper \<leftarrow> required read_f64 (m ''taper'');
     x_foundation \<leftarrow> required read_f64 (m ''foundation'');
     x_foundation_term \<leftarrow> required read_f64 (m ''foundationTerm'');
     Some \<lparr>ig_initial = x_initial, ig_terminal = x_terminal, ig_taper = x_taper,
       ig_foundation = x_foundation, ig_foundation_term = x_foundation_term\<rparr> }"

abbreviation ser_rpc_inflation_governor :: "rpc_inflation_governor \<Rightarrow> json" where
  "ser_rpc_inflation_governor \<equiv> \<lambda>c. JObject (members_rpc_inflation_governor c)"

abbreviation read_rpc_inflation_governor ::
  "json \<Rightarrow> rpc_inflation_governor option" where
  "read_rpc_inflation_governor \<equiv>
     read_struct names_rpc_inflation_governor build_rpc_inflation_governor"

definition wf_rpc_inflation_governor :: "rpc_inflation_governor \<Rightarrow> bool" where
  "wf_rpc_inflation_governor c \<longleftrightarrow> f64_finite (ig_initial c) \<and>
     f64_finite (ig_terminal c) \<and>
     f64_finite (ig_taper c) \<and>
     f64_finite (ig_foundation c) \<and>
     f64_finite (ig_foundation_term c)"

interpretation rpc_inflation_governor:
  struct_format members_rpc_inflation_governor names_rpc_inflation_governor
    build_rpc_inflation_governor "wf_rpc_inflation_governor"
  by unfold_locales
    (simp_all add: names_rpc_inflation_governor_def members_rpc_inflation_governor_def
       build_rpc_inflation_governor_def wf_rpc_inflation_governor_def wire_simps
       wire_format.read_write [OF f64.wire_format_axioms])

definition names_rpc_inflation_rate :: "string list" where
  "names_rpc_inflation_rate = [''total'', ''validator'', ''foundation'', ''epoch'']"

definition members_rpc_inflation_rate ::
  "rpc_inflation_rate \<Rightarrow> (string \<times> json) list" where
  "members_rpc_inflation_rate c = [
     (''total'', ser_f64 (ir_total c)),
     (''validator'', ser_f64 (ir_validator c)),
     (''foundation'', ser_f64 (ir_foundation c)),
     (''epoch'', ser_u64 (ir_epoch c))]"

definition build_rpc_inflation_rate ::
  "(string \<Rightarrow> json option) \<Rightarrow> rpc_inflation_rate option" where
  "build_rpc_inflation_rate m = do {
     x_total \<leftarrow> required read_f64 (m ''total'');
     x_validator \<leftarrow> required read_f64 (m ''validator'');
     x_foundation \<leftarrow> required read_f64 (m ''foundation'');
     x_epoch \<leftarrow> required read_u64 (m ''epoch'');
     Some \<lparr>ir_total = x_total, ir_validator = x_validator, ir_foundation = x_foundation,
       ir_epoch = x_epoch\<rparr> }"

abbreviation ser_rpc_inflation_rate :: "rpc_inflation_rate \<Rightarrow> json" where
  "ser_rpc_inflation_rate \<equiv> \<lambda>c. JObject (members_rpc_inflation_rate c)"

abbreviation read_rpc_inflation_rate :: "json \<Rightarrow> rpc_inflation_rate option" where
  "read_rpc_inflation_rate \<equiv> read_struct names_rpc_inflation_rate build_rpc_inflation_rate"

definition wf_rpc_inflation_rate :: "rpc_inflation_rate \<Rightarrow> bool" where
  "wf_rpc_inflation_rate c \<longleftrightarrow> f64_finite (ir_total c) \<and>
     f64_finite (ir_validator c) \<and>
     f64_finite (ir_foundation c)"

interpretation rpc_inflation_rate:
  struct_format members_rpc_inflation_rate names_rpc_inflation_rate
    build_rpc_inflation_rate "wf_rpc_inflation_rate"
  by unfold_locales
    (simp_all add: names_rpc_inflation_rate_def members_rpc_inflation_rate_def
       build_rpc_inflation_rate_def wf_rpc_inflation_rate_def wire_simps
       wire_format.read_write [OF f64.wire_format_axioms]
       value_read [OF u64.wire_value_axioms])

definition names_rpc_inflation_reward :: "string list" where
  "names_rpc_inflation_reward = [''epoch'', ''effectiveSlot'', ''amount'', ''postBalance'',
     ''commission'']"

definition members_rpc_inflation_reward ::
  "rpc_inflation_reward \<Rightarrow> (string \<times> json) list" where
  "members_rpc_inflation_reward c = [
     (''epoch'', ser_u64 (rew_epoch c)),
     (''effectiveSlot'', ser_u64 (rew_effective_slot c)),
     (''amount'', ser_u64 (rew_amount c)),
     (''postBalance'', ser_u64 (rew_post_balance c)),
     (''commission'', ser_opt ser_u8 (rew_commission c))]"

definition build_rpc_inflation_reward ::
  "(string \<Rightarrow> json option) \<Rightarrow> rpc_inflation_reward option" where
  "build_rpc_inflation_reward m = do {
     x_epoch \<leftarrow> required read_u64 (m ''epoch'');
     x_effective_slot \<leftarrow> required read_u64 (m ''effectiveSlot'');
     x_amount \<leftarrow> required read_u64 (m ''amount'');
     x_post_balance \<leftarrow> required read_u64 (m ''postBalance'');
     x_commission \<leftarrow> optional read_u8 (m ''commission'');
     Some \<lparr>rew_epoch = x_epoch, rew_effective_slot = x_effective_slot,
       rew_amount = x_amount, rew_post_balance = x_post_balance,
       rew_commission = x_commission\<rparr> }"

abbreviation ser_rpc_inflation_reward :: "rpc_inflation_reward \<Rightarrow> json" where
  "ser_rpc_inflation_reward \<equiv> \<lambda>c. JObject (members_rpc_inflation_reward c)"

abbreviation read_rpc_inflation_reward :: "json \<Rightarrow> rpc_inflation_reward option" where
  "read_rpc_inflation_reward \<equiv>
     read_struct names_rpc_inflation_reward build_rpc_inflation_reward"

interpretation rpc_inflation_reward:
  struct_format members_rpc_inflation_reward names_rpc_inflation_reward
    build_rpc_inflation_reward "\<lambda>_. True"
  by unfold_locales
    (simp_all add: names_rpc_inflation_reward_def members_rpc_inflation_reward_def
       build_rpc_inflation_reward_def wire_simps
       value_read [OF u64.wire_value_axioms]
       opt_read [OF u8.wire_value_axioms])

definition names_rpc_prioritization_fee :: "string list" where
  "names_rpc_prioritization_fee = [''slot'', ''prioritizationFee'']"

definition members_rpc_prioritization_fee ::
  "rpc_prioritization_fee \<Rightarrow> (string \<times> json) list" where
  "members_rpc_prioritization_fee c = [
     (''slot'', ser_u64 (pzf_slot c)),
     (''prioritizationFee'', ser_u64 (pzf_prioritization_fee c))]"

definition build_rpc_prioritization_fee ::
  "(string \<Rightarrow> json option) \<Rightarrow> rpc_prioritization_fee option" where
  "build_rpc_prioritization_fee m = do {
     x_slot \<leftarrow> required read_u64 (m ''slot'');
     x_prioritization_fee \<leftarrow> required read_u64 (m ''prioritizationFee'');
     Some \<lparr>pzf_slot = x_slot, pzf_prioritization_fee = x_prioritization_fee\<rparr> }"

abbreviation ser_rpc_prioritization_fee :: "rpc_prioritization_fee \<Rightarrow> json" where
  "ser_rpc_prioritization_fee \<equiv> \<lambda>c. JObject (members_rpc_prioritization_fee c)"

abbreviation read_rpc_prioritization_fee ::
  "json \<Rightarrow> rpc_prioritization_fee option" where
  "read_rpc_prioritization_fee \<equiv>
     read_struct names_rpc_prioritization_fee build_rpc_prioritization_fee"

interpretation rpc_prioritization_fee:
  struct_format members_rpc_prioritization_fee names_rpc_prioritization_fee
    build_rpc_prioritization_fee "\<lambda>_. True"
  by unfold_locales
    (simp_all add: names_rpc_prioritization_fee_def members_rpc_prioritization_fee_def
       build_rpc_prioritization_fee_def wire_simps
       value_read [OF u64.wire_value_axioms])

end
