(* ===== verification/Zela_Wire_Cluster.thy ===== *)
theory Zela_Wire_Cluster
  imports Zela_Wire
begin

text \<open>
  The responses about slots, nodes, leaders, votes and blocks on the wire
  (\<open>src/rpc_client/response.rs\<close>), each shown to be a \<open>struct_format\<close> or \<open>wire_value\<close>.
\<close>

section \<open>Cluster and blocks\<close>

definition names_slot_info :: "string list" where
  "names_slot_info = [''slot'', ''parent'', ''root'']"

definition members_slot_info :: "slot_info \<Rightarrow> (string \<times> json) list" where
  "members_slot_info c = [
     (''slot'', ser_u64 (si_slot c)),
     (''parent'', ser_u64 (si_parent c)),
     (''root'', ser_u64 (si_root c))]"

definition build_slot_info ::
  "(string \<Rightarrow> json option) \<Rightarrow> slot_info option" where
  "build_slot_info m = do {
     x_slot \<leftarrow> required read_u64 (m ''slot'');
     x_parent \<leftarrow> required read_u64 (m ''parent'');
     x_root \<leftarrow> required read_u64 (m ''root'');
     Some \<lparr>si_slot = x_slot, si_parent = x_parent, si_root = x_root\<rparr> }"

abbreviation ser_slot_info :: "slot_info \<Rightarrow> json" where
  "ser_slot_info \<equiv> \<lambda>c. JObject (members_slot_info c)"

abbreviation read_slot_info :: "json \<Rightarrow> slot_info option" where
  "read_slot_info \<equiv> read_struct names_slot_info build_slot_info"

interpretation slot_info:
  struct_format members_slot_info names_slot_info build_slot_info "\<lambda>_. True"
  by unfold_locales
    (simp_all add: names_slot_info_def members_slot_info_def build_slot_info_def wire_simps
       value_read [OF u64.wire_value_axioms])

definition names_rpc_contact_info :: "string list" where
  "names_rpc_contact_info = [''pubkey'', ''gossip'', ''tvu'', ''tpu'', ''tpuQuic'',
     ''tpuForwards'', ''tpuForwardsQuic'', ''tpuVote'', ''serveRepair'', ''rpc'', ''pubsub'',
     ''version'', ''featureSet'', ''shredVersion'']"

definition members_rpc_contact_info ::
  "foreign \<Rightarrow> rpc_contact_info \<Rightarrow> (string \<times> json) list" where
  "members_rpc_contact_info F c = [
     (''pubkey'', JString (ci_pubkey c)),
     (''gossip'', ser_opt (codec_ser (f_socket_addr F)) (ci_gossip c)),
     (''tvu'', ser_opt (codec_ser (f_socket_addr F)) (ci_tvu c)),
     (''tpu'', ser_opt (codec_ser (f_socket_addr F)) (ci_tpu c)),
     (''tpuQuic'', ser_opt (codec_ser (f_socket_addr F)) (ci_tpu_quic c)),
     (''tpuForwards'', ser_opt (codec_ser (f_socket_addr F)) (ci_tpu_forwards c)),
     (''tpuForwardsQuic'', ser_opt (codec_ser (f_socket_addr F)) (ci_tpu_forwards_quic c)),
     (''tpuVote'', ser_opt (codec_ser (f_socket_addr F)) (ci_tpu_vote c)),
     (''serveRepair'', ser_opt (codec_ser (f_socket_addr F)) (ci_serve_repair c)),
     (''rpc'', ser_opt (codec_ser (f_socket_addr F)) (ci_rpc c)),
     (''pubsub'', ser_opt (codec_ser (f_socket_addr F)) (ci_pubsub c)),
     (''version'', ser_opt JString (ci_version c)),
     (''featureSet'', ser_opt ser_u32 (ci_feature_set c)),
     (''shredVersion'', ser_opt ser_u16 (ci_shred_version c))]"

definition build_rpc_contact_info ::
  "foreign \<Rightarrow> (string \<Rightarrow> json option) \<Rightarrow> rpc_contact_info option" where
  "build_rpc_contact_info F m = do {
     x_pubkey \<leftarrow> required read_string (m ''pubkey'');
     x_gossip \<leftarrow> optional (codec_de (f_socket_addr F)) (m ''gossip'');
     x_tvu \<leftarrow> optional (codec_de (f_socket_addr F)) (m ''tvu'');
     x_tpu \<leftarrow> optional (codec_de (f_socket_addr F)) (m ''tpu'');
     x_tpu_quic \<leftarrow> optional (codec_de (f_socket_addr F)) (m ''tpuQuic'');
     x_tpu_forwards \<leftarrow> optional (codec_de (f_socket_addr F)) (m ''tpuForwards'');
     x_tpu_forwards_quic \<leftarrow> optional (codec_de (f_socket_addr F))
       (m ''tpuForwardsQuic'');
     x_tpu_vote \<leftarrow> optional (codec_de (f_socket_addr F)) (m ''tpuVote'');
     x_serve_repair \<leftarrow> optional (codec_de (f_socket_addr F)) (m ''serveRepair'');
     x_rpc \<leftarrow> optional (codec_de (f_socket_addr F)) (m ''rpc'');
     x_pubsub \<leftarrow> optional (codec_de (f_socket_addr F)) (m ''pubsub'');
     x_version \<leftarrow> optional read_string (m ''version'');
     x_feature_set \<leftarrow> optional read_u32 (m ''featureSet'');
     x_shred_version \<leftarrow> optional read_u16 (m ''shredVersion'');
     Some \<lparr>ci_pubkey = x_pubkey, ci_gossip = x_gossip, ci_tvu = x_tvu, ci_tpu = x_tpu,
       ci_tpu_quic = x_tpu_quic, ci_tpu_forwards = x_tpu_forwards,
       ci_tpu_forwards_quic = x_tpu_forwards_quic, ci_tpu_vote = x_tpu_vote,
       ci_serve_repair = x_serve_repair, ci_rpc = x_rpc, ci_pubsub = x_pubsub,
       ci_version = x_version, ci_feature_set = x_feature_set,
       ci_shred_version = x_shred_version\<rparr> }"

abbreviation ser_rpc_contact_info ::
  "foreign \<Rightarrow> rpc_contact_info \<Rightarrow> json" where
  "ser_rpc_contact_info F \<equiv> \<lambda>c. JObject (members_rpc_contact_info F c)"

abbreviation read_rpc_contact_info ::
  "foreign \<Rightarrow> json \<Rightarrow> rpc_contact_info option" where
  "read_rpc_contact_info F \<equiv> read_struct names_rpc_contact_info (build_rpc_contact_info F)"

definition wf_rpc_contact_info ::
  "foreign \<Rightarrow> rpc_contact_info \<Rightarrow> bool" where
  "wf_rpc_contact_info F c \<longleftrightarrow> pred_option (codec_valid (f_socket_addr F)) (ci_gossip c) \<and>
     pred_option (codec_valid (f_socket_addr F)) (ci_tvu c) \<and>
     pred_option (codec_valid (f_socket_addr F)) (ci_tpu c) \<and>
     pred_option (codec_valid (f_socket_addr F)) (ci_tpu_quic c) \<and>
     pred_option (codec_valid (f_socket_addr F)) (ci_tpu_forwards c) \<and>
     pred_option (codec_valid (f_socket_addr F)) (ci_tpu_forwards_quic c) \<and>
     pred_option (codec_valid (f_socket_addr F)) (ci_tpu_vote c) \<and>
     pred_option (codec_valid (f_socket_addr F)) (ci_serve_repair c) \<and>
     pred_option (codec_valid (f_socket_addr F)) (ci_rpc c) \<and>
     pred_option (codec_valid (f_socket_addr F)) (ci_pubsub c)"

lemma rpc_contact_info_format:
  assumes "foreign_ok F"
  shows "struct_format (members_rpc_contact_info F) names_rpc_contact_info
    (build_rpc_contact_info F) (wf_rpc_contact_info F)"
  by unfold_locales
    (simp_all add: names_rpc_contact_info_def members_rpc_contact_info_def
       build_rpc_contact_info_def wf_rpc_contact_info_def wire_simps
       value_read [OF wire_string.wire_value_axioms]
       opt_read [OF f_socket_addr_value [OF assms]]
       opt_read [OF wire_string.wire_value_axioms]
       opt_read [OF u32.wire_value_axioms]
       opt_read [OF u16.wire_value_axioms])

definition ser_rpc_leader_schedule :: "rpc_leader_schedule \<Rightarrow> json" where
  "ser_rpc_leader_schedule = ser_map (ser_vec ser_usize)"

definition read_rpc_leader_schedule :: "json \<Rightarrow> rpc_leader_schedule option" where
  "read_rpc_leader_schedule = read_map (read_vec read_usize)"

interpretation rpc_leader_schedule:
  wire_value ser_rpc_leader_schedule read_rpc_leader_schedule "\<lambda>m. distinct (map fst m)"
  using wire_map [OF wire_value_format [OF wire_vec [OF usize.wire_format_axioms]]]
  unfolding ser_rpc_leader_schedule_def read_rpc_leader_schedule_def
  by (simp add: list_all_iff)

definition names_rpc_block_production_range :: "string list" where
  "names_rpc_block_production_range = [''firstSlot'', ''lastSlot'']"

definition members_rpc_block_production_range ::
  "rpc_block_production_range \<Rightarrow> (string \<times> json) list" where
  "members_rpc_block_production_range c = [
     (''firstSlot'', ser_u64 (bprg_first_slot c)),
     (''lastSlot'', ser_u64 (bprg_last_slot c))]"

definition build_rpc_block_production_range ::
  "(string \<Rightarrow> json option) \<Rightarrow> rpc_block_production_range option" where
  "build_rpc_block_production_range m = do {
     x_first_slot \<leftarrow> required read_u64 (m ''firstSlot'');
     x_last_slot \<leftarrow> required read_u64 (m ''lastSlot'');
     Some \<lparr>bprg_first_slot = x_first_slot, bprg_last_slot = x_last_slot\<rparr> }"

abbreviation ser_rpc_block_production_range ::
  "rpc_block_production_range \<Rightarrow> json" where
  "ser_rpc_block_production_range \<equiv> \<lambda>c. JObject (members_rpc_block_production_range c)"

abbreviation read_rpc_block_production_range ::
  "json \<Rightarrow> rpc_block_production_range option" where
  "read_rpc_block_production_range \<equiv>
     read_struct names_rpc_block_production_range build_rpc_block_production_range"

interpretation rpc_block_production_range:
  struct_format members_rpc_block_production_range names_rpc_block_production_range
    build_rpc_block_production_range "\<lambda>_. True"
  by unfold_locales
    (simp_all add: names_rpc_block_production_range_def members_rpc_block_production_range_def
       build_rpc_block_production_range_def wire_simps
       value_read [OF u64.wire_value_axioms])

definition names_rpc_block_production :: "string list" where
  "names_rpc_block_production = [''byIdentity'', ''range'']"

definition members_rpc_block_production ::
  "rpc_block_production \<Rightarrow> (string \<times> json) list" where
  "members_rpc_block_production c = [
     (''byIdentity'', ser_map (ser_pair ser_usize ser_usize) (bp_by_identity c)),
     (''range'', ser_rpc_block_production_range (bp_range c))]"

definition build_rpc_block_production ::
  "(string \<Rightarrow> json option) \<Rightarrow> rpc_block_production option" where
  "build_rpc_block_production m = do {
     x_by_identity \<leftarrow> required (read_map (read_pair read_usize read_usize))
       (m ''byIdentity'');
     x_range \<leftarrow> required read_rpc_block_production_range (m ''range'');
     Some \<lparr>bp_by_identity = x_by_identity, bp_range = x_range\<rparr> }"

abbreviation ser_rpc_block_production :: "rpc_block_production \<Rightarrow> json" where
  "ser_rpc_block_production \<equiv> \<lambda>c. JObject (members_rpc_block_production c)"

abbreviation read_rpc_block_production :: "json \<Rightarrow> rpc_block_production option" where
  "read_rpc_block_production \<equiv>
     read_struct names_rpc_block_production build_rpc_block_production"

definition wf_rpc_block_production :: "rpc_block_production \<Rightarrow> bool" where
  "wf_rpc_block_production c \<longleftrightarrow> distinct (map fst (bp_by_identity c))"

interpretation rpc_block_production:
  struct_format members_rpc_block_production names_rpc_block_production
    build_rpc_block_production "wf_rpc_block_production"
  by unfold_locales
    (simp_all add: names_rpc_block_production_def members_rpc_block_production_def
       build_rpc_block_production_def wf_rpc_block_production_def wire_simps
       value_read [OF value_map [OF value_pair [OF usize.wire_value_axioms usize.wire_value_axioms]]]
       value_read [OF rpc_block_production_range.wire_value_axioms])

definition names_rpc_version_info :: "string list" where
  "names_rpc_version_info = [''solana-core'', ''feature-set'']"

definition members_rpc_version_info ::
  "rpc_version_info \<Rightarrow> (string \<times> json) list" where
  "members_rpc_version_info c = [
     (''solana-core'', JString (vi_solana_core c)),
     (''feature-set'', ser_opt ser_u32 (vi_feature_set c))]"

definition build_rpc_version_info ::
  "(string \<Rightarrow> json option) \<Rightarrow> rpc_version_info option" where
  "build_rpc_version_info m = do {
     x_solana_core \<leftarrow> required read_string (m ''solana-core'');
     x_feature_set \<leftarrow> optional read_u32 (m ''feature-set'');
     Some \<lparr>vi_solana_core = x_solana_core, vi_feature_set = x_feature_set\<rparr> }"

abbreviation ser_rpc_version_info :: "rpc_version_info \<Rightarrow> json" where
  "ser_rpc_version_info \<equiv> \<lambda>c. JObject (members_rpc_version_info c)"

abbreviation read_rpc_version_info :: "json \<Rightarrow> rpc_version_info option" where
  "read_rpc_version_info \<equiv> read_struct names_rpc_version_info build_rpc_version_info"

interpretation rpc_version_info:
  struct_format members_rpc_version_info names_rpc_version_info
    build_rpc_version_info "\<lambda>_. True"
  by unfold_locales
    (simp_all add: names_rpc_version_info_def members_rpc_version_info_def
       build_rpc_version_info_def wire_simps
       value_read [OF wire_string.wire_value_axioms]
       opt_read [OF u32.wire_value_axioms])

definition names_rpc_identity :: "string list" where
  "names_rpc_identity = [''identity'']"

definition members_rpc_identity :: "rpc_identity \<Rightarrow> (string \<times> json) list" where
  "members_rpc_identity c = [
     (''identity'', JString (id_identity c))]"

definition build_rpc_identity ::
  "(string \<Rightarrow> json option) \<Rightarrow> rpc_identity option" where
  "build_rpc_identity m = do {
     x_identity \<leftarrow> required read_string (m ''identity'');
     Some \<lparr>id_identity = x_identity\<rparr> }"

abbreviation ser_rpc_identity :: "rpc_identity \<Rightarrow> json" where
  "ser_rpc_identity \<equiv> \<lambda>c. JObject (members_rpc_identity c)"

abbreviation read_rpc_identity :: "json \<Rightarrow> rpc_identity option" where
  "read_rpc_identity \<equiv> read_struct names_rpc_identity build_rpc_identity"

interpretation rpc_identity:
  struct_format members_rpc_identity names_rpc_identity build_rpc_identity "\<lambda>_. True"
  by unfold_locales
    (simp_all add: names_rpc_identity_def members_rpc_identity_def
       build_rpc_identity_def wire_simps
       value_read [OF wire_string.wire_value_axioms])

definition names_rpc_vote :: "string list" where
  "names_rpc_vote = [''votePubkey'', ''slots'', ''hash'', ''timestamp'', ''signature'']"

definition members_rpc_vote :: "rpc_vote \<Rightarrow> (string \<times> json) list" where
  "members_rpc_vote c = [
     (''votePubkey'', JString (vt_vote_pubkey c)),
     (''slots'', ser_vec ser_u64 (vt_slots c)),
     (''hash'', JString (vt_hash c)),
     (''timestamp'', ser_opt ser_i64 (vt_timestamp c)),
     (''signature'', JString (vt_signature c))]"

definition build_rpc_vote ::
  "(string \<Rightarrow> json option) \<Rightarrow> rpc_vote option" where
  "build_rpc_vote m = do {
     x_vote_pubkey \<leftarrow> required read_string (m ''votePubkey'');
     x_slots \<leftarrow> required (read_vec read_u64) (m ''slots'');
     x_hash \<leftarrow> required read_string (m ''hash'');
     x_timestamp \<leftarrow> optional read_i64 (m ''timestamp'');
     x_signature \<leftarrow> required read_string (m ''signature'');
     Some \<lparr>vt_vote_pubkey = x_vote_pubkey, vt_slots = x_slots, vt_hash = x_hash,
       vt_timestamp = x_timestamp, vt_signature = x_signature\<rparr> }"

abbreviation ser_rpc_vote :: "rpc_vote \<Rightarrow> json" where
  "ser_rpc_vote \<equiv> \<lambda>c. JObject (members_rpc_vote c)"

abbreviation read_rpc_vote :: "json \<Rightarrow> rpc_vote option" where
  "read_rpc_vote \<equiv> read_struct names_rpc_vote build_rpc_vote"

interpretation rpc_vote:
  struct_format members_rpc_vote names_rpc_vote build_rpc_vote "\<lambda>_. True"
  by unfold_locales
    (simp_all add: names_rpc_vote_def members_rpc_vote_def build_rpc_vote_def wire_simps
       value_read [OF wire_string.wire_value_axioms]
       value_read [OF value_vec [OF u64.wire_value_axioms]]
       opt_read [OF i64.wire_value_axioms])

definition names_rpc_vote_account_info :: "string list" where
  "names_rpc_vote_account_info = [''votePubkey'', ''nodePubkey'', ''activatedStake'',
     ''commission'', ''epochVoteAccount'', ''epochCredits'', ''lastVote'', ''rootSlot'']"

definition members_rpc_vote_account_info ::
  "rpc_vote_account_info \<Rightarrow> (string \<times> json) list" where
  "members_rpc_vote_account_info c = [
     (''votePubkey'', JString (va_vote_pubkey c)),
     (''nodePubkey'', JString (va_node_pubkey c)),
     (''activatedStake'', ser_u64 (va_activated_stake c)),
     (''commission'', ser_u8 (va_commission c)),
     (''epochVoteAccount'', JBool (va_epoch_vote_account c)),
     (''epochCredits'', ser_vec (ser_triple ser_u64 ser_u64 ser_u64) (va_epoch_credits c)),
     (''lastVote'', ser_u64 (va_last_vote c)),
     (''rootSlot'', ser_u64 (va_root_slot c))]"

definition build_rpc_vote_account_info ::
  "(string \<Rightarrow> json option) \<Rightarrow> rpc_vote_account_info option" where
  "build_rpc_vote_account_info m = do {
     x_vote_pubkey \<leftarrow> required read_string (m ''votePubkey'');
     x_node_pubkey \<leftarrow> required read_string (m ''nodePubkey'');
     x_activated_stake \<leftarrow> required read_u64 (m ''activatedStake'');
     x_commission \<leftarrow> required read_u8 (m ''commission'');
     x_epoch_vote_account \<leftarrow> required read_bool (m ''epochVoteAccount'');
     x_epoch_credits \<leftarrow> required (read_vec (read_triple read_u64 read_u64 read_u64))
       (m ''epochCredits'');
     x_last_vote \<leftarrow> required read_u64 (m ''lastVote'');
     x_root_slot \<leftarrow> required read_u64 (m ''rootSlot'');
     Some \<lparr>va_vote_pubkey = x_vote_pubkey, va_node_pubkey = x_node_pubkey,
       va_activated_stake = x_activated_stake, va_commission = x_commission,
       va_epoch_vote_account = x_epoch_vote_account, va_epoch_credits = x_epoch_credits,
       va_last_vote = x_last_vote, va_root_slot = x_root_slot\<rparr> }"

abbreviation ser_rpc_vote_account_info :: "rpc_vote_account_info \<Rightarrow> json" where
  "ser_rpc_vote_account_info \<equiv> \<lambda>c. JObject (members_rpc_vote_account_info c)"

abbreviation read_rpc_vote_account_info :: "json \<Rightarrow> rpc_vote_account_info option" where
  "read_rpc_vote_account_info \<equiv>
     read_struct names_rpc_vote_account_info build_rpc_vote_account_info"

interpretation rpc_vote_account_info:
  struct_format members_rpc_vote_account_info names_rpc_vote_account_info
    build_rpc_vote_account_info "\<lambda>_. True"
  by unfold_locales
    (simp_all add: names_rpc_vote_account_info_def members_rpc_vote_account_info_def
       build_rpc_vote_account_info_def wire_simps
       value_read [OF wire_string.wire_value_axioms]
       value_read [OF u64.wire_value_axioms]
       value_read [OF u8.wire_value_axioms]
       value_read [OF wire_bool.wire_value_axioms]
       value_read [OF value_vec [OF value_triple [OF u64.wire_value_axioms u64.wire_value_axioms u64.wire_value_axioms]]])

definition names_rpc_vote_account_status :: "string list" where
  "names_rpc_vote_account_status = [''current'', ''delinquent'']"

definition members_rpc_vote_account_status ::
  "rpc_vote_account_status \<Rightarrow> (string \<times> json) list" where
  "members_rpc_vote_account_status c = [
     (''current'', ser_vec ser_rpc_vote_account_info (vs_current c)),
     (''delinquent'', ser_vec ser_rpc_vote_account_info (vs_delinquent c))]"

definition build_rpc_vote_account_status ::
  "(string \<Rightarrow> json option) \<Rightarrow> rpc_vote_account_status option" where
  "build_rpc_vote_account_status m = do {
     x_current \<leftarrow> required (read_vec read_rpc_vote_account_info) (m ''current'');
     x_delinquent \<leftarrow> required (read_vec read_rpc_vote_account_info) (m ''delinquent'');
     Some \<lparr>vs_current = x_current, vs_delinquent = x_delinquent\<rparr> }"

abbreviation ser_rpc_vote_account_status :: "rpc_vote_account_status \<Rightarrow> json" where
  "ser_rpc_vote_account_status \<equiv> \<lambda>c. JObject (members_rpc_vote_account_status c)"

abbreviation read_rpc_vote_account_status ::
  "json \<Rightarrow> rpc_vote_account_status option" where
  "read_rpc_vote_account_status \<equiv>
     read_struct names_rpc_vote_account_status build_rpc_vote_account_status"

interpretation rpc_vote_account_status:
  struct_format members_rpc_vote_account_status names_rpc_vote_account_status
    build_rpc_vote_account_status "\<lambda>_. True"
  by unfold_locales
    (simp_all add: names_rpc_vote_account_status_def members_rpc_vote_account_status_def
       build_rpc_vote_account_status_def wire_simps
       value_read [OF value_vec [OF rpc_vote_account_info.wire_value_axioms]])

definition names_rpc_perf_sample :: "string list" where
  "names_rpc_perf_sample = [''slot'', ''numTransactions'', ''numNonVoteTransactions'',
     ''numSlots'', ''samplePeriodSecs'']"

definition members_rpc_perf_sample ::
  "rpc_perf_sample \<Rightarrow> (string \<times> json) list" where
  "members_rpc_perf_sample c = [
     (''slot'', ser_u64 (pf_slot c)),
     (''numTransactions'', ser_u64 (pf_num_transactions c)),
     (''numNonVoteTransactions'', ser_opt ser_u64 (pf_num_non_vote_transactions c)),
     (''numSlots'', ser_u64 (pf_num_slots c)),
     (''samplePeriodSecs'', ser_u16 (pf_sample_period_secs c))]"

definition build_rpc_perf_sample ::
  "(string \<Rightarrow> json option) \<Rightarrow> rpc_perf_sample option" where
  "build_rpc_perf_sample m = do {
     x_slot \<leftarrow> required read_u64 (m ''slot'');
     x_num_transactions \<leftarrow> required read_u64 (m ''numTransactions'');
     x_num_non_vote_transactions \<leftarrow> optional read_u64 (m ''numNonVoteTransactions'');
     x_num_slots \<leftarrow> required read_u64 (m ''numSlots'');
     x_sample_period_secs \<leftarrow> required read_u16 (m ''samplePeriodSecs'');
     Some \<lparr>pf_slot = x_slot, pf_num_transactions = x_num_transactions,
       pf_num_non_vote_transactions = x_num_non_vote_transactions, pf_num_slots = x_num_slots,
       pf_sample_period_secs = x_sample_period_secs\<rparr> }"

abbreviation ser_rpc_perf_sample :: "rpc_perf_sample \<Rightarrow> json" where
  "ser_rpc_perf_sample \<equiv> \<lambda>c. JObject (members_rpc_perf_sample c)"

abbreviation read_rpc_perf_sample :: "json \<Rightarrow> rpc_perf_sample option" where
  "read_rpc_perf_sample \<equiv> read_struct names_rpc_perf_sample build_rpc_perf_sample"

interpretation rpc_perf_sample:
  struct_format members_rpc_perf_sample names_rpc_perf_sample
    build_rpc_perf_sample "\<lambda>_. True"
  by unfold_locales
    (simp_all add: names_rpc_perf_sample_def members_rpc_perf_sample_def
       build_rpc_perf_sample_def wire_simps
       value_read [OF u64.wire_value_axioms]
       opt_read [OF u64.wire_value_axioms]
       value_read [OF u16.wire_value_axioms])

definition names_rpc_storage_turn :: "string list" where
  "names_rpc_storage_turn = [''blockhash'', ''slot'']"

definition members_rpc_storage_turn ::
  "rpc_storage_turn \<Rightarrow> (string \<times> json) list" where
  "members_rpc_storage_turn c = [
     (''blockhash'', JString (stn_blockhash c)),
     (''slot'', ser_u64 (stn_slot c))]"

definition build_rpc_storage_turn ::
  "(string \<Rightarrow> json option) \<Rightarrow> rpc_storage_turn option" where
  "build_rpc_storage_turn m = do {
     x_blockhash \<leftarrow> required read_string (m ''blockhash'');
     x_slot \<leftarrow> required read_u64 (m ''slot'');
     Some \<lparr>stn_blockhash = x_blockhash, stn_slot = x_slot\<rparr> }"

abbreviation ser_rpc_storage_turn :: "rpc_storage_turn \<Rightarrow> json" where
  "ser_rpc_storage_turn \<equiv> \<lambda>c. JObject (members_rpc_storage_turn c)"

abbreviation read_rpc_storage_turn :: "json \<Rightarrow> rpc_storage_turn option" where
  "read_rpc_storage_turn \<equiv> read_struct names_rpc_storage_turn build_rpc_storage_turn"

interpretation rpc_storage_turn:
  struct_format members_rpc_storage_turn names_rpc_storage_turn
    build_rpc_storage_turn "\<lambda>_. True"
  by unfold_locales
    (simp_all add: names_rpc_storage_turn_def members_rpc_storage_turn_def
       build_rpc_storage_turn_def wire_simps
       value_read [OF wire_string.wire_value_axioms]
       value_read [OF u64.wire_value_axioms])

definition names_rpc_snapshot_slot_info :: "string list" where
  "names_rpc_snapshot_slot_info = [''full'', ''incremental'']"

definition members_rpc_snapshot_slot_info ::
  "rpc_snapshot_slot_info \<Rightarrow> (string \<times> json) list" where
  "members_rpc_snapshot_slot_info c = [
     (''full'', ser_u64 (sn_full c)),
     (''incremental'', ser_opt ser_u64 (sn_incremental c))]"

definition build_rpc_snapshot_slot_info ::
  "(string \<Rightarrow> json option) \<Rightarrow> rpc_snapshot_slot_info option" where
  "build_rpc_snapshot_slot_info m = do {
     x_full \<leftarrow> required read_u64 (m ''full'');
     x_incremental \<leftarrow> optional read_u64 (m ''incremental'');
     Some \<lparr>sn_full = x_full, sn_incremental = x_incremental\<rparr> }"

abbreviation ser_rpc_snapshot_slot_info :: "rpc_snapshot_slot_info \<Rightarrow> json" where
  "ser_rpc_snapshot_slot_info \<equiv> \<lambda>c. JObject (members_rpc_snapshot_slot_info c)"

abbreviation read_rpc_snapshot_slot_info ::
  "json \<Rightarrow> rpc_snapshot_slot_info option" where
  "read_rpc_snapshot_slot_info \<equiv>
     read_struct names_rpc_snapshot_slot_info build_rpc_snapshot_slot_info"

interpretation rpc_snapshot_slot_info:
  struct_format members_rpc_snapshot_slot_info names_rpc_snapshot_slot_info
    build_rpc_snapshot_slot_info "\<lambda>_. True"
  by unfold_locales
    (simp_all add: names_rpc_snapshot_slot_info_def members_rpc_snapshot_slot_info_def
       build_rpc_snapshot_slot_info_def wire_simps
       value_read [OF u64.wire_value_axioms]
       opt_read [OF u64.wire_value_axioms])

fun ser_stake_activation_state :: "stake_activation_state \<Rightarrow> json" where
  "ser_stake_activation_state Activating = JString ''activating''"
| "ser_stake_activation_state Active = JString ''active''"
| "ser_stake_activation_state Deactivating = JString ''deactivating''"
| "ser_stake_activation_state Inactive = JString ''inactive''"

definition read_stake_activation_state :: "json \<Rightarrow> stake_activation_state option" where
  "read_stake_activation_state j = Option.bind (variant_name j) (\<lambda>s.
     if s = ''activating'' then Some Activating
     else if s = ''active'' then Some Active
     else if s = ''deactivating'' then Some Deactivating
     else if s = ''inactive'' then Some Inactive
     else None)"

interpretation stake_activation_state:
  wire_value ser_stake_activation_state read_stake_activation_state "\<lambda>_. True"
proof unfold_locales
  show "read_stake_activation_state (ser_stake_activation_state s) = Some s" for s
    by (cases s) (simp_all add: read_stake_activation_state_def)
  show "ser_stake_activation_state s \<noteq> JNull" for s by (cases s) simp_all
qed

fun ser_block_update_error :: "rpc_block_update_error \<Rightarrow> json" where
  "ser_block_update_error BlockStoreError = JString ''BlockStoreError''"
| "ser_block_update_error (UnsupportedTransactionVersion v) =
     JObject [(''UnsupportedTransactionVersion'', ser_u8 v)]"

fun read_block_update_error :: "json \<Rightarrow> rpc_block_update_error option" where
  "read_block_update_error (JString s) =
     (if s = ''BlockStoreError'' then Some BlockStoreError else None)"
| "read_block_update_error (JObject [(s, j)]) =
     (if s = ''BlockStoreError'' \<and> is_null j then Some BlockStoreError
      else if s = ''UnsupportedTransactionVersion''
        then map_option UnsupportedTransactionVersion (read_u8 j)
      else None)"
| "read_block_update_error _ = None"

interpretation block_update_error:
  wire_value ser_block_update_error read_block_update_error "\<lambda>_. True"
proof unfold_locales
  show "read_block_update_error (ser_block_update_error e) = Some e" for e
    by (cases e) (simp_all add: u8.read_write)
  show "ser_block_update_error e \<noteq> JNull" for e by (cases e) simp_all
qed

definition names_rpc_block_update :: "string list" where
  "names_rpc_block_update = [''slot'', ''block'', ''err'']"

definition members_rpc_block_update ::
  "foreign \<Rightarrow> rpc_block_update \<Rightarrow> (string \<times> json) list" where
  "members_rpc_block_update F c = [
     (''slot'', ser_u64 (bu_slot c)),
     (''block'', ser_opt (codec_ser (f_confirmed_block F)) (bu_block c)),
     (''err'', ser_opt ser_block_update_error (bu_err c))]"

definition build_rpc_block_update ::
  "foreign \<Rightarrow> (string \<Rightarrow> json option) \<Rightarrow> rpc_block_update option" where
  "build_rpc_block_update F m = do {
     x_slot \<leftarrow> required read_u64 (m ''slot'');
     x_block \<leftarrow> optional (codec_de (f_confirmed_block F)) (m ''block'');
     x_err \<leftarrow> optional read_block_update_error (m ''err'');
     Some \<lparr>bu_slot = x_slot, bu_block = x_block, bu_err = x_err\<rparr> }"

abbreviation ser_rpc_block_update ::
  "foreign \<Rightarrow> rpc_block_update \<Rightarrow> json" where
  "ser_rpc_block_update F \<equiv> \<lambda>c. JObject (members_rpc_block_update F c)"

abbreviation read_rpc_block_update ::
  "foreign \<Rightarrow> json \<Rightarrow> rpc_block_update option" where
  "read_rpc_block_update F \<equiv> read_struct names_rpc_block_update (build_rpc_block_update F)"

definition wf_rpc_block_update ::
  "foreign \<Rightarrow> rpc_block_update \<Rightarrow> bool" where
  "wf_rpc_block_update F c \<longleftrightarrow> pred_option (codec_valid (f_confirmed_block F)) (bu_block c)"

lemma rpc_block_update_format:
  assumes "foreign_ok F"
  shows "struct_format (members_rpc_block_update F) names_rpc_block_update
    (build_rpc_block_update F) (wf_rpc_block_update F)"
  by unfold_locales
    (simp_all add: names_rpc_block_update_def members_rpc_block_update_def
       build_rpc_block_update_def wf_rpc_block_update_def wire_simps
       value_read [OF u64.wire_value_axioms]
       opt_read [OF f_confirmed_block_value [OF assms]]
       opt_read [OF block_update_error.wire_value_axioms])

end
