(* ===== verification/Zela_Wire_Accounts.thy ===== *)
theory Zela_Wire_Accounts
  imports Zela_Wire_Cluster
begin

text \<open>
  The responses about accounts, balances and signatures on the wire, the untagged
  \<open>RpcSignatureResult\<close>, and the tagged \<open>SlotUpdate\<close> (\<open>src/rpc_client/response.rs\<close>).
\<close>

section \<open>Signatures, accounts and balances\<close>

definition names_processed_signature_result :: "string list" where
  "names_processed_signature_result = [''err'']"

definition members_processed_signature_result ::
  "foreign \<Rightarrow> processed_signature_result \<Rightarrow> (string \<times> json) list" where
  "members_processed_signature_result F c = [
     (''err'', ser_opt (codec_ser (f_transaction_error F)) (psr_err c))]"

definition build_processed_signature_result ::
  "foreign \<Rightarrow> (string \<Rightarrow> json option) \<Rightarrow> processed_signature_result option" where
  "build_processed_signature_result F m = do {
     x_err \<leftarrow> optional (codec_de (f_transaction_error F)) (m ''err'');
     Some \<lparr>psr_err = x_err\<rparr> }"

abbreviation ser_processed_signature_result ::
  "foreign \<Rightarrow> processed_signature_result \<Rightarrow> json" where
  "ser_processed_signature_result F \<equiv> \<lambda>c. JObject (members_processed_signature_result F c)"

abbreviation read_processed_signature_result ::
  "foreign \<Rightarrow> json \<Rightarrow> processed_signature_result option" where
  "read_processed_signature_result F \<equiv>
     read_struct names_processed_signature_result (build_processed_signature_result F)"

definition wf_processed_signature_result ::
  "foreign \<Rightarrow> processed_signature_result \<Rightarrow> bool" where
  "wf_processed_signature_result F c \<longleftrightarrow> pred_option (codec_valid (f_transaction_error F)) (psr_err c)"

lemma processed_signature_result_format:
  assumes "foreign_ok F"
  shows "struct_format (members_processed_signature_result F) names_processed_signature_result
    (build_processed_signature_result F) (wf_processed_signature_result F)"
  by unfold_locales
    (simp_all add: names_processed_signature_result_def members_processed_signature_result_def
       build_processed_signature_result_def wf_processed_signature_result_def wire_simps
       opt_read [OF f_transaction_error_value [OF assms]])

definition names_rpc_logs_response :: "string list" where
  "names_rpc_logs_response = [''signature'', ''err'', ''logs'']"

definition members_rpc_logs_response ::
  "foreign \<Rightarrow> rpc_logs_response \<Rightarrow> (string \<times> json) list" where
  "members_rpc_logs_response F c = [
     (''signature'', JString (lr_signature c)),
     (''err'', ser_opt (codec_ser (f_transaction_error F)) (lr_err c)),
     (''logs'', ser_vec JString (lr_logs c))]"

definition build_rpc_logs_response ::
  "foreign \<Rightarrow> (string \<Rightarrow> json option) \<Rightarrow> rpc_logs_response option" where
  "build_rpc_logs_response F m = do {
     x_signature \<leftarrow> required read_string (m ''signature'');
     x_err \<leftarrow> optional (codec_de (f_transaction_error F)) (m ''err'');
     x_logs \<leftarrow> required (read_vec read_string) (m ''logs'');
     Some \<lparr>lr_signature = x_signature, lr_err = x_err, lr_logs = x_logs\<rparr> }"

abbreviation ser_rpc_logs_response ::
  "foreign \<Rightarrow> rpc_logs_response \<Rightarrow> json" where
  "ser_rpc_logs_response F \<equiv> \<lambda>c. JObject (members_rpc_logs_response F c)"

abbreviation read_rpc_logs_response ::
  "foreign \<Rightarrow> json \<Rightarrow> rpc_logs_response option" where
  "read_rpc_logs_response F \<equiv>
     read_struct names_rpc_logs_response (build_rpc_logs_response F)"

definition wf_rpc_logs_response ::
  "foreign \<Rightarrow> rpc_logs_response \<Rightarrow> bool" where
  "wf_rpc_logs_response F c \<longleftrightarrow> pred_option (codec_valid (f_transaction_error F)) (lr_err c)"

lemma rpc_logs_response_format:
  assumes "foreign_ok F"
  shows "struct_format (members_rpc_logs_response F) names_rpc_logs_response
    (build_rpc_logs_response F) (wf_rpc_logs_response F)"
  by unfold_locales
    (simp_all add: names_rpc_logs_response_def members_rpc_logs_response_def
       build_rpc_logs_response_def wf_rpc_logs_response_def wire_simps
       value_read [OF wire_string.wire_value_axioms]
       opt_read [OF f_transaction_error_value [OF assms]]
       value_read [OF value_vec [OF wire_string.wire_value_axioms]])

text \<open>\<open>TransactionResult<()>\<close>, as \<open>serde\<close> writes a \<open>Result\<close>.\<close>

fun ser_status :: "foreign \<Rightarrow> transaction_error + unit \<Rightarrow> json" where
  "ser_status F (Inr _) = JObject [(''Ok'', JNull)]"
| "ser_status F (Inl e) = JObject [(''Err'', codec_ser (f_transaction_error F) e)]"

fun read_status :: "foreign \<Rightarrow> json \<Rightarrow> (transaction_error + unit) option" where
  "read_status F (JObject [(s, j)]) =
     (if s = ''Ok'' then (if is_null j then Some (Inr ()) else None)
      else if s = ''Err'' then map_option Inl (codec_de (f_transaction_error F) j)
      else None)"
| "read_status F _ = None"

fun wf_status :: "foreign \<Rightarrow> transaction_error + unit \<Rightarrow> bool" where
  "wf_status F (Inl e) \<longleftrightarrow> codec_valid (f_transaction_error F) e"
| "wf_status F (Inr _) \<longleftrightarrow> True"

lemma status_value:
  assumes "foreign_ok F"
  shows "wire_value (ser_status F) (read_status F) (wf_status F)"
proof unfold_locales
  show "read_status F (ser_status F r) = Some r" if "wf_status F r" for r
    using that wire_format.read_write [OF wire_value_format [OF f_transaction_error_value [OF assms]]]
    by (cases r) simp_all
  show "ser_status F r \<noteq> JNull" for r by (cases r) simp_all
qed

definition names_rpc_signature_confirmation :: "string list" where
  "names_rpc_signature_confirmation = [''confirmations'', ''status'']"

definition members_rpc_signature_confirmation ::
  "foreign \<Rightarrow> rpc_signature_confirmation \<Rightarrow> (string \<times> json) list" where
  "members_rpc_signature_confirmation F c = [
     (''confirmations'', ser_usize (scf_confirmations c)),
     (''status'', ser_status F (scf_status c))]"

definition build_rpc_signature_confirmation ::
  "foreign \<Rightarrow> (string \<Rightarrow> json option) \<Rightarrow> rpc_signature_confirmation option" where
  "build_rpc_signature_confirmation F m = do {
     x_confirmations \<leftarrow> required read_usize (m ''confirmations'');
     x_status \<leftarrow> required (read_status F) (m ''status'');
     Some \<lparr>scf_confirmations = x_confirmations, scf_status = x_status\<rparr> }"

abbreviation ser_rpc_signature_confirmation ::
  "foreign \<Rightarrow> rpc_signature_confirmation \<Rightarrow> json" where
  "ser_rpc_signature_confirmation F \<equiv> \<lambda>c. JObject (members_rpc_signature_confirmation F c)"

abbreviation read_rpc_signature_confirmation ::
  "foreign \<Rightarrow> json \<Rightarrow> rpc_signature_confirmation option" where
  "read_rpc_signature_confirmation F \<equiv>
     read_struct names_rpc_signature_confirmation (build_rpc_signature_confirmation F)"

definition wf_rpc_signature_confirmation ::
  "foreign \<Rightarrow> rpc_signature_confirmation \<Rightarrow> bool" where
  "wf_rpc_signature_confirmation F c \<longleftrightarrow> wf_status F (scf_status c)"

lemma rpc_signature_confirmation_format:
  assumes "foreign_ok F"
  shows "struct_format (members_rpc_signature_confirmation F) names_rpc_signature_confirmation
    (build_rpc_signature_confirmation F) (wf_rpc_signature_confirmation F)"
  by unfold_locales
    (simp_all add: names_rpc_signature_confirmation_def members_rpc_signature_confirmation_def
       build_rpc_signature_confirmation_def wf_rpc_signature_confirmation_def wire_simps
       value_read [OF usize.wire_value_axioms]
       value_read [OF status_value [OF assms]])

definition names_rpc_keyed_account :: "string list" where
  "names_rpc_keyed_account = [''pubkey'', ''account'']"

definition members_rpc_keyed_account ::
  "foreign \<Rightarrow> rpc_keyed_account \<Rightarrow> (string \<times> json) list" where
  "members_rpc_keyed_account F c = [
     (''pubkey'', JString (ka_pubkey c)),
     (''account'', codec_ser (f_ui_account F) (ka_account c))]"

definition build_rpc_keyed_account ::
  "foreign \<Rightarrow> (string \<Rightarrow> json option) \<Rightarrow> rpc_keyed_account option" where
  "build_rpc_keyed_account F m = do {
     x_pubkey \<leftarrow> required read_string (m ''pubkey'');
     x_account \<leftarrow> required (codec_de (f_ui_account F)) (m ''account'');
     Some \<lparr>ka_pubkey = x_pubkey, ka_account = x_account\<rparr> }"

abbreviation ser_rpc_keyed_account ::
  "foreign \<Rightarrow> rpc_keyed_account \<Rightarrow> json" where
  "ser_rpc_keyed_account F \<equiv> \<lambda>c. JObject (members_rpc_keyed_account F c)"

abbreviation read_rpc_keyed_account ::
  "foreign \<Rightarrow> json \<Rightarrow> rpc_keyed_account option" where
  "read_rpc_keyed_account F \<equiv>
     read_struct names_rpc_keyed_account (build_rpc_keyed_account F)"

definition wf_rpc_keyed_account ::
  "foreign \<Rightarrow> rpc_keyed_account \<Rightarrow> bool" where
  "wf_rpc_keyed_account F c \<longleftrightarrow> codec_valid (f_ui_account F) (ka_account c)"

lemma rpc_keyed_account_format:
  assumes "foreign_ok F"
  shows "struct_format (members_rpc_keyed_account F) names_rpc_keyed_account
    (build_rpc_keyed_account F) (wf_rpc_keyed_account F)"
  by unfold_locales
    (simp_all add: names_rpc_keyed_account_def members_rpc_keyed_account_def
       build_rpc_keyed_account_def wf_rpc_keyed_account_def wire_simps
       value_read [OF wire_string.wire_value_axioms]
       value_read [OF f_ui_account_value [OF assms]])

definition names_rpc_simulate_transaction_result :: "string list" where
  "names_rpc_simulate_transaction_result = [''err'', ''logs'', ''accounts'', ''unitsConsumed'',
     ''returnData'', ''innerInstructions'', ''replacementBlockhash'']"

definition members_rpc_simulate_transaction_result ::
  "foreign \<Rightarrow> rpc_simulate_transaction_result \<Rightarrow> (string \<times> json) list" where
  "members_rpc_simulate_transaction_result F c = [
     (''err'', ser_opt (codec_ser (f_transaction_error F)) (sim_err c)),
     (''logs'', ser_opt (ser_vec JString) (sim_logs c)),
     (''accounts'', ser_opt (ser_vec (ser_opt (codec_ser (f_ui_account F)))) (sim_accounts c)),
     (''unitsConsumed'', ser_opt ser_u64 (sim_units_consumed c)),
     (''returnData'', ser_opt (codec_ser (f_return_data F)) (sim_return_data c)),
     (''innerInstructions'', ser_opt (ser_vec (codec_ser (f_inner_instructions F)))
        (sim_inner_instructions c)),
     (''replacementBlockhash'', ser_opt ser_rpc_blockhash (sim_replacement_blockhash c))]"

definition build_rpc_simulate_transaction_result ::
  "foreign \<Rightarrow> (string \<Rightarrow> json option) \<Rightarrow> rpc_simulate_transaction_result option" where
  "build_rpc_simulate_transaction_result F m = do {
     x_err \<leftarrow> optional (codec_de (f_transaction_error F)) (m ''err'');
     x_logs \<leftarrow> optional (read_vec read_string) (m ''logs'');
     x_accounts \<leftarrow> optional (read_vec (read_opt (codec_de (f_ui_account F))))
       (m ''accounts'');
     x_units_consumed \<leftarrow> optional read_u64 (m ''unitsConsumed'');
     x_return_data \<leftarrow> optional (codec_de (f_return_data F)) (m ''returnData'');
     x_inner_instructions \<leftarrow> optional (read_vec (codec_de (f_inner_instructions F)))
       (m ''innerInstructions'');
     x_replacement_blockhash \<leftarrow> optional read_rpc_blockhash
       (m ''replacementBlockhash'');
     Some \<lparr>sim_err = x_err, sim_logs = x_logs, sim_accounts = x_accounts,
       sim_units_consumed = x_units_consumed, sim_return_data = x_return_data,
       sim_inner_instructions = x_inner_instructions,
       sim_replacement_blockhash = x_replacement_blockhash\<rparr> }"

abbreviation ser_rpc_simulate_transaction_result ::
  "foreign \<Rightarrow> rpc_simulate_transaction_result \<Rightarrow> json" where
  "ser_rpc_simulate_transaction_result F \<equiv> \<lambda>c. JObject (members_rpc_simulate_transaction_result F c)"

abbreviation read_rpc_simulate_transaction_result ::
  "foreign \<Rightarrow> json \<Rightarrow> rpc_simulate_transaction_result option" where
  "read_rpc_simulate_transaction_result F \<equiv>
     read_struct names_rpc_simulate_transaction_result (build_rpc_simulate_transaction_result F)"

definition wf_rpc_simulate_transaction_result ::
  "foreign \<Rightarrow> rpc_simulate_transaction_result \<Rightarrow> bool" where
  "wf_rpc_simulate_transaction_result F c \<longleftrightarrow> pred_option (codec_valid (f_transaction_error F)) (sim_err c) \<and>
     pred_option (list_all (pred_option (codec_valid (f_ui_account F)))) (sim_accounts c) \<and>
     pred_option (codec_valid (f_return_data F)) (sim_return_data c) \<and>
     pred_option (list_all (codec_valid (f_inner_instructions F))) (sim_inner_instructions c)"

lemma rpc_simulate_transaction_result_format:
  assumes "foreign_ok F"
  shows "struct_format (members_rpc_simulate_transaction_result F)
    names_rpc_simulate_transaction_result
    (build_rpc_simulate_transaction_result F) (wf_rpc_simulate_transaction_result F)"
  by unfold_locales
    (simp_all add: names_rpc_simulate_transaction_result_def members_rpc_simulate_transaction_result_def
       build_rpc_simulate_transaction_result_def wf_rpc_simulate_transaction_result_def wire_simps
       opt_read [OF f_transaction_error_value [OF assms]]
       opt_read [OF value_vec [OF wire_string.wire_value_axioms]]
       opt_read [OF wire_vec [OF wire_opt [OF f_ui_account_value [OF assms]]]]
       opt_read [OF u64.wire_value_axioms]
       opt_read [OF f_return_data_value [OF assms]]
       opt_read [OF value_vec [OF f_inner_instructions_value [OF assms]]]
       opt_read [OF rpc_blockhash.wire_value_axioms])

definition names_rpc_account_balance :: "string list" where
  "names_rpc_account_balance = [''address'', ''lamports'']"

definition members_rpc_account_balance ::
  "rpc_account_balance \<Rightarrow> (string \<times> json) list" where
  "members_rpc_account_balance c = [
     (''address'', JString (ab_address c)),
     (''lamports'', ser_u64 (ab_lamports c))]"

definition build_rpc_account_balance ::
  "(string \<Rightarrow> json option) \<Rightarrow> rpc_account_balance option" where
  "build_rpc_account_balance m = do {
     x_address \<leftarrow> required read_string (m ''address'');
     x_lamports \<leftarrow> required read_u64 (m ''lamports'');
     Some \<lparr>ab_address = x_address, ab_lamports = x_lamports\<rparr> }"

abbreviation ser_rpc_account_balance :: "rpc_account_balance \<Rightarrow> json" where
  "ser_rpc_account_balance \<equiv> \<lambda>c. JObject (members_rpc_account_balance c)"

abbreviation read_rpc_account_balance :: "json \<Rightarrow> rpc_account_balance option" where
  "read_rpc_account_balance \<equiv>
     read_struct names_rpc_account_balance build_rpc_account_balance"

interpretation rpc_account_balance:
  struct_format members_rpc_account_balance names_rpc_account_balance
    build_rpc_account_balance "\<lambda>_. True"
  by unfold_locales
    (simp_all add: names_rpc_account_balance_def members_rpc_account_balance_def
       build_rpc_account_balance_def wire_simps
       value_read [OF wire_string.wire_value_axioms]
       value_read [OF u64.wire_value_axioms])

definition names_rpc_supply :: "string list" where
  "names_rpc_supply = [''total'', ''circulating'', ''nonCirculating'',
     ''nonCirculatingAccounts'']"

definition members_rpc_supply :: "rpc_supply \<Rightarrow> (string \<times> json) list" where
  "members_rpc_supply c = [
     (''total'', ser_u64 (sup_total c)),
     (''circulating'', ser_u64 (sup_circulating c)),
     (''nonCirculating'', ser_u64 (sup_non_circulating c)),
     (''nonCirculatingAccounts'', ser_vec JString (sup_non_circulating_accounts c))]"

definition build_rpc_supply ::
  "(string \<Rightarrow> json option) \<Rightarrow> rpc_supply option" where
  "build_rpc_supply m = do {
     x_total \<leftarrow> required read_u64 (m ''total'');
     x_circulating \<leftarrow> required read_u64 (m ''circulating'');
     x_non_circulating \<leftarrow> required read_u64 (m ''nonCirculating'');
     x_non_circulating_accounts \<leftarrow> required (read_vec read_string)
       (m ''nonCirculatingAccounts'');
     Some \<lparr>sup_total = x_total, sup_circulating = x_circulating,
       sup_non_circulating = x_non_circulating,
       sup_non_circulating_accounts = x_non_circulating_accounts\<rparr> }"

abbreviation ser_rpc_supply :: "rpc_supply \<Rightarrow> json" where
  "ser_rpc_supply \<equiv> \<lambda>c. JObject (members_rpc_supply c)"

abbreviation read_rpc_supply :: "json \<Rightarrow> rpc_supply option" where
  "read_rpc_supply \<equiv> read_struct names_rpc_supply build_rpc_supply"

interpretation rpc_supply:
  struct_format members_rpc_supply names_rpc_supply build_rpc_supply "\<lambda>_. True"
  by unfold_locales
    (simp_all add: names_rpc_supply_def members_rpc_supply_def build_rpc_supply_def wire_simps
       value_read [OF u64.wire_value_axioms]
       value_read [OF value_vec [OF wire_string.wire_value_axioms]])

definition names_rpc_confirmed_transaction_status :: "string list" where
  "names_rpc_confirmed_transaction_status = [''signature'', ''slot'', ''err'', ''memo'',
     ''blockTime'', ''confirmationStatus'']"

definition members_rpc_confirmed_transaction_status ::
  "foreign \<Rightarrow> rpc_confirmed_transaction_status \<Rightarrow> (string \<times> json) list" where
  "members_rpc_confirmed_transaction_status F c = [
     (''signature'', JString (rct_signature c)),
     (''slot'', ser_u64 (rct_slot c)),
     (''err'', ser_opt (codec_ser (f_transaction_error F)) (rct_err c)),
     (''memo'', ser_opt JString (rct_memo c)),
     (''blockTime'', ser_opt ser_i64 (rct_block_time c)),
     (''confirmationStatus'', ser_opt (codec_ser (f_confirmation_status F))
        (rct_confirmation_status c))]"

definition build_rpc_confirmed_transaction_status ::
  "foreign \<Rightarrow> (string \<Rightarrow> json option) \<Rightarrow> rpc_confirmed_transaction_status option" where
  "build_rpc_confirmed_transaction_status F m = do {
     x_signature \<leftarrow> required read_string (m ''signature'');
     x_slot \<leftarrow> required read_u64 (m ''slot'');
     x_err \<leftarrow> optional (codec_de (f_transaction_error F)) (m ''err'');
     x_memo \<leftarrow> optional read_string (m ''memo'');
     x_block_time \<leftarrow> optional read_i64 (m ''blockTime'');
     x_confirmation_status \<leftarrow> optional (codec_de (f_confirmation_status F))
       (m ''confirmationStatus'');
     Some \<lparr>rct_signature = x_signature, rct_slot = x_slot, rct_err = x_err,
       rct_memo = x_memo, rct_block_time = x_block_time,
       rct_confirmation_status = x_confirmation_status\<rparr> }"

abbreviation ser_rpc_confirmed_transaction_status ::
  "foreign \<Rightarrow> rpc_confirmed_transaction_status \<Rightarrow> json" where
  "ser_rpc_confirmed_transaction_status F \<equiv> \<lambda>c. JObject (members_rpc_confirmed_transaction_status F c)"

abbreviation read_rpc_confirmed_transaction_status ::
  "foreign \<Rightarrow> json \<Rightarrow> rpc_confirmed_transaction_status option" where
  "read_rpc_confirmed_transaction_status F \<equiv>
     read_struct names_rpc_confirmed_transaction_status (build_rpc_confirmed_transaction_status F)"

definition wf_rpc_confirmed_transaction_status ::
  "foreign \<Rightarrow> rpc_confirmed_transaction_status \<Rightarrow> bool" where
  "wf_rpc_confirmed_transaction_status F c \<longleftrightarrow> pred_option (codec_valid (f_transaction_error F)) (rct_err c) \<and>
     pred_option (codec_valid (f_confirmation_status F)) (rct_confirmation_status c)"

lemma rpc_confirmed_transaction_status_format:
  assumes "foreign_ok F"
  shows "struct_format (members_rpc_confirmed_transaction_status F)
    names_rpc_confirmed_transaction_status
    (build_rpc_confirmed_transaction_status F) (wf_rpc_confirmed_transaction_status F)"
  by unfold_locales
    (simp_all add: names_rpc_confirmed_transaction_status_def members_rpc_confirmed_transaction_status_def
       build_rpc_confirmed_transaction_status_def wf_rpc_confirmed_transaction_status_def wire_simps
       value_read [OF wire_string.wire_value_axioms]
       value_read [OF u64.wire_value_axioms]
       opt_read [OF f_transaction_error_value [OF assms]]
       opt_read [OF wire_string.wire_value_axioms]
       opt_read [OF i64.wire_value_axioms]
       opt_read [OF f_confirmation_status_value [OF assms]])

text \<open>
  \<open>#[serde(flatten)]\<close>: the members of the amount stand beside the address, and the reader of
  the amount is given every member that is not the address. Such a struct reads no array.
\<close>

definition members_rpc_token_account_balance ::
  "foreign \<Rightarrow> rpc_token_account_balance \<Rightarrow> (string \<times> json) list" where
  "members_rpc_token_account_balance F c =
     (''address'', JString (tab_address c)) # f_token_amount_members F (tab_amount c)"

fun read_rpc_token_account_balance :: "foreign \<Rightarrow> json \<Rightarrow> rpc_token_account_balance option" where
  "read_rpc_token_account_balance F (JObject ms) =
     (case filter (\<lambda>(k, _). k = ''address'') ms of
        [(_, j)] \<Rightarrow> do {
          x_address \<leftarrow> read_string j;
          x_amount \<leftarrow> f_token_amount_read F (filter (\<lambda>(k, _). k \<noteq> ''address'') ms);
          Some \<lparr>tab_address = x_address, tab_amount = x_amount\<rparr> }
      | _ \<Rightarrow> None)"
| "read_rpc_token_account_balance F _ = None"

lemma rpc_token_account_balance_value:
  assumes "foreign_ok F"
  shows "wire_value (\<lambda>c. JObject (members_rpc_token_account_balance F c))
     (read_rpc_token_account_balance F) (\<lambda>c. f_token_amount_valid F (tab_amount c))"
proof unfold_locales
  fix c :: rpc_token_account_balance
  assume v: "f_token_amount_valid F (tab_amount c)"
  let ?ms = "f_token_amount_members F (tab_amount c)"
  from assms have a: "''address'' \<notin> fst ` set ?ms" by (simp add: foreign_ok_def)
  then have "filter (\<lambda>(k, _). k = ''address'') ?ms = []" by (force simp: filter_empty_conv)
  moreover from a have "filter (\<lambda>(k, _). k \<noteq> ''address'') ?ms = ?ms" by (force simp: filter_id_conv)
  moreover from assms v have "f_token_amount_read F ?ms = Some (tab_amount c)"
    by (simp add: foreign_ok_def)
  ultimately show "read_rpc_token_account_balance F
      (JObject (members_rpc_token_account_balance F c)) = Some c"
    by (simp add: members_rpc_token_account_balance_def)
qed simp

section \<open>Signature results\<close>

text \<open>
  The untagged \<open>RpcSignatureResult\<close>: first the result of a processed transaction, and only
  what is none of those is tried as the name of the received notification.
\<close>

fun ser_received_signature_result :: "received_signature_result \<Rightarrow> json" where
  "ser_received_signature_result SignatureReceived = JString ''receivedSignature''"

fun ser_rpc_signature_result :: "foreign \<Rightarrow> rpc_signature_result \<Rightarrow> json" where
  "ser_rpc_signature_result F (ProcessedSignature r) = ser_processed_signature_result F r"
| "ser_rpc_signature_result F (ReceivedSignature s) = ser_received_signature_result s"

definition read_received_signature_result :: "json \<Rightarrow> received_signature_result option" where
  "read_received_signature_result j =
     (if variant_name j = Some ''receivedSignature'' then Some SignatureReceived else None)"

interpretation received_signature_result:
  wire_value ser_received_signature_result read_received_signature_result "\<lambda>_. True"
proof unfold_locales
  show "read_received_signature_result (ser_received_signature_result s) = Some s" for s
    by (cases s) (simp add: read_received_signature_result_def)
  show "ser_received_signature_result s \<noteq> JNull" for s by (cases s) simp
qed

definition read_rpc_signature_result :: "foreign \<Rightarrow> json \<Rightarrow> rpc_signature_result option" where
  "read_rpc_signature_result F j = (case read_processed_signature_result F j of
       Some r \<Rightarrow> Some (ProcessedSignature r)
     | None \<Rightarrow> map_option ReceivedSignature (read_received_signature_result j))"

definition wf_rpc_signature_result :: "foreign \<Rightarrow> rpc_signature_result \<Rightarrow> bool" where
  "wf_rpc_signature_result F r = (case r of
       ProcessedSignature p \<Rightarrow> wf_processed_signature_result F p | ReceivedSignature _ \<Rightarrow> True)"

lemma rpc_signature_result_value:
  assumes "foreign_ok F"
  shows "wire_value (ser_rpc_signature_result F) (read_rpc_signature_result F)
     (wf_rpc_signature_result F)"
proof unfold_locales
  fix r :: rpc_signature_result
  assume wf: "wf_rpc_signature_result F r"
  show "read_rpc_signature_result F (ser_rpc_signature_result F r) = Some r"
  proof (cases r)
    case (ProcessedSignature p)
    with wf show ?thesis
      using struct_format.read_members [OF processed_signature_result_format [OF assms]]
      by (simp add: read_rpc_signature_result_def wf_rpc_signature_result_def)
  next
    case (ReceivedSignature s)
    then show ?thesis
      by (cases s) (simp add: read_rpc_signature_result_def read_struct_def
          read_received_signature_result_def)
  qed
next
  show "ser_rpc_signature_result F r \<noteq> JNull" for r
    using received_signature_result.not_null
    by (cases r rule: rpc_signature_result.exhaust) simp_all
qed

section \<open>Slot updates\<close>

definition names_slot_transaction_stats :: "string list" where
  "names_slot_transaction_stats = [''numTransactionEntries'', ''numSuccessfulTransactions'',
     ''numFailedTransactions'', ''maxTransactionsPerEntry'']"

definition members_slot_transaction_stats ::
  "slot_transaction_stats \<Rightarrow> (string \<times> json) list" where
  "members_slot_transaction_stats c = [
     (''numTransactionEntries'', ser_u64 (st_num_transaction_entries c)),
     (''numSuccessfulTransactions'', ser_u64 (st_num_successful_transactions c)),
     (''numFailedTransactions'', ser_u64 (st_num_failed_transactions c)),
     (''maxTransactionsPerEntry'', ser_u64 (st_max_transactions_per_entry c))]"

definition build_slot_transaction_stats ::
  "(string \<Rightarrow> json option) \<Rightarrow> slot_transaction_stats option" where
  "build_slot_transaction_stats m = do {
     x_num_transaction_entries \<leftarrow> required read_u64 (m ''numTransactionEntries'');
     x_num_successful_transactions \<leftarrow> required read_u64
       (m ''numSuccessfulTransactions'');
     x_num_failed_transactions \<leftarrow> required read_u64 (m ''numFailedTransactions'');
     x_max_transactions_per_entry \<leftarrow> required read_u64 (m ''maxTransactionsPerEntry'');
     Some \<lparr>st_num_transaction_entries = x_num_transaction_entries,
       st_num_successful_transactions = x_num_successful_transactions,
       st_num_failed_transactions = x_num_failed_transactions,
       st_max_transactions_per_entry = x_max_transactions_per_entry\<rparr> }"

abbreviation ser_slot_transaction_stats :: "slot_transaction_stats \<Rightarrow> json" where
  "ser_slot_transaction_stats \<equiv> \<lambda>c. JObject (members_slot_transaction_stats c)"

abbreviation read_slot_transaction_stats ::
  "json \<Rightarrow> slot_transaction_stats option" where
  "read_slot_transaction_stats \<equiv>
     read_struct names_slot_transaction_stats build_slot_transaction_stats"

interpretation slot_transaction_stats:
  struct_format members_slot_transaction_stats names_slot_transaction_stats
    build_slot_transaction_stats "\<lambda>_. True"
  by unfold_locales
    (simp_all add: names_slot_transaction_stats_def members_slot_transaction_stats_def
       build_slot_transaction_stats_def wire_simps
       value_read [OF u64.wire_value_axioms])

fun members_slot_update :: "slot_update \<Rightarrow> (string \<times> json) list" where
  "members_slot_update (FirstShredReceived s t) = [(''type'', JString ''firstShredReceived''),
     (''slot'', ser_u64 s), (''timestamp'', ser_u64 t)]"
| "members_slot_update (Completed s t) = [(''type'', JString ''completed''),
     (''slot'', ser_u64 s), (''timestamp'', ser_u64 t)]"
| "members_slot_update (CreatedBank s p t) = [(''type'', JString ''createdBank''),
     (''slot'', ser_u64 s), (''parent'', ser_u64 p), (''timestamp'', ser_u64 t)]"
| "members_slot_update (Frozen s t stats) = [(''type'', JString ''frozen''),
     (''slot'', ser_u64 s), (''timestamp'', ser_u64 t),
     (''stats'', ser_slot_transaction_stats stats)]"
| "members_slot_update (Dead s t err) = [(''type'', JString ''dead''),
     (''slot'', ser_u64 s), (''timestamp'', ser_u64 t), (''err'', JString err)]"
| "members_slot_update (OptimisticConfirmation s t) =
     [(''type'', JString ''optimisticConfirmation''), (''slot'', ser_u64 s),
      (''timestamp'', ser_u64 t)]"
| "members_slot_update (Root s t) = [(''type'', JString ''root''), (''slot'', ser_u64 s),
     (''timestamp'', ser_u64 t)]"

abbreviation ser_slot_update :: "slot_update \<Rightarrow> json" where
  "ser_slot_update \<equiv> \<lambda>u. JObject (members_slot_update u)"

text \<open>
  \<open>#[serde(tag = "type")]\<close>: the tag is the one member of that name, or the first element of
  an array, and the variant reads what is left of the object or array as a struct.
\<close>

fun tagged :: "string \<Rightarrow> json \<Rightarrow> (string \<times> json) option" where
  "tagged tag (JObject ms) = (case filter (\<lambda>(k, _). k = tag) ms of
       [(_, JString s)] \<Rightarrow> Some (s, JObject (filter (\<lambda>(k, _). k \<noteq> tag) ms))
     | _ \<Rightarrow> None)"
| "tagged tag (JArray (JString s # js)) = Some (s, JArray js)"
| "tagged tag _ = None"

definition read_slot_and_time :: "(slot \<Rightarrow> u64 \<Rightarrow> slot_update) \<Rightarrow> json \<Rightarrow> slot_update option" where
  "read_slot_and_time f = read_struct [''slot'', ''timestamp''] (\<lambda>m. do {
     s \<leftarrow> required read_u64 (m ''slot''); t \<leftarrow> required read_u64 (m ''timestamp''); Some (f s t) })"

definition read_created_bank :: "json \<Rightarrow> slot_update option" where
  "read_created_bank = read_struct [''slot'', ''parent'', ''timestamp''] (\<lambda>m. do {
     s \<leftarrow> required read_u64 (m ''slot''); p \<leftarrow> required read_u64 (m ''parent'');
     t \<leftarrow> required read_u64 (m ''timestamp''); Some (CreatedBank s p t) })"

definition read_frozen :: "json \<Rightarrow> slot_update option" where
  "read_frozen = read_struct [''slot'', ''timestamp'', ''stats''] (\<lambda>m. do {
     s \<leftarrow> required read_u64 (m ''slot''); t \<leftarrow> required read_u64 (m ''timestamp'');
     st \<leftarrow> required read_slot_transaction_stats (m ''stats''); Some (Frozen s t st) })"

definition read_dead :: "json \<Rightarrow> slot_update option" where
  "read_dead = read_struct [''slot'', ''timestamp'', ''err''] (\<lambda>m. do {
     s \<leftarrow> required read_u64 (m ''slot''); t \<leftarrow> required read_u64 (m ''timestamp'');
     e \<leftarrow> required read_string (m ''err''); Some (Dead s t e) })"

definition read_slot_update :: "json \<Rightarrow> slot_update option" where
  "read_slot_update j = Option.bind (tagged ''type'' j) (\<lambda>(tag, rest).
     if tag = ''firstShredReceived'' then read_slot_and_time FirstShredReceived rest
     else if tag = ''completed'' then read_slot_and_time Completed rest
     else if tag = ''createdBank'' then read_created_bank rest
     else if tag = ''frozen'' then read_frozen rest
     else if tag = ''dead'' then read_dead rest
     else if tag = ''optimisticConfirmation'' then read_slot_and_time OptimisticConfirmation rest
     else if tag = ''root'' then read_slot_and_time Root rest
     else None)"

lemmas read_variants = read_slot_and_time_def read_created_bank_def read_frozen_def read_dead_def

lemma read_slot_update_write: "read_slot_update (ser_slot_update u) = Some u"
  by (cases u) (simp_all add: read_slot_update_def read_variants read_struct_def wire_simps
      u64.read_write slot_transaction_stats.members_restrict slot_transaction_stats.build_members
      slot_transaction_stats.distinct_names distinct_filter)

interpretation slot_update_members: wire_struct members_slot_update
proof unfold_locales
  show "distinct (map fst (members_slot_update u))" for u by (cases u) simp_all
qed

interpretation slot_update: wire_value ser_slot_update read_slot_update "\<lambda>_. True"
  by unfold_locales (simp_all add: read_slot_update_write)

end
