(* ===== verification/Zela_Answers.thy ===== *)
theory Zela_Answers
  imports Zela_Client Zela_Wire_Accounts
begin

text \<open>
  Answers on their way to the caller: what a client method returns when the node answers
  with the JSON of a response and the method reads it with the derived reader. The lemmas
  are stated once in the contracts \<open>wire_format\<close> and \<open>struct_format\<close>.
\<close>

section \<open>A node that answers\<close>

text \<open>
  The node answers the request with the JSON value \<open>j\<close>: the parameters can be serialised, the
  host returns bytes that parse as \<open>j\<close>, and \<open>w'\<close> is the world after the call.
\<close>

definition node_answers ::
  "'h env \<Rightarrow> rpc_request \<Rightarrow> json \<Rightarrow> 'h world \<Rightarrow> json \<Rightarrow> 'h world \<Rightarrow> bool" where
  "node_answers E req params w j w' \<longleftrightarrow> structured params \<and>
     (case json_to_vec E params of Inl _ \<Rightarrow> False | Inr p \<Rightarrow>
       (case h_call_rpc E (method_name req) p (hstate w) of
          (Inr (Inr b), h) \<Rightarrow> json_from_slice E b = Inr j \<and>
             w' = w\<lparr>hstate := h, trace := trace w @ [EvCallRpc (method_name req) p]\<rparr>
        | _ \<Rightarrow> False))"

lemma node_answersE:
  assumes "node_answers E req params w j w'"
  obtains p b h where "structured params" "json_to_vec E params = Inr p"
    "h_call_rpc E (method_name req) p (hstate w) = (Inr (Inr b), h)"
    "json_from_slice E b = Inr j"
    "w' = w\<lparr>hstate := h, trace := trace w @ [EvCallRpc (method_name req) p]\<rparr>"
  using assms unfolding node_answers_def
  by (cases "json_to_vec E params"; cases "h_call_rpc E (method_name req) (projr (json_to_vec E params)) (hstate w)")
    (auto split: sum.splits)

lemma send_answered:
  assumes "node_answers E req params w j w'"
  shows "send E de req params w =
     (Done (map_err (\<lambda>err. new_with_request (SerdeJsonKind err) req) (de j)), w')"
  using assms
  by (rule node_answersE)
    (simp add: send_def send_result_def call_rpc_def host_call_rpc_def mapp_def bindp_def ret_def)

text \<open>The answer depends on the state of the host alone.\<close>

lemma node_answers_again:
  assumes "node_answers E req params w j w'" "hstate w1 = hstate w" "trace w1 = trace w"
  shows "\<exists>w2. node_answers E req params w1 j w2 \<and> hstate w2 = hstate w' \<and> trace w2 = trace w'"
  using assms(1)
proof (rule node_answersE)
  fix p b h
  assume "structured params" "json_to_vec E params = Inr p"
    "h_call_rpc E (method_name req) p (hstate w) = (Inr (Inr b), h)" "json_from_slice E b = Inr j"
    "w' = w\<lparr>hstate := h, trace := trace w @ [EvCallRpc (method_name req) p]\<rparr>"
  then show ?thesis
    by (intro exI [of _ "w1\<lparr>hstate := h, trace := trace w @ [EvCallRpc (method_name req) p]\<rparr>"])
      (simp add: node_answers_def assms(2,3))
qed

lemma node_answers_trace:
  "node_answers E req params w j w' \<Longrightarrow> \<exists>b. trace w' = trace w @ [EvCallRpc (method_name req) b]"
  by (erule node_answersE) simp

text \<open>A node may list the members in any order and add members the struct does not have.\<close>

definition carries ::
  "('c \<Rightarrow> (string \<times> json) list) \<Rightarrow> string list \<Rightarrow> 'c \<Rightarrow> (string \<times> json) list \<Rightarrow> bool" where
  "carries members names c ms \<longleftrightarrow> distinct (map fst ms) \<and>
     set (members c) \<subseteq> set ms \<and> (\<forall>(k, v) \<in> set ms - set (members c). k \<notin> set names)"

context wire_format
begin

lemma send_reads:
  "node_answers E req params w (ser x) w' \<Longrightarrow> wf x \<Longrightarrow>
     send E (de_of msg de) req params w = (Done (Inr x), w')"
  by (simp add: send_answered de_write)

end

context struct_format
begin

lemma read_carried:
  assumes "wf c" "carries members names c ms"
  shows "read_struct names build (JObject ms) = Some c"
proof (rule read_object [OF assms(1)])
  from assms(2) have d: "distinct (map fst ms)" and sub: "set (members c) \<subseteq> set ms"
    and out: "\<And>k v. (k, v) \<in> set ms \<Longrightarrow> k \<in> set names \<Longrightarrow> (k, v) \<in> set (members c)"
    by (auto simp: carries_def)
  from d show "distinct (filter (\<lambda>k. k \<in> set names) (map fst ms))" by (rule distinct_filter)
  show "map_of ms |` set names = map_of (members c)"
  proof
    fix k
    show "(map_of ms |` set names) k = map_of (members c) k"
    proof (cases "map_of (members c) k")
      case (Some v)
      then have "(k, v) \<in> set (members c)" by (rule map_of_SomeD)
      moreover from this have "k \<in> set names" using member_names [of c] by force
      ultimately show ?thesis using Some d sub by (auto simp: restrict_map_def)
    next
      case None
      have "map_of ms k = None" if "k \<in> set names"
      proof (rule ccontr)
        assume "map_of ms k \<noteq> None"
        then obtain v where "(k, v) \<in> set ms" by (auto dest: map_of_SomeD)
        with out that have "(k, v) \<in> set (members c)" by blast
        with None show False by (force simp: map_of_eq_None_iff)
      qed
      with None show ?thesis by (simp add: restrict_map_def)
    qed
  qed
qed

lemma carries_members: "carries members names c (members c)"
  using distinct_names by (auto simp: carries_def)

lemma send_reads_object:
  "node_answers E req params w (JObject ms) w' \<Longrightarrow> wf c \<Longrightarrow> carries members names c ms \<Longrightarrow>
     send E (de_of msg (read_struct names build)) req params w = (Done (Inr c), w')"
  by (simp add: send_answered de_of_def read_carried)

end

section \<open>Answers with and without a context\<close>

text \<open>
  A list of accounts is never taken for a response with a context: read as an array of two
  fields, its first element would have to be a context, and it has no slot.
\<close>

abbreviation read_keyed_accounts :: "foreign \<Rightarrow> json option \<Rightarrow> rpc_keyed_account list option" where
  "read_keyed_accounts F \<equiv> required (read_vec (read_rpc_keyed_account F))"

abbreviation ser_keyed_accounts :: "foreign \<Rightarrow> rpc_keyed_account list \<Rightarrow> json" where
  "ser_keyed_accounts F \<equiv> ser_vec (ser_rpc_keyed_account F)"

lemma keyed_account_no_context:
  "read_response_context F (ser_rpc_keyed_account F ka) = None"
  by (simp add: read_struct_def names_response_context_def members_rpc_keyed_account_def
      build_response_context_def wire_simps restrict_map_def)

lemma keyed_accounts_no_response:
  "read_response F field (ser_keyed_accounts F kas) = None"
proof (cases kas)
  case (Cons ka rest)
  have "build_response F field
      (map_of (zip names_response (map (ser_rpc_keyed_account F) kas))) = None"
    unfolding build_response_def Cons names_response_def list.map zip_Cons_Cons map_of.simps
    by (simp add: wire_simps keyed_account_no_context)
  then show ?thesis by (simp add: ser_vec_def read_struct_def)
qed (simp add: ser_vec_def read_struct_def names_response_def)

lemma read_keyed_accounts_write:
  "foreign_ok F \<Longrightarrow> list_all (wf_rpc_keyed_account F) kas \<Longrightarrow>
     read_vec (read_rpc_keyed_account F) (ser_keyed_accounts F kas) = Some kas"
  using value_read [OF value_vec [OF struct_value [OF rpc_keyed_account_format]]] .

definition wf_keyed_answer :: "foreign \<Rightarrow> rpc_keyed_account list optional_context \<Rightarrow> bool" where
  "wf_keyed_answer F oc \<longleftrightarrow> list_all (wf_rpc_keyed_account F) (parse_value oc) \<and>
     (case oc of Context r \<Rightarrow> wf_response_context F (rsp_context r) | NoContext _ \<Rightarrow> True)"

lemma keyed_answer_value:
  assumes "foreign_ok F"
  shows "wire_format (ser_optional_context (ser_keyed_accounts F))
     (read_optional_context F (read_keyed_accounts F)) (wf_keyed_answer F)"
proof unfold_locales
  fix oc
  assume wf: "wf_keyed_answer F oc"
  show "read_optional_context F (read_keyed_accounts F)
      (ser_optional_context (ser_keyed_accounts F) oc) = Some oc"
  proof (cases oc)
    case (Context r)
    have "read_response F (read_keyed_accounts F) (ser_response (ser_keyed_accounts F) r) = Some r"
      by (rule struct_format.read_members [OF response_format [where P = "list_all (wf_rpc_keyed_account F)"]])
        (use wf Context read_keyed_accounts_write [OF assms] in
          \<open>simp_all add: wf_keyed_answer_def wire_simps\<close>)
    with Context show ?thesis by (simp add: read_optional_context_eq)
  next
    case (NoContext kas)
    with wf show ?thesis
      by (simp add: read_optional_context_eq keyed_accounts_no_response wire_simps
          wf_keyed_answer_def read_keyed_accounts_write [OF assms])
  qed
qed

section \<open>Responses\<close>

lemmas foreign_structs =
  rpc_blockhash_fee_calculator_format
  rpc_fee_calculator_format
  rpc_fee_rate_governor_format
  rpc_keyed_account_format
  processed_signature_result_format
  rpc_logs_response_format
  rpc_contact_info_format
  rpc_signature_confirmation_format
  rpc_simulate_transaction_result_format
  rpc_confirmed_transaction_status_format
  rpc_block_update_format

lemma read_slot_update_positions:
  "read_slot_update (JArray (map snd (members_slot_update u))) = Some u"
  by (cases u) (simp_all add: read_slot_update_def read_variants read_struct_def wire_simps
      u64.read_write slot_transaction_stats.members_restrict slot_transaction_stats.build_members
      slot_transaction_stats.distinct_names distinct_filter)

lemma read_signature_result_string:
  "read_rpc_signature_result F (JString s) =
     (if s = ''receivedSignature'' then Some (ReceivedSignature SignatureReceived) else None)"
  by (simp add: read_rpc_signature_result_def read_struct_def read_received_signature_result_def)

lemma no_err_key: "map_of (filter (\<lambda>(k, _). k \<noteq> ''err'') ms) ''err'' = None"
  "filter (\<lambda>k. k = ''err'') (map fst (filter (\<lambda>(k, _). k \<noteq> ''err'') ms)) = []"
  by (induction ms) auto

lemma read_signature_result_no_err:
  "read_rpc_signature_result F (JObject (filter (\<lambda>(k, _). k \<noteq> ''err'') ms)) =
     Some (ProcessedSignature \<lparr>psr_err = None\<rparr>)"
  by (simp add: read_rpc_signature_result_def read_struct_def
      names_processed_signature_result_def build_processed_signature_result_def no_err_key
      restrict_map_def wire_simps)

lemma read_signature_result_err:
  "read_rpc_signature_result F (JObject ((''err'', j) # filter (\<lambda>(k, _). k \<noteq> ''err'') ms)) =
     map_option (\<lambda>e. ProcessedSignature \<lparr>psr_err = e\<rparr>)
       (read_opt (codec_de (f_transaction_error F)) j)"
proof -
  have v: "read_received_signature_result (JObject ((''err'', j) # rest)) = None" for rest
    by (cases j; cases rest) (simp_all add: read_received_signature_result_def)
  show ?thesis
    by (cases "read_opt (codec_de (f_transaction_error F)) j")
      (simp_all add: read_rpc_signature_result_def read_struct_def v
        names_processed_signature_result_def build_processed_signature_result_def no_err_key
        restrict_map_def wire_simps)
qed

section \<open>Formats of the witnesses\<close>

text \<open>A format of one value, for the types of other crates.\<close>

definition sample_codec :: "'a \<Rightarrow> 'a codec" where
  "sample_codec x = \<lparr>codec_ser = (\<lambda>_. JBool True), codec_de = (\<lambda>_. Some x),
     codec_valid = (\<lambda>y. y = x)\<rparr>"

lemma sample_codec_ok: "codec_ok (sample_codec x)"
  by (simp add: codec_ok_def sample_codec_def)

definition sample_foreign :: foreign where
  "sample_foreign = \<lparr>
     f_transaction_error = sample_codec (TransactionError (JBool True)),
     f_ui_account = sample_codec sample_account,
     f_fee_calculator = sample_codec (FeeCalculator JNull),
     f_fee_rate_governor = sample_codec (FeeRateGovernor JNull),
     f_socket_addr = sample_codec (SocketAddr ''127.0.0.1:80''),
     f_inner_instructions = sample_codec (UiInnerInstructions JNull),
     f_return_data = sample_codec (UiReturnData JNull),
     f_confirmed_block = sample_codec (UiConfirmedBlock JNull),
     f_confirmation_status = sample_codec StatusFinalized,
     f_token_amount_members = (\<lambda>_. [(''decimals'', ser_u8 9)]),
     f_token_amount_read = (\<lambda>_. Some (UiTokenAmount [])),
     f_token_amount_valid = (\<lambda>a. a = UiTokenAmount []),
     f_version_from_str = (\<lambda>s. Some s)\<rparr>"

lemma sample_foreign_ok: "foreign_ok sample_foreign"
  by (simp add: foreign_ok_def sample_foreign_def sample_codec_ok)

section \<open>Properties\<close>

lemma keyed_answer_wire_value:
  assumes "foreign_ok F"
  shows "wire_value (ser_optional_context (ser_keyed_accounts F))
     (read_optional_context F (read_keyed_accounts F)) (wf_keyed_answer F)"
proof (rule wire_value.intro [OF keyed_answer_value [OF assms]], unfold_locales)
  show "ser_optional_context (ser_keyed_accounts F) answer \<noteq> JNull" for answer
    by (cases answer) (simp_all add: ser_vec_def)
qed

text \<open>
  C12: every type of \<open>response.rs\<close> that is written and read as JSON is read back
  from what it is written as, where the types of other crates are, and is never written as
  \<open>null\<close>: the generic \<open>Response<T>\<close>, of any type that is so itself or of an \<open>Option\<close> of it,
  \<open>RpcBlockCommitment<T>\<close>, the structs, the map of leader schedules, and the enums, tagged,
  untagged and plain. \<open>OptionalContext<T>\<close> is so for the accounts it is used with. The condition
  on a value is only that its floating point numbers are finite, its maps have distinct keys
  and its foreign parts are valid.
\<close>

theorem responses_round_trip:
  assumes "foreign_ok F" and "wire_value (ser :: 't \<Rightarrow> json) de P"
  shows "wire_value (ser_response ser) (read_response F (required de))
       (\<lambda>r. wf_response_context F (rsp_context r) \<and> P (rsp_value r)) \<and>
    wire_value (ser_response (ser_opt ser)) (read_response F (optional de))
       (\<lambda>r. wf_response_context F (rsp_context r) \<and> pred_option P (rsp_value r)) \<and>
    wire_value (ser_optional_context (ser_keyed_accounts F))
       (read_optional_context F (read_keyed_accounts F)) (wf_keyed_answer F) \<and>
    wire_value ser_response_context (read_response_context F) (wf_response_context F) \<and>
    wire_value ser_rpc_api_version (read_rpc_api_version F) (wf_rpc_api_version F) \<and>
    wire_value (\<lambda>c. JObject (members_rpc_block_commitment ser c))
       (read_struct names_rpc_block_commitment (build_rpc_block_commitment de))
       (\<lambda>c. pred_option P (bc_commitment c)) \<and>
    wire_value ser_slot_update read_slot_update (\<lambda>_. True) \<and>
    wire_value ser_slot_transaction_stats read_slot_transaction_stats (\<lambda>_. True) \<and>
    wire_value (ser_processed_signature_result F) (read_processed_signature_result F)
       (wf_processed_signature_result F) \<and>
    wire_value ser_received_signature_result read_received_signature_result (\<lambda>_. True) \<and>
    wire_value ser_rpc_block_production_range read_rpc_block_production_range (\<lambda>_. True) \<and>
    wire_value ser_rpc_vote_account_info read_rpc_vote_account_info (\<lambda>_. True) \<and>
    wire_value ser_block_update_error read_block_update_error (\<lambda>_. True) \<and>
    wire_value ser_rpc_blockhash read_rpc_blockhash (\<lambda>_. True) \<and>
    wire_value (ser_rpc_blockhash_fee_calculator F) (read_rpc_blockhash_fee_calculator F)
       (wf_rpc_blockhash_fee_calculator F) \<and>
    wire_value (ser_rpc_fee_calculator F) (read_rpc_fee_calculator F) (wf_rpc_fee_calculator F) \<and>
    wire_value (ser_rpc_fee_rate_governor F) (read_rpc_fee_rate_governor F)
       (wf_rpc_fee_rate_governor F) \<and>
    wire_value ser_rpc_inflation_governor read_rpc_inflation_governor wf_rpc_inflation_governor \<and>
    wire_value ser_rpc_inflation_rate read_rpc_inflation_rate wf_rpc_inflation_rate \<and>
    wire_value ser_rpc_inflation_reward read_rpc_inflation_reward (\<lambda>_. True) \<and>
    wire_value ser_rpc_prioritization_fee read_rpc_prioritization_fee (\<lambda>_. True) \<and>
    wire_value ser_slot_info read_slot_info (\<lambda>_. True) \<and>
    wire_value (ser_rpc_contact_info F) (read_rpc_contact_info F) (wf_rpc_contact_info F) \<and>
    wire_value ser_rpc_leader_schedule read_rpc_leader_schedule (\<lambda>m. distinct (map fst m)) \<and>
    wire_value ser_rpc_block_production read_rpc_block_production wf_rpc_block_production \<and>
    wire_value ser_rpc_version_info read_rpc_version_info (\<lambda>_. True) \<and>
    wire_value ser_rpc_identity read_rpc_identity (\<lambda>_. True) \<and>
    wire_value ser_rpc_vote read_rpc_vote (\<lambda>_. True) \<and>
    wire_value ser_rpc_vote_account_status read_rpc_vote_account_status (\<lambda>_. True) \<and>
    wire_value ser_rpc_perf_sample read_rpc_perf_sample (\<lambda>_. True) \<and>
    wire_value ser_rpc_storage_turn read_rpc_storage_turn (\<lambda>_. True) \<and>
    wire_value ser_rpc_snapshot_slot_info read_rpc_snapshot_slot_info (\<lambda>_. True) \<and>
    wire_value (ser_rpc_block_update F) (read_rpc_block_update F) (wf_rpc_block_update F) \<and>
    wire_value (ser_rpc_logs_response F) (read_rpc_logs_response F) (wf_rpc_logs_response F) \<and>
    wire_value (ser_rpc_signature_result F) (read_rpc_signature_result F)
       (wf_rpc_signature_result F) \<and>
    wire_value (ser_rpc_signature_confirmation F) (read_rpc_signature_confirmation F)
       (wf_rpc_signature_confirmation F) \<and>
    wire_value (ser_rpc_keyed_account F) (read_rpc_keyed_account F) (wf_rpc_keyed_account F) \<and>
    wire_value (ser_rpc_simulate_transaction_result F) (read_rpc_simulate_transaction_result F)
       (wf_rpc_simulate_transaction_result F) \<and>
    wire_value ser_rpc_account_balance read_rpc_account_balance (\<lambda>_. True) \<and>
    wire_value ser_rpc_supply read_rpc_supply (\<lambda>_. True) \<and>
    wire_value (\<lambda>c. JObject (members_rpc_token_account_balance F c))
       (read_rpc_token_account_balance F) (\<lambda>c. f_token_amount_valid F (tab_amount c)) \<and>
    wire_value (ser_rpc_confirmed_transaction_status F) (read_rpc_confirmed_transaction_status F)
       (wf_rpc_confirmed_transaction_status F) \<and>
    wire_value ser_stake_activation_state read_stake_activation_state (\<lambda>_. True)"
  by (intro conjI response_value [OF assms(2)] response_opt_value [OF assms(2)]
      keyed_answer_wire_value [OF assms(1)] response_context_wire.wire_value_axioms
      rpc_api_version_value struct_value [OF rpc_block_commitment_format [OF assms(2)]]
      slot_update.wire_value_axioms slot_transaction_stats.wire_value_axioms
      received_signature_result.wire_value_axioms rpc_block_production_range.wire_value_axioms
      rpc_vote_account_info.wire_value_axioms block_update_error.wire_value_axioms
      rpc_blockhash.wire_value_axioms rpc_inflation_governor.wire_value_axioms
      rpc_inflation_rate.wire_value_axioms rpc_inflation_reward.wire_value_axioms
      rpc_prioritization_fee.wire_value_axioms slot_info.wire_value_axioms
      rpc_leader_schedule.wire_value_axioms rpc_block_production.wire_value_axioms
      rpc_version_info.wire_value_axioms rpc_identity.wire_value_axioms rpc_vote.wire_value_axioms
      rpc_vote_account_status.wire_value_axioms rpc_perf_sample.wire_value_axioms
      rpc_storage_turn.wire_value_axioms rpc_snapshot_slot_info.wire_value_axioms
      rpc_account_balance.wire_value_axioms rpc_supply.wire_value_axioms
      stake_activation_state.wire_value_axioms rpc_signature_result_value [OF assms(1)]
      rpc_token_account_balance_value [OF assms(1)]
      foreign_structs [OF assms(1), THEN struct_value])

lemma responses_round_trip_witness:
  "read_rpc_logs_response sample_foreign (ser_rpc_logs_response sample_foreign
     \<lparr>lr_signature = ''s'', lr_err = Some (TransactionError (JBool True)), lr_logs = [''a'']\<rparr>) =
   Some \<lparr>lr_signature = ''s'', lr_err = Some (TransactionError (JBool True)), lr_logs = [''a'']\<rparr>"
proof -
  have "wire_value (ser_rpc_logs_response sample_foreign) (read_rpc_logs_response sample_foreign)
      (wf_rpc_logs_response sample_foreign)"
    using responses_round_trip [OF sample_foreign_ok u64.wire_value_axioms] by (elim conjE)
  then show ?thesis
    by (rule value_read) (simp add: wf_rpc_logs_response_def sample_foreign_def sample_codec_def)
qed

text \<open>
  A slot update is read back from the object it is written as and
  from the array of its tag and fields, and the object names the slot it is about.
\<close>

theorem slot_update_round_trip:
  "read_slot_update (ser_slot_update u) = Some u \<and>
   read_slot_update (JArray (map snd (members_slot_update u))) = Some u \<and>
   member_of (ser_slot_update u) ''slot'' = Some (ser_u64 (slot_update_slot u))"
proof (intro conjI)
  show "member_of (ser_slot_update u) ''slot'' = Some (ser_u64 (slot_update_slot u))"
    by (cases u) simp_all
qed (rule read_slot_update_write read_slot_update_positions)+

text \<open>
  What a signature notification is read as: the text
  \<open>receivedSignature\<close> as a received signature; any object without the member \<open>err\<close>, whatever
  else it holds, as a transaction that was processed without an error; an object with it as
  the error it holds, or not at all.
\<close>

theorem signature_result_reads:
  "read_rpc_signature_result F (JString s) =
     (if s = ''receivedSignature'' then Some (ReceivedSignature SignatureReceived) else None) \<and>
   read_rpc_signature_result F (JObject (filter (\<lambda>(k, _). k \<noteq> ''err'') ms)) =
     Some (ProcessedSignature \<lparr>psr_err = None\<rparr>) \<and>
   read_rpc_signature_result F (JObject ((''err'', j) # filter (\<lambda>(k, _). k \<noteq> ''err'') ms)) =
     map_option (\<lambda>e. ProcessedSignature \<lparr>psr_err = e\<rparr>)
       (read_opt (codec_de (f_transaction_error F)) j)"
  using read_signature_result_string read_signature_result_no_err read_signature_result_err
  by blast

text \<open>
  C28: \<open>get_program_accounts_with_config\<close> asks under the caller's options, the
  client's commitment filled in where they name none. A list of accounts the node answers with,
  with or without a context around it, is what the method parses and returns: the untagged
  \<open>OptionalContext\<close> never takes a bare list for a response or the other way round.
\<close>

theorem program_accounts_answer:
  assumes "foreign_ok F" and "wf_keyed_answer F answer"
    and "node_answers E GetProgramAccounts (JArray [JString (pubkey_to_string E pubkey),
        JObject (members_program_accounts_config E (config\<lparr>pac_account_config :=
          (pac_account_config config)\<lparr>aic_commitment :=
            Some (case aic_commitment (pac_account_config config) of
              Some c \<Rightarrow> c | None \<Rightarrow> commitment self)\<rparr>\<rparr>))]) w
      (ser_optional_context (ser_keyed_accounts F) answer) w'"
  shows "get_program_accounts_with_config E
      (de_of msg (read_optional_context F (read_keyed_accounts F))) self pubkey config w =
    (Done (parse_keyed_accounts E (parse_value answer) GetProgramAccounts), w')"
  unfolding get_program_accounts_with_config_def Let_def
  by (simp only: wire_format.send_reads [OF keyed_answer_value [OF assms(1)] assms(3,2)]
      tryp_def bindp_def prod.case outcome.case sum.case ret_def)

text \<open>
  Whatever order the node lists the members in, and whatever members it
  adds, \<open>get_vote_accounts_with_config\<close> returns the status they carry, after one call.
\<close>

theorem vote_accounts_answer:
  assumes "node_answers E GetVoteAccounts
      (JArray [JObject (members_get_vote_accounts_config E config)]) w (JObject ms) w'"
    and "carries members_rpc_vote_account_status names_rpc_vote_account_status status ms"
  shows "get_vote_accounts_with_config E (de_of msg read_rpc_vote_account_status) config w =
    (Done (Inr status), w')"
  unfolding get_vote_accounts_with_config_def
  using assms(1) _ assms(2) by (rule rpc_vote_account_status.send_reads_object) simp

text \<open>Nodes for the witnesses, which answer every call with one JSON value.\<close>

lemma program_accounts_answer_witness:
  "get_program_accounts_with_config (sample_env\<lparr>json_from_slice := \<lambda>_. Inr (JArray [])\<rparr>)
      (de_of (\<lambda>_. SerdeError ''e'') (read_optional_context sample_foreign (read_keyed_accounts sample_foreign)))
      sample_client (Pubkey [1]) (default_program_accounts_config\<lparr>pac_account_config :=
        default_account_info_config\<rparr>)
      (sample_world [sample_reply []]) =
    (Done (Inr []), (sample_world [])\<lparr>trace := [EvCallRpc ''getProgramAccounts'' []]\<rparr>)"
proof -
  let ?E = "sample_env\<lparr>json_from_slice := \<lambda>_. Inr (JArray [])\<rparr>"
  let ?cfg = "default_program_accounts_config\<lparr>pac_account_config :=
    default_account_info_config\<lparr>aic_commitment := Some (commitment sample_client)\<rparr>\<rparr>"
  have "node_answers ?E GetProgramAccounts (JArray [JString (pubkey_to_string ?E (Pubkey [1])),
        JObject (members_program_accounts_config ?E ?cfg)]) (sample_world [sample_reply []])
      (ser_optional_context (ser_keyed_accounts sample_foreign) (NoContext []))
      ((sample_world [])\<lparr>trace := [EvCallRpc ''getProgramAccounts'' []]\<rparr>)"
    by (simp add: node_answers_def sample_world_def sample_reply_def ser_vec_def)
  then show ?thesis
    using program_accounts_answer [OF sample_foreign_ok, where answer = "NoContext []" and E = ?E and
        pubkey = "Pubkey [1]" and self = sample_client and config =
        "default_program_accounts_config\<lparr>pac_account_config := default_account_info_config\<rparr>"]
    by (simp add: wf_keyed_answer_def parse_keyed_accounts_def default_account_info_config_def)
qed

lemma vote_accounts_answer_witness:
  "get_vote_accounts_with_config (sample_env\<lparr>json_from_slice := \<lambda>_. Inr (JObject
        [(''delinquent'', JArray []), (''new'', JNull), (''current'', JArray [])])\<rparr>)
      (de_of (\<lambda>_. SerdeError ''e'') read_rpc_vote_account_status) default_get_vote_accounts_config
      (sample_world [sample_reply []]) =
    (Done (Inr \<lparr>vs_current = [], vs_delinquent = []\<rparr>),
     (sample_world [])\<lparr>trace := [EvCallRpc ''getVoteAccounts'' []]\<rparr>)"
proof (rule vote_accounts_answer)
  show "node_answers (sample_env\<lparr>json_from_slice := \<lambda>_. Inr (JObject
        [(''delinquent'', JArray []), (''new'', JNull), (''current'', JArray [])])\<rparr>) GetVoteAccounts
      (JArray [JObject (members_get_vote_accounts_config (sample_env\<lparr>json_from_slice := \<lambda>_. Inr (JObject
        [(''delinquent'', JArray []), (''new'', JNull), (''current'', JArray [])])\<rparr>)
        default_get_vote_accounts_config)])
      (sample_world [sample_reply []])
      (JObject [(''delinquent'', JArray []), (''new'', JNull), (''current'', JArray [])])
      ((sample_world [])\<lparr>trace := [EvCallRpc ''getVoteAccounts'' []]\<rparr>)"
    by (simp add: node_answers_def sample_world_def sample_reply_def)
  show "carries members_rpc_vote_account_status names_rpc_vote_account_status
      \<lparr>vs_current = [], vs_delinquent = []\<rparr>
      [(''delinquent'', JArray []), (''new'', JNull), (''current'', JArray [])]"
    by (auto simp: carries_def members_rpc_vote_account_status_def
        names_rpc_vote_account_status_def ser_vec_def)
qed

end
