(* ===== verification/Zela_Streams.thy ===== *)
theory Zela_Streams
  imports Zela_Pubsub Zela_Answers "HOL-Library.Stream"
begin

text \<open>
  A subscription as the messages it will give, and the stream over it
  (\<open>src/rpc_client/pubsub.rs\<close>) as its refinement: polling the stream is taking the next message,
  and a consumer that reads to the end is given the readable messages in their order.
\<close>

section \<open>The messages of a subscription\<close>

type_synonym message = "u32 + u8 list"
type_synonym 'h inboxes = "'h \<Rightarrow> subscription_handle \<Rightarrow> message stream"

text \<open>
  What the code relies on of a host. A receive waits for the next message of its subscription
  (\<open>src/zela.wit\<close>), so what a subscription answers, receive by receive, is a stream that never is
  empty: each receive answers with the first element and takes it away, and nothing else takes
  any. An element is the bytes of a message, or the errno of a receive that failed. A receive
  that waits for ever has no outcome in the model: \<open>h_recv\<close> stands for the one that returns.
\<close>

definition inbox_host :: "'h env \<Rightarrow> 'h inboxes \<Rightarrow> bool" where
  "inbox_host E q \<longleftrightarrow>
     (\<forall>s h. fst (h_recv E s h) = shd (q h s) \<and> q (snd (h_recv E s h)) = (q h)(s := stl (q h s))) \<and>
     (\<forall>msg h. q (h_log E msg h) = q h)"

section \<open>The stream as it is meant\<close>

fun readable :: "(u8 list \<Rightarrow> serde_error + 'n) \<Rightarrow> message \<Rightarrow> 'n option" where
  "readable de (Inr b) = (case de b of Inr n \<Rightarrow> Some n | Inl _ \<Rightarrow> None)"
| "readable de (Inl _) = None"

text \<open>The values of all messages before the first unreadable one.\<close>

definition front :: "(u8 list \<Rightarrow> serde_error + 'n) \<Rightarrow> message stream \<Rightarrow> 'n list \<Rightarrow> bool" where
  "front de ms xs \<longleftrightarrow> map Some xs = map (readable de) (stake (length xs) ms) \<and>
     readable de (ms !! length xs) = None"

lemma front_Nil: "front de ms [] \<longleftrightarrow> readable de (shd ms) = None"
  by (simp add: front_def)

lemma front_Cons: "front de ms (x # xs) \<longleftrightarrow> readable de (shd ms) = Some x \<and> front de (stl ms) xs"
  by (auto simp: front_def)

lemma front_unique: "front de ms xs \<Longrightarrow> front de ms ys \<Longrightarrow> xs = ys"
proof (induction xs arbitrary: ms ys)
  case Nil
  then show ?case by (cases ys) (auto simp: front_Nil front_Cons)
next
  case (Cons x xs)
  then show ?case by (cases ys) (auto simp: front_Nil front_Cons)
qed

declare subscription_recv.simps [simp del]

section \<open>Polling refines taking\<close>

lemma poll_next_takes:
  assumes "inbox_host E q" and "ps_subscription self = Subscription s"
  shows "\<exists>w'. poll_next E de self w = (Done (Ready (readable de (shd (q (hstate w) s)))), w') \<and>
    q (hstate w') = (q (hstate w))(s := stl (q (hstate w) s))"
proof -
  obtain r h where rh: "h_recv E s (hstate w) = (r, h)" by (cases "h_recv E s (hstate w)")
  let ?ms = "q (hstate w) s" and ?w = "w\<lparr>hstate := h, trace := trace w @ [EvRecv s]\<rparr>"
  have r: "shd ?ms = r" and h: "q h = (q (hstate w))(s := stl ?ms)"
    and l: "q (h_log E msg h') = q h'" for msg h'
    using assms(1) rh unfolding inbox_host_def by (metis fst_conv, metis snd_conv, blast)
  have log: "\<exists>w'. bindp (log_at E lvl tgt args) (\<lambda>_. ret x) ?w = (Done x, w') \<and> q (hstate w') = q h"
    for lvl tgt args and x :: "'b option poll"
    by (simp add: log_at_def host_log_def bindp_def ret_def l split: option.split)
  have run: "poll_next E de self w = (case readable de r of
      Some n \<Rightarrow> (Done (Ready (Some n)), ?w)
    | None \<Rightarrow> bindp (log_at E LevelTrace pubsub_target
        (''Failed to receive a subscription notification: '' @ show_io_error E
           (case r of Inl errno \<Rightarrow> RawOsError errno
              | Inr b \<Rightarrow> IoCustom InvalidInput (projl (de b))))) (\<lambda>_. ret (Ready None)) ?w)"
    using assms(2) rh
    by (cases r) (simp_all add: poll_next_def subscription_recv_step bindp_def ret_def split: sum.split)
  show ?thesis
  proof (cases "readable de r")
    case None
    with run log [of LevelTrace pubsub_target] obtain w' where
      "poll_next E de self w = (Done (Ready None), w')" "q (hstate w') = q h"
      by fastforce
    with None r h show ?thesis by auto
  next
    case (Some n)
    have "poll_next E de self w = (Done (Ready (Some n)), ?w)"
      unfolding run Some option.case by (rule refl)
    with Some r h show ?thesis by simp
  qed
qed

text \<open>
  A consumer that has taken \<open>fuel\<close> messages at most: either it has reached the end, with all
  values before it, or all it took was readable.
\<close>

lemma drain_delivers:
  fixes de :: "u8 list \<Rightarrow> serde_error + 'n"
  assumes "inbox_host E q" and "ps_subscription self = Subscription s"
  defines "body \<equiv> \<lambda>acc. bindp (poll_next E de self) (\<lambda>p. ret (case p of
       Pending \<Rightarrow> Inl acc | Ready (Some v) \<Rightarrow> Inl (acc @ [v]) | Ready None \<Rightarrow> Inr acc))"
  shows "(\<exists>xs w'. loop body fuel acc w = (Done (acc @ xs), w') \<and> length xs < fuel \<and>
      front de (q (hstate w) s) xs \<and>
      q (hstate w') = (q (hstate w))(s := sdrop (Suc (length xs)) (q (hstate w) s))) \<or>
    (\<exists>w'. loop body fuel acc w = (NoFuel, w') \<and>
      list_all (\<lambda>m. readable de m \<noteq> None) (stake fuel (q (hstate w) s)) \<and>
      q (hstate w') = (q (hstate w))(s := sdrop fuel (q (hstate w) s)))"
proof (induction fuel arbitrary: w acc)
  case (Suc fuel)
  let ?ms = "q (hstate w) s"
  obtain w1 where w1: "poll_next E de self w = (Done (Ready (readable de (shd ?ms))), w1)"
    "q (hstate w1) = (q (hstate w))(s := stl ?ms)"
    using poll_next_takes [OF assms(1,2)] by blast
  show ?case
  proof (cases "readable de (shd ?ms)")
    case None
    with w1 have "loop body (Suc fuel) acc w = (Done (acc @ []), w1)" "front de ?ms []"
      by (simp_all add: body_def bindp_def ret_def front_Nil)
    with w1(2) show ?thesis by (intro disjI1 exI [of _ "[]"] exI [of _ w1]) simp
  next
    case (Some n)
    with w1 have step: "loop body (Suc fuel) acc w = loop body fuel (acc @ [n]) w1"
      by (simp add: body_def bindp_def ret_def)
    from w1(2) have q1: "q (hstate w1) s = stl ?ms" by simp
    from Suc.IH [of "acc @ [n]" w1] show ?thesis
    proof
      assume "\<exists>xs w'. loop body fuel (acc @ [n]) w1 = (Done ((acc @ [n]) @ xs), w') \<and>
        length xs < fuel \<and> front de (q (hstate w1) s) xs \<and>
        q (hstate w') = (q (hstate w1))(s := sdrop (Suc (length xs)) (q (hstate w1) s))"
      then obtain xs w' where "loop body fuel (acc @ [n]) w1 = (Done (acc @ n # xs), w')"
        "length xs < fuel" "front de (stl ?ms) xs"
        "q (hstate w') = (q (hstate w))(s := sdrop (Suc (length (n # xs))) ?ms)"
        by (auto simp: w1(2))
      with Some step show ?thesis
        by (intro disjI1 exI [of _ "n # xs"] exI [of _ w']) (simp add: front_Cons)
    next
      assume "\<exists>w'. loop body fuel (acc @ [n]) w1 = (NoFuel, w') \<and>
        list_all (\<lambda>m. readable de m \<noteq> None) (stake fuel (q (hstate w1) s)) \<and>
        q (hstate w') = (q (hstate w1))(s := sdrop fuel (q (hstate w1) s))"
      with Some step show ?thesis by (intro disjI2) (auto simp: w1(2))
    qed
  qed
qed (simp add: fun_upd_def)

lemma drain_result:
  assumes "inbox_host E q" and "ps_subscription self = Subscription s"
  shows "(\<exists>xs w'. drain E de self fuel w = (Done xs, w') \<and> length xs < fuel \<and>
      front de (q (hstate w) s) xs \<and>
      q (hstate w') = (q (hstate w))(s := sdrop (Suc (length xs)) (q (hstate w) s))) \<or>
    (\<exists>w'. drain E de self fuel w = (NoFuel, w') \<and>
      list_all (\<lambda>m. readable de m \<noteq> None) (stake fuel (q (hstate w) s)) \<and>
      q (hstate w') = (q (hstate w))(s := sdrop fuel (q (hstate w) s)))"
  using drain_delivers [OF assms, of de fuel "[]" w] unfolding drain_def by simp

text \<open>Enough fuel for what comes before the end gives it.\<close>

lemma drain_front:
  assumes "inbox_host E q" and "ps_subscription self = Subscription s"
    and "front de (q (hstate w) s) xs" and "length xs < fuel"
  shows "fst (drain E de self fuel w) = Done xs"
proof -
  let ?ms = "q (hstate w) s"
  have "\<not> list_all (\<lambda>m. readable de m \<noteq> None) (stake fuel ?ms)"
  proof
    assume "list_all (\<lambda>m. readable de m \<noteq> None) (stake fuel ?ms)"
    with assms(4) have "readable de (?ms !! length xs) \<noteq> None"
      by (simp add: list_all_length stake_nth)
    with assms(3) show False by (simp add: front_def)
  qed
  with drain_result [OF assms(1,2), of de fuel w] obtain ys where
    "fst (drain E de self fuel w) = Done ys" "front de ?ms ys" by auto
  with front_unique [OF assms(3)] show ?thesis by simp
qed

section \<open>Notifications on the wire\<close>

text \<open>The reader of a stream over a type: the bytes are parsed, and the value is read.\<close>

definition de_notification ::
  "'h env \<Rightarrow> (json \<Rightarrow> serde_error + 'n) \<Rightarrow> u8 list \<Rightarrow> serde_error + 'n" where
  "de_notification E de b = and_then de (json_from_slice E b)"

context wire_format
begin

lemma read_all_messages:
  "list_all2 (\<lambda>m x. wf x \<and> (\<exists>b. m = Inr b \<and> json_from_slice E b = Inr (ser x))) ms xs \<Longrightarrow>
     map (readable (de_notification E (de_of msg de))) ms = map Some xs"
proof (induction rule: list_all2_induct)
  case (Cons m ms x xs)
  then show ?case by (auto simp: de_notification_def de_write)
qed simp

end

section \<open>Properties\<close>

text \<open>
  Polling a stream is taking the next message of its subscription: the
  consumer is given the notification it reads as, or the end where it cannot be read; the
  message is gone either way, and no other subscription loses one. It never is pending.
\<close>

theorem poll_takes_message:
  assumes "inbox_host E q" and "ps_subscription self = Subscription s"
  shows "(case poll_next E de self w of
      (Done (Ready n), w') \<Rightarrow>
        n = readable de (shd (q (hstate w) s)) \<and> q (hstate w') s = stl (q (hstate w) s) \<and>
        (\<forall>t. t \<noteq> s \<longrightarrow> q (hstate w') t = q (hstate w) t)
    | _ \<Rightarrow> False)"
  using poll_next_takes [OF assms, of de w] by auto

text \<open>A host whose script is what one subscription answers.\<close>

definition script_message :: "u32 + wit_rpc_error + u8 list \<Rightarrow> message" where
  "script_message r = (case r of Inr (Inr b) \<Rightarrow> Inr b | _ \<Rightarrow> Inl 5)"

definition inbox_env :: "sample_state env" where
  "inbox_env = sample_env\<lparr>
     h_recv := (\<lambda>s (t, rs). if s = SubscriptionHandle 1
        then (case rs of [] \<Rightarrow> (Inl 0, (t, [])) | r # rest \<Rightarrow> (script_message r, (t, rest)))
        else (Inl 0, (t, rs))),
     json_from_slice := (\<lambda>b. Inr (ser_slot_update (Root 7 8)))\<rparr>"

definition inbox_of :: "sample_state inboxes" where
  "inbox_of h s = (if s = SubscriptionHandle 1 then map script_message (snd h) @- sconst (Inl 0)
     else sconst (Inl 0))"

lemma inbox_env_host: "inbox_host inbox_env inbox_of"
  by (auto simp: inbox_host_def inbox_env_def sample_env_def inbox_of_def fun_eq_iff split: list.split)

lemma poll_takes_message_witness:
  "(case poll_next inbox_env Inr \<lparr>ps_subscription = Subscription (SubscriptionHandle 1)\<rparr>
      (sample_world [sample_reply [4, 2], sample_reply [1]]) of
     (Done (Ready n), w') \<Rightarrow> n = Some [4, 2] \<and> inbox_of (hstate w') (SubscriptionHandle 1) = Inr [1] ## sconst (Inl 0)
   | _ \<Rightarrow> False)"
  using poll_takes_message [OF inbox_env_host, of "\<lparr>ps_subscription = Subscription (SubscriptionHandle 1)\<rparr>"
      "SubscriptionHandle 1" Inr "sample_world [sample_reply [4, 2], sample_reply [1]]"]
  by (auto simp: sample_world_def sample_reply_def script_message_def inbox_of_def
      split: prod.splits outcome.splits poll.splits if_splits)

text \<open>
  C7: on a host where a receive takes the next message of its subscription, a consumer
  that reads a stream to its first end is given the values of exactly the messages before the
  first that failed or cannot be read, in their order, none twice and none left out; that
  message is taken too, what comes after it stays, and no other subscription loses any. The
  consumer goes on, and is not at an end, exactly as long as every message it took was readable.
\<close>

theorem stream_delivers:
  assumes "inbox_host E q" and "ps_subscription self = Subscription s"
  shows "let messages = q (hstate w) s in
    (case drain E de self fuel w of
       (Done xs, w') \<Rightarrow> length xs < fuel \<and>
         map Some xs = map (readable de) (stake (length xs) messages) \<and>
         readable de (messages !! length xs) = None \<and>
         q (hstate w') = (q (hstate w))(s := sdrop (Suc (length xs)) messages)
     | (NoFuel, w') \<Rightarrow>
         list_all (\<lambda>m. readable de m \<noteq> None) (stake fuel messages) \<and>
         q (hstate w') = (q (hstate w))(s := sdrop fuel messages)
     | (Panicked p, w') \<Rightarrow> False)"
  using drain_result [OF assms, of de fuel w] by (auto simp: Let_def front_def)

lemma stream_delivers_witness:
  "fst (drain inbox_env Inr \<lparr>ps_subscription = Subscription (SubscriptionHandle 1)\<rparr> 4
     (sample_world [sample_reply [4], Inl 5, sample_reply [6]])) = Done [[4]]"
proof -
  let ?w = "sample_world [sample_reply [4], Inl 5, sample_reply [6]]"
  let ?d = "drain inbox_env Inr \<lparr>ps_subscription = Subscription (SubscriptionHandle 1)\<rparr> 4 ?w"
  have ms: "inbox_of (hstate ?w) (SubscriptionHandle 1) = Inr [4] ## Inl 5 ## Inr [6] ## sconst (Inl 0)"
    by (simp add: inbox_of_def sample_world_def sample_reply_def script_message_def)
  obtain out w' where d: "?d = (out, w')" by (cases ?d)
  from stream_delivers [OF inbox_env_host, where fuel = 4 and de = Inr and w = ?w and
      self = "\<lparr>ps_subscription = Subscription (SubscriptionHandle 1)\<rparr>" and s = "SubscriptionHandle 1"] d
  obtain xs where "out = Done xs" "front Inr (inbox_of (hstate ?w) (SubscriptionHandle 1)) xs"
    by (cases out) (auto simp: Let_def front_def ms eval_nat_numeral)
  moreover have "front Inr (inbox_of (hstate ?w) (SubscriptionHandle 1)) [[4]]"
    by (simp add: ms front_def)
  ultimately show ?thesis using d front_unique by fastforce
qed

text \<open>
  The slot updates a node publishes, each as its JSON, reach the consumer
  of \<open>slot_updates_subscribe\<close>'s stream one for one and in their order, until a receive fails.
\<close>

theorem slot_updates_delivered:
  assumes "inbox_host E q" and "ps_subscription self = Subscription s"
    and "list_all2 (\<lambda>m u. \<exists>b. m = Inr b \<and> json_from_slice E b = Inr (ser_slot_update u))
      (stake (length updates) (q (hstate w) s)) updates"
    and "q (hstate w) s !! length updates = Inl errno"
  shows "fst (drain E (de_notification E (de_of msg read_slot_update)) self
     (Suc (length updates)) w) = Done updates"
proof (rule drain_front [OF assms(1,2)])
  show "front (de_notification E (de_of msg read_slot_update)) (q (hstate w) s) updates"
    using slot_update.read_all_messages [of E _ updates msg] assms(3,4) by (simp add: front_def)
qed simp

lemma slot_updates_delivered_witness:
  "fst (drain inbox_env (de_notification inbox_env (de_of (\<lambda>_. SerdeError []) read_slot_update))
     \<lparr>ps_subscription = Subscription (SubscriptionHandle 1)\<rparr> 3 (sample_world [sample_reply [1], sample_reply [2]])) =
   Done [Root 7 8, Root 7 8]"
proof -
  have "fst (drain inbox_env (de_notification inbox_env (de_of (\<lambda>_. SerdeError []) read_slot_update))
      \<lparr>ps_subscription = Subscription (SubscriptionHandle 1)\<rparr> (Suc (length [Root 7 8, Root 7 8]))
      (sample_world [sample_reply [1], sample_reply [2]])) = Done [Root 7 8, Root 7 8]"
    by (rule slot_updates_delivered [OF inbox_env_host])
      (simp_all add: sample_world_def sample_reply_def script_message_def inbox_of_def inbox_env_def)
  then show ?thesis by (simp add: eval_nat_numeral)
qed

end
