(* ===== verification/Zela_Lifecycle.thy ===== *)
theory Zela_Lifecycle
  imports Zela_Protocol Zela_Streams
begin

text \<open>
  The life of a subscription (\<open>src/rpc_client/pubsub.rs\<close> over \<open>src/lib.rs\<close>): a method of the client
  opens it with one request to the host, and whoever consumes the stream receives from
  the handle the host has given, and from no other.
\<close>

declare subscription_recv.simps [simp del]

section \<open>Consuming a stream\<close>

lemma observed_log: "log_at E lvl tgt args w = (out, w') \<Longrightarrow> observed w w' []"
  by (drule movesD [OF quiet_log]) (auto simp: emits_def observed_def list_all_iff)

lemma poll_next_observed:
  assumes "ps_subscription self = Subscription s" and "poll_next E de self w = (Done p, w')"
  shows "observed w w' [EvRecv s] \<and> p \<noteq> Pending"
proof -
  obtain r h where h: "h_recv E s (hstate w) = (r, h)" by (cases "h_recv E s (hstate w)")
  let ?w = "w\<lparr>hstate := h, trace := trace w @ [EvRecv s]\<rparr>"
  obtain x where x: "subscription_recv E de (Subscription s) w = (Done x, ?w)"
    unfolding subscription_recv_step h by simp
  have o1: "observed w ?w [EvRecv s]" by (simp add: observed_def is_log_def)
  have "w' = ?w \<or> (\<exists>args out. log_at E LevelTrace pubsub_target args ?w = (out, w'))"
    using assms by (cases x) (auto simp: poll_next_def bindp_eq_Done ret_def x)
  then have "observed ?w w' []"
    by (auto intro: observed_refl observed_log)
  with o1 have "observed w w' [EvRecv s]" using observed_trans [of w ?w "[EvRecv s]" w' "[]"] by simp
  with poll_next_ready [OF assms(2)] show ?thesis by blast
qed

lemma drain_observed:
  fixes de :: "u8 list \<Rightarrow> serde_error + 'n"
  assumes "ps_subscription self = Subscription s" and "drain E de self fuel w = (Done xs, w')"
  shows "observed w w' (replicate (Suc (length xs)) (EvRecv s))"
proof -
  let ?body = "\<lambda>acc. bindp (poll_next E de self) (\<lambda>p. ret (case p of
       Pending \<Rightarrow> Inl acc | Ready (Some v) \<Rightarrow> Inl (acc @ [v]) | Ready None \<Rightarrow> Inr acc))"
  have "\<exists>k. length xs = length acc + k \<and> observed w w' (replicate (Suc k) (EvRecv s))"
    if "loop ?body fuel acc w = (Done xs, w')" for acc w
    using that
  proof (induction fuel arbitrary: acc w)
    case (Suc fuel)
    then obtain p w1 where p: "poll_next E de self w = (Done p, w1)"
      by (auto simp: bindp_eq_Done)
    have o1: "observed w w1 [EvRecv s]" "p \<noteq> Pending"
      using poll_next_observed [OF assms(1) p] by blast+
    then consider (got) v where "p = Ready (Some v)" | (ended) "p = Ready None"
      by (metis option.exhaust poll.exhaust)
    then show ?case
    proof cases
      case got
      with Suc.prems p have "loop ?body fuel (acc @ [v]) w1 = (Done xs, w')"
        by (simp add: bindp_def ret_def)
      from Suc.IH [OF this] obtain k where "length xs = length acc + Suc k"
        "observed w1 w' (replicate (Suc k) (EvRecv s))" by auto
      with observed_trans [OF o1(1)] show ?thesis by (intro exI [of _ "Suc k"]) fastforce
    next
      case ended
      with Suc.prems p o1 show ?thesis by (intro exI [of _ 0]) (simp add: bindp_def ret_def)
    qed
  qed simp
  from this [of "[]"] assms(2) show ?thesis unfolding drain_def by auto
qed

lemma drain_is_front:
  assumes "inbox_host E q" and "ps_subscription self = Subscription s"
    and "drain E de self fuel w = (Done xs, w')"
  shows "front de (q (hstate w) s) xs"
  using drain_result [OF assms(1,2), of de fuel w] assms(3) by auto

section \<open>Opening one\<close>

text \<open>
  The contract of the methods that subscribe: under a method's name and with its parameters,
  exactly one request to the host, and the stream is over the handle the host answers with.
\<close>

definition listen ::
  "'h env \<Rightarrow> (u8 list \<Rightarrow> serde_error + 'n)
     \<Rightarrow> ('h world, pubsub_client_error + pubsub_client_stream) prog \<Rightarrow> nat
     \<Rightarrow> ('h world, pubsub_client_error + 'n list) prog" where
  "listen E de m fuel = tryp m (\<lambda>stream. mapp Inr (drain E de stream fuel))"

text \<open>
  A session: what the host sees when a subscription is opened and read to its end, and, on a
  host that keeps the messages of each subscription apart, what the reader is given; and no
  handle of the host is lost. \<open>listen\<close> is what a procedure does, no code of the crate.
\<close>

definition session ::
  "'h env \<Rightarrow> (u8 list \<Rightarrow> serde_error + 'n) \<Rightarrow> string \<Rightarrow> json
     \<Rightarrow> ('h world, pubsub_client_error + pubsub_client_stream) prog \<Rightarrow> bool" where
  "session E de nm ps m \<longleftrightarrow> (\<forall>fuel w xs w'. listen E de m fuel w = (Done (Inr xs), w') \<longrightarrow>
     (\<exists>b s h. json_to_vec E ps = Inr b \<and>
        h_subscribe E nm b (hstate w) = (Inr (Inr s), h) \<and>
        observed w w' (EvSubscribe nm b # replicate (Suc (length xs)) (EvRecv s)) \<and>
        (\<forall>q. inbox_host E q \<longrightarrow> front de (q h s) xs))) \<and>
     (\<forall>w b s h. json_to_vec E ps = Inr b \<longrightarrow>
        h_subscribe E nm b (hstate w) = (Inr (Inr s), h) \<longrightarrow>
        fst (m w) = Done (Inr \<lparr>ps_subscription = Subscription s\<rparr>))"

locale subscription_method =
  fixes E :: "'h env" and nm :: string and ps :: json
    and m :: "('h world, pubsub_client_error + pubsub_client_stream) prog"
  assumes opens: "m w = (Done (Inr stream), w') \<Longrightarrow>
      \<exists>b s h. json_to_vec E ps = Inr b \<and> h_subscribe E nm b (hstate w) = (Inr (Inr s), h) \<and>
        ps_subscription stream = Subscription s \<and>
        w' = w\<lparr>hstate := h, trace := trace w @ [EvSubscribe nm b]\<rparr>"
    and refuses: "m w = (Done (Inl e), w') \<Longrightarrow>
      (case json_to_vec E ps of
         Inl err \<Rightarrow> e = PubsubIo (IoCustom InvalidInput err) \<and> w' = w
       | Inr b \<Rightarrow> trace w' = trace w @ [EvSubscribe nm b] \<and>
           (\<nexists>s. fst (h_subscribe E nm b (hstate w)) = Inr (Inr s)))"
    and returns: "\<exists>r w'. m w = (Done r, w')"
begin

lemma listens:
  assumes "listen E de m fuel w = (Done (Inr xs), w')"
  shows "\<exists>b s h. json_to_vec E ps = Inr b \<and>
    h_subscribe E nm b (hstate w) = (Inr (Inr s), h) \<and>
    observed w w' (EvSubscribe nm b # replicate (Suc (length xs)) (EvRecv s)) \<and>
    (\<forall>q. inbox_host E q \<longrightarrow> front de (q h s) xs)"
proof -
  obtain stream w1 where s: "m w = (Done (Inr stream), w1)"
    and d: "drain E de stream fuel w1 = (Done xs, w')"
    using assms by (auto simp: listen_def tryp_eq_Ok mapp_eq_Done)
  obtain b s h where o: "json_to_vec E ps = Inr b"
    "h_subscribe E nm b (hstate w) = (Inr (Inr s), h)" "ps_subscription stream = Subscription s"
    "w1 = w\<lparr>hstate := h, trace := trace w @ [EvSubscribe nm b]\<rparr>"
    using opens [OF s] by blast
  have "observed w w1 [EvSubscribe nm b]" by (simp add: o(4) observed_def is_log_def)
  then have "observed w w' (EvSubscribe nm b # replicate (Suc (length xs)) (EvRecv s))"
    using observed_trans drain_observed [OF o(3) d] by fastforce
  moreover have "inbox_host E q \<Longrightarrow> front de (q h s) xs" for q
    using drain_is_front [OF _ o(3) d, of q] by (simp add: o(4))
  ultimately show ?thesis using o(1,2) by blast
qed

lemma keeps_handle:
  assumes "json_to_vec E ps = Inr b" "h_subscribe E nm b (hstate w) = (Inr (Inr s), h)"
  shows "fst (m w) = Done (Inr \<lparr>ps_subscription = Subscription s\<rparr>)"
proof -
  obtain r w' where r: "m w = (Done r, w')" using returns by blast
  show ?thesis
  proof (cases r)
    case (Inl e)
    with r assms refuses [of w e w'] show ?thesis by auto
  next
    case (Inr stream)
    with r assms opens [of w stream w'] show ?thesis by (auto intro: pubsub_client_stream.equality)
  qed
qed

lemma session: "session E de nm ps m"
  unfolding session_def using listens keeps_handle by blast

end

interpretation subscribe: subscription_method E nm ps "subscribe E nm ps"
  for E nm ps
proof unfold_locales
  fix w e w' stream
  show "\<exists>b s h. json_to_vec E ps = Inr b \<and> h_subscribe E nm b (hstate w) = (Inr (Inr s), h) \<and>
      ps_subscription stream = Subscription s \<and>
      w' = w\<lparr>hstate := h, trace := trace w @ [EvSubscribe nm b]\<rparr>"
    if "subscribe E nm ps w = (Done (Inr stream), w')"
    using that
    by (auto simp: subscribe_def subscription_new_def mapp_def bindp_def ret_def host_subscribe_def
        split: sum.splits prod.splits)
  show "case json_to_vec E ps of
      Inl err \<Rightarrow> e = PubsubIo (IoCustom InvalidInput err) \<and> w' = w
    | Inr b \<Rightarrow> trace w' = trace w @ [EvSubscribe nm b] \<and>
        (\<nexists>s. fst (h_subscribe E nm b (hstate w)) = Inr (Inr s))"
    if "subscribe E nm ps w = (Done (Inl e), w')"
    using that
    by (auto simp: subscribe_def subscription_new_def mapp_def bindp_def ret_def host_subscribe_def
        split: sum.splits prod.splits)
  show "\<exists>r w'. subscribe E nm ps w = (Done r, w')"
    by (auto simp: subscribe_def subscription_new_def mapp_def bindp_def ret_def host_subscribe_def
        split: sum.split prod.split)
qed

section \<open>Properties\<close>

text \<open>
  C8: each of the nine subscription methods opens its subscription with
  one request under its own name and with its own parameters; a consumer that reads the
  stream to its end receives only from the handle the host gave, once more than it is given
  notifications; and on a host where a receive takes the next message of its subscription, it is
  given exactly the values of the messages of that handle before the first unreadable one. A
  handle the host gives is never lost.
\<close>

theorem subscriptions_are_sessions:
  "session E de1 ''account'' (JArray [JString (pubkey_to_string E pubkey),
     ser_opt (\<lambda>c. JObject (members_account_info_config E c)) config1])
     (account_subscribe E pubkey config1) \<and>
   session E de2 ''block'' (JArray [ser_block_subscribe_filter filter_by,
     ser_opt (\<lambda>c. JObject (members_block_subscribe_config E c)) config2])
     (block_subscribe E filter_by config2) \<and>
   session E de3 ''logs'' (JArray [ser_transaction_logs_filter logs_filter,
     JObject (members_transaction_logs_config E config3)])
     (logs_subscribe E logs_filter config3) \<and>
   session E de4 ''program'' (JArray [JString (pubkey_to_string E pubkey),
     ser_opt (\<lambda>c. JObject (members_program_accounts_config E c)) config4])
     (program_subscribe E pubkey config4) \<and>
   session E de5 ''vote'' (JArray []) (vote_subscribe E) \<and>
   session E de6 ''root'' (JArray []) (root_subscribe E) \<and>
   session E de7 ''signature'' (JArray [JString (signature_to_string E signature),
     ser_opt (\<lambda>c. JObject (members_signature_subscribe_config E c)) config5])
     (signature_subscribe E signature config5) \<and>
   session E de8 ''slot'' (JArray []) (slot_subscribe E) \<and>
   session E de9 ''slotsUpdates'' (JArray []) (slot_updates_subscribe E)"
  unfolding account_subscribe_def block_subscribe_def logs_subscribe_def program_subscribe_def
    vote_subscribe_def root_subscribe_def signature_subscribe_def slot_subscribe_def
    slot_updates_subscribe_def
  by (intro conjI subscribe.session)

end
