(* ===== verification/Zela_Progress.thy ===== *)
theory Zela_Progress
  imports Zela_Protocol Zela_Answers
begin

text \<open>
  That the waiting methods of \<open>src/rpc_client/client.rs\<close> reach what they wait for: on a node
  that answers, and reports a transaction from some instant on, a confirmation and a wait
  for a signature succeed, and within how many rounds.
\<close>

section \<open>Loops that reach their goal\<close>

text \<open>
  Total correctness of a loop: while the invariant holds, the body either leaves with a good
  result or keeps the invariant and lets the measure fall.
\<close>

locale progressing_loop =
  fixes body :: "'s \<Rightarrow> ('w, 's + 'r) prog"
    and linv :: "'s \<Rightarrow> 'w \<Rightarrow> bool"
    and mu :: "'s \<Rightarrow> 'w \<Rightarrow> nat"
    and good :: "'r \<Rightarrow> bool"
  assumes progress: "linv s w \<Longrightarrow> \<exists>x w'. body s w = (Done x, w') \<and>
    (case x of Inl s' \<Rightarrow> linv s' w' \<and> mu s' w' < mu s w | Inr r \<Rightarrow> good r)"
begin

lemma loop_succeeds:
  "linv s w \<Longrightarrow> mu s w < n \<Longrightarrow> \<exists>r w'. loop body n s w = (Done r, w') \<and> good r"
proof (induction n arbitrary: s w)
  case (Suc n)
  obtain x w1 where b: "body s w = (Done x, w1)"
    and x: "case x of Inl s' \<Rightarrow> linv s' w1 \<and> mu s' w1 < mu s w | Inr r \<Rightarrow> good r"
    using progress [OF Suc.prems(1)] by blast
  show ?case
  proof (cases x)
    case (Inl s')
    with x Suc.prems(2) have "linv s' w1" "mu s' w1 < n" by auto
    from Suc.IH [OF this] b Inl show ?thesis by (simp add: bindp_def)
  next
    case (Inr r)
    with b x show ?thesis by (simp add: bindp_def ret_def)
  qed
qed simp

end

section \<open>A node that reports what has happened\<close>

text \<open>
  A query the node always answers, with a value that is read and that fits the worlds before
  and after the call.
\<close>

definition node_replies ::
  "'h env \<Rightarrow> rpc_request \<Rightarrow> json \<Rightarrow> (json \<Rightarrow> serde_error + 't) \<Rightarrow> ('h world \<Rightarrow> 't \<Rightarrow> 'h world \<Rightarrow> bool)
     \<Rightarrow> bool" where
  "node_replies E req ps de Q \<longleftrightarrow>
     (\<forall>w. \<exists>j x w'. node_answers E req ps w j w' \<and> de j = Inr x \<and> Q w x w')"

lemma node_replies_send:
  assumes "node_replies E req ps de Q"
  obtains x w' where "send E de req ps w = (Done (Inr x), w')" "Q w x w'"
proof -
  from assms obtain j x w' where "node_answers E req ps w j w'" "de j = Inr x" "Q w x w'"
    unfolding node_replies_def by blast
  moreover from this have "send E de req ps w = (Done (Inr x), w')"
    by (simp add: send_answered map_err_def)
  ultimately show thesis using that by blast
qed

text \<open>
  The transaction of a signature is reported as executed without error, at the commitment
  \<open>c\<close>, from the instant \<open>landed\<close> on; a status query takes \<open>r\<close> at most.
\<close>

definition status_from ::
  "'h env \<Rightarrow> (json \<Rightarrow> serde_error + statuses) \<Rightarrow> signature \<Rightarrow> commitment_config \<Rightarrow> ('h \<Rightarrow> nat)
     \<Rightarrow> instant \<Rightarrow> duration \<Rightarrow> bool" where
  "status_from E de s c \<tau> landed r \<longleftrightarrow>
     node_replies E GetSignatureStatuses (JArray [JArray [JString (signature_to_string E s)]]) de
       (\<lambda>w rsp w'. \<exists>st rest. rsp_value rsp = st # rest \<and> \<tau> (hstate w') \<le> \<tau> (hstate w) + r \<and>
          (satisfied_status E c st = Some (Inr ())
           \<or> satisfied_status E c st = None \<and> \<tau> (hstate w) < landed))"

definition stays_valid ::
  "'h env \<Rightarrow> (json \<Rightarrow> serde_error + bool response) \<Rightarrow> hash \<Rightarrow> bool" where
  "stays_valid E de h \<longleftrightarrow>
     node_replies E IsBlockhashValid
       (JArray [JString (hash_to_string E h), ser_commitment E processed_commitment]) de
       (\<lambda>w rsp w'. rsp_value rsp)"

lemma status_from_result:
  assumes "clock_ok E \<tau>" "status_from E de s c \<tau> landed r"
  obtains w' where "\<tau> (hstate w) \<le> \<tau> (hstate w')" "\<tau> (hstate w') \<le> \<tau> (hstate w) + r"
    "get_signature_status_with_commitment E de s c w = (Done (Inr (Some (Inr ()))), w') \<or>
     get_signature_status_with_commitment E de s c w = (Done (Inr None), w') \<and> \<tau> (hstate w) < landed"
proof -
  obtain rsp w' where s: "send E de GetSignatureStatuses
      (JArray [JArray [JString (signature_to_string E s)]]) w = (Done (Inr rsp), w')"
    and q: "\<exists>st rest. rsp_value rsp = st # rest \<and> \<tau> (hstate w') \<le> \<tau> (hstate w) + r \<and>
          (satisfied_status E c st = Some (Inr ())
           \<or> satisfied_status E c st = None \<and> \<tau> (hstate w) < landed)"
    by (rule node_replies_send [OF assms(2) [unfolded status_from_def]])
  have "\<tau> (hstate w) \<le> \<tau> (hstate w')" by (rule laterD [OF later_send [OF assms(1)] s])
  moreover have "get_signature_status_with_commitment E de s c w =
      (Done (Inr (satisfied_status E c (hd (rsp_value rsp)))), w')"
    using s q by (auto simp: get_signature_status_with_commitment_def tryp_def bindp_def
        index_vec_def ret_def)
  ultimately show thesis using q that by auto
qed

lemma stays_valid_result:
  assumes "clock_ok E \<tau>" "stays_valid E de h"
  obtains w' where "is_blockhash_valid E de h processed_commitment w = (Done (Inr True), w')"
    "\<tau> (hstate w) \<le> \<tau> (hstate w')"
proof -
  obtain rsp w' where s: "send E de IsBlockhashValid (JArray [JString (hash_to_string E h),
      ser_commitment E processed_commitment]) w = (Done (Inr rsp), w')" and "rsp_value rsp"
    by (rule node_replies_send [OF assms(2) [unfolded stays_valid_def]])
  then have "is_blockhash_valid E de h processed_commitment w = (Done (Inr True), w')"
    by (simp add: is_blockhash_valid_def mapp_def bindp_def ret_def)
  moreover have "\<tau> (hstate w) \<le> \<tau> (hstate w')" by (rule laterD [OF later_send [OF assms(1)] s])
  ultimately show thesis by (rule that)
qed

lemma thread_sleep_later:
  assumes "clock_ok E \<tau>"
  obtains w' where "thread_sleep E d w = (Done (), w')" "\<tau> (hstate w) + d \<le> \<tau> (hstate w')"
proof -
  obtain out w' where "thread_sleep E d w = (out, w')" by (cases "thread_sleep E d w")
  with thread_sleep_clock [OF assms this] that show thesis by blast
qed

lemma periods_mono: "t \<le> t' \<Longrightarrow> periods b p t' \<le> periods b p t"
  unfolding periods_def by (rule div_le_mono) simp

section \<open>A confirmation is reached\<close>

interpretation confirmation: progressing_loop "status_body E de_s de_v self s h"
  "\<lambda>n w. clock_ok E \<tau> \<and> status_from E de_s s (commitment self) \<tau> landed r \<and> stays_valid E de_v h \<and>
     n + periods landed (from_millis 500) (\<tau> (hstate w)) < GET_STATUS_RETRIES"
  "\<lambda>n w. periods landed (from_millis 500) (\<tau> (hstate w))" "\<lambda>x. x = Return (Inr s)"
  for E de_s de_v self s h \<tau> landed r
proof unfold_locales
  fix n and w :: "'a world"
  let ?p = "\<lambda>w :: 'a world. periods landed (from_millis 500) (\<tau> (hstate w))"
  assume i: "clock_ok E \<tau> \<and> status_from E de_s s (commitment self) \<tau> landed r \<and>
      stays_valid E de_v h \<and> n + ?p w < GET_STATUS_RETRIES"
  then have c: "clock_ok E \<tau>" and n: "n < GET_STATUS_RETRIES" by auto
  obtain w1 where t1: "\<tau> (hstate w) \<le> \<tau> (hstate w1)"
    and "get_signature_status E de_s self s w = (Done (Inr (Some (Inr ()))), w1) \<or>
      get_signature_status E de_s self s w = (Done (Inr None), w1) \<and> \<tau> (hstate w) < landed"
    using status_from_result [of E \<tau> de_s s "commitment self" landed r w] i
    unfolding get_signature_status_def by metis
  then consider (found) "get_signature_status E de_s self s w = (Done (Inr (Some (Inr ()))), w1)"
    | (early) "get_signature_status E de_s self s w = (Done (Inr None), w1)" "\<tau> (hstate w) < landed"
    by blast
  then show "\<exists>x w'. status_body E de_s de_v self s h n w = (Done x, w') \<and>
      (case x of
         Inl n' \<Rightarrow> (clock_ok E \<tau> \<and> status_from E de_s s (commitment self) \<tau> landed r \<and>
           stays_valid E de_v h \<and> n' + ?p w' < GET_STATUS_RETRIES) \<and> ?p w' < ?p w
       | Inr x \<Rightarrow> x = Return (Inr s))"
  proof cases
    case found
    with n show ?thesis by (simp add: status_body_def bindp_def ret_def)
  next
    case early
    obtain w2 where v: "is_blockhash_valid E de_v h processed_commitment w1 = (Done (Inr True), w2)"
      and t2: "\<tau> (hstate w1) \<le> \<tau> (hstate w2)"
      using stays_valid_result [OF c] i by blast
    obtain w3 where z: "thread_sleep E (from_millis 500) w2 = (Done (), w3)"
      and t3: "\<tau> (hstate w2) + from_millis 500 \<le> \<tau> (hstate w3)"
      using thread_sleep_later [OF c] .
    have "?p w3 < ?p w"
      using t1 t2 t3 early(2) by (intro periods_step) (simp_all add: from_millis_def)
    moreover have "status_body E de_s de_v self s h n w = (Done (Inl (Suc n)), w3)"
      using n early(1) v z by (simp add: status_body_def bindp_def ret_def)
    ultimately show ?thesis using i by auto
  qed
qed

lemma send_and_confirm_reaches:
  assumes "clock_ok E \<tau>"
    and "send_transaction E (de_signature D) T self tx w = (Done (Inr s), w1)"
    and "recent_blockhash_of E D T tx w1 = (Done (Inr h), w2)"
    and "status_from E (de_statuses D) s (commitment self) \<tau> landed r"
    and "stays_valid E (de_valid D) h"
    and "periods landed (from_millis 500) (\<tau> (hstate w2)) < min fuel GET_STATUS_RETRIES"
  shows "\<exists>w'. send_and_confirm_transaction E D T self fuel tx w = (Done (Inr s), w')"
proof -
  obtain w' where l: "loop (status_body E (de_statuses D) (de_valid D) self s h) fuel 0 w2 =
      (Done (Return (Inr s)), w')"
    using confirmation.loop_succeeds [of E \<tau> "de_statuses D" s self landed r "de_valid D" h 0 w2 fuel]
      assms by auto
  have "send_and_confirm_transaction E D T self fuel tx w = (Done (Inr s), w')"
    unfolding send_and_confirm_transaction_def SEND_RETRIES_def One_nat_def sending_loop.simps
    by (simp add: tryp_def bindp_def assms(2,3) l) (simp add: ret_def)
  then show ?thesis by blast
qed

section \<open>A signature is found\<close>

interpretation signature_wait: progressing_loop "poll_signature_body E de s c start"
  "\<lambda>_ w. clock_ok E \<tau> \<and> status_from E de s c \<tau> landed r \<and> landed + r \<le> start + from_secs 16"
  "\<lambda>_ w. periods landed (from_millis 250) (\<tau> (hstate w))" "\<lambda>x. x = Inr ()"
  for E de s c start \<tau> landed r
proof unfold_locales
  fix u :: unit and w :: "'a world"
  let ?p = "\<lambda>w :: 'a world. periods landed (from_millis 250) (\<tau> (hstate w))"
  let ?inv = "clock_ok E \<tau> \<and> status_from E de s c \<tau> landed r \<and> landed + r \<le> start + from_secs 16"
  assume i: ?inv
  then have k: "clock_ok E \<tau>" by blast
  obtain w1 where t1: "\<tau> (hstate w) \<le> \<tau> (hstate w1)" "\<tau> (hstate w1) \<le> \<tau> (hstate w) + r"
    and "get_signature_status_with_commitment E de s c w = (Done (Inr (Some (Inr ()))), w1) \<or>
      get_signature_status_with_commitment E de s c w = (Done (Inr None), w1) \<and> \<tau> (hstate w) < landed"
    using status_from_result [of E \<tau> de s c landed r w] i by metis
  then consider (found) "get_signature_status_with_commitment E de s c w = (Done (Inr (Some (Inr ()))), w1)"
    | (early) "get_signature_status_with_commitment E de s c w = (Done (Inr None), w1)"
      "\<tau> (hstate w) < landed"
    by blast
  then show "\<exists>x w'. poll_signature_body E de s c start u w = (Done x, w') \<and>
      (case x of Inl (u' :: unit) \<Rightarrow> ?inv \<and> ?p w' < ?p w | Inr x \<Rightarrow> x = Inr ())"
  proof cases
    case found
    then show ?thesis by (simp add: poll_signature_body_def bindp_def ret_def)
  next
    case early
    obtain d w2 where e: "elapsed E start w1 = (Done d, w2)"
      by (cases "elapsed E start w1") (auto simp: elapsed_def mapp_def bindp_def now_def ret_def split: prod.splits)
    have "d < from_secs 16"
      using elapsed_clock(1) [OF k e] t1(2) early(2) conjunct2 [OF conjunct2 [OF i]]
      unfolding from_secs_def by linarith
    then have d: "\<not> 15 < as_secs d" by (simp add: as_secs_def from_secs_def)
    obtain w3 where z: "thread_sleep E (from_millis 250) w2 = (Done (), w3)"
      and t3: "\<tau> (hstate w2) + from_millis 250 \<le> \<tau> (hstate w3)"
      using thread_sleep_later [OF k] .
    have "?p w3 < ?p w"
      using t1(1) elapsed_clock(2) [OF k e] t3 early(2)
      by (intro periods_step) (simp_all add: from_millis_def)
    moreover have "poll_signature_body E de s c start u w = (Done (Inl ()), w3)"
      using early(1) e d z by (simp add: poll_signature_body_def bindp_def ret_def)
    ultimately show ?thesis using i by auto
  qed
qed

lemma poll_for_signature_reaches:
  assumes "clock_ok E \<tau>" and "status_from E de s c \<tau> landed r"
    and "landed + r \<le> \<tau> (hstate w) + from_secs 16"
    and "periods landed (from_millis 250) (\<tau> (hstate w)) < fuel"
  shows "\<exists>w'. poll_for_signature_with_commitment E de s c fuel w = (Done (Inr ()), w')"
proof -
  obtain start w1 where n: "now E w = (Done start, w1)"
    by (cases "now E w") (auto simp: now_def split: prod.splits)
  then have t: "start = \<tau> (hstate w)" "start \<le> \<tau> (hstate w1)" using now_clock [OF assms(1) n] by auto
  then have "periods landed (from_millis 250) (\<tau> (hstate w1)) < fuel"
    using assms(4) periods_mono [of "\<tau> (hstate w)" "\<tau> (hstate w1)" landed "from_millis 250"] by simp
  then obtain w' where "loop (poll_signature_body E de s c start) fuel () w1 = (Done (Inr ()), w')"
    using signature_wait.loop_succeeds [of E \<tau> de s c landed r start w1 fuel "()"] assms t by auto
  with n show ?thesis by (simp add: poll_for_signature_with_commitment_def bindp_def)
qed

section \<open>Properties\<close>

text \<open>A node that reports every signature from the instant \<open>700\<close> milliseconds on, and not before.\<close>

definition progress_env :: "sample_state env" where
  "progress_env = sample_env\<lparr>h_call_rpc := (\<lambda>m p (t, rs).
     (Inr (Inr [if t < from_millis 700 then 0 else 1]), (t, rs)))\<rparr>"

definition progress_status :: "json \<Rightarrow> serde_error + statuses" where
  "progress_status j = sample_response [if j = ser_vec ser_u8 [1] then Some sample_status else None] j"

lemma progress_clock: "clock_ok progress_env fst"
  by (auto simp: clock_ok_def progress_env_def sample_env_def split: list.splits sum.splits)

lemma progress_answers:
  "structured ps \<Longrightarrow> node_answers progress_env req ps w
     (ser_vec ser_u8 [if fst (hstate w) < from_millis 700 then 0 else 1])
     (w\<lparr>trace := trace w @ [EvCallRpc (method_name req) []]\<rparr>)"
  by (cases "hstate w") (auto simp: node_answers_def progress_env_def)

lemma progress_status_from: "status_from progress_env progress_status s c fst (from_millis 700) 0"
  unfolding status_from_def node_replies_def
proof (rule allI, rule exI, rule exI, rule exI, intro conjI)
  fix w :: "sample_state world"
  show "node_answers progress_env GetSignatureStatuses
      (JArray [JArray [JString (signature_to_string progress_env s)]]) w
      (ser_vec ser_u8 [if fst (hstate w) < from_millis 700 then 0 else 1])
      (w\<lparr>trace := trace w @ [EvCallRpc (method_name GetSignatureStatuses) []]\<rparr>)"
    by (rule progress_answers) simp
qed (auto simp: progress_status_def sample_response_def satisfied_status_def progress_env_def
    ser_vec_def ser_u8_def sample_env_def sample_status_def opt_filter_def)

text \<open>
  C4: \<open>send_and_confirm_transaction\<close> reaches its goal. If the node takes the
  transaction under its own signature, keeps its blockhash valid, and reports it as executed
  from some instant on, within the range of the status loop, the method returns that
  signature, after at most one round more than there are half seconds until then.
\<close>

theorem send_and_confirm_succeeds:
  assumes "clock_ok E \<tau>"
    and "send_transaction E (de_signature D) T self tx w = (Done (Inr s), w1)"
    and "recent_blockhash_of E D T tx w1 = (Done (Inr h), w2)"
    and "status_from E (de_statuses D) s (commitment self) \<tau> landed r"
    and "stays_valid E (de_valid D) h"
    and "periods landed (from_millis 500) (\<tau> (hstate w2)) < min fuel GET_STATUS_RETRIES"
  shows "\<exists>w'. send_and_confirm_transaction E D T self fuel tx w = (Done (Inr s), w')"
  using assms by (rule send_and_confirm_reaches)

lemma send_and_confirm_succeeds_witness:
  "\<exists>w'. send_and_confirm_transaction progress_env (sample_decoders\<lparr>de_statuses := progress_status\<rparr>)
     sample_impl sample_client 3 sample_tx (sample_world []) = (Done (Inr (Signature [7])), w')"
proof -
  let ?D = "sample_decoders\<lparr>de_statuses := progress_status\<rparr>"
  let ?r = "send_transaction progress_env (de_signature ?D) sample_impl sample_client sample_tx
    (sample_world [])"
  have "signature_from_str sample_env (sample_text [7]) = Inr (Signature [7])" by code_simp
  then have s: "?r = (Done (Inr (Signature [7])), snd ?r)" "hstate (snd ?r) = (0, [])"
    by (simp_all add: send_transaction_def send_transaction_with_config_def
        serialize_and_encode_def check_signature_def outcome_prog_def
        default_send_transaction_config_def Let_def sample_tx_defs sample_run progress_env_def)
  have h: "recent_blockhash_of progress_env ?D sample_impl sample_tx (snd ?r) =
      (Done (Inr (Hash [1])), snd ?r)"
    by (simp add: recent_blockhash_of_def sample_tx_defs ret_def)
  have v: "stays_valid progress_env (de_valid ?D) (Hash [1])"
    unfolding stays_valid_def node_replies_def
  proof (rule allI, rule exI, rule exI, rule exI, intro conjI)
    fix w :: "sample_state world"
    show "node_answers progress_env IsBlockhashValid (JArray [JString (hash_to_string progress_env (Hash [1])),
        ser_commitment progress_env processed_commitment]) w
        (ser_vec ser_u8 [if fst (hstate w) < from_millis 700 then 0 else 1])
        (w\<lparr>trace := trace w @ [EvCallRpc (method_name IsBlockhashValid) []]\<rparr>)"
      by (rule progress_answers) simp
  qed (auto simp: sample_tx_defs sample_response_def)
  have "status_from progress_env (de_statuses ?D) (Signature [7]) (commitment sample_client) fst
      (from_millis 700) 0" by (simp add: progress_status_from)
  then show ?thesis
    by (rule send_and_confirm_succeeds [OF progress_clock s(1) h _ v])
      (unfold s(2), simp add: periods_def from_millis_def GET_STATUS_RETRIES_value)
qed

text \<open>
  C18: a wait for a signature finds one that the node reports in time: if the
  node answers each query within \<open>r\<close>, and \<open>r\<close> before the sixteenth second at the latest reports
  the signature, the wait ends without an error, however slow or late its own sleeps are.
\<close>

theorem poll_for_signature_succeeds:
  assumes "clock_ok E \<tau>" and "status_from E de s c \<tau> landed r"
    and "landed + r \<le> \<tau> (hstate w) + from_secs 16"
    and "periods landed (from_millis 250) (\<tau> (hstate w)) < fuel"
  shows "\<exists>w'. poll_for_signature_with_commitment E de s c fuel w = (Done (Inr ()), w')"
  using assms by (rule poll_for_signature_reaches)

lemma poll_for_signature_succeeds_witness:
  "\<exists>w'. poll_for_signature_with_commitment progress_env progress_status (Signature [7])
     processed_commitment 4 (sample_world []) = (Done (Inr ()), w')"
  by (rule poll_for_signature_succeeds [OF progress_clock progress_status_from])
    (simp_all add: sample_world_def from_millis_def from_secs_def periods_def)

end
