(* ===== verification/Zela_Typed.thy ===== *)
theory Zela_Typed
  imports Zela_Answers
begin

text \<open>
  Values that were read are well formed: a map has each key once, whatever the object it was
  read from repeats, and a floating point number is finite, integers included. So what the
  client has read of a node it can write and read again.
\<close>

section \<open>JSON without numbers that are not finite\<close>

text \<open>\<open>serde_json\<close> builds no other number: \<open>Number::from_f64\<close> refuses them.\<close>

fun finite_json :: "json \<Rightarrow> bool" where
  "finite_json (JNumber (Float b)) = f64_finite b"
| "finite_json (JArray js) = list_all finite_json js"
| "finite_json (JObject ms) = list_all (\<lambda>(_, j). finite_json j) ms"
| "finite_json _ = True"

section \<open>Integers as floating point numbers\<close>

lemma bit_len_bound: "n < 2 ^ bit_len n"
proof (induction n rule: bit_len.induct)
  case (1 n)
  show ?case
  proof (cases "n = 0")
    case False
    with 1 have "n div 2 < 2 ^ bit_len (n div 2)" by simp
    with False show ?thesis by (subst bit_len.simps) simp
  qed (simp add: bit_len.simps)
qed

lemma bit_len_le: "n < 2 ^ k \<Longrightarrow> bit_len n \<le> k"
proof (induction n arbitrary: k rule: bit_len.induct)
  case (1 n)
  show ?case
  proof (cases "n = 0")
    case False
    with 1(2) obtain k' where k: "k = Suc k'" by (cases k) auto
    with 1 False have "bit_len (n div 2) \<le> k'" by simp
    with False k show ?thesis by (subst bit_len.simps) simp
  qed (simp add: bit_len.simps)
qed

lemma round_half_even_le: "round_half_even n k \<le> Suc (n div 2 ^ k)"
  by (simp add: round_half_even_def Let_def)

lemma f64_of_nat_finite:
  assumes "n < 2 ^ 64"
  shows "unat (f64_of_nat n) \<le> 1087 * 2 ^ 52" and "f64_finite (f64_of_nat n)"
proof -
  define e where "e = bit_len n - 1"
  define m where "m = (if e \<le> 52 then n * 2 ^ (52 - e) else round_half_even n (e - 52))"
  define v where "v = (e + 1023) * 2 ^ 52 + m - 2 ^ 52"
  show le: "unat (f64_of_nat n) \<le> 1087 * 2 ^ 52"
  proof (cases "n = 0")
    case False
    then have b: "bit_len n \<noteq> 0" by (simp add: bit_len.simps [of n])
    with bit_len_le [OF assms] have e: "e \<le> 63" by (simp add: e_def)
    from bit_len_bound [of n] b have n: "n < 2 ^ Suc e" by (simp add: e_def)
    have "m \<le> 2 ^ 53"
    proof (cases "e \<le> 52")
      case True
      with n have "n * 2 ^ (52 - e) \<le> 2 ^ Suc e * 2 ^ (52 - e)" by simp
      also have "\<dots> = 2 ^ 53" using True by (simp flip: power_add)
      finally show ?thesis using True by (simp add: m_def)
    next
      case False
      then have s: "Suc e = 53 + (e - 52)" by simp
      from n have "n < 2 ^ 53 * 2 ^ (e - 52)" unfolding s power_add .
      then have "n div 2 ^ (e - 52) < 2 ^ 53" by (simp add: less_mult_imp_div_less)
      with round_half_even_le [of n "e - 52"] False show ?thesis by (simp add: m_def)
    qed
    with e have v: "v \<le> 1087 * 2 ^ 52" by (simp add: v_def)
    then have "v < 2 ^ 64" by simp
    then have u: "unat (of_nat v :: u64) = v" by (simp only: unsigned_of_nat) (simp add: take_bit_nat_eq_self)
    have "f64_of_nat n = of_nat v"
      using False unfolding f64_of_nat_def Let_def v_def m_def e_def by (simp only: if_False)
    with v u show ?thesis by (simp only:)
  qed (simp add: f64_of_nat_def)
  have "unat (f64_of_nat n) div 2 ^ 52 \<le> 1087"
    using div_le_mono [OF le, of "2 ^ 52"] by simp
  then show "f64_finite (f64_of_nat n)" by (simp add: f64_finite_def)
qed

lemma f64_of_i64_finite: "f64_finite (f64_of_i64 n)"
proof (cases "sint n < 0")
  case True
  have "- sint n \<le> 2 ^ 63" using sint_ge [of n] by simp
  then have b: "nat (- sint n) < 2 ^ 64" by (simp add: nat_less_iff)
  let ?x = "f64_of_nat (nat (- sint n))"
  from f64_of_nat_finite(1) [OF b] have x: "unat ?x \<le> 1087 * 2 ^ 52" .
  then have "unat (2 ^ 63 + ?x) = 2 ^ 63 + unat ?x"
    by (subst unat_add_lem [THEN iffD1]) simp_all
  then have "unat (2 ^ 63 + ?x) div 2 ^ 52 = 2 ^ 11 + unat ?x div 2 ^ 52"
    by simp
  with f64_of_nat_finite(2) [OF b] True show ?thesis
    by (simp add: f64_finite_def f64_of_i64_def)
next
  case False
  have "sint n < 2 ^ 63" using sint_lt [of n] by simp
  with False show ?thesis
    by (simp add: f64_of_i64_def f64_of_nat_finite(2) nat_less_iff)
qed

lemma read_f64_finite: "finite_json j \<Longrightarrow> read_f64 j = Some b \<Longrightarrow> f64_finite b"
proof (induction j rule: read_f64.induct)
  case (2 n)
  then show ?case
    using f64_of_nat_finite(2) [of "unat n"] unsigned_less [of n, where 'a = nat] by simp
qed (auto simp: f64_of_i64_finite)

section \<open>Readers of well-formed values\<close>

lemma read_entries_distinct:
  "read_entries r acc ms = Some m \<Longrightarrow> distinct (map fst acc) \<Longrightarrow> distinct (map fst m)"
proof (induction ms arbitrary: acc)
  case (Cons e ms)
  then show ?case by (cases e) (auto simp: bind_eq_Some_conv distinct_update)
qed simp

lemma read_map_distinct: "read_map r j = Some m \<Longrightarrow> distinct (map fst m)"
  by (cases j) (auto dest: read_entries_distinct)

lemma struct_fields_finite:
  assumes "finite_json j" "struct_fields names j = Some f" "f k = Some v"
  shows "finite_json v"
proof (cases j)
  case (JObject ms)
  with assms have "map_of ms k = Some v" by (auto simp: restrict_map_def split: if_splits)
  with JObject assms(1) show ?thesis by (auto dest!: map_of_SomeD simp: list_all_iff)
next
  case (JArray js)
  with assms have "map_of (zip names js) k = Some v" by (auto split: if_splits)
  with JArray assms(1) show ?thesis
    by (auto dest!: map_of_SomeD set_zip_rightD simp: list_all_iff)
qed (use assms in auto)

definition finite_fields :: "(string \<Rightarrow> json option) \<Rightarrow> bool" where
  "finite_fields f \<longleftrightarrow> (\<forall>k v. f k = Some v \<longrightarrow> finite_json v)"

lemma read_struct_finite:
  assumes "read_struct names build j = Some c" "finite_json j"
  obtains f where "build f = Some c" "finite_fields f"
  using assms struct_fields_finite
  by (auto simp: read_struct_def bind_eq_Some_conv finite_fields_def)

lemma required_f64_finite:
  "required read_f64 (f k) = Some b \<Longrightarrow> finite_fields f \<Longrightarrow> f64_finite b"
  using read_f64_finite by (auto simp: required_def bind_eq_Some_conv finite_fields_def)

lemma inflation_governor_typed:
  assumes "finite_json j" "read_rpc_inflation_governor j = Some g"
  shows "wf_rpc_inflation_governor g"
  using assms(2,1)
  by (rule read_struct_finite) (auto simp: build_rpc_inflation_governor_def bind_eq_Some_conv
      wf_rpc_inflation_governor_def dest: required_f64_finite)

lemma inflation_rate_typed:
  assumes "finite_json j" "read_rpc_inflation_rate j = Some r"
  shows "wf_rpc_inflation_rate r"
  using assms(2,1)
  by (rule read_struct_finite) (auto simp: build_rpc_inflation_rate_def bind_eq_Some_conv
      wf_rpc_inflation_rate_def dest: required_f64_finite)

lemma block_production_typed:
  "read_rpc_block_production j = Some g \<Longrightarrow> wf_rpc_block_production g"
  by (auto simp: read_struct_def build_rpc_block_production_def bind_eq_Some_conv required_def
      wf_rpc_block_production_def dest: read_map_distinct)

lemma leader_schedule_typed: "read_rpc_leader_schedule j = Some m \<Longrightarrow> distinct (map fst m)"
  by (simp add: read_rpc_leader_schedule_def read_map_distinct)

section \<open>Properties\<close>

text \<open>
  C33: whatever JSON a node answers with, what is read of it is well formed:
  a leader schedule and a block production have each identity once, though the object names
  it twice, and the rates of inflation are finite numbers, though they came as integers; so each is
  read back as the same value from what it would be written as.
\<close>

theorem answers_well_formed:
  assumes "finite_json j"
  shows "(\<forall>m. read_rpc_leader_schedule j = Some m \<longrightarrow> distinct (map fst m) \<and>
      read_rpc_leader_schedule (ser_rpc_leader_schedule m) = Some m) \<and>
    (\<forall>p. read_rpc_block_production j = Some p \<longrightarrow> wf_rpc_block_production p \<and>
      read_rpc_block_production (ser_rpc_block_production p) = Some p) \<and>
    (\<forall>g. read_rpc_inflation_governor j = Some g \<longrightarrow> wf_rpc_inflation_governor g \<and>
      read_rpc_inflation_governor (ser_rpc_inflation_governor g) = Some g) \<and>
    (\<forall>r. read_rpc_inflation_rate j = Some r \<longrightarrow> wf_rpc_inflation_rate r \<and>
      read_rpc_inflation_rate (ser_rpc_inflation_rate r) = Some r)"
  using assms
  by (simp add: leader_schedule_typed block_production_typed inflation_governor_typed
      inflation_rate_typed rpc_leader_schedule.read_write rpc_block_production.read_write
      rpc_inflation_governor.read_write rpc_inflation_rate.read_write)

lemma answers_well_formed_witness:
  "wf_rpc_inflation_rate \<lparr>ir_total = f64_of_nat 1, ir_validator = f64_of_nat 1,
     ir_foundation = f64_of_nat 0, ir_epoch = 7\<rparr>"
proof -
  let ?j = "JArray [ser_u64 1, ser_u64 1, ser_u64 0, ser_u64 7]"
  have "finite_json ?j" by (simp add: ser_u64_def)
  moreover have "read_rpc_inflation_rate ?j = Some \<lparr>ir_total = f64_of_nat 1,
      ir_validator = f64_of_nat 1, ir_foundation = f64_of_nat 0, ir_epoch = 7\<rparr>"
    by (simp add: read_struct_def names_rpc_inflation_rate_def build_rpc_inflation_rate_def
        wire_simps ser_u64_def read_u64_def)
  ultimately show ?thesis using answers_well_formed [of ?j] by blast
qed

end
