(* ===== verification/Zela_Encodings.thy ===== *)
theory Zela_Encodings
  imports Zela_Filter
begin

text \<open>
  How long the texts of bytes are. The encoders of \<open>bs58\<close> and \<open>base64\<close> are parameters of the
  model; the constants of \<open>src/rpc_client/filter.rs\<close> rest on the documented lengths of what
  they write. These lengths are stated here as laws of the parameters, with a concrete pair
  of encoders that has them, and the constants are compared with them.
\<close>

section \<open>Numbers in a base\<close>

fun to_base :: "nat \<Rightarrow> nat \<Rightarrow> nat list" where
  "to_base B n = (if B \<le> 1 \<or> n = 0 then [] else to_base B (n div B) @ [n mod B])"

declare to_base.simps [simp del]

definition of_base :: "nat \<Rightarrow> nat list \<Rightarrow> nat" where
  "of_base B ds = foldl (\<lambda>a d. a * B + d) 0 ds"

lemma of_base_simps [simp]:
  "of_base B [] = 0" "of_base B [d] = d" "of_base B (ds @ [d]) = of_base B ds * B + d"
  by (simp_all add: of_base_def)

lemma of_base_zeros [simp]: "of_base B (replicate z 0 @ ds) = of_base B ds"
  by (induction z) (simp_all add: of_base_def)

lemma to_base_0 [simp]: "to_base B 0 = []"
  by (subst to_base.simps) simp

lemma to_base_pos: "1 < B \<Longrightarrow> 0 < n \<Longrightarrow> to_base B n = to_base B (n div B) @ [n mod B]"
  by (subst to_base.simps) simp

lemma of_to_base: "1 < B \<Longrightarrow> of_base B (to_base B n) = n"
proof (induction n rule: less_induct)
  case (less n)
  show ?case
  proof (cases "n = 0")
    case False
    with less.prems have "n div B < n" by simp
    with less False show ?thesis by (simp add: to_base_pos)
  qed simp
qed

lemma to_base_digit: "1 < B \<Longrightarrow> d \<in> set (to_base B n) \<Longrightarrow> d < B"
proof (induction n rule: less_induct)
  case (less n)
  show ?case
  proof (cases "n = 0")
    case False
    with less.prems have "n div B < n" by simp
    with less False show ?thesis by (auto simp: to_base_pos)
  qed (use less.prems in simp)
qed

lemma to_base_hd: "1 < B \<Longrightarrow> to_base B n \<noteq> [] \<Longrightarrow> hd (to_base B n) \<noteq> 0"
proof (induction n rule: less_induct)
  case (less n)
  then have n: "0 < n" by (cases n) auto
  show ?case
  proof (cases "n div B = 0")
    case True
    with less.prems n show ?thesis by (simp add: to_base_pos div_eq_0_iff)
  next
    case False
    with less.prems n have "n div B < n" "to_base B (n div B) \<noteq> []" by (simp_all add: to_base_pos)
    with less.IH less.prems n show ?thesis by (simp add: to_base_pos)
  qed
qed

lemma to_of_base:
  "1 < B \<Longrightarrow> \<forall>d \<in> set ds. d < B \<Longrightarrow> ds = [] \<or> hd ds \<noteq> 0 \<Longrightarrow> to_base B (of_base B ds) = ds"
proof (induction ds rule: rev_induct)
  case (snoc d ds)
  show ?case
  proof (cases "ds = []")
    case True
    with snoc.prems show ?thesis by (simp add: to_base_pos)
  next
    case False
    with snoc have ds: "to_base B (of_base B ds) = ds" by simp
    with False have "0 < of_base B ds" by (cases "of_base B ds = 0") auto
    with snoc.prems ds show ?thesis by (simp add: to_base_pos)
  qed
qed simp

lemma length_to_base: "1 < B \<Longrightarrow> length (to_base B n) \<le> k \<longleftrightarrow> n < B ^ k"
proof (induction k arbitrary: n)
  case 0
  then show ?case by (cases "n = 0") (simp_all add: to_base_pos)
next
  case (Suc k)
  show ?case
  proof (cases "n = 0")
    case False
    with Suc.prems have "length (to_base B n) \<le> Suc k \<longleftrightarrow> n div B < B ^ k"
      by (simp add: to_base_pos Suc.IH)
    also have "\<dots> \<longleftrightarrow> n < B ^ Suc k"
      using Suc.prems by (simp add: div_less_iff_less_mult mult.commute)
    finally show ?thesis .
  qed (use Suc.prems in simp)
qed

lemma of_base_less: "\<forall>d \<in> set ds. d < B \<Longrightarrow> of_base B ds < B ^ length ds"
proof (induction ds rule: rev_induct)
  case (snoc d ds)
  then have "of_base B ds + 1 \<le> B ^ length ds" "d < B" by auto
  then have "(of_base B ds + 1) * B \<le> B ^ length ds * B" by (intro mult_right_mono) simp_all
  with \<open>d < B\<close> show ?case by (simp add: mult.commute)
qed simp

lemma of_base_max: "0 < B \<Longrightarrow> of_base B (replicate k (B - 1)) = B ^ k - 1"
proof (induction k)
  case (Suc k)
  have "of_base B (replicate (Suc k) (B - 1)) = (B ^ k - 1) * B + (B - 1)"
    using Suc by (simp flip: replicate_append_same)
  also have "\<dots> = B ^ Suc k - 1"
    using Suc.prems by (simp add: algebra_simps Suc_leI)
  finally show ?case .
qed simp

section \<open>From one base to another\<close>

text \<open>A zero at the front is a zero at the front; the rest is a number.\<close>

definition leading_zeros :: "nat list \<Rightarrow> nat" where
  "leading_zeros xs = length (takeWhile (\<lambda>x. x = 0) xs)"

definition rebase :: "nat \<Rightarrow> nat \<Rightarrow> nat list \<Rightarrow> nat list" where
  "rebase A B xs = replicate (leading_zeros xs) 0 @ to_base B (of_base A xs)"

lemma leading_zeros_split:
  "\<exists>ys. xs = replicate (leading_zeros xs) 0 @ ys \<and> (ys = [] \<or> hd ys \<noteq> 0)"
proof (intro exI conjI)
  let ?ys = "dropWhile (\<lambda>x. x = 0) xs"
  have zs: "takeWhile (\<lambda>x. x = 0) xs = replicate (leading_zeros xs) 0"
    unfolding leading_zeros_def
    by (intro replicate_length_same [symmetric] ballI) (auto dest: set_takeWhileD)
  show "xs = replicate (leading_zeros xs) 0 @ ?ys"
    unfolding zs [symmetric] by (rule takeWhile_dropWhile_id [symmetric])
  show "?ys = [] \<or> hd ?ys \<noteq> 0" by (cases "?ys = []") (use hd_dropWhile [of "\<lambda>x. x = 0" xs] in blast)+
qed

lemma leading_zeros_append:
  "ys = [] \<or> hd ys \<noteq> 0 \<Longrightarrow> leading_zeros (replicate z 0 @ ys) = z"
  by (induction z) (auto simp: leading_zeros_def takeWhile_eq_Nil_iff)

lemma rebase_inverse:
  assumes "1 < A" "1 < B" "\<forall>d \<in> set xs. d < A"
  shows "rebase B A (rebase A B xs) = xs"
proof -
  obtain ys where ys: "xs = replicate (leading_zeros xs) 0 @ ys" "ys = [] \<or> hd ys \<noteq> 0"
    using leading_zeros_split by blast
  from ys(1) have v: "of_base A xs = of_base A ys" by (metis of_base_zeros)
  from ys(1) assms(3) have "\<forall>d \<in> set ys. d < A" by (metis Un_iff set_append)
  with assms(1) ys(2) have y: "to_base A (of_base A ys) = ys" by (intro to_of_base)
  have "leading_zeros (rebase A B xs) = leading_zeros xs"
    unfolding rebase_def using to_base_hd [OF assms(2)] by (intro leading_zeros_append) blast
  with ys(1) v y show ?thesis
    unfolding rebase_def [of B A] by (simp add: rebase_def of_to_base [OF assms(2)])
qed

lemma rebase_digit: "1 < B \<Longrightarrow> d \<in> set (rebase A B xs) \<Longrightarrow> d < B"
  using to_base_digit [of B d "of_base A xs"] by (auto simp: rebase_def)

section \<open>The lengths of encoded bytes\<close>

definition base58_length :: "u8 list \<Rightarrow> nat" where
  "base58_length b = length (rebase 256 58 (map unat b))"

definition base64_length :: "nat \<Rightarrow> nat" where
  "base64_length n = 4 * ((n + 2) div 3)"

text \<open>
  What \<open>filter.rs\<close> relies on of the two crates: a text has the length of its digits, and
  decoding inverts encoding.
\<close>

definition encoders_ok :: "'h env \<Rightarrow> bool" where
  "encoders_ok E \<longleftrightarrow> (\<forall>b.
     length (bs58_encode E b) = base58_length b \<and> bs58_decode E (bs58_encode E b) = Inr b \<and>
     length (base64_encode E b) = base64_length (length b) \<and>
     base64_decode E (base64_encode E b) = Inr b)"

lemma bytes_below: "\<forall>d \<in> set (map unat (b :: u8 list)). d < 256"
  using unsigned_less [where 'b = 8 and 'a = nat] by auto

lemma base58_length_eq:
  "base58_length b = leading_zeros (map unat b) + length (to_base 58 (of_base 256 (map unat b)))"
  by (simp add: base58_length_def rebase_def)

text \<open>A byte is worth more than one digit: zeros at the front only make a text shorter.\<close>

lemma base58_length_bound:
  assumes "length b \<le> n" and "(256::nat) ^ n \<le> 58 ^ k"
  shows "base58_length b \<le> k"
proof -
  let ?xs = "map unat b" and ?z = "leading_zeros (map unat b)"
  obtain ys where ys: "?xs = replicate ?z 0 @ ys" using leading_zeros_split by blast
  then have l: "length b = ?z + length ys" by (metis length_append length_map length_replicate)
  have "of_base 256 ?xs < 256 ^ length ys"
    using of_base_less [of ys 256] bytes_below [of b] ys
    by (metis Un_iff of_base_zeros set_append)
  then have "of_base 256 ?xs * 58 ^ ?z < 256 ^ length ys * 58 ^ ?z" by simp
  also have "\<dots> \<le> 256 ^ length ys * 256 ^ ?z" by (intro mult_left_mono power_mono) simp_all
  also have "\<dots> = 256 ^ length b" by (simp add: l power_add)
  also have "\<dots> \<le> 256 ^ n" using assms(1) by (intro power_increasing) simp_all
  finally have less: "of_base 256 ?xs * 58 ^ ?z < 58 ^ k" using assms(2) by linarith
  show ?thesis
  proof (cases "?z \<le> k")
    case True
    with less have "of_base 256 ?xs * 58 ^ ?z < 58 ^ (k - ?z) * 58 ^ ?z"
      by (simp flip: power_add)
    then have "of_base 256 ?xs < 58 ^ (k - ?z)" by simp
    with True show ?thesis by (simp add: base58_length_eq flip: length_to_base) 
  next
    case False
    have "(58::nat) ^ ?z \<le> 256 ^ ?z" by (intro power_mono) simp_all
    also have "\<dots> \<le> 256 ^ n" using assms(1) l by (intro power_increasing) simp_all
    also have "\<dots> \<le> 58 ^ k" by (rule assms(2))
    finally have "?z \<le> k" by (rule power_le_imp_le_exp [rotated]) simp
    with False show ?thesis by simp
  qed
qed

lemma base58_length_128: "length b \<le> 128 \<Longrightarrow> base58_length b \<le> 175"
  by (rule base58_length_bound [where n = 128]) simp_all

lemma base64_length_128: "n \<le> 128 \<Longrightarrow> base64_length n \<le> 172"
  unfolding base64_length_def by presburger

lemma base58_length_ff: "base58_length (replicate 128 0xFF) = 175"
proof -
  let ?n = "of_base 256 (replicate 128 255)"
  have n: "?n = 256 ^ 128 - 1" using of_base_max [of 256 128] by simp
  have "length (to_base 58 ?n) \<le> 175" "\<not> length (to_base 58 ?n) \<le> 174"
    unfolding n by (simp_all add: length_to_base)
  then show ?thesis by (simp add: base58_length_eq leading_zeros_def)
qed

lemma base64_length_ff: "base64_length (length (replicate 128 (0xFF :: u8))) = 172"
  by (simp add: base64_length_def)

section \<open>A concrete pair of encoders\<close>

text \<open>Encoders with these laws, for the witnesses; no definition of the model depends on them.\<close>

definition index_of :: "'a list \<Rightarrow> 'a \<Rightarrow> nat" where
  "index_of xs x = length (takeWhile (\<lambda>y. y \<noteq> x) xs)"

lemma index_of_nth: "distinct xs \<Longrightarrow> i < length xs \<Longrightarrow> index_of xs (xs ! i) = i"
proof (induction xs arbitrary: i)
  case (Cons x xs)
  then show ?case by (cases i) (auto simp: index_of_def)
qed simp

definition alphabet58 :: string where
  "alphabet58 = ''123456789ABCDEFGHJKLMNPQRSTUVWXYZabcdefghijkmnopqrstuvwxyz''"

definition alphabet64 :: string where
  "alphabet64 = ''ABCDEFGHIJKLMNOPQRSTUVWXYZabcdefghijklmnopqrstuvwxyz0123456789+/''"

lemma alphabets: "distinct alphabet58" "length alphabet58 = 58" "distinct alphabet64"
  "length alphabet64 = 64" "CHR ''='' \<notin> set alphabet64"
  by code_simp+

definition concrete_base58_encode :: "u8 list \<Rightarrow> string" where
  "concrete_base58_encode b = map ((!) alphabet58) (rebase 256 58 (map unat b))"

definition concrete_base58_decode :: "string \<Rightarrow> bs58_error + u8 list" where
  "concrete_base58_decode s =
     (if list_all (\<lambda>c. c \<in> set alphabet58) s
      then Inr (map of_nat (rebase 58 256 (map (index_of alphabet58) s)))
      else Inl (Bs58Error s))"

lemma concrete_base58: "length (concrete_base58_encode b) = base58_length b"
  "concrete_base58_decode (concrete_base58_encode b) = Inr b"
proof -
  let ?ds = "rebase 256 58 (map unat b)"
  show "length (concrete_base58_encode b) = base58_length b"
    by (simp add: concrete_base58_encode_def base58_length_def)
  have d: "d < 58" if "d \<in> set ?ds" for d using rebase_digit [OF _ that] by simp
  then have "map (index_of alphabet58) (map ((!) alphabet58) ?ds) = ?ds"
    by (simp add: map_idI index_of_nth alphabets)
  moreover have "list_all (\<lambda>c. c \<in> set alphabet58) (map ((!) alphabet58) ?ds)"
    using d by (simp add: list_all_iff alphabets)
  moreover have "rebase 58 256 ?ds = map unat b" using bytes_below by (intro rebase_inverse) simp_all
  ultimately show "concrete_base58_decode (concrete_base58_encode b) = Inr b"
    by (simp add: concrete_base58_encode_def concrete_base58_decode_def map_idI)
qed

text \<open>Three octets as four sextets, and back.\<close>

definition sextet1 :: "nat \<Rightarrow> nat" where "sextet1 a = a div 4"
definition sextet2 :: "nat \<Rightarrow> nat \<Rightarrow> nat" where "sextet2 a b = a mod 4 * 16 + b div 16"
definition sextet3 :: "nat \<Rightarrow> nat \<Rightarrow> nat" where "sextet3 b c = b mod 16 * 4 + c div 64"
definition sextet4 :: "nat \<Rightarrow> nat" where "sextet4 c = c mod 64"

definition octet1 :: "nat \<Rightarrow> nat \<Rightarrow> nat" where "octet1 p q = p * 4 + q div 16"
definition octet2 :: "nat \<Rightarrow> nat \<Rightarrow> nat" where "octet2 q r = q mod 16 * 16 + r div 4"
definition octet3 :: "nat \<Rightarrow> nat \<Rightarrow> nat" where "octet3 r s = r mod 4 * 64 + s"

lemma pack: "x < k \<Longrightarrow> (y * k + x) div k = y" "x < k \<Longrightarrow> (y * k + x) mod k = x" for x y k :: nat
  by simp_all

lemma sextets:
  "a < 256 \<Longrightarrow> sextet1 a < 64" "b < 256 \<Longrightarrow> sextet2 a b < 64" "c < 256 \<Longrightarrow> sextet3 b c < 64"
  "sextet4 c < 64"
  unfolding sextet1_def sextet2_def sextet3_def sextet4_def by linarith+

lemma octets:
  "b < 256 \<Longrightarrow> octet1 (sextet1 a) (sextet2 a b) = a"
  "b < 256 \<Longrightarrow> c < 256 \<Longrightarrow> octet2 (sextet2 a b) (sextet3 b c) = b"
  "c < 256 \<Longrightarrow> octet3 (sextet3 b c) (sextet4 c) = c"
proof -
  have b: "b div 16 < 16" if "b < 256" using that by linarith
  have c: "c div 64 < 4" if "c < 256" using that by linarith
  show "octet1 (sextet1 a) (sextet2 a b) = a" if "b < 256"
    unfolding octet1_def sextet1_def sextet2_def pack(1) [OF b [OF that]] by (rule div_mult_mod_eq)
  show "octet2 (sextet2 a b) (sextet3 b c) = b" if "b < 256" "c < 256"
    unfolding octet2_def sextet2_def sextet3_def pack(2) [OF b [OF that(1)]] pack(1) [OF c [OF that(2)]]
    by (rule div_mult_mod_eq)
  show "octet3 (sextet3 b c) (sextet4 c) = c" if "c < 256"
    unfolding octet3_def sextet3_def sextet4_def pack(2) [OF c [OF that]] by (rule div_mult_mod_eq)
qed

fun concrete_base64_encode :: "u8 list \<Rightarrow> string" where
  "concrete_base64_encode [] = []"
| "concrete_base64_encode [a] =
     [alphabet64 ! sextet1 (unat a), alphabet64 ! sextet2 (unat a) 0, CHR ''='', CHR ''='']"
| "concrete_base64_encode [a, b] =
     [alphabet64 ! sextet1 (unat a), alphabet64 ! sextet2 (unat a) (unat b),
      alphabet64 ! sextet3 (unat b) 0, CHR ''='']"
| "concrete_base64_encode (a # b # c # rest) =
     [alphabet64 ! sextet1 (unat a), alphabet64 ! sextet2 (unat a) (unat b),
      alphabet64 ! sextet3 (unat b) (unat c), alphabet64 ! sextet4 (unat c)]
     @ concrete_base64_encode rest"

fun concrete_base64_decode :: "string \<Rightarrow> u8 list" where
  "concrete_base64_decode (p # q # r # s # rest) =
     (let i = index_of alphabet64;
          a = of_nat (octet1 (i p) (i q));
          b = of_nat (octet2 (i q) (i r));
          c = of_nat (octet3 (i r) (i s))
      in if r = CHR ''='' then [a] else if s = CHR ''='' then [a, b]
         else a # b # c # concrete_base64_decode rest)"
| "concrete_base64_decode _ = []"

lemma alphabet64_nth:
  assumes "i < 64"
  shows "index_of alphabet64 (alphabet64 ! i) = i" "alphabet64 ! i \<noteq> CHR ''=''"
proof -
  show "index_of alphabet64 (alphabet64 ! i) = i"
    using assms by (simp add: index_of_nth alphabets)
  have "alphabet64 ! i \<in> set alphabet64" using assms by (simp add: alphabets)
  then show "alphabet64 ! i \<noteq> CHR ''=''" using alphabets(5) by metis
qed

lemma byte_less: "unat (a :: u8) < 256"
  using unsigned_less [of a, where 'a = nat] by simp

lemma concrete_base64: "length (concrete_base64_encode b) = base64_length (length b)"
  "concrete_base64_decode (concrete_base64_encode b) = b"
proof -
  have add3: "base64_length (Suc (Suc (Suc n))) = 4 + base64_length n" for n
    unfolding base64_length_def by presburger
  show "length (concrete_base64_encode b) = base64_length (length b)"
    by (induction b rule: concrete_base64_encode.induct) (simp_all add: add3, simp_all add: base64_length_def)
  show "concrete_base64_decode (concrete_base64_encode b) = b"
    by (induction b rule: concrete_base64_encode.induct)
      (simp_all add: alphabet64_nth sextets octets byte_less Let_def)
qed

definition concrete_env :: "sample_state env" where
  "concrete_env = sample_env\<lparr>bs58_encode := concrete_base58_encode,
     bs58_decode := concrete_base58_decode, base64_encode := concrete_base64_encode,
     base64_decode := (\<lambda>s. Inr (concrete_base64_decode s))\<rparr>"

lemma concrete_encoders_ok: "encoders_ok concrete_env"
  by (simp add: encoders_ok_def concrete_env_def concrete_base58 concrete_base64)

section \<open>Properties\<close>

text \<open>
  C21: with encoders that have their documented lengths, the three forms of
  a memory comparison are verified alike: 128 bytes and fewer are accepted, whether raw or as
  base58 or base64, and more are too large. The bounds on the texts, 175 and 172, never
  refuse data that the bound on the bytes admits, and are reached by 128 bytes of \<open>0xFF\<close>.
\<close>

theorem encoded_data_accepted:
  assumes "encoders_ok E"
  shows "verify E (Memcmp (new_raw_bytes offset b)) = (if length b \<le> 128 then Inr () else Inl DataTooLarge) \<and>
    verify E (Memcmp (new_base58_encoded E offset b)) = verify E (Memcmp (new_raw_bytes offset b)) \<and>
    verify E (Memcmp (memcmp_new offset (Base64 (base64_encode E b)))) =
      verify E (Memcmp (new_raw_bytes offset b)) \<and>
    length (bs58_encode E (replicate 128 0xFF)) = MAX_DATA_BASE58_SIZE \<and>
    length (base64_encode E (replicate 128 0xFF)) = MAX_DATA_BASE64_SIZE"
proof -
  have e: "length (bs58_encode E b) = base58_length b" "bs58_decode E (bs58_encode E b) = Inr b"
    "length (base64_encode E b) = base64_length (length b)" "base64_decode E (base64_encode E b) = Inr b"
    for b using assms unfolding encoders_ok_def by blast+
  have "length (bs58_encode E (replicate 128 0xFF)) = MAX_DATA_BASE58_SIZE"
    "length (base64_encode E (replicate 128 0xFF)) = MAX_DATA_BASE64_SIZE"
    unfolding e max_sizes by (rule base58_length_ff, rule base64_length_ff)
  moreover have "length b \<le> 128 \<Longrightarrow> \<not> 175 < length (bs58_encode E b)"
    "length b \<le> 128 \<Longrightarrow> \<not> 172 < length (base64_encode E b)"
    using base58_length_128 [of b] base64_length_128 [of "length b"] by (simp_all add: e(1,3) not_less)
  ultimately show ?thesis
    by (auto simp: verify_def new_raw_bytes_def new_base58_encoded_def memcmp_new_def max_sizes e(2,4))
qed

lemma encoded_data_accepted_witness:
  "verify concrete_env (Memcmp (new_base58_encoded concrete_env 0 (replicate 128 7))) = Inr ()"
  using encoded_data_accepted [OF concrete_encoders_ok, of 0 "replicate 128 7"] by simp

end
