(* ===== verification/Zela_Options.thy ===== *)
theory Zela_Options
  imports Zela_Config Zela_Encodings Zela_Sample
begin

text \<open>
  Reading the options of \<open>src/rpc_client/config.rs\<close>: what \<open>#[derive(Deserialize)]\<close> makes of its
  structs and enums. A flattened \<open>Option<CommitmentConfig>\<close> takes whatever members the struct
  itself does not know, and is \<open>None\<close> where they hold no commitment that can be read. The
  locale \<open>flat_format\<close> is the contract of such a struct; each struct is shown to meet it or
  \<open>struct_format\<close>.
\<close>

section \<open>Readers of other crates\<close>

text \<open>
  The variants of the unit enums of the Solana crates by their wire names, and the reader of
  a data slice. The law is that each reads what the same crate writes.
\<close>

record option_readers =
  or_commitment_level :: "string \<Rightarrow> commitment_level option"
  or_transaction_encoding :: "string \<Rightarrow> ui_transaction_encoding option"
  or_account_encoding :: "string \<Rightarrow> ui_account_encoding option"
  or_transaction_details :: "string \<Rightarrow> transaction_details option"
  or_data_slice :: "json \<Rightarrow> ui_data_slice_config option"

definition option_readers_ok :: "'h env \<Rightarrow> option_readers \<Rightarrow> bool" where
  "option_readers_ok E R \<longleftrightarrow>
     (\<forall>l. or_commitment_level R (commitment_level_name E l) = Some l) \<and>
     (\<forall>e. or_transaction_encoding R (transaction_encoding_name E e) = Some e) \<and>
     (\<forall>e. or_account_encoding R (account_encoding_name E e) = Some e) \<and>
     (\<forall>d. or_transaction_details R (transaction_details_name E d) = Some d) \<and>
     (\<forall>s. or_data_slice R (ser_data_slice E s) = Some s \<and> ser_data_slice E s \<noteq> JNull)"

definition read_unit_enum :: "(string \<Rightarrow> 'a option) \<Rightarrow> json \<Rightarrow> 'a option" where
  "read_unit_enum parse j = Option.bind (variant_name j) parse"

lemma unit_enum_value:
  "(\<And>x. parse (name x) = Some x) \<Longrightarrow>
     wire_value (\<lambda>x. JString (name x)) (read_unit_enum parse) (\<lambda>_. True)"
  by unfold_locales (simp_all add: read_unit_enum_def)

lemma option_reader_values:
  assumes "option_readers_ok E R"
  shows "wire_value (\<lambda>l. JString (commitment_level_name E l))
      (read_unit_enum (or_commitment_level R)) (\<lambda>_. True)"
    and "wire_value (\<lambda>e. JString (transaction_encoding_name E e))
      (read_unit_enum (or_transaction_encoding R)) (\<lambda>_. True)"
    and "wire_value (\<lambda>e. JString (account_encoding_name E e))
      (read_unit_enum (or_account_encoding R)) (\<lambda>_. True)"
    and "wire_value (\<lambda>d. JString (transaction_details_name E d))
      (read_unit_enum (or_transaction_details R)) (\<lambda>_. True)"
    and "wire_value (ser_data_slice E) (or_data_slice R) (\<lambda>_. True)"
  using assms by (simp_all add: unit_enum_value option_readers_ok_def)
    (unfold_locales, simp_all add: option_readers_ok_def)

text \<open>A field with \<open>#[serde(default)]\<close> takes its default where it is absent, not where it is \<open>null\<close>.\<close>

definition defaulted :: "(json \<Rightarrow> 'a option) \<Rightarrow> 'a \<Rightarrow> json option \<Rightarrow> 'a option" where
  "defaulted r d x = (case x of None \<Rightarrow> Some d | Some j \<Rightarrow> r j)"

lemma defaulted_simps [wire_simps]:
  "defaulted r d (Some j) = r j" "defaulted r d None = Some d"
  by (simp_all add: defaulted_def)

lemma pred_option_const: "P \<Longrightarrow> pred_option (\<lambda>_. P) x"
  by (cases x) simp_all

lemma option_reads:
  assumes "option_readers_ok E R"
  shows "read_opt (read_unit_enum (or_commitment_level R))
      (ser_opt (\<lambda>l. JString (commitment_level_name E l)) level) = Some level"
    and "read_opt (read_unit_enum (or_transaction_encoding R))
      (ser_opt (\<lambda>e. JString (transaction_encoding_name E e)) te) = Some te"
    and "read_opt (read_unit_enum (or_account_encoding R))
      (ser_opt (\<lambda>e. JString (account_encoding_name E e)) ae) = Some ae"
    and "read_opt (read_unit_enum (or_transaction_details R))
      (ser_opt (\<lambda>d. JString (transaction_details_name E d)) td) = Some td"
    and "read_opt (or_data_slice R) (ser_opt (ser_data_slice E) part) = Some part"
    and "read_unit_enum (or_commitment_level R) (JString (commitment_level_name E l)) = Some l"
  using option_reader_values [OF assms, THEN opt_read]
    option_reader_values [OF assms, THEN value_read]
  by (simp_all add: option.pred_True)

lemmas trivial_preds = option.pred_True list.pred_True simp_thms

lemmas standard_reads =
  opt_read [OF u64.wire_value_axioms, simplified trivial_preds]
  opt_read [OF usize.wire_value_axioms, simplified trivial_preds]
  opt_read [OF u8.wire_value_axioms, simplified trivial_preds]
  opt_read [OF wire_bool.wire_value_axioms, simplified trivial_preds]
  opt_read [OF wire_string.wire_value_axioms, simplified trivial_preds]
  value_read [OF u64.wire_value_axioms]
  value_read [OF value_vec [OF wire_string.wire_value_axioms], simplified trivial_preds]

section \<open>Structs with a flattened part\<close>

text \<open>
  A struct with a flattened field only reads objects. Its own fields are found by name, and
  an error where one comes twice; every other member goes to the flattened part.
\<close>

fun flat_fields ::
  "string list \<Rightarrow> json \<Rightarrow> ((string \<Rightarrow> json option) \<times> (string \<times> json) list) option" where
  "flat_fields names (JObject ms) =
     (if distinct (filter (\<lambda>k. k \<in> set names) (map fst ms))
      then Some (map_of ms |` set names, filter (\<lambda>m. fst m \<notin> set names) ms) else None)"
| "flat_fields names _ = None"

definition read_flat ::
  "string list \<Rightarrow> ((string \<Rightarrow> json option) \<Rightarrow> (string \<times> json) list \<Rightarrow> 'a option) \<Rightarrow> json
     \<Rightarrow> 'a option" where
  "read_flat names build j = do { (m, rest) \<leftarrow> flat_fields names j; build m rest }"

text \<open>
  The flattened commitment is the one member of its name among the rest. Where there is none,
  or two, or its value is no level, the option is \<open>None\<close>: \<open>serde\<close> drops the error.
\<close>

definition read_commitment ::
  "option_readers \<Rightarrow> (string \<times> json) list \<Rightarrow> commitment_config option" where
  "read_commitment R rest = (case filter (\<lambda>m. fst m = ''commitment'') rest of
     [(_, j)] \<Rightarrow> map_option CommitmentConfig (read_unit_enum (or_commitment_level R) j)
   | _ \<Rightarrow> None)"

lemma map_of_drop_keys: "map_of (filter (\<lambda>m. fst m \<notin> K) ms) = map_of ms |` (- K)"
  by (induction ms) (auto simp: restrict_map_def fun_eq_iff)

lemma distinct_filter_sub:
  assumes "distinct (filter P xs)" and "\<And>x. Q x \<Longrightarrow> P x"
  shows "distinct (filter Q xs)"
proof -
  have "filter Q xs = filter Q (filter P xs)"
    unfolding filter_filter using assms(2) by metis
  then show ?thesis using distinct_filter [OF assms(1), of Q] by simp
qed

lemma single_key_member:
  assumes "distinct (filter (\<lambda>k. k = a) (map fst ms))"
  shows "filter (\<lambda>m. fst m = a) ms = (case map_of ms a of None \<Rightarrow> [] | Some j \<Rightarrow> [(a, j)])"
  using assms
proof (induction ms)
  case (Cons m ms)
  have "filter (\<lambda>m. fst m = a) ms = []" if "a \<notin> fst ` set ms"
    using that by (auto simp: filter_empty_conv)
  with Cons show ?case
    by (cases m) (auto simp: map_of_eq_None_iff image_iff split: option.splits)
qed simp

lemma read_commitment_map_of:
  assumes "distinct (filter (\<lambda>k. k = ''commitment'') (map fst rest))"
  shows "read_commitment R rest = Option.bind (map_of rest ''commitment'')
    (\<lambda>j. map_option CommitmentConfig (read_unit_enum (or_commitment_level R) j))"
  unfolding read_commitment_def single_key_member [OF assms] by (simp split: option.split)

locale flat_format = wire_struct members
  for members :: "'c \<Rightarrow> (string \<times> json) list" +
  fixes names inner :: "string list"
    and build :: "(string \<Rightarrow> json option) \<Rightarrow> (string \<times> json) list \<Rightarrow> 'c option"
    and wf :: "'c \<Rightarrow> bool"
  assumes build_members:
      "wf c \<Longrightarrow> build (map_of (members c) |` set names)
         (filter (\<lambda>m. fst m \<notin> set names) (members c)) = Some c"
    and build_rest:
      "distinct (filter (\<lambda>k. k \<in> set inner) (map fst rest)) \<Longrightarrow>
       distinct (filter (\<lambda>k. k \<in> set inner) (map fst rest')) \<Longrightarrow>
       map_of rest |` set inner = map_of rest' |` set inner \<Longrightarrow> build m rest = build m rest'"
begin

lemma read_object:
  assumes "wf c" and "distinct (filter (\<lambda>k. k \<in> set names \<union> set inner) (map fst ms))"
    and "map_of ms |` (set names \<union> set inner) = map_of (members c) |` (set names \<union> set inner)"
  shows "read_flat names build (JObject ms) = Some c"
proof -
  let ?rest = "filter (\<lambda>m. fst m \<notin> set names)"
  note sub = distinct_filter_sub [OF assms(2)]
  have keys: "map fst (?rest xs) = filter (\<lambda>k. k \<notin> set names) (map fst xs)"
    for xs :: "(string \<times> json) list" by (induction xs) auto
  have d: "distinct (filter (\<lambda>k. k \<in> set names) (map fst ms))"
    "distinct (filter (\<lambda>k. k \<in> set inner) (map fst (?rest ms)))"
    "distinct (filter (\<lambda>k. k \<in> set inner) (map fst (?rest (members c))))"
    unfolding keys filter_filter
    by (auto intro: sub distinct_filter [OF distinct_names])
  have eq: "map_of ms k = map_of (members c) k" if "k \<in> set names \<union> set inner" for k
    using fun_cong [OF assms(3), of k] that by (auto simp: restrict_map_def)
  have "map_of ms |` set names = map_of (members c) |` set names"
    "map_of (?rest ms) |` set inner = map_of (?rest (members c)) |` set inner"
    unfolding map_of_drop_keys by (auto simp: restrict_map_def eq)
  with d(1) build_rest [OF d(2,3)] show ?thesis
    by (simp add: read_flat_def build_members [OF assms(1)])
qed

lemma read_members: "wf c \<Longrightarrow> read_flat names build (JObject (members c)) = Some c"
  by (rule read_object) (simp_all add: distinct_filter [OF distinct_names])

lemma read_any_order:
  assumes "wf c" "set ms = set (members c)" "distinct (map fst ms)"
  shows "read_flat names build (JObject ms) = Some c"
proof -
  have "map_of ms = map_of (members c)"
    using map_of_inject_set [OF assms(3) distinct_names] assms(2) by blast
  with assms(1,3) show ?thesis by (intro read_object) (auto intro: distinct_filter)
qed

lemma read_ignores_unknown:
  assumes "wf c" "fst ` set extra \<inter> (set names \<union> set inner) = {}"
  shows "read_flat names build (JObject (members c @ extra)) = Some c"
proof (rule read_object [OF assms(1)])
  have none: "filter (\<lambda>k. k \<in> set names \<union> set inner) (map fst extra) = []"
    using assms(2) by (auto simp: filter_empty_conv)
  have out: "map_of extra k = None" if "k \<in> set names \<union> set inner" for k
    using that assms(2) by (auto simp: map_of_eq_None_iff)
  show "distinct (filter (\<lambda>k. k \<in> set names \<union> set inner) (map fst (members c @ extra)))"
    unfolding map_append filter_append none by (simp add: distinct_filter [OF distinct_names])
  show "map_of (members c @ extra) |` (set names \<union> set inner) =
      map_of (members c) |` (set names \<union> set inner)"
    by (auto simp: restrict_map_def map_add_def out fun_eq_iff split: option.split)
qed

lemma read_duplicate:
  assumes "k \<in> set names" "map_of ms k \<noteq> None"
  shows "read_flat names build (JObject ((k, v) # ms)) = None"
  using assms by (auto simp: read_flat_def map_of_eq_None_iff)

lemma read_positions: "read_flat names build (JArray js) = None"
  by (simp add: read_flat_def)

end

sublocale flat_format \<subseteq> wire_value "\<lambda>c. JObject (members c)" "read_flat names build" wf
  by unfold_locales (simp_all add: read_members)

lemma commitment_formatI:
  fixes P :: bool
  assumes "\<And>c. distinct (map fst (members c))"
    and "\<And>c. P \<Longrightarrow> build (map_of (members c) |` set names)
      (filter (\<lambda>m. fst m \<notin> set names) (members c)) = Some c"
    and "\<And>m rest rest'. read_commitment R rest = read_commitment R rest' \<Longrightarrow>
      build m rest = build m rest'"
  shows "flat_format members names [''commitment''] build (\<lambda>_. P)"
proof
  show "build m rest = build m rest'"
    if "distinct (filter (\<lambda>k. k \<in> set [''commitment'']) (map fst rest))"
      "distinct (filter (\<lambda>k. k \<in> set [''commitment'']) (map fst rest'))"
      "map_of rest |` set [''commitment''] = map_of rest' |` set [''commitment'']"
    for m rest rest'
  proof (rule assms(3))
    have "map_of rest ''commitment'' = map_of rest' ''commitment''"
      using fun_cong [OF that(3), of "''commitment''"] by simp
    with that(1,2) show "read_commitment R rest = read_commitment R rest'"
      by (simp add: read_commitment_map_of)
  qed
qed (simp_all add: assms(1,2))

lemma commitment_reads:
  "read_commitment R [] = None"
  "read_commitment R [(''commitment'', j)] =
     map_option CommitmentConfig (read_unit_enum (or_commitment_level R) j)"
  by (simp_all add: read_commitment_def)

lemmas flat_reads =
  commitment_members_def commitment_reads flatten_opt_def wire_simps standard_reads option_reads

section \<open>Enums\<close>

text \<open>The variant of an externally tagged enum and what it carries, if anything.\<close>

fun variant_of :: "json \<Rightarrow> (string \<times> json option) option" where
  "variant_of (JString s) = Some (s, None)"
| "variant_of (JObject [(s, j)]) = Some (s, Some j)"
| "variant_of _ = None"

definition carries_nothing :: "json option \<Rightarrow> bool" where
  "carries_nothing p \<longleftrightarrow> p = None \<or> p = Some JNull"

definition read_largest_accounts_filter :: "json \<Rightarrow> rpc_largest_accounts_filter option" where
  "read_largest_accounts_filter j = Option.bind (variant_name j) (\<lambda>s.
     if s = ''circulating'' then Some Circulating
     else if s = ''nonCirculating'' then Some NonCirculating
     else None)"

definition read_token_accounts_filter :: "json \<Rightarrow> rpc_token_accounts_filter option" where
  "read_token_accounts_filter j = do {
     (s, p) \<leftarrow> variant_of j;
     if s = ''mint'' then map_option TokenMintFilter (required read_string p)
     else if s = ''programId'' then map_option TokenProgramIdFilter (required read_string p)
     else None }"

definition read_transaction_logs_filter :: "json \<Rightarrow> rpc_transaction_logs_filter option" where
  "read_transaction_logs_filter j = do {
     (s, p) \<leftarrow> variant_of j;
     if s = ''all'' then (if carries_nothing p then Some LogsAll else None)
     else if s = ''allWithVotes'' then (if carries_nothing p then Some LogsAllWithVotes else None)
     else if s = ''mentions'' then map_option LogsMentions (required (read_vec read_string) p)
     else None }"

definition read_block_subscribe_filter :: "json \<Rightarrow> rpc_block_subscribe_filter option" where
  "read_block_subscribe_filter j = do {
     (s, p) \<leftarrow> variant_of j;
     if s = ''all'' then (if carries_nothing p then Some BlockAll else None)
     else if s = ''mentionsAccountOrProgram''
     then map_option MentionsAccountOrProgram (required read_string p)
     else None }"

interpretation largest_accounts_filter:
  wire_value ser_largest_accounts_filter read_largest_accounts_filter "\<lambda>_. True"
proof unfold_locales
  show "read_largest_accounts_filter (ser_largest_accounts_filter f) = Some f"
    "ser_largest_accounts_filter f \<noteq> JNull" for f
    by (cases f; simp add: read_largest_accounts_filter_def)+
qed

interpretation token_accounts_filter:
  wire_value ser_token_accounts_filter read_token_accounts_filter "\<lambda>_. True"
proof unfold_locales
  show "read_token_accounts_filter (ser_token_accounts_filter f) = Some f"
    "ser_token_accounts_filter f \<noteq> JNull" for f
    by (cases f; simp add: read_token_accounts_filter_def wire_simps)+
qed

interpretation transaction_logs_filter:
  wire_value ser_transaction_logs_filter read_transaction_logs_filter "\<lambda>_. True"
proof unfold_locales
  show "read_transaction_logs_filter (ser_transaction_logs_filter f) = Some f"
    "ser_transaction_logs_filter f \<noteq> JNull" for f
    by (cases f; simp add: read_transaction_logs_filter_def carries_nothing_def wire_simps
        standard_reads)+
qed

interpretation block_subscribe_filter:
  wire_value ser_block_subscribe_filter read_block_subscribe_filter "\<lambda>_. True"
proof unfold_locales
  show "read_block_subscribe_filter (ser_block_subscribe_filter f) = Some f"
    "ser_block_subscribe_filter f \<noteq> JNull" for f
    by (cases f; simp add: read_block_subscribe_filter_def carries_nothing_def wire_simps)+
qed

section \<open>Structs without a flattened part\<close>

definition names_signature_status_config :: "string list" where
  "names_signature_status_config =
     [''searchTransactionHistory'']"

definition build_signature_status_config ::
  "(string \<Rightarrow> json option)
     \<Rightarrow> rpc_signature_status_config option" where
  "build_signature_status_config m = do {
     x_search_transaction_history \<leftarrow> required read_bool (m ''searchTransactionHistory'');
     Some \<lparr>ssg_search_transaction_history = x_search_transaction_history\<rparr> }"

abbreviation read_signature_status_config ::
  "json \<Rightarrow> rpc_signature_status_config option" where
  "read_signature_status_config \<equiv>
     read_struct names_signature_status_config build_signature_status_config"

interpretation signature_status_config:
  struct_format members_signature_status_config names_signature_status_config
    build_signature_status_config "\<lambda>_. True"
  by unfold_locales
    (simp_all add: names_signature_status_config_def build_signature_status_config_def
      members_signature_status_config_def wire_simps standard_reads)

definition names_send_transaction_config :: "string list" where
  "names_send_transaction_config =
     [''skipPreflight'', ''preflightCommitment'', ''encoding'', ''maxRetries'',
      ''minContextSlot'']"

definition build_send_transaction_config ::
  "option_readers \<Rightarrow> (string \<Rightarrow> json option)
     \<Rightarrow> rpc_send_transaction_config option" where
  "build_send_transaction_config R m = do {
     x_skip_preflight \<leftarrow> defaulted read_bool False (m ''skipPreflight'');
     x_preflight_commitment \<leftarrow> optional (read_unit_enum (or_commitment_level R))
       (m ''preflightCommitment'');
     x_encoding \<leftarrow> optional (read_unit_enum (or_transaction_encoding R)) (m ''encoding'');
     x_max_retries \<leftarrow> optional read_usize (m ''maxRetries'');
     x_min_context_slot \<leftarrow> optional read_u64 (m ''minContextSlot'');
     Some \<lparr>stc_skip_preflight = x_skip_preflight,
       stc_preflight_commitment = x_preflight_commitment, stc_encoding = x_encoding,
       stc_max_retries = x_max_retries, stc_min_context_slot = x_min_context_slot\<rparr> }"

abbreviation read_send_transaction_config ::
  "option_readers \<Rightarrow> json \<Rightarrow> rpc_send_transaction_config option" where
  "read_send_transaction_config R \<equiv>
     read_struct names_send_transaction_config (build_send_transaction_config R)"

interpretation send_transaction_config:
  struct_format "members_send_transaction_config E" names_send_transaction_config
    "build_send_transaction_config R" "\<lambda>_. option_readers_ok E R" for E R
  by unfold_locales
    (simp_all add: names_send_transaction_config_def build_send_transaction_config_def
      members_send_transaction_config_def wire_simps standard_reads option_reads)

definition names_simulate_accounts_config :: "string list" where
  "names_simulate_accounts_config =
     [''encoding'', ''addresses'']"

definition build_simulate_accounts_config ::
  "option_readers \<Rightarrow> (string \<Rightarrow> json option)
     \<Rightarrow> rpc_simulate_transaction_accounts_config option" where
  "build_simulate_accounts_config R m = do {
     x_encoding \<leftarrow> optional (read_unit_enum (or_account_encoding R)) (m ''encoding'');
     x_addresses \<leftarrow> required (read_vec read_string) (m ''addresses'');
     Some \<lparr>sac_encoding = x_encoding, sac_addresses = x_addresses\<rparr> }"

abbreviation read_simulate_accounts_config ::
  "option_readers \<Rightarrow> json \<Rightarrow> rpc_simulate_transaction_accounts_config option" where
  "read_simulate_accounts_config R \<equiv>
     read_struct names_simulate_accounts_config (build_simulate_accounts_config R)"

interpretation simulate_accounts_config:
  struct_format "members_simulate_accounts_config E" names_simulate_accounts_config
    "build_simulate_accounts_config R" "\<lambda>_. option_readers_ok E R" for E R
  by unfold_locales
    (simp_all add: names_simulate_accounts_config_def build_simulate_accounts_config_def
      members_simulate_accounts_config_def wire_simps standard_reads option_reads)

definition names_block_production_config_range :: "string list" where
  "names_block_production_config_range =
     [''firstSlot'', ''lastSlot'']"

definition build_block_production_config_range ::
  "(string \<Rightarrow> json option)
     \<Rightarrow> rpc_block_production_config_range option" where
  "build_block_production_config_range m = do {
     x_first_slot \<leftarrow> required read_u64 (m ''firstSlot'');
     x_last_slot \<leftarrow> optional read_u64 (m ''lastSlot'');
     Some \<lparr>bpr_first_slot = x_first_slot, bpr_last_slot = x_last_slot\<rparr> }"

abbreviation read_block_production_config_range ::
  "json \<Rightarrow> rpc_block_production_config_range option" where
  "read_block_production_config_range \<equiv>
     read_struct names_block_production_config_range build_block_production_config_range"

interpretation block_production_config_range:
  struct_format members_block_production_config_range names_block_production_config_range
    build_block_production_config_range "\<lambda>_. True"
  by unfold_locales
    (simp_all add: names_block_production_config_range_def build_block_production_config_range_def
      members_block_production_config_range_def wire_simps standard_reads)

section \<open>Structs with a commitment flattened into them\<close>

definition names_simulate_transaction_config :: "string list" where
  "names_simulate_transaction_config =
     [''sigVerify'', ''replaceRecentBlockhash'', ''encoding'', ''accounts'',
      ''minContextSlot'', ''innerInstructions'']"

definition build_simulate_transaction_config ::
  "option_readers \<Rightarrow> (string \<Rightarrow> json option) \<Rightarrow> (string \<times> json) list
     \<Rightarrow> rpc_simulate_transaction_config option" where
  "build_simulate_transaction_config R m rest = do {
     x_sig_verify \<leftarrow> defaulted read_bool False (m ''sigVerify'');
     x_replace_recent_blockhash \<leftarrow> defaulted read_bool False (m ''replaceRecentBlockhash'');
     x_encoding \<leftarrow> optional (read_unit_enum (or_transaction_encoding R)) (m ''encoding'');
     x_accounts \<leftarrow> optional (read_simulate_accounts_config R) (m ''accounts'');
     x_min_context_slot \<leftarrow> optional read_u64 (m ''minContextSlot'');
     x_inner_instructions \<leftarrow> defaulted read_bool False (m ''innerInstructions'');
     Some \<lparr>simc_sig_verify = x_sig_verify,
       simc_replace_recent_blockhash = x_replace_recent_blockhash,
       simc_commitment = read_commitment R rest, simc_encoding = x_encoding,
       simc_accounts = x_accounts, simc_min_context_slot = x_min_context_slot,
       simc_inner_instructions = x_inner_instructions\<rparr> }"

abbreviation read_simulate_transaction_config ::
  "option_readers \<Rightarrow> json \<Rightarrow> rpc_simulate_transaction_config option" where
  "read_simulate_transaction_config R \<equiv>
     read_flat names_simulate_transaction_config (build_simulate_transaction_config R)"

interpretation simulate_transaction_config:
  flat_format "members_simulate_transaction_config E" names_simulate_transaction_config
    "[''commitment'']" "build_simulate_transaction_config R"
    "\<lambda>_. option_readers_ok E R" for E R
  by (rule commitment_formatI [where R = R])
    (simp_all add: names_simulate_transaction_config_def build_simulate_transaction_config_def
      members_simulate_transaction_config_def flat_reads
        simulate_accounts_config.read_opt_write [OF pred_option_const]
      split: option.split)

definition names_request_airdrop_config :: "string list" where
  "names_request_airdrop_config =
     [''recentBlockhash'']"

definition build_request_airdrop_config ::
  "option_readers \<Rightarrow> (string \<Rightarrow> json option) \<Rightarrow> (string \<times> json) list
     \<Rightarrow> rpc_request_airdrop_config option" where
  "build_request_airdrop_config R m rest = do {
     x_recent_blockhash \<leftarrow> optional read_string (m ''recentBlockhash'');
     Some \<lparr>adc_recent_blockhash = x_recent_blockhash,
       adc_commitment = read_commitment R rest\<rparr> }"

abbreviation read_request_airdrop_config ::
  "option_readers \<Rightarrow> json \<Rightarrow> rpc_request_airdrop_config option" where
  "read_request_airdrop_config R \<equiv>
     read_flat names_request_airdrop_config (build_request_airdrop_config R)"

interpretation request_airdrop_config:
  flat_format "members_request_airdrop_config E" names_request_airdrop_config
    "[''commitment'']" "build_request_airdrop_config R"
    "\<lambda>_. option_readers_ok E R" for E R
  by (rule commitment_formatI [where R = R])
    (simp_all add: names_request_airdrop_config_def build_request_airdrop_config_def
      members_request_airdrop_config_def flat_reads
      split: option.split)

definition names_leader_schedule_config :: "string list" where
  "names_leader_schedule_config =
     [''identity'']"

definition build_leader_schedule_config ::
  "option_readers \<Rightarrow> (string \<Rightarrow> json option) \<Rightarrow> (string \<times> json) list
     \<Rightarrow> rpc_leader_schedule_config option" where
  "build_leader_schedule_config R m rest = do {
     x_identity \<leftarrow> optional read_string (m ''identity'');
     Some \<lparr>lsc_identity = x_identity, lsc_commitment = read_commitment R rest\<rparr> }"

abbreviation read_leader_schedule_config ::
  "option_readers \<Rightarrow> json \<Rightarrow> rpc_leader_schedule_config option" where
  "read_leader_schedule_config R \<equiv>
     read_flat names_leader_schedule_config (build_leader_schedule_config R)"

interpretation leader_schedule_config:
  flat_format "members_leader_schedule_config E" names_leader_schedule_config
    "[''commitment'']" "build_leader_schedule_config R"
    "\<lambda>_. option_readers_ok E R" for E R
  by (rule commitment_formatI [where R = R])
    (simp_all add: names_leader_schedule_config_def build_leader_schedule_config_def
      members_leader_schedule_config_def flat_reads
      split: option.split)

definition names_block_production_config :: "string list" where
  "names_block_production_config =
     [''identity'', ''range'']"

definition build_block_production_config ::
  "option_readers \<Rightarrow> (string \<Rightarrow> json option) \<Rightarrow> (string \<times> json) list
     \<Rightarrow> rpc_block_production_config option" where
  "build_block_production_config R m rest = do {
     x_identity \<leftarrow> optional read_string (m ''identity'');
     x_range \<leftarrow> optional read_block_production_config_range (m ''range'');
     Some \<lparr>bpc_identity = x_identity, bpc_range = x_range,
       bpc_commitment = read_commitment R rest\<rparr> }"

abbreviation read_block_production_config ::
  "option_readers \<Rightarrow> json \<Rightarrow> rpc_block_production_config option" where
  "read_block_production_config R \<equiv>
     read_flat names_block_production_config (build_block_production_config R)"

interpretation block_production_config:
  flat_format "members_block_production_config E" names_block_production_config
    "[''commitment'']" "build_block_production_config R"
    "\<lambda>_. option_readers_ok E R" for E R
  by (rule commitment_formatI [where R = R])
    (simp_all add: names_block_production_config_def build_block_production_config_def
      members_block_production_config_def flat_reads
        opt_read [OF block_production_config_range.wire_value_axioms,
          simplified trivial_preds]
      split: option.split)

definition names_get_vote_accounts_config :: "string list" where
  "names_get_vote_accounts_config =
     [''votePubkey'', ''keepUnstakedDelinquents'', ''delinquentSlotDistance'']"

definition build_get_vote_accounts_config ::
  "option_readers \<Rightarrow> (string \<Rightarrow> json option) \<Rightarrow> (string \<times> json) list
     \<Rightarrow> rpc_get_vote_accounts_config option" where
  "build_get_vote_accounts_config R m rest = do {
     x_vote_pubkey \<leftarrow> optional read_string (m ''votePubkey'');
     x_keep_unstaked_delinquents \<leftarrow> optional read_bool (m ''keepUnstakedDelinquents'');
     x_delinquent_slot_distance \<leftarrow> optional read_u64 (m ''delinquentSlotDistance'');
     Some \<lparr>gvc_vote_pubkey = x_vote_pubkey, gvc_commitment = read_commitment R rest,
       gvc_keep_unstaked_delinquents = x_keep_unstaked_delinquents,
       gvc_delinquent_slot_distance = x_delinquent_slot_distance\<rparr> }"

abbreviation read_get_vote_accounts_config ::
  "option_readers \<Rightarrow> json \<Rightarrow> rpc_get_vote_accounts_config option" where
  "read_get_vote_accounts_config R \<equiv>
     read_flat names_get_vote_accounts_config (build_get_vote_accounts_config R)"

interpretation get_vote_accounts_config:
  flat_format "members_get_vote_accounts_config E" names_get_vote_accounts_config
    "[''commitment'']" "build_get_vote_accounts_config R"
    "\<lambda>_. option_readers_ok E R" for E R
  by (rule commitment_formatI [where R = R])
    (simp_all add: names_get_vote_accounts_config_def build_get_vote_accounts_config_def
      members_get_vote_accounts_config_def flat_reads
      split: option.split)

definition names_largest_accounts_config :: "string list" where
  "names_largest_accounts_config =
     [''filter'', ''sortResults'']"

definition build_largest_accounts_config ::
  "option_readers \<Rightarrow> (string \<Rightarrow> json option) \<Rightarrow> (string \<times> json) list
     \<Rightarrow> rpc_largest_accounts_config option" where
  "build_largest_accounts_config R m rest = do {
     x_filter \<leftarrow> optional read_largest_accounts_filter (m ''filter'');
     x_sort_results \<leftarrow> optional read_bool (m ''sortResults'');
     Some \<lparr>lac_commitment = read_commitment R rest, lac_filter = x_filter,
       lac_sort_results = x_sort_results\<rparr> }"

abbreviation read_largest_accounts_config ::
  "option_readers \<Rightarrow> json \<Rightarrow> rpc_largest_accounts_config option" where
  "read_largest_accounts_config R \<equiv>
     read_flat names_largest_accounts_config (build_largest_accounts_config R)"

interpretation largest_accounts_config:
  flat_format "members_largest_accounts_config E" names_largest_accounts_config
    "[''commitment'']" "build_largest_accounts_config R"
    "\<lambda>_. option_readers_ok E R" for E R
  by (rule commitment_formatI [where R = R])
    (simp_all add: names_largest_accounts_config_def build_largest_accounts_config_def
      members_largest_accounts_config_def flat_reads
        opt_read [OF largest_accounts_filter.wire_value_axioms, simplified trivial_preds]
      split: option.split)

definition names_supply_config :: "string list" where
  "names_supply_config =
     [''excludeNonCirculatingAccountsList'']"

definition build_supply_config ::
  "option_readers \<Rightarrow> (string \<Rightarrow> json option) \<Rightarrow> (string \<times> json) list
     \<Rightarrow> rpc_supply_config option" where
  "build_supply_config R m rest = do {
     x_exclude_non_circulating_accounts_list \<leftarrow> defaulted read_bool False
       (m ''excludeNonCirculatingAccountsList'');
     Some \<lparr>suc_commitment = read_commitment R rest,
       suc_exclude_non_circulating_accounts_list = x_exclude_non_circulating_accounts_list\<rparr> }"

abbreviation read_supply_config ::
  "option_readers \<Rightarrow> json \<Rightarrow> rpc_supply_config option" where
  "read_supply_config R \<equiv>
     read_flat names_supply_config (build_supply_config R)"

interpretation supply_config:
  flat_format "members_supply_config E" names_supply_config
    "[''commitment'']" "build_supply_config R"
    "\<lambda>_. option_readers_ok E R" for E R
  by (rule commitment_formatI [where R = R])
    (simp_all add: names_supply_config_def build_supply_config_def
      members_supply_config_def flat_reads
      split: option.split)

definition names_epoch_config :: "string list" where
  "names_epoch_config =
     [''epoch'', ''minContextSlot'']"

definition build_epoch_config ::
  "option_readers \<Rightarrow> (string \<Rightarrow> json option) \<Rightarrow> (string \<times> json) list
     \<Rightarrow> rpc_epoch_config option" where
  "build_epoch_config R m rest = do {
     x_epoch \<leftarrow> optional read_u64 (m ''epoch'');
     x_min_context_slot \<leftarrow> optional read_u64 (m ''minContextSlot'');
     Some \<lparr>epc_epoch = x_epoch, epc_commitment = read_commitment R rest,
       epc_min_context_slot = x_min_context_slot\<rparr> }"

abbreviation read_epoch_config ::
  "option_readers \<Rightarrow> json \<Rightarrow> rpc_epoch_config option" where
  "read_epoch_config R \<equiv>
     read_flat names_epoch_config (build_epoch_config R)"

interpretation epoch_config:
  flat_format "members_epoch_config E" names_epoch_config
    "[''commitment'']" "build_epoch_config R"
    "\<lambda>_. option_readers_ok E R" for E R
  by (rule commitment_formatI [where R = R])
    (simp_all add: names_epoch_config_def build_epoch_config_def
      members_epoch_config_def flat_reads
      split: option.split)

definition names_account_info_config :: "string list" where
  "names_account_info_config =
     [''encoding'', ''dataSlice'', ''minContextSlot'']"

definition build_account_info_config ::
  "option_readers \<Rightarrow> (string \<Rightarrow> json option) \<Rightarrow> (string \<times> json) list
     \<Rightarrow> rpc_account_info_config option" where
  "build_account_info_config R m rest = do {
     x_encoding \<leftarrow> optional (read_unit_enum (or_account_encoding R)) (m ''encoding'');
     x_data_slice \<leftarrow> optional (or_data_slice R) (m ''dataSlice'');
     x_min_context_slot \<leftarrow> optional read_u64 (m ''minContextSlot'');
     Some \<lparr>aic_encoding = x_encoding, aic_data_slice = x_data_slice,
       aic_commitment = read_commitment R rest,
       aic_min_context_slot = x_min_context_slot\<rparr> }"

abbreviation read_account_info_config ::
  "option_readers \<Rightarrow> json \<Rightarrow> rpc_account_info_config option" where
  "read_account_info_config R \<equiv>
     read_flat names_account_info_config (build_account_info_config R)"

interpretation account_info_config:
  flat_format "members_account_info_config E" names_account_info_config
    "[''commitment'']" "build_account_info_config R"
    "\<lambda>_. option_readers_ok E R" for E R
  by (rule commitment_formatI [where R = R])
    (simp_all add: names_account_info_config_def build_account_info_config_def
      members_account_info_config_def flat_reads
      split: option.split)

definition names_transaction_logs_config :: "string list" where
  "names_transaction_logs_config =
     []"

definition build_transaction_logs_config ::
  "option_readers \<Rightarrow> (string \<Rightarrow> json option) \<Rightarrow> (string \<times> json) list
     \<Rightarrow> rpc_transaction_logs_config option" where
  "build_transaction_logs_config R m rest = Some \<lparr>tlc_commitment = read_commitment R rest\<rparr>"

abbreviation read_transaction_logs_config ::
  "option_readers \<Rightarrow> json \<Rightarrow> rpc_transaction_logs_config option" where
  "read_transaction_logs_config R \<equiv>
     read_flat names_transaction_logs_config (build_transaction_logs_config R)"

interpretation transaction_logs_config:
  flat_format "members_transaction_logs_config E" names_transaction_logs_config
    "[''commitment'']" "build_transaction_logs_config R"
    "\<lambda>_. option_readers_ok E R" for E R
  by (rule commitment_formatI [where R = R])
    (simp_all add: names_transaction_logs_config_def build_transaction_logs_config_def
      members_transaction_logs_config_def flat_reads
      split: option.split)

definition names_signature_subscribe_config :: "string list" where
  "names_signature_subscribe_config =
     [''enableReceivedNotification'']"

definition build_signature_subscribe_config ::
  "option_readers \<Rightarrow> (string \<Rightarrow> json option) \<Rightarrow> (string \<times> json) list
     \<Rightarrow> rpc_signature_subscribe_config option" where
  "build_signature_subscribe_config R m rest = do {
     x_enable_received_notification \<leftarrow> optional read_bool (m ''enableReceivedNotification'');
     Some \<lparr>ssc_commitment = read_commitment R rest,
       ssc_enable_received_notification = x_enable_received_notification\<rparr> }"

abbreviation read_signature_subscribe_config ::
  "option_readers \<Rightarrow> json \<Rightarrow> rpc_signature_subscribe_config option" where
  "read_signature_subscribe_config R \<equiv>
     read_flat names_signature_subscribe_config (build_signature_subscribe_config R)"

interpretation signature_subscribe_config:
  flat_format "members_signature_subscribe_config E" names_signature_subscribe_config
    "[''commitment'']" "build_signature_subscribe_config R"
    "\<lambda>_. option_readers_ok E R" for E R
  by (rule commitment_formatI [where R = R])
    (simp_all add: names_signature_subscribe_config_def build_signature_subscribe_config_def
      members_signature_subscribe_config_def flat_reads
      split: option.split)

definition names_block_subscribe_config :: "string list" where
  "names_block_subscribe_config =
     [''encoding'', ''transactionDetails'', ''showRewards'',
      ''maxSupportedTransactionVersion'']"

definition build_block_subscribe_config ::
  "option_readers \<Rightarrow> (string \<Rightarrow> json option) \<Rightarrow> (string \<times> json) list
     \<Rightarrow> rpc_block_subscribe_config option" where
  "build_block_subscribe_config R m rest = do {
     x_encoding \<leftarrow> optional (read_unit_enum (or_transaction_encoding R)) (m ''encoding'');
     x_transaction_details \<leftarrow> optional (read_unit_enum (or_transaction_details R))
       (m ''transactionDetails'');
     x_show_rewards \<leftarrow> optional read_bool (m ''showRewards'');
     x_max_supported_transaction_version \<leftarrow> optional read_u8
       (m ''maxSupportedTransactionVersion'');
     Some \<lparr>bsc_commitment = read_commitment R rest, bsc_encoding = x_encoding,
       bsc_transaction_details = x_transaction_details, bsc_show_rewards = x_show_rewards,
       bsc_max_supported_transaction_version = x_max_supported_transaction_version\<rparr> }"

abbreviation read_block_subscribe_config ::
  "option_readers \<Rightarrow> json \<Rightarrow> rpc_block_subscribe_config option" where
  "read_block_subscribe_config R \<equiv>
     read_flat names_block_subscribe_config (build_block_subscribe_config R)"

interpretation block_subscribe_config:
  flat_format "members_block_subscribe_config E" names_block_subscribe_config
    "[''commitment'']" "build_block_subscribe_config R"
    "\<lambda>_. option_readers_ok E R" for E R
  by (rule commitment_formatI [where R = R])
    (simp_all add: names_block_subscribe_config_def build_block_subscribe_config_def
      members_block_subscribe_config_def flat_reads
      split: option.split)

definition names_signatures_for_address_config :: "string list" where
  "names_signatures_for_address_config =
     [''before'', ''until'', ''limit'', ''minContextSlot'']"

definition build_signatures_for_address_config ::
  "option_readers \<Rightarrow> (string \<Rightarrow> json option) \<Rightarrow> (string \<times> json) list
     \<Rightarrow> rpc_signatures_for_address_config option" where
  "build_signatures_for_address_config R m rest = do {
     x_before \<leftarrow> optional read_string (m ''before'');
     x_until \<leftarrow> optional read_string (m ''until'');
     x_limit \<leftarrow> optional read_usize (m ''limit'');
     x_min_context_slot \<leftarrow> optional read_u64 (m ''minContextSlot'');
     Some \<lparr>sfa_before = x_before, sfa_until = x_until, sfa_limit = x_limit,
       sfa_commitment = read_commitment R rest,
       sfa_min_context_slot = x_min_context_slot\<rparr> }"

abbreviation read_signatures_for_address_config ::
  "option_readers \<Rightarrow> json \<Rightarrow> rpc_signatures_for_address_config option" where
  "read_signatures_for_address_config R \<equiv>
     read_flat names_signatures_for_address_config (build_signatures_for_address_config R)"

interpretation signatures_for_address_config:
  flat_format "members_signatures_for_address_config E" names_signatures_for_address_config
    "[''commitment'']" "build_signatures_for_address_config R"
    "\<lambda>_. option_readers_ok E R" for E R
  by (rule commitment_formatI [where R = R])
    (simp_all add: names_signatures_for_address_config_def build_signatures_for_address_config_def
      members_signatures_for_address_config_def flat_reads
      split: option.split)

definition names_block_config :: "string list" where
  "names_block_config =
     [''encoding'', ''transactionDetails'', ''rewards'', ''maxSupportedTransactionVersion'']"

definition build_block_config ::
  "option_readers \<Rightarrow> (string \<Rightarrow> json option) \<Rightarrow> (string \<times> json) list
     \<Rightarrow> rpc_block_config option" where
  "build_block_config R m rest = do {
     x_encoding \<leftarrow> optional (read_unit_enum (or_transaction_encoding R)) (m ''encoding'');
     x_transaction_details \<leftarrow> optional (read_unit_enum (or_transaction_details R))
       (m ''transactionDetails'');
     x_rewards \<leftarrow> optional read_bool (m ''rewards'');
     x_max_supported_transaction_version \<leftarrow> optional read_u8
       (m ''maxSupportedTransactionVersion'');
     Some \<lparr>blc_encoding = x_encoding, blc_transaction_details = x_transaction_details,
       blc_rewards = x_rewards, blc_commitment = read_commitment R rest,
       blc_max_supported_transaction_version = x_max_supported_transaction_version\<rparr> }"

abbreviation read_block_config ::
  "option_readers \<Rightarrow> json \<Rightarrow> rpc_block_config option" where
  "read_block_config R \<equiv>
     read_flat names_block_config (build_block_config R)"

interpretation block_config:
  flat_format "members_block_config E" names_block_config
    "[''commitment'']" "build_block_config R"
    "\<lambda>_. option_readers_ok E R" for E R
  by (rule commitment_formatI [where R = R])
    (simp_all add: names_block_config_def build_block_config_def
      members_block_config_def flat_reads
      split: option.split)

definition names_transaction_config :: "string list" where
  "names_transaction_config =
     [''encoding'', ''maxSupportedTransactionVersion'']"

definition build_transaction_config ::
  "option_readers \<Rightarrow> (string \<Rightarrow> json option) \<Rightarrow> (string \<times> json) list
     \<Rightarrow> rpc_transaction_config option" where
  "build_transaction_config R m rest = do {
     x_encoding \<leftarrow> optional (read_unit_enum (or_transaction_encoding R)) (m ''encoding'');
     x_max_supported_transaction_version \<leftarrow> optional read_u8
       (m ''maxSupportedTransactionVersion'');
     Some \<lparr>txc_encoding = x_encoding, txc_commitment = read_commitment R rest,
       txc_max_supported_transaction_version = x_max_supported_transaction_version\<rparr> }"

abbreviation read_transaction_config ::
  "option_readers \<Rightarrow> json \<Rightarrow> rpc_transaction_config option" where
  "read_transaction_config R \<equiv>
     read_flat names_transaction_config (build_transaction_config R)"

interpretation transaction_config:
  flat_format "members_transaction_config E" names_transaction_config
    "[''commitment'']" "build_transaction_config R"
    "\<lambda>_. option_readers_ok E R" for E R
  by (rule commitment_formatI [where R = R])
    (simp_all add: names_transaction_config_def build_transaction_config_def
      members_transaction_config_def flat_reads
      split: option.split)

definition names_context_config :: "string list" where
  "names_context_config =
     [''minContextSlot'']"

definition build_context_config ::
  "option_readers \<Rightarrow> (string \<Rightarrow> json option) \<Rightarrow> (string \<times> json) list
     \<Rightarrow> rpc_context_config option" where
  "build_context_config R m rest = do {
     x_min_context_slot \<leftarrow> optional read_u64 (m ''minContextSlot'');
     Some \<lparr>rcc_commitment = read_commitment R rest,
       rcc_min_context_slot = x_min_context_slot\<rparr> }"

abbreviation read_context_config ::
  "option_readers \<Rightarrow> json \<Rightarrow> rpc_context_config option" where
  "read_context_config R \<equiv>
     read_flat names_context_config (build_context_config R)"

interpretation context_config:
  flat_format "members_context_config E" names_context_config
    "[''commitment'']" "build_context_config R"
    "\<lambda>_. option_readers_ok E R" for E R
  by (rule commitment_formatI [where R = R])
    (simp_all add: names_context_config_def build_context_config_def
      members_context_config_def flat_reads
      split: option.split)

section \<open>An option inside an option\<close>

text \<open>
  \<open>RpcProgramAccountsConfig\<close> flattens an \<open>RpcAccountInfoConfig\<close>, which takes its own fields
  and its commitment from what the outer struct leaves; here an error is not dropped.
\<close>

definition names_program_accounts_config :: "string list" where
  "names_program_accounts_config = [''filters'', ''withContext'', ''sortResults'']"

definition build_program_accounts_config ::
  "option_readers \<Rightarrow> (string \<Rightarrow> json option) \<Rightarrow> (string \<times> json) list
     \<Rightarrow> rpc_program_accounts_config option" where
  "build_program_accounts_config R m rest = do {
     x_filters \<leftarrow> optional (read_vec read_filter) (m ''filters'');
     x_with_context \<leftarrow> optional read_bool (m ''withContext'');
     x_sort_results \<leftarrow> optional read_bool (m ''sortResults'');
     x_account_config \<leftarrow> read_account_info_config R (JObject rest);
     Some \<lparr>pac_filters = x_filters, pac_account_config = x_account_config,
       pac_with_context = x_with_context, pac_sort_results = x_sort_results\<rparr> }"

abbreviation read_program_accounts_config ::
  "option_readers \<Rightarrow> json \<Rightarrow> rpc_program_accounts_config option" where
  "read_program_accounts_config R \<equiv>
     read_flat names_program_accounts_config (build_program_accounts_config R)"

lemma account_info_rest:
  assumes "distinct (filter (\<lambda>k. k \<in> set names_account_info_config \<union> {''commitment''}) (map fst rest))"
    and "distinct (filter (\<lambda>k. k \<in> set names_account_info_config \<union> {''commitment''}) (map fst rest'))"
    and "map_of rest |` (set names_account_info_config \<union> {''commitment''}) =
      map_of rest' |` (set names_account_info_config \<union> {''commitment''})"
  shows "read_account_info_config R (JObject rest) = read_account_info_config R (JObject rest')"
proof -
  note sub = distinct_filter_sub
  have eq: "map_of rest k = map_of rest' k" if "k \<in> set names_account_info_config \<union> {''commitment''}" for k
    using fun_cong [OF assms(3), of k] that by (auto simp: restrict_map_def)
  have own: "map_of rest |` set names_account_info_config =
      map_of rest' |` set names_account_info_config"
    by (rule ext) (simp add: restrict_map_def eq)
  have com: "filter (\<lambda>m. fst m = ''commitment'') (filter (\<lambda>m. fst m \<notin> set names_account_info_config) ms) =
      (case map_of ms ''commitment'' of None \<Rightarrow> [] | Some j \<Rightarrow> [(''commitment'', j)])"
    if "distinct (filter (\<lambda>k. k \<in> set names_account_info_config \<union> {''commitment''}) (map fst ms))"
    for ms :: "(string \<times> json) list"
  proof -
    have "filter (\<lambda>m. fst m = ''commitment'') (filter (\<lambda>m. fst m \<notin> set names_account_info_config) ms) =
        filter (\<lambda>m. fst m = ''commitment'') ms"
      unfolding filter_filter by (rule filter_cong) (auto simp: names_account_info_config_def)
    then show ?thesis using single_key_member [OF sub [OF that]] by simp
  qed
  have "read_commitment R (filter (\<lambda>m. fst m \<notin> set names_account_info_config) rest) =
      read_commitment R (filter (\<lambda>m. fst m \<notin> set names_account_info_config) rest')"
    unfolding read_commitment_def com [OF assms(1)] com [OF assms(2)] by (simp add: eq)
  with own sub [OF assms(1)] sub [OF assms(2)] show ?thesis
    by (simp add: read_flat_def build_account_info_config_def)
qed

interpretation program_accounts_config:
  flat_format "members_program_accounts_config E" names_program_accounts_config
    "names_account_info_config @ [''commitment'']" "build_program_accounts_config R"
    "\<lambda>_. option_readers_ok E R" for E R
proof
  show "build_program_accounts_config R
      (map_of (members_program_accounts_config E c) |` set names_program_accounts_config)
      (filter (\<lambda>m. fst m \<notin> set names_program_accounts_config)
        (members_program_accounts_config E c)) = Some c" if ok: "option_readers_ok E R" for c
  proof -
    have fs: "read_opt (read_vec read_filter) (ser_opt (ser_vec ser_filter) fs) = Some fs" for fs
      using opt_read [OF value_vec [OF filter_wire.wire_value_axioms]]
      by (simp add: option.pred_True list.pred_True)
    have "filter (\<lambda>m. fst m \<notin> set names_program_accounts_config)
        (members_program_accounts_config E c) = members_account_info_config E (pac_account_config c)"
      by (cases "aic_commitment (pac_account_config c)")
        (simp_all add: names_program_accounts_config_def members_program_accounts_config_def
          members_account_info_config_def commitment_members_def)
    then show ?thesis
      using account_info_config.read_members [OF ok, of "pac_account_config c"]
      by (cases "aic_commitment (pac_account_config c)")
        (simp_all add: build_program_accounts_config_def names_program_accounts_config_def
          members_program_accounts_config_def members_account_info_config_def
          commitment_members_def fs wire_simps standard_reads)
  qed
  show "build_program_accounts_config R m rest = build_program_accounts_config R m rest'"
    if "distinct (filter (\<lambda>k. k \<in> set (names_account_info_config @ [''commitment''])) (map fst rest))"
      "distinct (filter (\<lambda>k. k \<in> set (names_account_info_config @ [''commitment''])) (map fst rest'))"
      "map_of rest |` set (names_account_info_config @ [''commitment'']) =
        map_of rest' |` set (names_account_info_config @ [''commitment''])" for m rest rest'
    using account_info_rest [of rest rest' R] that by (simp add: build_program_accounts_config_def)
qed

section \<open>Untagged wrappers\<close>

text \<open>The first variant that reads the value is taken, so \<open>null\<close> is always the first one's.\<close>

definition read_leader_schedule_config_wrapper ::
  "option_readers \<Rightarrow> json \<Rightarrow> rpc_leader_schedule_config_wrapper option" where
  "read_leader_schedule_config_wrapper R j = (case read_opt read_u64 j of
     Some s \<Rightarrow> Some (SlotOnly s)
   | None \<Rightarrow> map_option LeaderConfigOnly (read_opt (read_leader_schedule_config R) j))"

definition read_blocks_config_wrapper ::
  "option_readers \<Rightarrow> json \<Rightarrow> rpc_blocks_config_wrapper option" where
  "read_blocks_config_wrapper R j = (case read_opt read_u64 j of
     Some s \<Rightarrow> Some (EndSlotOnly s)
   | None \<Rightarrow> map_option BlocksConfigOnly (read_opt (read_context_config R) j))"

fun ser_encoding_config_wrapper ::
  "'h env \<Rightarrow> ('t \<Rightarrow> json) \<Rightarrow> 't rpc_encoding_config_wrapper \<Rightarrow> json" where
  "ser_encoding_config_wrapper E ser (Deprecated e) =
     ser_opt (\<lambda>e. JString (transaction_encoding_name E e)) e"
| "ser_encoding_config_wrapper E ser (Current c) = ser_opt ser c"

definition read_encoding_config_wrapper ::
  "option_readers \<Rightarrow> (json \<Rightarrow> 't option) \<Rightarrow> json \<Rightarrow> 't rpc_encoding_config_wrapper option" where
  "read_encoding_config_wrapper R r j =
     (case read_opt (read_unit_enum (or_transaction_encoding R)) j of
       Some e \<Rightarrow> Some (Deprecated e)
     | None \<Rightarrow> map_option Current (read_opt r j))"

lemma read_opt_written:
  "read_opt r JNull = Some None" "read_opt r (JObject ms) = map_option Some (r (JObject ms))"
  by (simp_all add: read_opt_def)

lemma read_u64_object [wire_simps]: "read_u64 (JObject ms) = None"
  by (simp add: read_u64_def)

lemma read_unit_enum_object [wire_simps]:
  "2 \<le> length ms \<Longrightarrow> read_unit_enum parse (JObject ms) = None"
  by (cases ms; cases "tl ms") (auto simp: read_unit_enum_def)

text \<open>
  An empty second variant is written as \<open>null\<close> and read as an empty first one; every other
  value is read back.
\<close>

lemma leader_schedule_wrapper_read:
  assumes "option_readers_ok E R"
  shows "read_leader_schedule_config_wrapper R (ser_leader_schedule_config_wrapper E w) =
    Some (if w = LeaderConfigOnly None then SlotOnly None else w)"
  by (cases w; cases "case w of LeaderConfigOnly c \<Rightarrow> c | _ \<Rightarrow> None")
    (simp_all add: read_leader_schedule_config_wrapper_def wire_simps standard_reads read_opt_written
      leader_schedule_config.read_members [OF assms])

lemma blocks_wrapper_read:
  assumes "option_readers_ok E R"
  shows "read_blocks_config_wrapper R (ser_blocks_config_wrapper E w) =
    Some (if w = BlocksConfigOnly None then EndSlotOnly None else w)"
  by (cases w; cases "case w of BlocksConfigOnly c \<Rightarrow> c | _ \<Rightarrow> None")
    (simp_all add: read_blocks_config_wrapper_def wire_simps standard_reads read_opt_written
      context_config.read_members [OF assms])

lemma encoding_wrapper_read:
  assumes "option_readers_ok E R" and "\<And>c. r (JObject (members c)) = Some c"
    and "\<And>c. 2 \<le> length (members c)"
  shows "read_encoding_config_wrapper R r
      (ser_encoding_config_wrapper E (\<lambda>c. JObject (members c)) w) =
    Some (if w = Current None then Deprecated None else w)"
  by (cases w; cases "case w of Current c \<Rightarrow> c | _ \<Rightarrow> None")
    (simp_all add: read_encoding_config_wrapper_def wire_simps read_opt_written assms(2,3)
      option_reads [OF assms(1)])

section \<open>Commitments that cannot be read\<close>












lemmas option_struct_reads =
  send_transaction_config.read_members
  simulate_transaction_config.read_members
  request_airdrop_config.read_members
  block_production_config.read_members
  get_vote_accounts_config.read_members
  largest_accounts_config.read_members
  supply_config.read_members
  epoch_config.read_members
  program_accounts_config.read_members
  transaction_logs_config.read_members
  signature_subscribe_config.read_members
  block_subscribe_config.read_members
  signatures_for_address_config.read_members
  simulate_accounts_config.read_members
  leader_schedule_config.read_members
  account_info_config.read_members
  block_config.read_members
  transaction_config.read_members
  context_config.read_members

lemmas plain_reads =
  signature_status_config.read_members [OF TrueI] token_accounts_filter.read_write [OF TrueI]
  transaction_logs_filter.read_write [OF TrueI] block_subscribe_filter.read_write [OF TrueI]
  block_production_config_range.read_members [OF TrueI] largest_accounts_filter.read_write [OF TrueI]
  account_index.read_write [OF TrueI]

section \<open>A concrete reader\<close>

text \<open>The names of the Solana crates, with which the witnesses run.\<close>

fun wire_commitment_level :: "commitment_level \<Rightarrow> string" where
  "wire_commitment_level Processed = ''processed''"
| "wire_commitment_level Confirmed = ''confirmed''"
| "wire_commitment_level Finalized = ''finalized''"

fun wire_transaction_encoding :: "ui_transaction_encoding \<Rightarrow> string" where
  "wire_transaction_encoding UiBinary = ''binary''"
| "wire_transaction_encoding UiBase64 = ''base64''"
| "wire_transaction_encoding UiBase58 = ''base58''"
| "wire_transaction_encoding UiJson = ''json''"
| "wire_transaction_encoding UiJsonParsed = ''jsonParsed''"

fun wire_account_encoding :: "ui_account_encoding \<Rightarrow> string" where
  "wire_account_encoding AccountBinary = ''binary''"
| "wire_account_encoding AccountBase58 = ''base58''"
| "wire_account_encoding AccountBase64 = ''base64''"
| "wire_account_encoding AccountJsonParsed = ''jsonParsed''"
| "wire_account_encoding AccountBase64Zstd = ''base64+zstd''"

fun wire_transaction_details :: "transaction_details \<Rightarrow> string" where
  "wire_transaction_details DetailsFull = ''full''"
| "wire_transaction_details DetailsSignatures = ''signatures''"
| "wire_transaction_details DetailsNone = ''none''"
| "wire_transaction_details DetailsAccounts = ''accounts''"

definition by_name :: "('a \<Rightarrow> string) \<Rightarrow> 'a list \<Rightarrow> string \<Rightarrow> 'a option" where
  "by_name name xs s = map_of (map (\<lambda>x. (name x, x)) xs) s"

definition options_env :: "sample_state env" where
  "options_env = concrete_env\<lparr>commitment_level_name := wire_commitment_level,
     transaction_encoding_name := wire_transaction_encoding,
     account_encoding_name := wire_account_encoding,
     transaction_details_name := wire_transaction_details,
     ser_data_slice := (\<lambda>s. JObject [(''offset'', ser_usize (ds_offset s)),
       (''length'', ser_usize (ds_length s))])\<rparr>"

definition concrete_readers :: option_readers where
  "concrete_readers = \<lparr>
     or_commitment_level = by_name wire_commitment_level [Processed, Confirmed, Finalized],
     or_transaction_encoding = by_name wire_transaction_encoding
       [UiBinary, UiBase64, UiBase58, UiJson, UiJsonParsed],
     or_account_encoding = by_name wire_account_encoding
       [AccountBinary, AccountBase58, AccountBase64, AccountJsonParsed, AccountBase64Zstd],
     or_transaction_details = by_name wire_transaction_details
       [DetailsFull, DetailsSignatures, DetailsNone, DetailsAccounts],
     or_data_slice = read_struct [''offset'', ''length''] (\<lambda>m. do {
       n \<leftarrow> required read_usize (m ''offset'');
       l \<leftarrow> required read_usize (m ''length'');
       Some \<lparr>ds_offset = n, ds_length = l\<rparr> })\<rparr>"

lemma concrete_readers_ok: "option_readers_ok options_env concrete_readers"
proof -
  have "or_commitment_level concrete_readers (wire_commitment_level l) = Some l" for l
    by (cases l) (simp_all add: concrete_readers_def by_name_def)
  moreover have "or_transaction_encoding concrete_readers (wire_transaction_encoding e) = Some e" for e
    by (cases e) (simp_all add: concrete_readers_def by_name_def)
  moreover have "or_account_encoding concrete_readers (wire_account_encoding e) = Some e" for e
    by (cases e) (simp_all add: concrete_readers_def by_name_def)
  moreover have "or_transaction_details concrete_readers (wire_transaction_details d) = Some d" for d
    by (cases d) (simp_all add: concrete_readers_def by_name_def)
  moreover have "or_data_slice concrete_readers (ser_data_slice options_env s) = Some s"
    "ser_data_slice options_env s \<noteq> JNull" for s
    by (simp_all add: concrete_readers_def options_env_def read_struct_def wire_simps
        usize.read_write restrict_map_def)
  ultimately show ?thesis by (simp add: option_readers_ok_def options_env_def)
qed

section \<open>Properties\<close>

text \<open>
  C13: every request option of \<open>config.rs\<close> is read back from what it is written as:
  each of the structs on its own, with its flattened commitment present or absent, the option
  inside an option, the filters and the account index, and the untagged wrappers up to their
  empty second variant, which is written as the empty first one.
\<close>

theorem options_round_trip:
  assumes "option_readers_ok E R"
  shows "read_signature_status_config (JObject (members_signature_status_config c1)) = Some c1 \<and>
    read_send_transaction_config R (JObject (members_send_transaction_config E c2)) = Some c2 \<and>
    read_simulate_transaction_config R (JObject (members_simulate_transaction_config E c3)) =
       Some c3 \<and>
    read_request_airdrop_config R (JObject (members_request_airdrop_config E c4)) = Some c4 \<and>
    read_block_production_config R (JObject (members_block_production_config E c5)) = Some c5 \<and>
    read_get_vote_accounts_config R (JObject (members_get_vote_accounts_config E c6)) = Some c6 \<and>
    read_largest_accounts_config R (JObject (members_largest_accounts_config E c7)) = Some c7 \<and>
    read_supply_config R (JObject (members_supply_config E c8)) = Some c8 \<and>
    read_epoch_config R (JObject (members_epoch_config E c9)) = Some c9 \<and>
    read_program_accounts_config R (JObject (members_program_accounts_config E c10)) = Some c10 \<and>
    read_transaction_logs_config R (JObject (members_transaction_logs_config E c11)) = Some c11 \<and>
    read_signature_subscribe_config R (JObject (members_signature_subscribe_config E c12)) =
       Some c12 \<and>
    read_block_subscribe_config R (JObject (members_block_subscribe_config E c13)) = Some c13 \<and>
    read_signatures_for_address_config R (JObject (members_signatures_for_address_config E c14)) =
       Some c14 \<and>
    read_token_accounts_filter (ser_token_accounts_filter f) = Some f \<and>
    read_transaction_logs_filter (ser_transaction_logs_filter g) = Some g \<and>
    read_block_subscribe_filter (ser_block_subscribe_filter h) = Some h \<and>
    (read_leader_schedule_config_wrapper R (ser_leader_schedule_config_wrapper E w) =
       Some (if w = LeaderConfigOnly None then SlotOnly None else w)) \<and>
    read_blocks_config_wrapper R (ser_blocks_config_wrapper E b) =
       Some (if b = BlocksConfigOnly None then EndSlotOnly None else b) \<and>
    read_encoding_config_wrapper R (read_block_config R)
       (ser_encoding_config_wrapper E (\<lambda>c. JObject (members_block_config E c)) k) =
       Some (if k = Current None then Deprecated None else k) \<and>
    read_encoding_config_wrapper R (read_transaction_config R)
       (ser_encoding_config_wrapper E (\<lambda>c. JObject (members_transaction_config E c)) t) =
       Some (if t = Current None then Deprecated None else t) \<and>
    read_account_info_config R (JObject (members_account_info_config E c15)) = Some c15 \<and>
    read_simulate_accounts_config R (JObject (members_simulate_accounts_config E c16)) = Some c16 \<and>
    read_leader_schedule_config R (JObject (members_leader_schedule_config E c17)) = Some c17 \<and>
    read_block_production_config_range (JObject (members_block_production_config_range c18)) =
       Some c18 \<and>
    read_block_config R (JObject (members_block_config E c19)) = Some c19 \<and>
    read_transaction_config R (JObject (members_transaction_config E c20)) = Some c20 \<and>
    read_context_config R (JObject (members_context_config E c21)) = Some c21 \<and>
    read_largest_accounts_filter (ser_largest_accounts_filter l) = Some l \<and>
    read_account_index (ser_account_index i) = Some i"
proof (intro conjI)
  show "read_encoding_config_wrapper R (read_block_config R)
      (ser_encoding_config_wrapper E (\<lambda>c. JObject (members_block_config E c)) k) =
    Some (if k = Current None then Deprecated None else k)"
    by (rule encoding_wrapper_read [OF assms block_config.read_members [OF assms]])
      (simp add: members_block_config_def)
  show "read_encoding_config_wrapper R (read_transaction_config R)
      (ser_encoding_config_wrapper E (\<lambda>c. JObject (members_transaction_config E c)) t) =
    Some (if t = Current None then Deprecated None else t)"
    by (rule encoding_wrapper_read [OF assms transaction_config.read_members [OF assms]])
      (simp add: members_transaction_config_def)
qed (rule option_struct_reads [OF assms] plain_reads
  leader_schedule_wrapper_read [OF assms] blocks_wrapper_read [OF assms])+

lemma options_round_trip_witness:
  "option_readers_ok options_env concrete_readers \<and>
   read_supply_config concrete_readers (JObject (members_supply_config options_env
     \<lparr>suc_commitment = Some (CommitmentConfig Confirmed),
      suc_exclude_non_circulating_accounts_list = True\<rparr>)) =
     Some \<lparr>suc_commitment = Some (CommitmentConfig Confirmed),
      suc_exclude_non_circulating_accounts_list = True\<rparr>"
proof
  note c = conjunct2 [OF conjunct2]
  show "read_supply_config concrete_readers (JObject (members_supply_config options_env
     \<lparr>suc_commitment = Some (CommitmentConfig Confirmed),
      suc_exclude_non_circulating_accounts_list = True\<rparr>)) =
     Some \<lparr>suc_commitment = Some (CommitmentConfig Confirmed),
      suc_exclude_non_circulating_accounts_list = True\<rparr>"
    by (rule options_round_trip [OF concrete_readers_ok, THEN c, THEN c, THEN c, THEN conjunct2,
          THEN conjunct1])
qed (rule concrete_readers_ok)



end
