(* ===== verification/Zela_Tests.thy ===== *)
theory Zela_Tests
  imports Zela_Answers Zela_Encodings
begin

text \<open>
  The unit tests of the sources (\<open>filter.rs\<close>, \<open>request.rs\<close>, \<open>response.rs\<close>), each as the
  conjunction of its assertions over the model. A text that a test parses stands as the
  value it denotes; what other crates write is read through the laws of \<open>Zela_Encodings\<close>.
\<close>

section \<open>Filters\<close>

definition test_worst_case_encoded_tx_goldens :: "'h env \<Rightarrow> bool" where
  "test_worst_case_encoded_tx_goldens E \<longleftrightarrow> (let ff_data = replicate MAX_DATA_SIZE 0xFF in
     length (bs58_encode E ff_data) = MAX_DATA_BASE58_SIZE \<and>
     length (base64_encode E ff_data) = MAX_DATA_BASE64_SIZE)"

definition base58_memcmp :: "'h env \<Rightarrow> usize \<Rightarrow> u8 list \<Rightarrow> memcmp" where
  "base58_memcmp E offset bytes =
     \<lparr>mc_offset = offset, mc_bytes = Base58 (bs58_encode E bytes)\<rparr>"

definition test_bytes_match :: "'h env \<Rightarrow> bool" where
  "test_bytes_match E \<longleftrightarrow> (let data = [1, 2, 3, 4, 5] in
     bytes_match E (base58_memcmp E 0 [1, 2, 3, 4, 5]) data = Done True \<and>
     bytes_match E (base58_memcmp E 0 [1, 2]) data = Done True \<and>
     bytes_match E (base58_memcmp E 2 [3, 4]) data = Done True \<and>
     bytes_match E (base58_memcmp E 0 [2]) data = Done False \<and>
     bytes_match E (base58_memcmp E 2 [3, 4, 5, 6]) data = Done False \<and>
     bytes_match E (base58_memcmp E 6 [5]) data = Done False \<and>
     bytes_match E \<lparr>mc_offset = 0, mc_bytes = Base58 ''III''\<rparr> data = Done False)"

definition test_verify_memcmp :: "'h env \<Rightarrow> bool" where
  "test_verify_memcmp E \<longleftrightarrow>
     (let base58_bytes = replicate 64 (CHR ''1'') @ replicate 64 (CHR ''1'') in
        length base58_bytes = 128 \<and>
        verify E (Memcmp \<lparr>mc_offset = 0, mc_bytes = Base58 base58_bytes\<rparr>) = Inr ()) \<and>
     (let base58_bytes = replicate 64 (CHR ''1'') @ replicate 64 (CHR ''1'') @ [CHR ''1''] in
        length base58_bytes = 129 \<and>
        verify E (Memcmp \<lparr>mc_offset = 0, mc_bytes = Base58 base58_bytes\<rparr>) = Inl DataTooLarge)"

definition BASE58_STR :: string where
  "BASE58_STR = ''Bpf4ERpEvSFmCSTNh1PzTWTkALrKXvMXEdthxHuwCQcf''"

definition BASE64_STR :: string where
  "BASE64_STR = ''oMoycDvJzrjQpCfukbO4VW/FLGLfnbqBEc9KUEVgj2g=''"

definition BYTES :: "u8 list" where "BYTES = [0, 1, 2, 3]"
definition OFFSET :: usize where "OFFSET = 42"

definition DEFAULT_ENCODING_FILTER :: json where
  "DEFAULT_ENCODING_FILTER =
     JObject [(''bytes'', JString BASE58_STR), (''offset'', ser_usize OFFSET)]"

definition BINARY_FILTER :: json where
  "BINARY_FILTER = JObject [(''bytes'', JString BASE58_STR), (''offset'', ser_usize OFFSET),
     (''encoding'', JString ''binary'')]"

definition BASE58_FILTER :: json where
  "BASE58_FILTER = JObject [(''bytes'', JString BASE58_STR), (''offset'', ser_usize OFFSET),
     (''encoding'', JString ''base58'')]"

definition BASE64_FILTER :: json where
  "BASE64_FILTER = JObject [(''bytes'', JString BASE64_STR), (''offset'', ser_usize OFFSET),
     (''encoding'', JString ''base64'')]"

definition MISMATCHED_BASE64_FILTER :: json where
  "MISMATCHED_BASE64_FILTER = JObject [(''bytes'', ser_vec ser_u8 [0, 1, 2, 3]),
     (''offset'', ser_usize OFFSET), (''encoding'', JString ''base64'')]"

definition BYTES_FILTER :: json where
  "BYTES_FILTER = JObject [(''bytes'', ser_vec ser_u8 [0, 1, 2, 3]),
     (''offset'', ser_usize OFFSET), (''encoding'', JNull)]"

definition BYTES_FILTER_WITH_ENCODING :: json where
  "BYTES_FILTER_WITH_ENCODING = JObject [(''bytes'', ser_vec ser_u8 [0, 1, 2, 3]),
     (''offset'', ser_usize OFFSET), (''encoding'', JString ''bytes'')]"

definition MISMATCHED_BYTES_FILTER_WITH_ENCODING :: json where
  "MISMATCHED_BYTES_FILTER_WITH_ENCODING = JObject [(''bytes'', JString BASE58_STR),
     (''offset'', ser_usize OFFSET), (''encoding'', JString ''bytes'')]"

lemmas test_filters = DEFAULT_ENCODING_FILTER_def BINARY_FILTER_def BASE58_FILTER_def
  BASE64_FILTER_def MISMATCHED_BASE64_FILTER_def BYTES_FILTER_def
  BYTES_FILTER_WITH_ENCODING_def MISMATCHED_BYTES_FILTER_WITH_ENCODING_def

definition test_filter_deserialize :: bool where
  "test_filter_deserialize \<longleftrightarrow>
     read_memcmp DEFAULT_ENCODING_FILTER =
       Some \<lparr>mc_offset = OFFSET, mc_bytes = Base58 BASE58_STR\<rparr> \<and>
     read_memcmp BINARY_FILTER = None \<and>
     read_memcmp BASE58_FILTER = Some \<lparr>mc_offset = OFFSET, mc_bytes = Base58 BASE58_STR\<rparr> \<and>
     read_memcmp BASE64_FILTER = Some \<lparr>mc_offset = OFFSET, mc_bytes = Base64 BASE64_STR\<rparr> \<and>
     read_memcmp BYTES_FILTER = Some \<lparr>mc_offset = OFFSET, mc_bytes = Bytes BYTES\<rparr> \<and>
     read_memcmp BYTES_FILTER_WITH_ENCODING =
       Some \<lparr>mc_offset = OFFSET, mc_bytes = Bytes BYTES\<rparr> \<and>
     read_memcmp MISMATCHED_BASE64_FILTER =
       Some \<lparr>mc_offset = OFFSET, mc_bytes = Bytes BYTES\<rparr> \<and>
     read_memcmp MISMATCHED_BYTES_FILTER_WITH_ENCODING =
       Some \<lparr>mc_offset = OFFSET, mc_bytes = Base58 BASE58_STR\<rparr>"

text \<open>Equality of two values that are objects: the same members in any order.\<close>

fun same_object :: "json \<Rightarrow> json \<Rightarrow> bool" where
  "same_object (JObject ms) (JObject ns) \<longleftrightarrow>
     distinct (map fst ms) \<and> distinct (map fst ns) \<and> set ms = set ns"
| "same_object _ _ \<longleftrightarrow> False"

definition test_filter_serialize :: bool where
  "test_filter_serialize \<longleftrightarrow>
     same_object (JObject (members_memcmp \<lparr>mc_offset = OFFSET, mc_bytes = Base58 BASE58_STR\<rparr>))
       BASE58_FILTER \<and>
     same_object (JObject (members_memcmp \<lparr>mc_offset = OFFSET, mc_bytes = Base64 BASE64_STR\<rparr>))
       BASE64_FILTER \<and>
     same_object (JObject (members_memcmp \<lparr>mc_offset = OFFSET, mc_bytes = Bytes BYTES\<rparr>))
       BYTES_FILTER_WITH_ENCODING"

section \<open>Requests\<close>

definition test_addr :: json where
  "test_addr = JString ''deadbeefXjn8o3yroDHxUtKsZZgoy4GPkPPXfouKNHhx''"

definition test_build_request_json :: bool where
  "test_build_request_json \<longleftrightarrow>
     (let request = build_request_json GetAccountInfo 1 (JArray [test_addr]) in
        member_of request ''method'' = Some (JString ''getAccountInfo'') \<and>
        member_of request ''params'' = Some (JArray [test_addr])) \<and>
     member_of (build_request_json GetBalance 1 (JArray [test_addr])) ''method'' =
       Some (JString ''getBalance'') \<and>
     member_of (build_request_json GetEpochInfo 1 JNull) ''method'' =
       Some (JString ''getEpochInfo'') \<and>
     member_of (build_request_json GetLatestBlockhash 1 JNull) ''method'' =
       Some (JString ''getLatestBlockhash'') \<and>
     member_of (build_request_json GetSlot 1 JNull) ''method'' = Some (JString ''getSlot'') \<and>
     member_of (build_request_json GetTransactionCount 1 JNull) ''method'' =
       Some (JString ''getTransactionCount'') \<and>
     member_of (build_request_json RequestAirdrop 1 JNull) ''method'' =
       Some (JString ''requestAirdrop'') \<and>
     member_of (build_request_json SendTransaction 1 JNull) ''method'' =
       Some (JString ''sendTransaction'') \<and>
     member_of (build_request_json GetTokenLargestAccounts 1 JNull) ''method'' =
       Some (JString ''getTokenLargestAccounts'')"

definition test_build_request_json_config_options :: "'h env \<Rightarrow> pubkey \<Rightarrow> bool" where
  "test_build_request_json_config_options E mint \<longleftrightarrow>
     (let commitment_config = ser_commitment E (CommitmentConfig Finalized);
          token_account_filter =
            ser_token_accounts_filter (TokenMintFilter (pubkey_to_string E mint)) in
        member_of (build_request_json GetLatestBlockhash 1 (JArray [commitment_config]))
          ''params'' = Some (JArray [commitment_config]) \<and>
        member_of (build_request_json GetBalance 1 (JArray [test_addr, commitment_config]))
          ''params'' = Some (JArray [test_addr, commitment_config]) \<and>
        member_of (build_request_json GetTokenAccountsByOwner 1
            (JArray [test_addr, token_account_filter, commitment_config])) ''params'' =
          Some (JArray [test_addr, token_account_filter, commitment_config]))"

section \<open>Performance samples\<close>

definition rpc_perf_sample_deserialize_old :: bool where
  "rpc_perf_sample_deserialize_old \<longleftrightarrow>
     (let input = JObject [(''slot'', ser_u64 424), (''numTransactions'', ser_u64 2597),
            (''numSlots'', ser_u64 2783), (''samplePeriodSecs'', ser_u16 398)];
          expected = \<lparr>pf_slot = 424, pf_num_transactions = 2597,
            pf_num_non_vote_transactions = None, pf_num_slots = 2783,
            pf_sample_period_secs = 398\<rparr> in
        read_rpc_perf_sample input = Some expected)"

definition rpc_perf_sample_serializes_num_non_vote_transactions :: bool where
  "rpc_perf_sample_serializes_num_non_vote_transactions \<longleftrightarrow>
     (let input = \<lparr>pf_slot = 1286, pf_num_transactions = 1732,
            pf_num_non_vote_transactions = Some 757, pf_num_slots = 393,
            pf_sample_period_secs = 197\<rparr>;
          expected = JObject [(''slot'', ser_u64 1286), (''numTransactions'', ser_u64 1732),
            (''numNonVoteTransactions'', ser_opt ser_u64 (Some 757)),
            (''numSlots'', ser_u64 393), (''samplePeriodSecs'', ser_u16 197)] in
        same_object (ser_rpc_perf_sample input) expected)"

section \<open>The assertions hold\<close>

lemma test_bytes_match_holds:
  assumes "\<And>b. bs58_decode E (bs58_encode E b) = Inr b" "bs58_decode E ''III'' = Inl err"
  shows "test_bytes_match E"
  by (simp add: test_bytes_match_def Let_def bytes_match_Done memcmp_bytes_def
      base58_memcmp_def assms)

lemma test_verify_memcmp_holds:
  assumes "\<And>n. bs58_decode E (replicate n (CHR ''1'')) = Inr (replicate n 0)"
  shows "test_verify_memcmp E"
proof -
  have "replicate 64 c @ replicate 64 c = replicate 128 c"
    "replicate 64 c @ replicate 64 c @ [c] = replicate 129 c" for c :: char
    using replicate_add [of 64 64 c] replicate_add [of 64 "64 + 1" c] replicate_add [of 64 1 c]
    by simp_all
  then show ?thesis by (simp add: test_verify_memcmp_def verify_def max_sizes assms)
qed

lemma test_filter_deserialize_holds: test_filter_deserialize
  using u8.read_vec_write [of "[0, 1, 2, 3]"]
  by (simp add: test_filter_deserialize_def test_filters read_memcmp.simps usize.read_write
      de_memcmp_encoded_bytes_def de_of_def read_struct_def build_memcmp_inner_def wire_simps
      read_opt_def read_data_type_simps read_memcmp_encoding_def restrict_map_def BYTES_def)

lemma test_filter_serialize_holds: test_filter_serialize
  by (auto simp: test_filter_serialize_def test_filters members_memcmp_def BYTES_def)

lemma test_build_request_json_holds: test_build_request_json
  by (simp add: test_build_request_json_def build_request_json_def)

lemma test_config_options_holds: "test_build_request_json_config_options E mint"
  by (simp add: test_build_request_json_config_options_def build_request_json_def Let_def)

lemma perf_sample_old_holds: rpc_perf_sample_deserialize_old
  by (simp add: rpc_perf_sample_deserialize_old_def read_struct_def build_rpc_perf_sample_def
      names_rpc_perf_sample_def wire_simps restrict_map_def u64.read_write u16.read_write)

lemma perf_sample_serializes_holds: rpc_perf_sample_serializes_num_non_vote_transactions
  by (auto simp: rpc_perf_sample_serializes_num_non_vote_transactions_def
      members_rpc_perf_sample_def Let_def)

lemmas tests_hold = test_filter_deserialize_holds test_filter_serialize_holds
  test_build_request_json_holds test_config_options_holds perf_sample_old_holds
  perf_sample_serializes_holds

lemma test_worst_case_holds:
  assumes "encoders_ok E"
  shows "test_worst_case_encoded_tx_goldens E"
proof -
  have "length (bs58_encode E b) = base58_length b" "length (base64_encode E b) = base64_length (length b)"
    for b using assms unfolding encoders_ok_def by blast+
  then show ?thesis
    using base58_length_ff base64_length_ff
    by (simp add: test_worst_case_encoded_tx_goldens_def max_sizes)
qed

section \<open>The base58 of the witnesses\<close>

lemma concrete_base58_ones:
  "concrete_base58_decode (replicate n (CHR ''1'')) = Inr (replicate n 0)"
proof -
  have one: "CHR ''1'' \<in> set alphabet58" "index_of alphabet58 (CHR ''1'') = 0" by code_simp+
  have "leading_zeros (replicate n 0) = n" using leading_zeros_append [of "[]" n] by simp
  moreover have "of_base 58 (replicate n 0) = 0" using of_base_zeros [of 58 n "[]"] by simp
  ultimately show ?thesis
    by (simp add: concrete_base58_decode_def list_all_iff one rebase_def)
qed

section \<open>The assertions hold\<close>

text \<open>
  The assertions of all unit tests hold of the model, for encoders
  with their documented lengths and a base58 that reads ones as zero bytes and refuses the text \<open>III\<close>,
  which is not in its alphabet.
\<close>

theorem repository_tests_hold:
  assumes "encoders_ok E"
    and "\<And>n. bs58_decode E (replicate n (CHR ''1'')) = Inr (replicate n 0)"
    and "bs58_decode E ''III'' = Inl err"
  shows "test_worst_case_encoded_tx_goldens E \<and> test_bytes_match E \<and> test_verify_memcmp E \<and>
    test_filter_deserialize \<and> test_filter_serialize \<and> test_build_request_json \<and>
    test_build_request_json_config_options E mint \<and> rpc_perf_sample_deserialize_old \<and>
    rpc_perf_sample_serializes_num_non_vote_transactions"
proof (intro conjI)
  have "bs58_decode E (bs58_encode E b) = Inr b" for b
    using assms(1) unfolding encoders_ok_def by blast
  then show "test_bytes_match E" by (rule test_bytes_match_holds [OF _ assms(3)])
  show "test_worst_case_encoded_tx_goldens E" by (rule test_worst_case_holds [OF assms(1)])
  show "test_verify_memcmp E" by (rule test_verify_memcmp_holds [OF assms(2)])
qed (rule tests_hold)+

lemma repository_tests_hold_witness:
  "test_worst_case_encoded_tx_goldens concrete_env \<and> test_bytes_match concrete_env"
proof -
  have "bs58_decode concrete_env (replicate n (CHR ''1'')) = Inr (replicate n 0)" for n
    by (simp add: concrete_env_def concrete_base58_ones)
  moreover have "bs58_decode concrete_env ''III'' = Inl (Bs58Error ''III'')"
    by (simp add: concrete_env_def concrete_base58_decode_def alphabet58_def)
  ultimately show ?thesis using repository_tests_hold [OF concrete_encoders_ok] by blast
qed

end
