(* ===== verification/Spec2Isabelle.thy ===== *)
theory Spec2Isabelle
  imports Zela_Calls Zela_Waiting Zela_Lifecycle Zela_Progress Zela_Typed Zela_Options Zela_Tests
begin

text \<open>
  A verification development for \<^bold>\<open>zela-std\<close>, the standard library of Zela procedures: Rust
  programs compiled to a wasm32 component that a host runs once per incoming request, and
  that reach a Solana cluster only through the host (\<open>src/zela.wit\<close>).

  \<^bold>\<open>The program.\<close> \<open>src/lib.rs\<close> turns an \<open>async fn run\<close> into the exported function of the
  component: it installs a logger once, reads the parameters from JSON, polls the future to
  its end, and writes the result back as JSON or as an error with a code. It also offers
  \<open>call_rpc\<close> and \<open>Subscription\<close>, thin layers over the host's functions. On top of these
  \<open>src/rpc_client/\<close> rebuilds the interface of the Solana RPC client: \<open>request.rs\<close> (method
  names, protocol errors), \<open>error.rs\<close> (the client's error and its conversions),
  \<open>response.rs\<close>, \<open>config.rs\<close> and \<open>filter.rs\<close> (the data on the wire), \<open>util.rs\<close> (transactions as
  a trait), \<open>client.rs\<close> (one method per request, and the methods that retry and wait), and
  \<open>pubsub.rs\<close> (subscriptions as streams). \<open>examples/echo.rs\<close> is a procedure that returns
  its parameters.

  \<^bold>\<open>The model.\<close> A run passes a world along: the state of the host (anything outside the
  component, moved arbitrarily by each call), the history of the requests made of it, and
  the statics of the instance. A Rust function with effects is a \<open>prog\<close>: a function from the
  world to an outcome (a value, a panic, or no answer within the fuel given) and the next
  world. \<open>Result<T, E>\<close> is a sum with the error on the left, \<open>?\<close> is \<open>tryp\<close>, and every loop of
  the code is an instance of the one combinator \<open>loop\<close> of \<open>Zela_Prelude\<close>, on a definition of
  its body. An \<open>await\<close> is a call: every future of the crate is ready at its first poll, since
  no function of the host is asynchronous. \<open>usize\<close> has 32 bits, and an addition panics or
  wraps as the build says.

  \<^item> \<open>Zela_Prelude\<close>: outcomes, programs, loops and the locale \<open>bounded_loop\<close>; the inductive
    relation \<open>loop_rounds\<close>, the rounds of one run of a loop, which \<open>loop_eq_Done\<close> relates to what
    the loop returns; relations between worlds and the locale \<open>world_preorder\<close>; programs that
    always answer, and how programs may panic (\<open>panics\<close>).
  \<^item> \<open>Zela_Json\<close>, \<open>Zela_Host\<close>: JSON values and the locale \<open>wire_struct\<close> of structures with distinct
    member names; the functions of the host, the clock, \<open>serde_json\<close> and logging, gathered in
    the record \<open>host\<close> that every definition takes as an argument.
  \<^item> \<open>Zela_Read\<close>: the readers that \<open>#[derive(Deserialize)]\<close> makes of the standard types and of
    structs. The locale \<open>wire_format\<close> is the contract of a writer and a reader,
    \<open>wire_value\<close> that of one never written as \<open>null\<close>, and \<open>struct_format\<close> derives both for a
    struct from the names of its fields: found in any order, beside unknown members, or by
    position in an array, and refused where one comes twice.
  \<^item> \<open>Zela_Lib\<close>: \<open>src/lib.rs\<close> and \<open>examples/echo.rs\<close>. \<open>poll_await\<close> is specified by the
    inductive relation \<open>pending_for\<close>; \<open>guest_run\<close> is the exported function.
  \<^item> \<open>Zela_Response\<close>, \<open>Zela_Request\<close>, \<open>Zela_Error\<close>, \<open>Zela_Filter\<close>, \<open>Zela_Config\<close>: the files of
    the same names. The locale \<open>error_source\<close> is the contract of a conversion into the
    client's error, interpreted for each \<open>From\<close>; \<open>wire_struct\<close> is interpreted for each
    structure that is sent.
  \<^item> \<open>Zela_Env\<close>, \<open>Zela_Sample\<close>: the functions of the crates the client links against, added to
    the record of the host; and a concrete such record in which the witnesses run.
  \<^item> \<open>Zela_Send\<close>: the client, \<open>send\<close>, \<open>serialize_and_encode\<close>, \<open>parse_keyed_accounts\<close> and the
    instances of \<open>util.rs\<close>. The locale \<open>rpc_transport\<close> states what the methods need of \<open>send\<close>:
    one call under the request's name, errors tagged with the request, no panic.
  \<^item> \<open>Zela_Client\<close>, \<open>Zela_Transactions\<close>, \<open>Zela_Polling\<close>: the methods of \<open>client.rs\<close> that send one
    request, those that submit, simulate and confirm transactions, and those that wait.
  \<^item> \<open>Zela_Pubsub\<close>: \<open>pubsub.rs\<close>.
  \<^item> \<open>Zela_Wire\<close>, \<open>Zela_Wire_Cluster\<close>, \<open>Zela_Wire_Accounts\<close>: every structure of \<open>response.rs\<close> on the
    wire, an instance of \<open>struct_format\<close> or \<open>wire_value\<close> each: for a struct \<open>x\<close>, \<open>names_x\<close>,
    \<open>members_x\<close> and \<open>build_x\<close> are its field names, its members and how it is put together.
    \<open>Zela_Answers\<close>: what a method returns when the node answers with such a value;
    \<open>Zela_Typed\<close>: that what was read is well formed.
  \<^item> \<open>Zela_Protocol\<close>: the inductive relation \<open>confirm_step\<close>, the protocol of a confirmation, and
    that \<open>send_and_confirm_transaction\<close> refines it; \<open>Zela_Waiting\<close>: the protocol of a wait,
    questions and pauses in turn, which five methods refine, and that the wait for
    confirmations ends; \<open>Zela_Calls\<close>: what one request asks of the host; \<open>Zela_Streams\<close>: a
    stream as the refinement of the messages its subscription will give.
  \<^item> \<open>Zela_Progress\<close>: the locale \<open>progressing_loop\<close>, a loop that reaches its goal while the node
    keeps answering, interpreted on the loop of a confirmation and on the wait for a signature;
    \<open>Zela_Lifecycle\<close>: the locale \<open>subscription_method\<close> and the life of a subscription, its opening
    followed by what is received, of which the methods of \<open>pubsub.rs\<close> are instances.
  \<^item> \<open>Zela_Encodings\<close>: how long the texts of \<open>bs58\<close> and \<open>base64\<close> are, with concrete encoders of
    these lengths, and what the size limits of \<open>filter.rs\<close> accept. \<open>Zela_Options\<close>: the readers of
    \<open>config.rs\<close>; the locale \<open>flat_format\<close> is the contract of a struct with flattened fields.
  \<^item> \<open>Zela_Tests\<close>: the unit tests of the sources, as statements about the model, and that they
    hold of it.

  \<^bold>\<open>Scenarios.\<close> Four definitions are no code of the crate but what surrounds it, so that
  theorems can speak of whole runs: \<open>serve\<close> is a host that sends requests to one instance, one
  after the other; \<open>drain\<close> a procedure that reads a stream to its end, and \<open>listen\<close> one that opens
  a subscription and does so; \<open>query_procedure\<close>, in this theory, one that answers with what a
  method of the client returns.

  \<^bold>\<open>What is shown.\<close> For each component the theory that models it ends with its properties:
  the executor returns the first ready result and nothing else hides it; an instance is
  initialised once over any sequence of requests; each response of a procedure is accounted
  for, down to the text of every error; filters match what they mean and survive conversion and
  the wire; \<open>send\<close> makes one call and tags its errors; a transaction is submitted at most once,
  beside queries, pauses and log lines only, with the options the caller gave, and a confirmed
  signature is its own, reported as executed; every run of a confirmation is a path of its
  protocol and ends, with a value or in the one way it can panic; five of the waits ask and
  pause in turn, and every method that makes one request makes one call, with the panics it
  may end in; every response type and every request option is read back from what it is
  written as, whatever a node adds or reorders, and what is read is well formed; an unreadable
  commitment in the options is dropped; a stream delivers the values of all messages before
  the first unreadable one in their order, and a subscription is one request and then its
  receives; no more than the limits of a filter is accepted; each loop that has a timeout ends
  under a clock that runs; what a wait returns is what one round of that very run was answered,
  the last one, but for the confirmations, where it is the last count that was told; where the
  node goes on answering that the blockhash is valid until the status appears, a confirmation
  succeeds. This theory holds the properties across components.

  \<^bold>\<open>Fuel.\<close> A loop takes the number of its iterations as an argument. That it returns is an
  interpretation of \<open>bounded_loop\<close>: 12 iterations for \<open>poll_get_balance\<close> (a second in tenths),
  65 for \<open>poll_for_signature\<close> (sixteen seconds in quarters), 85 for each count that
  \<open>poll_for_signature_confirmation\<close> comes to, \<open>usize::MAX + 1\<close> for the status loop, the
  periods before the timeout for the others. \<open>loop_fuel_mono\<close> shows that more fuel never
  changes an answer. \<open>wait_for_balance\<close> while other balances than the expected one are polled, the
  executor, and the wait for confirmations on a node whose counts keep changing may not end; this
  is a theorem each.

  \<^bold>\<open>Parameters and hypotheses.\<close> Code outside the repository is an argument: the host, the parser
  and printer of JSON text, \<open>bs58\<close>, \<open>base64\<close>, \<open>bincode\<close>, the parsers and texts of the Solana
  types, the formats of the Solana types inside a response (the record \<open>foreign\<close>), and single
  precision arithmetic. A method takes its reader as the argument \<open>de\<close>; \<open>Zela_Answers\<close> and
  \<open>Zela_Streams\<close> put the derived one there. The text of an error of \<open>serde\<close> is an argument of
  \<open>de_of\<close>. The laws a theorem needs are hypotheses: \<open>clock_ok\<close> (a clock that never runs back, a
  sleep of at least its length), \<open>foreign_ok\<close> (the formats of other crates read what they
  write), \<open>inbox_host\<close> (a receive waits for the next message of its subscription and takes it, and
  nothing else takes any; a receive that fails counts as a message, and nothing is said of one
  that waits for ever), \<open>counts_rise\<close>
  (the confirmations of a signature never fall), \<open>encoders_ok\<close> (encoders that their decoders
  invert, with texts of the documented lengths), \<open>option_readers_ok\<close> (names that are read back),
  and \<open>status_from\<close> and \<open>stays_valid\<close> (what the node answers as the wait goes on). Objects are lists of members in the order they are written, and
  a \<open>HashMap\<close> is the list of its entries in the order of its iteration.

  \<^bold>\<open>Not modelled.\<close> The bindings generated by \<open>wit_bindgen\<close> (\<open>src/sys.rs\<close> and the export macro),
  the cancellation of a subscription when it is dropped, the texts of JSON (a value stands for
  what its text denotes), and white space beyond ASCII in a version string.
\<close>

section \<open>A procedure around a query\<close>

text \<open>
  The procedure a user writes to answer with what one method of the client returns:
  \<open>async fn run(params) { Ok(client.method(&params).await?) }\<close>. Its future makes the query at
  its first poll and is ready; the error is converted as \<open>?\<close> does.
\<close>

definition query_procedure ::
  "'h env \<Rightarrow> ('p \<Rightarrow> ('h world, 'a client_result) prog) \<Rightarrow> (u8 list \<Rightarrow> serde_error + 'p)
     \<Rightarrow> ('a \<Rightarrow> json) \<Rightarrow> ('h world, 'p, 'p, 'a, json) custom_procedure" where
  "query_procedure E query de_params ser = \<lparr>
     cp_run = (\<lambda>p. p),
     cp_poll = (\<lambda>p. mapp (\<lambda>r. (p, Ready (map_err
       (rpc_error_from_client (show_io_error E) (error_texts_of E)) r))) (query p)),
     cp_de_params = de_params,
     cp_ser_success = (\<lambda>v. json_to_vec E (ser v)),
     cp_ser_error = json_to_vec E,
     cp_log_max_level = default_log_max_level,
     cp_log_fmt = default_log_fmt\<rparr>"

lemma query_procedure_runs:
  assumes "fresh_instance w \<or> initialised (query_procedure E query de_params ser) w"
    and "de_params b = Inr p" and "0 < fuel"
  shows "\<exists>w1. hstate w1 = hstate w \<and> trace w1 = trace w \<and>
    guest_run (query_procedure E query de_params ser) fuel b w =
      mapp (\<lambda>r. respond (query_procedure E query de_params ser)
        (map_err (rpc_error_from_client (show_io_error E) (error_texts_of E)) r)) (query p) w1"
proof -
  let ?P = "query_procedure E query de_params ser"
  obtain w1 where w1: "call_once (procedure_init ?P) w = (Done (), w1)"
    "hstate w1 = hstate w" "trace w1 = trace w"
    using call_once_init [OF assms(1)] by blast
  obtain n where n: "fuel = Suc n" using assms(3) gr0_implies_Suc by blast
  have P: "cp_de_params ?P = de_params" "cp_run ?P p = p" "cp_poll ?P p = mapp (\<lambda>r. (p, Ready (map_err
       (rpc_error_from_client (show_io_error E) (error_texts_of E)) r))) (query p)"
    by (simp_all add: query_procedure_def)
  have "guest_run ?P fuel b w = mapp (respond ?P) (poll_await (cp_poll ?P) fuel (cp_run ?P p)) w1"
    unfolding guest_run_def P(1) assms(2) sum.case by (simp add: bindp_def w1(1))
  also have "\<dots> = mapp (\<lambda>r. respond ?P
      (map_err (rpc_error_from_client (show_io_error E) (error_texts_of E)) r)) (query p) w1"
    unfolding P(2) n mapp_def bindp_def poll_await_Suc P(3)
    by (cases "query p w1") (simp add: mapp_def bindp_def ret_def split: outcome.split)
  finally show ?thesis using w1 by blast
qed

section \<open>Properties across components\<close>

text \<open>
  C5: a procedure that calls another one gets its result. If the host hands the
  parameters of a call to the exported \<open>run\<close> of a procedure and its response back, and the
  caller's decoders read what the procedure's encoders wrote, then what \<open>call_rpc\<close> returns is
  the result of the procedure's own future on the caller's parameters, value or error.
\<close>

theorem rpc_round_trip:
  assumes "ser params = Inr b" and "cp_de_params P b = Inr params"
    and "fst (h_call_rpc E method b (hstate w)) = Inr rsp"
    and "guest_run P fuel b w0 = (Done rsp, w0')"
    and "\<And>v. \<exists>x. cp_ser_success P v = Inr x \<and> de_ok x = Inr v"
    and "\<And>v. \<exists>x. cp_ser_error P v = Inr x \<and> de_err x = Inr v"
  shows "\<exists>r w1. poll_await (cp_poll P) fuel (cp_run P params) w1 = (Done r, w0') \<and>
    fst (call_rpc E ser de_ok de_err method params w) = Done (Inr r)"
proof -
  from assms(2,4) obtain r w1 where
    r: "poll_await (cp_poll P) fuel (cp_run P params) w1 = (Done r, w0')" "rsp = respond P r"
    by (auto simp: guest_run_def bindp_eq_Done mapp_eq_Done)
  have ok: "cp_ser_success P v = Inr x \<Longrightarrow> de_ok x = Inr v" for v x using assms(5) [of v] by auto
  have err: "cp_ser_error P v = Inr x \<Longrightarrow> de_err x = Inr v" for v x using assms(6) [of v] by auto
  have "fst (call_rpc E ser de_ok de_err method params w) = Done (Inr r)"
    by (rule call_rpc_reads_response [where ser = ser and P = P and b = b])
      (use assms(1) assms(3) [unfolded r(2)] ok err assms(5,6) in blast)+
  with r(1) show ?thesis by blast
qed

lemma rpc_round_trip_witness:
  defines "P \<equiv> \<lparr>cp_run = (\<lambda>p. p), cp_poll = (\<lambda>p. ret (p, Ready (Inr p))), cp_de_params = Inr,
      cp_ser_success = Inr, cp_ser_error = Inr, cp_log_max_level = default_log_max_level,
      cp_log_fmt = default_log_fmt\<rparr> ::
        (sample_state world, u8 list, u8 list, u8 list, u8 list) custom_procedure"
  shows "\<exists>r w1. poll_await (cp_poll P) 1 (cp_run P [5]) w1 =
        (Done r, snd (guest_run P 1 [5] (sample_world []))) \<and>
    fst (call_rpc sample_env Inr Inr Inr ''echo'' [5] (sample_world [sample_reply [5]])) = Done (Inr r)"
proof (rule rpc_round_trip)
  show "guest_run P 1 [5] (sample_world []) =
      (Done (Inr [5]), snd (guest_run P 1 [5] (sample_world [])))"
    by (simp add: P_def guest_run_def call_once_def procedure_init_def set_logger_def
        set_max_level_def bindp_def ret_def mapp_def poll_await_def respond_def sample_world_def)
qed (simp_all add: P_def sample_world_def sample_reply_def)

text \<open>
  The echo procedure answers a request, in one poll, with the serialised form
  of the very JSON value it was sent, and makes no request of the host.
\<close>

theorem echo_returns_parameters:
  assumes "fresh_instance w \<or> initialised (echo_procedure E ser_unit) w"
    and "json_from_slice E b = Inr j" and "json_to_vec E j = Inr b'" and "0 < fuel"
  shows "\<exists>w'. guest_run (echo_procedure E ser_unit) fuel b w = (Done (Inr b'), w') \<and>
    initialised (echo_procedure E ser_unit) w' \<and> trace w' = trace w \<and> hstate w' = hstate w"
proof -
  obtain w1 where w1: "call_once (procedure_init (echo_procedure E ser_unit)) w = (Done (), w1)"
    "initialised (echo_procedure E ser_unit) w1" "hstate w1 = hstate w" "trace w1 = trace w"
    using call_once_init [OF assms(1)] by blast
  obtain n where "fuel = Suc n" using assms(4) gr0_implies_Suc by blast
  with assms(2,3) w1 show ?thesis
    by (simp add: guest_run_def bindp_def mapp_def ret_def poll_await_Suc respond_def
        echo_procedure_def)
qed

lemma echo_returns_parameters_witness:
  "\<exists>w'. guest_run (echo_procedure sample_env (\<lambda>_. Inr [])) 1 [6] (sample_world []) = (Done (Inr []), w')"
  using echo_returns_parameters [of "sample_world []" sample_env "\<lambda>_. Inr []" "[6]" _ "[]" 1]
  by (auto simp: fresh_instance_def sample_world_def)

text \<open>
  C37: a procedure that makes one client request and passes its error on with
  \<open>?\<close> answers its caller with the procedure's response to the decoded value, or with code 500,
  the displayed client error, and no data.
\<close>

theorem client_error_reaches_caller:
  assumes "cp_de_params P b = Inr p"
    and "\<And>w. cp_poll P (cp_run P p) w = mapp (\<lambda>r. (f', Ready (map_err
      (rpc_error_from_client (show_io_error E) (error_texts_of E)) r))) (send E de req params) w"
    and "guest_run P (Suc n) b w = (Done rsp, w')"
  shows "\<exists>r w1. send E de req params w1 = (Done r, w') \<and>
    rsp = (case r of
        Inr v \<Rightarrow> respond P (Inr v)
      | Inl e \<Rightarrow> Inl (plain_error 500 (show_error E e)))"
proof -
  from assms(1,3) obtain w1 x where x: "poll_await (cp_poll P) (Suc n) (cp_run P p) w1 = (Done x, w')"
    and rsp: "rsp = respond P x"
    by (auto simp: guest_run_def bindp_eq_Done mapp_eq_Done)
  from x obtain r where s: "send E de req params w1 = (Done r, w')"
    and x': "x = map_err (rpc_error_from_client (show_io_error E) (error_texts_of E)) r"
    by (auto simp: poll_await_Suc assms(2) mapp_def bindp_def ret_def
        split: prod.splits outcome.splits)
  have "rsp = (case r of Inr v \<Rightarrow> respond P (Inr v) | Inl e \<Rightarrow> Inl (plain_error 500 (show_error E e)))"
    unfolding rsp x' by (cases r)
      (simp_all add: respond_def rpc_error_from_client_def plain_error_def show_error_def)
  with s show ?thesis by blast
qed

lemma client_error_reaches_caller_witness:
  defines "P \<equiv> \<lparr>cp_run = (\<lambda>p. ()),
      cp_poll = (\<lambda>_. mapp (\<lambda>r. ((), Ready (map_err (rpc_error_from_client (show_io_error sample_env)
        (error_texts_of sample_env)) r))) (send sample_env Inr GetHealth JNull)),
      cp_de_params = Inr, cp_ser_success = json_to_vec sample_env, cp_ser_error = Inr,
      cp_log_max_level = default_log_max_level, cp_log_fmt = default_log_fmt\<rparr> ::
        (sample_state world, unit, u8 list, json, u8 list) custom_procedure"
  shows "\<exists>r w1. send sample_env Inr GetHealth JNull w1 =
      (Done r, snd (guest_run P 1 [] (sample_world [Inl 5]))) \<and>
    fst (guest_run P 1 [] (sample_world [Inl 5])) = Done (case r of
        Inr v \<Rightarrow> respond P (Inr v)
      | Inl e \<Rightarrow> Inl (plain_error 500 (show_error sample_env e)))"
proof -
  let ?g = "guest_run P 1 [] (sample_world [Inl 5])"
  have "\<exists>x. fst ?g = Done x"
    by (simp add: P_def guest_run_def call_once_def procedure_init_def set_logger_def
        set_max_level_def poll_await_def sample_run map_err_def respond_def split: sum.split)
  then obtain x where g: "?g = (Done x, snd ?g)" by (metis prod.collapse)
  have "guest_run P (Suc 0) [] (sample_world [Inl 5]) = (Done x, snd ?g)" using g by simp
  from client_error_reaches_caller [OF _ _ this, of "[]" "()" sample_env Inr GetHealth JNull]
  obtain r w1 where "send sample_env Inr GetHealth JNull w1 = (Done r, snd ?g)"
    "x = (case r of Inr v \<Rightarrow> respond P (Inr v)
      | Inl e \<Rightarrow> Inl (plain_error 500 (show_error sample_env e)))"
    by (auto simp: P_def)
  with g show ?thesis by (metis fst_conv)
qed

text \<open>
  C16: from the node to the caller. A procedure that answers with the balance of the
  account in its parameters: where the node answers \<open>getBalance\<close> with an object that carries a
  response with that balance, members in any order and others beside them, the exported \<open>run\<close>
  returns the JSON of the balance, and the host has seen that one request and nothing else.
\<close>

theorem balance_through_procedure:
  assumes "fresh_instance w \<or> initialised (query_procedure E
      (get_balance E (de_of msg (read_response F (required read_u64))) self) de_params ser_u64) w"
    and "de_params b = Inr pubkey" and "0 < fuel"
    and "node_answers E GetBalance (JArray [JString (pubkey_to_string E pubkey),
      ser_commitment E (commitment self)]) w (JObject ms) w'"
    and "carries (members_response ser_u64) names_response rsp ms"
    and "wf_response_context F (rsp_context rsp)"
    and "json_to_vec E (ser_u64 (rsp_value rsp)) = Inr out"
  shows "\<exists>w''. guest_run (query_procedure E
      (get_balance E (de_of msg (read_response F (required read_u64))) self) de_params ser_u64)
      fuel b w = (Done (Inr out), w'') \<and> hstate w'' = hstate w' \<and> trace w'' = trace w' \<and>
    (\<exists>request. trace w' = trace w @ [EvCallRpc ''getBalance'' request])"
proof -
  let ?ps = "JArray [JString (pubkey_to_string E pubkey), ser_commitment E (commitment self)]"
  let ?de = "de_of msg (read_response F (required read_u64))"
  let ?P = "query_procedure E (get_balance E ?de self) de_params ser_u64"
  obtain w1 where w1: "hstate w1 = hstate w" "trace w1 = trace w" "guest_run ?P fuel b w =
      mapp (\<lambda>r. respond ?P (map_err (rpc_error_from_client (show_io_error E) (error_texts_of E)) r))
        (get_balance E ?de self pubkey) w1"
    using query_procedure_runs [OF assms(1-3)] by blast
  obtain w2 where a: "node_answers E GetBalance ?ps w1 (JObject ms) w2"
    and w2: "hstate w2 = hstate w'" "trace w2 = trace w'"
    using node_answers_again [OF assms(4) w1(1,2)] by blast
  have "struct_format (members_response ser_u64) names_response (build_response F (required read_u64))
      (\<lambda>r. wf_response_context F (rsp_context r) \<and> True)"
    by (rule response_format) (simp add: u64.read_write wire_simps)
  from struct_format.send_reads_object [OF this a _ assms(5), of msg] assms(6)
  have "send E ?de GetBalance ?ps w1 = (Done (Inr rsp), w2)" by simp
  then have "get_balance E ?de self pubkey w1 = (Done (Inr (rsp_value rsp)), w2)"
    by (simp add: get_balance_def get_balance_with_commitment_def mapp_def bindp_def ret_def)
  then have "guest_run ?P fuel b w = (Done (respond ?P (Inr (rsp_value rsp))), w2)"
    unfolding w1(3) by (simp add: mapp_def bindp_def ret_def map_err_def)
  moreover have "respond ?P (Inr (rsp_value rsp)) = Inr out"
    by (simp add: respond_def query_procedure_def assms(7))
  moreover have "\<exists>request. trace w' = trace w @ [EvCallRpc ''getBalance'' request]"
    using node_answers_trace [OF assms(4)] by simp
  ultimately show ?thesis using w2 by auto
qed

lemma balance_through_procedure_witness:
  defines "E \<equiv> sample_env\<lparr>json_from_slice := \<lambda>_. Inr (JObject [(''value'', ser_u64 7),
      (''new'', JNull), (''context'', JObject [(''slot'', ser_u64 9)])])\<rparr>"
  shows "\<exists>w''. guest_run (query_procedure E
      (get_balance E (de_of (\<lambda>_. SerdeError ''e'') (read_response sample_foreign (required read_u64))) sample_client)
      (\<lambda>b. Inr (Pubkey b)) ser_u64) 1 [1] (sample_world [sample_reply []]) = (Done (Inr []), w'')"
proof -
  let ?w = "sample_world [sample_reply []]"
  have n: "node_answers E GetBalance (JArray [JString (pubkey_to_string E (Pubkey [1])),
      ser_commitment E (commitment sample_client)]) ?w
      (JObject [(''value'', ser_u64 7), (''new'', JNull), (''context'', JObject [(''slot'', ser_u64 9)])])
      (?w\<lparr>hstate := (0, []), trace := [EvCallRpc ''getBalance'' []]\<rparr>)"
    by (simp add: node_answers_def sample_world_def sample_reply_def E_def)
  have c: "carries (members_response ser_u64) names_response
      \<lparr>rsp_context = sample_context, rsp_value = 7\<rparr>
      [(''value'', ser_u64 7), (''new'', JNull), (''context'', JObject [(''slot'', ser_u64 9)])]"
    by (auto simp: carries_def members_response_def names_response_def sample_context_def
        members_response_context_def)
  have "fresh_instance ?w" by (simp add: fresh_instance_def sample_world_def)
  with balance_through_procedure [OF _ _ _ n c, of "\<lambda>_. SerdeError ''e''" sample_foreign "\<lambda>b. Inr (Pubkey b)" "[1]" 1 "[]"]
  show ?thesis by (auto simp: E_def sample_context_def wf_response_context_def)
qed

end
